(* ===== verification/BSP_Prelude.thy ===== *)
theory BSP_Prelude
  imports Main "HOL-Library.Word"
begin

text \<open>
  Shared vocabulary of the development: the machine integer types of the C code, the
  faults a C run can end in, the state-and-fault monad every stateful function of the
  program is written in, the typed view of the data buffers that travel through
  \<^verbatim>\<open>void *\<close> parameters, big-endian encoding (the toolchain file builds with
  \<^verbatim>\<open>-mbig-endian\<close>), and the generic lemmas the component theories share.
\<close>

unbundle bit_operations_syntax

section \<open>Integer types\<close>

type_synonym u8 = "8 word"
type_synonym u16 = "16 word"
type_synonym u32 = "32 word"
type_synonym u64 = "64 word"

type_synonym byte = u8
type_synonym bytes = "byte list"

text \<open>The C \<^verbatim>\<open>int\<close> and \<^verbatim>\<open>int32_t\<close> values are 32-bit words read with \<^term>\<open>sint\<close>.\<close>

definition neg32 :: "u32 \<Rightarrow> bool" where
  "neg32 w \<longleftrightarrow> sint w < 0"

definition bswap32 :: "u32 \<Rightarrow> u32" where
  "bswap32 w =
     push_bit 24 (w AND 0xFF) OR push_bit 8 (w AND 0xFF00) OR
     drop_bit 8 (w AND 0xFF0000) OR drop_bit 24 w"

section \<open>Faults and the program monad\<close>

text \<open>
  What C leaves undefined, and what never comes back, is an outcome of its own: reading or
  writing through a null pointer, outside an object, through an integer that was never the
  address of an object, using an object that was never assigned, and a call that does not
  return.
\<close>

datatype fault = NullDeref | OutOfBounds | WildPointer | Uninitialised | NoReturn

type_synonym ('s, 'a) prog = "'s \<Rightarrow> fault + 'a \<times> 's"

definition returnC :: "'a \<Rightarrow> ('s, 'a) prog" where
  "returnC a s = Inr (a, s)"

definition failC :: "fault \<Rightarrow> ('s, 'a) prog" where
  "failC e s = Inl e"

definition bindC :: "('s, 'a) prog \<Rightarrow> ('a \<Rightarrow> ('s, 'b) prog) \<Rightarrow> ('s, 'b) prog" where
  "bindC m f s = (case m s of Inl e \<Rightarrow> Inl e | Inr (a, s') \<Rightarrow> f a s')"

definition seqC :: "('s, 'a) prog \<Rightarrow> ('s, 'b) prog \<Rightarrow> ('s, 'b) prog" where
  "seqC m n = bindC m (\<lambda>_. n)"

definition getsC :: "('s \<Rightarrow> 'a) \<Rightarrow> ('s, 'a) prog" where
  "getsC f s = Inr (f s, s)"

definition modifyC :: "('s \<Rightarrow> 's) \<Rightarrow> ('s, unit) prog" where
  "modifyC f s = Inr ((), f s)"

definition liftC :: "fault + 'a \<Rightarrow> ('s, 'a) prog" where
  "liftC r s = (case r of Inl e \<Rightarrow> Inl e | Inr a \<Rightarrow> Inr (a, s))"

definition derefC :: "'a option \<Rightarrow> ('a \<Rightarrow> ('s, 'b) prog) \<Rightarrow> ('s, 'b) prog" where
  "derefC p f = (case p of None \<Rightarrow> failC NullDeref | Some a \<Rightarrow> f a)"

named_theorems prog_simps \<open>unfolding of the program monad\<close>

lemmas [prog_simps] =
  returnC_def failC_def bindC_def seqC_def getsC_def modifyC_def liftC_def derefC_def

lemma bindC_assoc: "bindC (bindC m f) g = bindC m (\<lambda>a. bindC (f a) g)"
  by (auto simp: fun_eq_iff bindC_def split: sum.splits)

lemma bindC_returnC [simp]: "bindC m returnC = m"
  by (auto simp: fun_eq_iff bindC_def returnC_def split: sum.splits)

lemma returnC_bindC [simp]: "bindC (returnC a) f = f a"
  by (simp add: fun_eq_iff bindC_def returnC_def)

text \<open>Sums of faults without state, for the pure library routines.\<close>

definition bindF :: "fault + 'a \<Rightarrow> ('a \<Rightarrow> fault + 'b) \<Rightarrow> fault + 'b" where
  "bindF r f = (case r of Inl e \<Rightarrow> Inl e | Inr a \<Rightarrow> f a)"

lemma bindF_simps [simp]:
  "bindF (Inl e) f = Inl e"
  "bindF (Inr a) f = f a"
  by (simp_all add: bindF_def)

lemma bindF_Inr_iff: "bindF r f = Inr b \<longleftrightarrow> (\<exists>a. r = Inr a \<and> f a = Inr b)"
  by (cases r) auto

lemma bindF_cong [fundef_cong]:
  assumes "r = r'" and "\<And>a. r' = Inr a \<Longrightarrow> f a = f' a"
  shows "bindF r f = bindF r' f'"
  using assms by (cases r') auto

text \<open>A run that returns, with its result and final state.\<close>

definition returns :: "('s, 'a) prog \<Rightarrow> 's \<Rightarrow> bool" where
  "returns m s \<longleftrightarrow> (\<exists>a s'. m s = Inr (a, s'))"

section \<open>The machine under the program\<close>

text \<open>
  The part of the state every component can see: the memory-mapped registers, by address,
  and the world outside the program (devices, other processors, the kernel), whose type is a
  parameter. The components extend this record with their own variables.
\<close>

record 'e machine =
  regs :: "u32 \<Rightarrow> u32"
  env :: 'e

definition rd_reg :: "u32 \<Rightarrow> (('e, 'z) machine_scheme, u32) prog" where
  "rd_reg a = getsC (\<lambda>s. regs s a)"

definition wr_reg :: "u32 \<Rightarrow> u32 \<Rightarrow> (('e, 'z) machine_scheme, unit) prog" where
  "wr_reg a v = modifyC (\<lambda>s. s\<lparr>regs := (regs s)(a := v)\<rparr>)"

lemma rd_reg_run [prog_simps]: "rd_reg a s = Inr (regs s a, s)"
  by (simp add: rd_reg_def getsC_def)

lemma wr_reg_run [prog_simps]: "wr_reg a v s = Inr ((), s\<lparr>regs := (regs s)(a := v)\<rparr>)"
  by (simp add: wr_reg_def modifyC_def)

section \<open>Array access\<close>

definition read_at :: "'a list \<Rightarrow> nat \<Rightarrow> fault + 'a" where
  "read_at xs i = (if i < length xs then Inr (xs ! i) else Inl OutOfBounds)"

definition write_at :: "'a list \<Rightarrow> nat \<Rightarrow> 'a \<Rightarrow> fault + 'a list" where
  "write_at xs i v = (if i < length xs then Inr (xs[i := v]) else Inl OutOfBounds)"

text \<open>\<open>splice_at off bs xs\<close> overwrites the cells from \<open>off\<close> on with \<open>bs\<close>.\<close>

definition splice_at :: "nat \<Rightarrow> 'a list \<Rightarrow> 'a list \<Rightarrow> fault + 'a list" where
  "splice_at off bs xs =
     (if off + length bs \<le> length xs
      then Inr (take off xs @ bs @ drop (off + length bs) xs)
      else Inl OutOfBounds)"

lemma read_at_simps [simp]:
  "i < length xs \<Longrightarrow> read_at xs i = Inr (xs ! i)"
  "length xs \<le> i \<Longrightarrow> read_at xs i = Inl OutOfBounds"
  by (simp_all add: read_at_def)

lemma read_at_Inr_iff: "read_at xs i = Inr v \<longleftrightarrow> i < length xs \<and> v = xs ! i"
  by (auto simp: read_at_def)

lemma splice_at_Inr_iff:
  "splice_at off bs xs = Inr ys \<longleftrightarrow>
     off + length bs \<le> length xs \<and> ys = take off xs @ bs @ drop (off + length bs) xs"
  by (auto simp: splice_at_def)

lemma splice_at_length: "splice_at off bs xs = Inr ys \<Longrightarrow> length ys = length xs"
  by (auto simp: splice_at_Inr_iff)

section \<open>Data pointers\<close>

text \<open>
  The argument of a \<^verbatim>\<open>void *\<close> data parameter: the null pointer, the address of a
  buffer (with the buffer's bytes), or an integer the caller converted to a pointer.
\<close>

datatype cptr = Null | Buf bytes | Addr u32

fun load_ptr :: "nat \<Rightarrow> nat \<Rightarrow> cptr \<Rightarrow> fault + bytes" where
  "load_ptr off n Null = Inl NullDeref"
| "load_ptr off n (Addr a) = Inl WildPointer"
| "load_ptr off n (Buf b) =
     (if off + n \<le> length b then Inr (take n (drop off b)) else Inl OutOfBounds)"

fun store_ptr :: "nat \<Rightarrow> bytes \<Rightarrow> cptr \<Rightarrow> fault + cptr" where
  "store_ptr off bs Null = Inl NullDeref"
| "store_ptr off bs (Addr a) = Inl WildPointer"
| "store_ptr off bs (Buf b) = bindF (splice_at off bs b) (\<lambda>b'. Inr (Buf b'))"

lemma load_store_ptr:
  "store_ptr off bs p = Inr q \<Longrightarrow> load_ptr off (length bs) q = Inr bs"
  by (cases p) (auto simp: splice_at_def bindF_Inr_iff min_def split: if_splits)

lemma store_ptr_Buf [simp]:
  "off + length bs \<le> length b \<Longrightarrow>
   store_ptr off bs (Buf b) = Inr (Buf (take off b @ bs @ drop (off + length bs) b))"
  by (simp add: splice_at_def)

section \<open>Big-endian encoding\<close>

definition enc8 :: "u8 \<Rightarrow> bytes" where
  "enc8 w = [w]"

definition enc16 :: "u16 \<Rightarrow> bytes" where
  "enc16 w = [ucast (drop_bit 8 w), ucast w]"

definition enc32 :: "u32 \<Rightarrow> bytes" where
  "enc32 w = [ucast (drop_bit 24 w), ucast (drop_bit 16 w), ucast (drop_bit 8 w), ucast w]"

definition dec8 :: "bytes \<Rightarrow> u8" where
  "dec8 bs = bs ! 0"

definition dec16 :: "bytes \<Rightarrow> u16" where
  "dec16 bs = push_bit 8 (ucast (bs ! 0)) OR ucast (bs ! 1)"

definition dec32 :: "bytes \<Rightarrow> u32" where
  "dec32 bs = push_bit 24 (ucast (bs ! 0)) OR push_bit 16 (ucast (bs ! 1)) OR
     push_bit 8 (ucast (bs ! 2)) OR ucast (bs ! 3)"

text \<open>What a fixed-width encoding promises to the code that stores and reloads through it.\<close>

locale codec =
  fixes enc :: "'a \<Rightarrow> bytes" and dec :: "bytes \<Rightarrow> 'a" and width :: nat
  assumes enc_length: "length (enc x) = width"
    and dec_enc: "dec (enc x) = x"
    and enc_dec: "length bs = width \<Longrightarrow> enc (dec bs) = bs"
begin

lemma enc_inject: "enc x = enc y \<longleftrightarrow> x = y"
  using dec_enc by metis

lemma store_load:
  assumes "store_ptr off (enc x) p = Inr q"
  shows "bindF (load_ptr off width q) (\<lambda>bs. Inr (dec bs)) = Inr x"
  using load_store_ptr [OF assms] by (simp add: enc_length dec_enc)

lemma load_Buf_enc: "load_ptr 0 width (Buf (enc x)) = Inr (enc x)"
  by (simp add: enc_length)

end

lemma list_of_2: "length bs = 2 \<Longrightarrow> \<exists>a b. bs = [a, b]"
  by (auto simp: length_Suc_conv numeral_2_eq_2)

lemma list_of_4: "length bs = 4 \<Longrightarrow> \<exists>a b c d. bs = [a, b, c, d]"
  by (auto simp: length_Suc_conv eval_nat_numeral)

lemma bit_byte_beyond [simp]: "8 \<le> n \<Longrightarrow> \<not> bit (b :: byte) n"
  using bit_imp_le_length [of b n] by auto

lemma enc16_dec16: "length bs = 2 \<Longrightarrow> enc16 (dec16 bs) = bs"
  by (drule list_of_2, elim exE)
     (auto simp: enc16_def dec16_def bit_simps intro!: bit_word_eqI)

lemma dec16_enc16: "dec16 (enc16 w) = w"
  by (rule bit_word_eqI) (auto simp: enc16_def dec16_def bit_simps)

lemma dec32_enc32: "dec32 (enc32 w) = w"
proof (rule bit_word_eqI)
  fix n assume n: "n < LENGTH(32)"
  consider "n < 8" | "8 \<le> n" "n < 16" | "16 \<le> n" "n < 24" | "24 \<le> n" by linarith
  then show "bit (dec32 (enc32 w)) n \<longleftrightarrow> bit w n"
    using n by cases (auto simp: enc32_def dec32_def bit_simps)
qed

lemma enc32_dec32: "length bs = 4 \<Longrightarrow> enc32 (dec32 bs) = bs"
  by (drule list_of_4, elim exE)
     (auto simp: enc32_def dec32_def bit_simps intro!: bit_word_eqI)

interpretation codec8: codec enc8 dec8 1
  by unfold_locales (auto simp: enc8_def dec8_def length_Suc_conv)

interpretation codec16: codec enc16 dec16 2
  by unfold_locales (auto simp: dec16_enc16 enc16_dec16, simp add: enc16_def)

interpretation codec32: codec enc32 dec32 4
  by unfold_locales (auto simp: dec32_enc32 enc32_dec32, simp add: enc32_def)

lemma bit_u32_beyond: "32 \<le> n \<Longrightarrow> \<not> bit (w :: u32) n"
  using bit_imp_le_length [of w n] by auto

lemma bit_FF_mask: "bit (0xFF :: int) n \<longleftrightarrow> n < 8"
proof -
  have "(0xFF :: int) = mask 8" by (simp add: mask_eq_exp_minus_1)
  then show ?thesis by (simp only: bit_mask_iff) simp
qed

lemma bswap32_bytes: "bswap32 w = dec32 (rev (enc32 w))"
proof (rule bit_word_eqI)
  fix n assume n: "n < LENGTH(32)"
  have m: "(0xFF00 :: u32) = push_bit 8 0xFF" "(0xFF0000 :: u32) = push_bit 16 0xFF"
    by simp_all
  consider "n < 8" | "8 \<le> n" "n < 16" | "16 \<le> n" "n < 24" | "24 \<le> n" by linarith
  then show "bit (bswap32 w) n \<longleftrightarrow> bit (dec32 (rev (enc32 w))) n"
    using n by cases (simp_all add: bswap32_def m dec32_def enc32_def bit_simps bit_FF_mask
        bit_u32_beyond less_diff_conv2 del: push_bit_numeral)
qed

lemma bswap32_involutive: "bswap32 (bswap32 w) = w"
proof -
  have "rev (enc32 (dec32 (rev (enc32 w)))) = enc32 w"
    by (simp add: enc32_dec32 codec32.enc_length)
  then show ?thesis
    by (simp add: bswap32_bytes dec32_enc32)
qed

end
