(* ===== verification/BSP_Types.thy ===== *)
theory BSP_Types
  imports BSP_Prelude
begin

text \<open>
  The constants and predicates of the headers: return codes, permissions and options of
  \<^verbatim>\<open>bsp_entity_enum.h\<close>, request codes of \<^verbatim>\<open>bsp.h\<close> and \<^verbatim>\<open>ipc.h\<close>, kernel error
  codes of \<^verbatim>\<open>ios.h\<close>, hardware versions of \<^verbatim>\<open>bsp_hwrevs.h\<close> and the register map of
  \<^verbatim>\<open>latte.h\<close>. Enumerators are 32-bit words, because the code combines them with
  bitwise operators; they are abbreviations, so a statement about them is a statement about
  the number the compiler sees.
\<close>

section \<open>Return codes\<close>

abbreviation (input) BSP_RVAL_BOARD_CONFIG_INVALID :: u32 where
  "BSP_RVAL_BOARD_CONFIG_INVALID \<equiv> 262144"

abbreviation (input) BSP_RVAL_CFG_CORRUPTED :: u32 where
  "BSP_RVAL_CFG_CORRUPTED \<equiv> 8"

abbreviation (input) BSP_RVAL_DEVICE_ERROR :: u32 where
  "BSP_RVAL_DEVICE_ERROR \<equiv> 16"

abbreviation (input) BSP_RVAL_INVALID_INSTANCE :: u32 where
  "BSP_RVAL_INVALID_INSTANCE \<equiv> 4"

abbreviation (input) BSP_RVAL_INVALID_PARAMETER :: u32 where
  "BSP_RVAL_INVALID_PARAMETER \<equiv> 16384"

abbreviation (input) BSP_RVAL_OK :: u32 where
  "BSP_RVAL_OK \<equiv> 0"

abbreviation (input) BSP_RVAL_OS_ERROR :: u32 where
  "BSP_RVAL_OS_ERROR \<equiv> 64"

abbreviation (input) BSP_RVAL_QUERY_UNAVAILABLE :: u32 where
  "BSP_RVAL_QUERY_UNAVAILABLE \<equiv> 4096"

abbreviation (input) BSP_RVAL_REQUEST_DENIED :: u32 where
  "BSP_RVAL_REQUEST_DENIED \<equiv> 65536"

abbreviation (input) BSP_RVAL_SPECIFIED_SIZE_INVALID :: u32 where
  "BSP_RVAL_SPECIFIED_SIZE_INVALID \<equiv> 128"

abbreviation (input) BSP_RVAL_UNKNOWN_ATTRIBUTE :: u32 where
  "BSP_RVAL_UNKNOWN_ATTRIBUTE \<equiv> 2"

abbreviation (input) BSP_RVAL_UNKNOWN_ENTITY :: u32 where
  "BSP_RVAL_UNKNOWN_ENTITY \<equiv> 1"

abbreviation (input) BSP_RVAL_UNKNOWN_HARDWARE_VERSION :: u32 where
  "BSP_RVAL_UNKNOWN_HARDWARE_VERSION \<equiv> 2048"

abbreviation (input) BSP_RVAL_UNSUPPORTED_METHOD :: u32 where
  "BSP_RVAL_UNSUPPORTED_METHOD \<equiv> 1024"

section \<open>Permissions and options\<close>

abbreviation (input) BSP_PERMISSIONS_ALL :: u32 where
  "BSP_PERMISSIONS_ALL \<equiv> 65535"

abbreviation (input) BSP_PERMISSIONS_INTERNAL :: u32 where
  "BSP_PERMISSIONS_INTERNAL \<equiv> 0x80000000"

abbreviation (input) BSP_PERMISSIONS_IOS :: u32 where
  "BSP_PERMISSIONS_IOS \<equiv> 255"

abbreviation (input) BSP_PERMISSIONS_IOS_SUPV :: u32 where
  "BSP_PERMISSIONS_IOS_SUPV \<equiv> 240"

abbreviation (input) BSP_PERMISSIONS_IOS_SUPV_INIT :: u32 where
  "BSP_PERMISSIONS_IOS_SUPV_INIT \<equiv> 64"

abbreviation (input) BSP_PERMISSIONS_IOS_SUPV_READ :: u32 where
  "BSP_PERMISSIONS_IOS_SUPV_READ \<equiv> 16"

abbreviation (input) BSP_PERMISSIONS_IOS_SUPV_SHUTDOWN :: u32 where
  "BSP_PERMISSIONS_IOS_SUPV_SHUTDOWN \<equiv> 128"

abbreviation (input) BSP_PERMISSIONS_IOS_SUPV_WRITE :: u32 where
  "BSP_PERMISSIONS_IOS_SUPV_WRITE \<equiv> 32"

abbreviation (input) BSP_PERMISSIONS_IOS_USER_INIT :: u32 where
  "BSP_PERMISSIONS_IOS_USER_INIT \<equiv> 4"

abbreviation (input) BSP_PERMISSIONS_IOS_USER_READ :: u32 where
  "BSP_PERMISSIONS_IOS_USER_READ \<equiv> 1"

abbreviation (input) BSP_PERMISSIONS_IOS_USER_SHUTDOWN :: u32 where
  "BSP_PERMISSIONS_IOS_USER_SHUTDOWN \<equiv> 8"

abbreviation (input) BSP_PERMISSIONS_IOS_USER_WRITE :: u32 where
  "BSP_PERMISSIONS_IOS_USER_WRITE \<equiv> 2"

abbreviation (input) BSP_PERMISSIONS_PPC_SUPV_INIT :: u32 where
  "BSP_PERMISSIONS_PPC_SUPV_INIT \<equiv> 16384"

abbreviation (input) BSP_PERMISSIONS_PPC_SUPV_READ :: u32 where
  "BSP_PERMISSIONS_PPC_SUPV_READ \<equiv> 4096"

abbreviation (input) BSP_PERMISSIONS_PPC_SUPV_SHUTDOWN :: u32 where
  "BSP_PERMISSIONS_PPC_SUPV_SHUTDOWN \<equiv> 32768"

abbreviation (input) BSP_PERMISSIONS_PPC_SUPV_WRITE :: u32 where
  "BSP_PERMISSIONS_PPC_SUPV_WRITE \<equiv> 8192"

abbreviation (input) BSP_PERMISSIONS_PPC_USER_INIT :: u32 where
  "BSP_PERMISSIONS_PPC_USER_INIT \<equiv> 1024"

abbreviation (input) BSP_PERMISSIONS_PPC_USER_READ :: u32 where
  "BSP_PERMISSIONS_PPC_USER_READ \<equiv> 256"

abbreviation (input) BSP_PERMISSIONS_PPC_USER_SHUTDOWN :: u32 where
  "BSP_PERMISSIONS_PPC_USER_SHUTDOWN \<equiv> 2048"

abbreviation (input) BSP_PERMISSIONS_PPC_USER_WRITE :: u32 where
  "BSP_PERMISSIONS_PPC_USER_WRITE \<equiv> 512"

abbreviation (input) BSP_AO_INIT_GLOBAL :: u32 where
  "BSP_AO_INIT_GLOBAL \<equiv> 4"

abbreviation (input) BSP_AO_QUERY_DATA_DIRECT :: u32 where
  "BSP_AO_QUERY_DATA_DIRECT \<equiv> 1"

abbreviation (input) BSP_AO_QUERY_DATA_INDIRECT :: u32 where
  "BSP_AO_QUERY_DATA_INDIRECT \<equiv> 2"

abbreviation (input) BSP_EO_FLAT_INSTANCES :: u32 where
  "BSP_EO_FLAT_INSTANCES \<equiv> 2"

abbreviation (input) BSP_EO_NONE :: u32 where
  "BSP_EO_NONE \<equiv> 0"

section \<open>Requests\<close>

abbreviation (input) BSP_IOCTL_GET_ENTITY_VERSION :: u32 where
  "BSP_IOCTL_GET_ENTITY_VERSION \<equiv> 1"

abbreviation (input) BSP_IOCTL_GET_HARDWARE_VERSION :: u32 where
  "BSP_IOCTL_GET_HARDWARE_VERSION \<equiv> 2"

abbreviation (input) BSP_IOCTL_GET_CONSOLE_MASK :: u32 where
  "BSP_IOCTL_GET_CONSOLE_MASK \<equiv> 3"

abbreviation (input) BSP_IOCTL_METHOD_QUERY :: u32 where
  "BSP_IOCTL_METHOD_QUERY \<equiv> 4"

abbreviation (input) BSP_IOCTL_METHOD_READ :: u32 where
  "BSP_IOCTL_METHOD_READ \<equiv> 5"

abbreviation (input) BSP_IOCTL_METHOD_WRITE :: u32 where
  "BSP_IOCTL_METHOD_WRITE \<equiv> 6"

abbreviation (input) BSP_IOCTL_METHOD_INIT :: u32 where
  "BSP_IOCTL_METHOD_INIT \<equiv> 7"

abbreviation (input) BSP_IOCTL_METHOD_SHUTDOWN :: u32 where
  "BSP_IOCTL_METHOD_SHUTDOWN \<equiv> 8"

abbreviation (input) BSP_IOCTL_GET_CONSOLE_TYPE :: u32 where
  "BSP_IOCTL_GET_CONSOLE_TYPE \<equiv> 9"

abbreviation (input) IOS_OPEN :: u32 where
  "IOS_OPEN \<equiv> 1"

abbreviation (input) IOS_CLOSE :: u32 where
  "IOS_CLOSE \<equiv> 2"

abbreviation (input) IOS_IOCTL :: u32 where
  "IOS_IOCTL \<equiv> 6"

section \<open>Kernel error codes\<close>

abbreviation (input) IOS_ERROR_OK :: u32 where
  "IOS_ERROR_OK \<equiv> 0"

abbreviation (input) IOS_ERROR_EXISTS :: u32 where
  "IOS_ERROR_EXISTS \<equiv> 0xFFFFFFFE"

abbreviation (input) IOS_ERROR_INVALID :: u32 where
  "IOS_ERROR_INVALID \<equiv> 0xFFFFFFFC"

abbreviation (input) IOS_ERROR_MAX :: u32 where
  "IOS_ERROR_MAX \<equiv> 0xFFFFFFFB"

abbreviation (input) IOS_ERROR_NOEXISTS :: u32 where
  "IOS_ERROR_NOEXISTS \<equiv> 0xFFFFFFFA"

abbreviation (input) IOS_ERROR_NOTREADY :: u32 where
  "IOS_ERROR_NOTREADY \<equiv> 0xFFFFFFF6"

abbreviation (input) IOS_ERROR_FAIL_INTERNAL :: u32 where
  "IOS_ERROR_FAIL_INTERNAL \<equiv> 0xFFFFFFEB"

section \<open>Hardware versions\<close>

abbreviation (input) BSP_HARDWARE_VERSION_BOLLYWOOD :: u32 where
  "BSP_HARDWARE_VERSION_BOLLYWOOD \<equiv> 0x20000001"

abbreviation (input) BSP_HARDWARE_VERSION_BOLLYWOOD_PROD_FOR_WII :: u32 where
  "BSP_HARDWARE_VERSION_BOLLYWOOD_PROD_FOR_WII \<equiv> 0x20100001"

abbreviation (input) BSP_HARDWARE_VERSION_HOLLYWOOD_CORTADO :: u32 where
  "BSP_HARDWARE_VERSION_HOLLYWOOD_CORTADO \<equiv> 0x10100008"

abbreviation (input) BSP_HARDWARE_VERSION_HOLLYWOOD_CORTADO_ESPRESSO :: u32 where
  "BSP_HARDWARE_VERSION_HOLLYWOOD_CORTADO_ESPRESSO \<equiv> 0x1010000C"

abbreviation (input) BSP_HARDWARE_VERSION_HOLLYWOOD_ENG_SAMPLE_1 :: u32 where
  "BSP_HARDWARE_VERSION_HOLLYWOOD_ENG_SAMPLE_1 \<equiv> 1"

abbreviation (input) BSP_HARDWARE_VERSION_HOLLYWOOD_ENG_SAMPLE_2 :: u32 where
  "BSP_HARDWARE_VERSION_HOLLYWOOD_ENG_SAMPLE_2 \<equiv> 0x10000001"

abbreviation (input) BSP_HARDWARE_VERSION_HOLLYWOOD_PROD_FOR_WII :: u32 where
  "BSP_HARDWARE_VERSION_HOLLYWOOD_PROD_FOR_WII \<equiv> 0x10100001"

abbreviation (input) BSP_HARDWARE_VERSION_LATTE_A11_CAT :: u32 where
  "BSP_HARDWARE_VERSION_LATTE_A11_CAT \<equiv> 0x21100020"

abbreviation (input) BSP_HARDWARE_VERSION_LATTE_A11_EV :: u32 where
  "BSP_HARDWARE_VERSION_LATTE_A11_EV \<equiv> 0x21100010"

abbreviation (input) BSP_HARDWARE_VERSION_LATTE_A12_CAT :: u32 where
  "BSP_HARDWARE_VERSION_LATTE_A12_CAT \<equiv> 0x21200020"

abbreviation (input) BSP_HARDWARE_VERSION_LATTE_A12_EV :: u32 where
  "BSP_HARDWARE_VERSION_LATTE_A12_EV \<equiv> 0x21200010"

abbreviation (input) BSP_HARDWARE_VERSION_LATTE_A2X_CAT :: u32 where
  "BSP_HARDWARE_VERSION_LATTE_A2X_CAT \<equiv> 0x22100020"

abbreviation (input) BSP_HARDWARE_VERSION_LATTE_A2X_EV :: u32 where
  "BSP_HARDWARE_VERSION_LATTE_A2X_EV \<equiv> 0x22100010"

abbreviation (input) BSP_HARDWARE_VERSION_LATTE_A3X_CAFE :: u32 where
  "BSP_HARDWARE_VERSION_LATTE_A3X_CAFE \<equiv> 0x23100028"

abbreviation (input) BSP_HARDWARE_VERSION_LATTE_A3X_CAT :: u32 where
  "BSP_HARDWARE_VERSION_LATTE_A3X_CAT \<equiv> 0x23100020"

abbreviation (input) BSP_HARDWARE_VERSION_LATTE_A3X_EV :: u32 where
  "BSP_HARDWARE_VERSION_LATTE_A3X_EV \<equiv> 0x23100010"

abbreviation (input) BSP_HARDWARE_VERSION_LATTE_A4X_CAFE :: u32 where
  "BSP_HARDWARE_VERSION_LATTE_A4X_CAFE \<equiv> 0x24100028"

abbreviation (input) BSP_HARDWARE_VERSION_LATTE_A4X_CAT :: u32 where
  "BSP_HARDWARE_VERSION_LATTE_A4X_CAT \<equiv> 0x24100020"

abbreviation (input) BSP_HARDWARE_VERSION_LATTE_A4X_EV :: u32 where
  "BSP_HARDWARE_VERSION_LATTE_A4X_EV \<equiv> 0x24100010"

abbreviation (input) BSP_HARDWARE_VERSION_LATTE_A5X_CAFE :: u32 where
  "BSP_HARDWARE_VERSION_LATTE_A5X_CAFE \<equiv> 0x25100028"

abbreviation (input) BSP_HARDWARE_VERSION_LATTE_A5X_CAT :: u32 where
  "BSP_HARDWARE_VERSION_LATTE_A5X_CAT \<equiv> 0x25100020"

abbreviation (input) BSP_HARDWARE_VERSION_LATTE_A5X_EV :: u32 where
  "BSP_HARDWARE_VERSION_LATTE_A5X_EV \<equiv> 0x25100010"

abbreviation (input) BSP_HARDWARE_VERSION_LATTE_A5X_EV_Y :: u32 where
  "BSP_HARDWARE_VERSION_LATTE_A5X_EV_Y \<equiv> 0x25100011"

abbreviation (input) BSP_HARDWARE_VERSION_LATTE_B1X_CAFE :: u32 where
  "BSP_HARDWARE_VERSION_LATTE_B1X_CAFE \<equiv> 0x26100028"

abbreviation (input) BSP_HARDWARE_VERSION_LATTE_B1X_CAT :: u32 where
  "BSP_HARDWARE_VERSION_LATTE_B1X_CAT \<equiv> 0x26100020"

abbreviation (input) BSP_HARDWARE_VERSION_LATTE_B1X_EV :: u32 where
  "BSP_HARDWARE_VERSION_LATTE_B1X_EV \<equiv> 0x26100010"

abbreviation (input) BSP_HARDWARE_VERSION_LATTE_B1X_EV_Y :: u32 where
  "BSP_HARDWARE_VERSION_LATTE_B1X_EV_Y \<equiv> 0x26100011"

abbreviation (input) BSP_HARDWARE_VERSION_UNKNOWN :: u32 where
  "BSP_HARDWARE_VERSION_UNKNOWN \<equiv> 0"

text \<open>The enumeration \<^verbatim>\<open>BSP_HARDWARE_VERSION\<close> as the list of its values.\<close>

definition BSP_HARDWARE_VERSIONS :: "u32 list" where
  "BSP_HARDWARE_VERSIONS =
     [BSP_HARDWARE_VERSION_BOLLYWOOD, BSP_HARDWARE_VERSION_BOLLYWOOD_PROD_FOR_WII,
      BSP_HARDWARE_VERSION_HOLLYWOOD_CORTADO, BSP_HARDWARE_VERSION_HOLLYWOOD_CORTADO_ESPRESSO,
      BSP_HARDWARE_VERSION_HOLLYWOOD_ENG_SAMPLE_1, BSP_HARDWARE_VERSION_HOLLYWOOD_ENG_SAMPLE_2,
      BSP_HARDWARE_VERSION_HOLLYWOOD_PROD_FOR_WII, BSP_HARDWARE_VERSION_LATTE_A11_CAT,
      BSP_HARDWARE_VERSION_LATTE_A11_EV, BSP_HARDWARE_VERSION_LATTE_A12_CAT,
      BSP_HARDWARE_VERSION_LATTE_A12_EV, BSP_HARDWARE_VERSION_LATTE_A2X_CAT,
      BSP_HARDWARE_VERSION_LATTE_A2X_EV, BSP_HARDWARE_VERSION_LATTE_A3X_CAFE,
      BSP_HARDWARE_VERSION_LATTE_A3X_CAT, BSP_HARDWARE_VERSION_LATTE_A3X_EV,
      BSP_HARDWARE_VERSION_LATTE_A4X_CAFE, BSP_HARDWARE_VERSION_LATTE_A4X_CAT,
      BSP_HARDWARE_VERSION_LATTE_A4X_EV, BSP_HARDWARE_VERSION_LATTE_A5X_CAFE,
      BSP_HARDWARE_VERSION_LATTE_A5X_CAT, BSP_HARDWARE_VERSION_LATTE_A5X_EV,
      BSP_HARDWARE_VERSION_LATTE_A5X_EV_Y, BSP_HARDWARE_VERSION_LATTE_B1X_CAFE,
      BSP_HARDWARE_VERSION_LATTE_B1X_CAT, BSP_HARDWARE_VERSION_LATTE_B1X_EV,
      BSP_HARDWARE_VERSION_LATTE_B1X_EV_Y, BSP_HARDWARE_VERSION_UNKNOWN]"

abbreviation (input) BSP_VARIANT_EV :: u32 where
  "BSP_VARIANT_EV \<equiv> 0x10"

abbreviation (input) BSP_VARIANT_EV_Y :: u32 where
  "BSP_VARIANT_EV_Y \<equiv> 0x11"

abbreviation (input) BSP_VARIANT_CAT :: u32 where
  "BSP_VARIANT_CAT \<equiv> 0x20"

abbreviation (input) BSP_VARIANT_ID :: u32 where
  "BSP_VARIANT_ID \<equiv> 0x21"

abbreviation (input) BSP_VARIANT_CAFE :: u32 where
  "BSP_VARIANT_CAFE \<equiv> 0x28"

abbreviation (input) BSP_VARIANT_IH :: u32 where
  "BSP_VARIANT_IH \<equiv> 0x29"

abbreviation (input) BSP_LATTE_REV_A1X :: u32 where
  "BSP_LATTE_REV_A1X \<equiv> 0x21"

abbreviation (input) BSP_LATTE_REV_A2X :: u32 where
  "BSP_LATTE_REV_A2X \<equiv> 0x22"

abbreviation (input) BSP_LATTE_REV_A3X :: u32 where
  "BSP_LATTE_REV_A3X \<equiv> 0x23"

abbreviation (input) BSP_LATTE_REV_A4X :: u32 where
  "BSP_LATTE_REV_A4X \<equiv> 0x24"

abbreviation (input) BSP_LATTE_REV_A5X :: u32 where
  "BSP_LATTE_REV_A5X \<equiv> 0x25"

abbreviation (input) BSP_LATTE_REV_B1X :: u32 where
  "BSP_LATTE_REV_B1X \<equiv> 0x26"

definition BSP_LATTE_REVS :: "u32 list" where
  "BSP_LATTE_REVS =
     [BSP_LATTE_REV_A1X, BSP_LATTE_REV_A2X, BSP_LATTE_REV_A3X,
      BSP_LATTE_REV_A4X, BSP_LATTE_REV_A5X, BSP_LATTE_REV_B1X]"

abbreviation (input) BSP_CONSOLE_TYPE_CAFE :: u32 where
  "BSP_CONSOLE_TYPE_CAFE \<equiv> 2"

abbreviation (input) BSP_CONSOLE_TYPE_CAT :: u32 where
  "BSP_CONSOLE_TYPE_CAT \<equiv> 3"

abbreviation (input) BSP_CONSOLE_TYPE_EV :: u32 where
  "BSP_CONSOLE_TYPE_EV \<equiv> 4"

definition BSP_LATTE_REV :: "u32 \<Rightarrow> u32" where
  "BSP_LATTE_REV hwver = drop_bit 24 (hwver AND 0xFF000000)"

definition BSP_IS_LATTE :: "u32 \<Rightarrow> bool" where
  "BSP_IS_LATTE hwver \<longleftrightarrow> hwver AND 0x0F000000 \<noteq> 0"

definition BSP_IS_BOLLYWOOD :: "u32 \<Rightarrow> bool" where
  "BSP_IS_BOLLYWOOD hwver \<longleftrightarrow> drop_bit 24 hwver = 0x20"

definition BSP_IS_HOLLYWOOD :: "u32 \<Rightarrow> bool" where
  "BSP_IS_HOLLYWOOD hwver \<longleftrightarrow> drop_bit 24 hwver = 0x10"

definition BSP_IS_HOLLYWOOD_ES1 :: "u32 \<Rightarrow> bool" where
  "BSP_IS_HOLLYWOOD_ES1 hwver \<longleftrightarrow> drop_bit 24 hwver = 0"

definition BSP_GET_VARIANT :: "u32 \<Rightarrow> u32" where
  "BSP_GET_VARIANT hwver = hwver AND 0xFFFF"

definition BSP_IS_EV :: "u32 \<Rightarrow> bool" where
  "BSP_IS_EV hwver \<longleftrightarrow> BSP_GET_VARIANT hwver = BSP_VARIANT_EV"

definition BSP_IS_EV_Y :: "u32 \<Rightarrow> bool" where
  "BSP_IS_EV_Y hwver \<longleftrightarrow> BSP_GET_VARIANT hwver = BSP_VARIANT_EV_Y"

definition BSP_IS_CAT :: "u32 \<Rightarrow> bool" where
  "BSP_IS_CAT hwver \<longleftrightarrow> BSP_GET_VARIANT hwver = BSP_VARIANT_CAT"

definition BSP_IS_ID :: "u32 \<Rightarrow> bool" where
  "BSP_IS_ID hwver \<longleftrightarrow> BSP_GET_VARIANT hwver = BSP_VARIANT_ID"

lemmas hwver_defs = BSP_LATTE_REV_def BSP_IS_LATTE_def BSP_IS_BOLLYWOOD_def BSP_IS_HOLLYWOOD_def
  BSP_IS_HOLLYWOOD_ES1_def BSP_GET_VARIANT_def BSP_IS_EV_def BSP_IS_EV_Y_def BSP_IS_CAT_def
  BSP_IS_ID_def

text \<open>The chip families exclude each other.\<close>

lemma latte_nibble: "BSP_IS_LATTE v \<longleftrightarrow> drop_bit 24 v AND 0x0F \<noteq> 0"
proof -
  have d: "drop_bit 24 (v AND 0x0F000000) = drop_bit 24 v AND 0x0F"
    by (simp add: drop_bit_and)
  have m: "(0x0F000000 :: u32) = push_bit 24 0x0F" by simp
  have e: "v AND 0x0F000000 = push_bit 24 (drop_bit 24 v AND 0x0F)"
    unfolding m by (rule bit_word_eqI) (simp only: bit_and_iff bit_push_bit_iff bit_drop_bit_eq o_apply, auto)
  have "v AND 0x0F000000 = 0 \<longleftrightarrow> drop_bit 24 v AND 0x0F = 0"
    using d e by (metis drop_bit_of_0 push_bit_of_0)
  then show ?thesis by (simp only: BSP_IS_LATTE_def)
qed

lemma families_disjoint:
  "BSP_IS_LATTE v \<Longrightarrow> \<not> BSP_IS_BOLLYWOOD v \<and> \<not> BSP_IS_HOLLYWOOD v \<and> \<not> BSP_IS_HOLLYWOOD_ES1 v"
  "BSP_IS_BOLLYWOOD v \<Longrightarrow> \<not> BSP_IS_LATTE v \<and> \<not> BSP_IS_HOLLYWOOD v \<and> \<not> BSP_IS_HOLLYWOOD_ES1 v"
  "BSP_IS_HOLLYWOOD v \<Longrightarrow> \<not> BSP_IS_LATTE v \<and> \<not> BSP_IS_BOLLYWOOD v \<and> \<not> BSP_IS_HOLLYWOOD_ES1 v"
  "BSP_IS_HOLLYWOOD_ES1 v \<Longrightarrow> \<not> BSP_IS_LATTE v \<and> \<not> BSP_IS_BOLLYWOOD v \<and> \<not> BSP_IS_HOLLYWOOD v"
  by (auto simp: latte_nibble BSP_IS_BOLLYWOOD_def BSP_IS_HOLLYWOOD_def BSP_IS_HOLLYWOOD_ES1_def)

section \<open>Registers\<close>

definition REG_BIT :: "nat \<Rightarrow> u32 \<Rightarrow> nat \<Rightarrow> u32" where
  "REG_BIT n val width = push_bit (n * width) val"

abbreviation (input) HW_TIMER :: u32 where
  "HW_TIMER \<equiv> 0x0d800010"

abbreviation (input) HW_AIP_PROT :: u32 where
  "HW_AIP_PROT \<equiv> 0x0d800070"

abbreviation (input) HW_CLOCKS :: u32 where
  "HW_CLOCKS \<equiv> 0x0d800190"

abbreviation (input) HW_RSTB :: u32 where
  "HW_RSTB \<equiv> 0x0d800194"

abbreviation (input) HW_IOPWRCTRL :: u32 where
  "HW_IOPWRCTRL \<equiv> 0x0d8001dc"

abbreviation (input) HW_IOSTRCTRL0 :: u32 where
  "HW_IOSTRCTRL0 \<equiv> 0x0d8001e0"

abbreviation (input) HW_IOSTRCTRL1 :: u32 where
  "HW_IOSTRCTRL1 \<equiv> 0x0d8001e4"

abbreviation (input) HW_CHIPREVID :: u32 where
  "HW_CHIPREVID \<equiv> 0x0d800214"

abbreviation (input) LT_CHIPREVID :: u32 where
  "LT_CHIPREVID \<equiv> 0x0d8005a0"

abbreviation (input) LT_IOP2X :: u32 where
  "LT_IOP2X \<equiv> 0x0d8005bc"

abbreviation (input) LT_PLLSYS :: u32 where
  "LT_PLLSYS \<equiv> 0x0d8005ec"

abbreviation (input) LT_60XE_CFG :: u32 where
  "LT_60XE_CFG \<equiv> 0x0d800640"

abbreviation (input) HW_EXI_BOOT :: u32 where
  "HW_EXI_BOOT \<equiv> 0x0d806840"

text \<open>The field macros: \<^verbatim>\<open>REG_BIT\<close> with the register's \<^verbatim>\<open>MASK\<close> constant as the field width.\<close>

definition HW_IOPWRCTRL_DI :: "u32 \<Rightarrow> u32" where
  "HW_IOPWRCTRL_DI val = REG_BIT 3 val 2"

definition HW_IOPWRCTRL_SI :: "u32 \<Rightarrow> u32" where
  "HW_IOPWRCTRL_SI val = REG_BIT 9 val 2"

definition HW_IOSTRCTRL0_SI :: "u32 \<Rightarrow> u32" where
  "HW_IOSTRCTRL0_SI val = REG_BIT 2 val 3"

definition HW_IOSTRCTRL0_DI :: "u32 \<Rightarrow> u32" where
  "HW_IOSTRCTRL0_DI val = REG_BIT 6 val 3"

definition HW_IOSTRCTRL1_SDIO :: "u32 \<Rightarrow> u32" where
  "HW_IOSTRCTRL1_SDIO val = REG_BIT 7 val 3"

lemmas reg_field_defs = REG_BIT_def HW_IOPWRCTRL_DI_def HW_IOPWRCTRL_SI_def
  HW_IOSTRCTRL0_SI_def HW_IOSTRCTRL0_DI_def HW_IOSTRCTRL1_SDIO_def

abbreviation (input) HW_IOPWRCTRL_MASK :: u32 where
  "HW_IOPWRCTRL_MASK \<equiv> 2"

abbreviation (input) HW_IOSTRCTRL0_MASK :: u32 where
  "HW_IOSTRCTRL0_MASK \<equiv> 3"

abbreviation (input) HW_IOSTRCTRL1_MASK :: u32 where
  "HW_IOSTRCTRL1_MASK \<equiv> 3"

abbreviation (input) HW_AIP_PROT_ENAHBIOPI :: u32 where
  "HW_AIP_PROT_ENAHBIOPI \<equiv> REG_BIT 0 1 1"

abbreviation (input) HW_CLOCKS_SPEED :: u32 where
  "HW_CLOCKS_SPEED \<equiv> REG_BIT 1 1 1"

abbreviation (input) HW_RSTB_CPU :: u32 where
  "HW_RSTB_CPU \<equiv> REG_BIT 4 1 1"

abbreviation (input) HW_SRSTB_CPU :: u32 where
  "HW_SRSTB_CPU \<equiv> REG_BIT 5 1 1"

abbreviation (input) HW_RSTB_PI :: u32 where
  "HW_RSTB_PI \<equiv> REG_BIT 9 1 1"

abbreviation (input) HW_RSTB_IOEXI :: u32 where
  "HW_RSTB_IOEXI \<equiv> REG_BIT 16 1 1"

abbreviation (input) HW_RSTB_IOMEM :: u32 where
  "HW_RSTB_IOMEM \<equiv> REG_BIT 18 1 1"

abbreviation (input) HW_RSTB_IOPI :: u32 where
  "HW_RSTB_IOPI \<equiv> REG_BIT 19 1 1"

abbreviation (input) LT_IOP2X_ENABLE :: u32 where
  "LT_IOP2X_ENABLE \<equiv> 4"

abbreviation (input) LT_PLLSYS_HALFSPEED :: u32 where
  "LT_PLLSYS_HALFSPEED \<equiv> REG_BIT 0 1 1"

abbreviation (input) LT_60XE_CFG_STREAMING :: u32 where
  "LT_60XE_CFG_STREAMING \<equiv> REG_BIT 3 1 1"

abbreviation (input) LT_60XE_CFG_LATCH :: u32 where
  "LT_60XE_CFG_LATCH \<equiv> REG_BIT 12 1 1"

end
