(* ===== verification/Libc_String.thy ===== *)
theory Libc_String
  imports BSP_Prelude "HOL-Library.List_Lexorder"
begin

text \<open>
  The string routines of \<^verbatim>\<open>src/libraries/libc/lib/string.c\<close>. A \<^verbatim>\<open>char *\<close> argument is
  the byte array it points into, from the pointed-to cell to the end of the object; a read
  past the end is the fault \<^const>\<open>OutOfBounds\<close>. Plain \<^verbatim>\<open>char\<close> is unsigned on the ARM
  target, so differences of characters are differences of \<^term>\<open>uint\<close> values. Each loop is
  a recursive function over the loop index with the source's guard.
\<close>

section \<open>The routines\<close>

function strlen_loop :: "bytes \<Rightarrow> nat \<Rightarrow> fault + nat" where
  "strlen_loop s len =
     (if len < length s
      then (if s ! len \<noteq> 0 then strlen_loop s (Suc len) else Inr len)
      else Inl OutOfBounds)"
  by pat_completeness auto
termination
  by (relation "measure (\<lambda>(s, len). length s - len)") auto

definition strlen :: "bytes \<Rightarrow> fault + nat" where
  "strlen s = strlen_loop s 0"

function strnlen_loop :: "bytes \<Rightarrow> nat \<Rightarrow> nat \<Rightarrow> fault + nat" where
  "strnlen_loop s count len =
     (if len < length s
      then (if s ! len \<noteq> 0 \<and> len < count then strnlen_loop s count (Suc len) else Inr len)
      else Inl OutOfBounds)"
  by pat_completeness auto
termination
  by (relation "measure (\<lambda>(s, count, len). length s - len)") auto

definition strnlen :: "bytes \<Rightarrow> nat \<Rightarrow> fault + nat" where
  "strnlen s count = strnlen_loop s count 0"

function memset_loop :: "bytes \<Rightarrow> byte \<Rightarrow> nat \<Rightarrow> nat \<Rightarrow> fault + bytes" where
  "memset_loop b c len i =
     (if i < len then bindF (write_at b i c) (\<lambda>b'. memset_loop b' c len (Suc i)) else Inr b)"
  by pat_completeness auto
termination
  by (relation "measure (\<lambda>(b, c, len, i). len - i)") auto

definition memset :: "bytes \<Rightarrow> u32 \<Rightarrow> nat \<Rightarrow> fault + bytes" where
  "memset b c len = memset_loop b (ucast c) len 0"

function memcpy_loop :: "bytes \<Rightarrow> bytes \<Rightarrow> nat \<Rightarrow> nat \<Rightarrow> fault + bytes" where
  "memcpy_loop dst src len i =
     (if i < len
      then bindF (read_at src i) (\<lambda>c. bindF (write_at dst i c)
             (\<lambda>dst'. memcpy_loop dst' src len (Suc i)))
      else Inr dst)"
  by pat_completeness auto
termination
  by (relation "measure (\<lambda>(dst, src, len, i). len - i)") auto

definition memcpy :: "bytes \<Rightarrow> bytes \<Rightarrow> nat \<Rightarrow> fault + bytes" where
  "memcpy dst src len = memcpy_loop dst src len 0"

function memcmp_loop :: "bytes \<Rightarrow> bytes \<Rightarrow> nat \<Rightarrow> nat \<Rightarrow> fault + int" where
  "memcmp_loop p1 p2 len i =
     (if i < len
      then bindF (read_at p1 i) (\<lambda>a. bindF (read_at p2 i) (\<lambda>b.
             if a \<noteq> b then Inr (uint a - uint b) else memcmp_loop p1 p2 len (Suc i)))
      else Inr 0)"
  by pat_completeness auto
termination
  by (relation "measure (\<lambda>(p1, p2, len, i). len - i)") auto

definition memcmp :: "bytes \<Rightarrow> bytes \<Rightarrow> nat \<Rightarrow> fault + int" where
  "memcmp s1 s2 len = memcmp_loop s1 s2 len 0"

definition char_diff :: "bytes \<Rightarrow> bytes \<Rightarrow> nat \<Rightarrow> fault + int" where
  "char_diff s1 s2 i =
     bindF (read_at s1 i) (\<lambda>a. bindF (read_at s2 i) (\<lambda>b. Inr (uint a - uint b)))"

function strcmp_loop :: "bytes \<Rightarrow> bytes \<Rightarrow> nat \<Rightarrow> fault + nat" where
  "strcmp_loop s1 s2 i =
     (if i < length s1
      then (if s1 ! i \<noteq> 0
            then bindF (read_at s2 i) (\<lambda>b.
                   if s1 ! i = b then strcmp_loop s1 s2 (Suc i) else Inr i)
            else Inr i)
      else Inl OutOfBounds)"
  by pat_completeness auto
termination
  by (relation "measure (\<lambda>(s1, s2, i). length s1 - i)") auto

definition strcmp :: "bytes \<Rightarrow> bytes \<Rightarrow> fault + int" where
  "strcmp s1 s2 = bindF (strcmp_loop s1 s2 0) (char_diff s1 s2)"

function strncmp_loop :: "bytes \<Rightarrow> bytes \<Rightarrow> nat \<Rightarrow> nat \<Rightarrow> fault + nat" where
  "strncmp_loop s1 s2 n i =
     (if i < n
      then bindF (read_at s1 i) (\<lambda>a.
             if a \<noteq> 0
             then bindF (read_at s2 i) (\<lambda>b.
                    if a = b then strncmp_loop s1 s2 n (Suc i) else Inr i)
             else Inr i)
      else Inr i)"
  by pat_completeness auto
termination
  by (relation "measure (\<lambda>(s1, s2, n, i). n - i)") auto

definition strncmp :: "bytes \<Rightarrow> bytes \<Rightarrow> nat \<Rightarrow> fault + int" where
  "strncmp s1 s2 n =
     bindF (strncmp_loop s1 s2 n 0) (\<lambda>i. if i = n then Inr 0 else char_diff s1 s2 i)"

text \<open>\<^verbatim>\<open>maxlen - 1\<close> on the 32-bit \<^verbatim>\<open>size_t\<close>.\<close>

definition size_pred :: "nat \<Rightarrow> nat" where
  "size_pred n = (if n = 0 then 2 ^ 32 - 1 else n - 1)"

definition strlcpy :: "bytes \<Rightarrow> bytes \<Rightarrow> nat \<Rightarrow> fault + nat \<times> bytes" where
  "strlcpy dest src maxlen =
     bindF (strnlen src (size_pred maxlen)) (\<lambda>l.
       let needed = l + 1;
           len = (if needed \<ge> maxlen then size_pred maxlen else needed)
       in bindF (memcpy dest src len) (\<lambda>dest1.
            bindF (write_at dest1 len 0) (\<lambda>dest2. Inr (needed - 1, dest2))))"

definition strlcat :: "bytes \<Rightarrow> bytes \<Rightarrow> nat \<Rightarrow> fault + nat \<times> bytes" where
  "strlcat dest src maxlen =
     bindF (strnlen dest (size_pred maxlen)) (\<lambda>used.
       bindF (strlcpy (drop used dest) src (maxlen - used)) (\<lambda>(n, tl).
         Inr (used + n, take used dest @ tl)))"

function strchr_loop :: "bytes \<Rightarrow> byte \<Rightarrow> nat \<Rightarrow> fault + nat option" where
  "strchr_loop s c i =
     (if i < length s
      then (if s ! i \<noteq> 0
            then (if s ! i = c then Inr (Some i) else strchr_loop s c (Suc i))
            else Inr None)
      else Inl OutOfBounds)"
  by pat_completeness auto
termination
  by (relation "measure (\<lambda>(s, c, i). length s - i)") auto

definition strchr :: "bytes \<Rightarrow> u32 \<Rightarrow> fault + nat option" where
  "strchr s c = strchr_loop s (ucast c) 0"

text \<open>
  The inner \<^verbatim>\<open>while (*p)\<close> loops of \<^verbatim>\<open>strspn\<close> and \<^verbatim>\<open>strcspn\<close>: does \<open>p\<close> stop at a cell
  equal to \<open>c\<close> before the terminator?
\<close>

fun scan_set :: "byte \<Rightarrow> bytes \<Rightarrow> fault + bool" where
  "scan_set c [] = Inl OutOfBounds"
| "scan_set c (p # ps) =
     (if p \<noteq> 0 then (if c = p then Inr True else scan_set c ps) else Inr False)"

function strspn_loop :: "bytes \<Rightarrow> bytes \<Rightarrow> nat \<Rightarrow> fault + nat" where
  "strspn_loop s1 s2 len =
     (if len < length s1
      then (if s1 ! len \<noteq> 0
            then bindF (scan_set (s1 ! len) s2) (\<lambda>hit.
                   if \<not> hit then Inr len else strspn_loop s1 s2 (Suc len))
            else Inr len)
      else Inl OutOfBounds)"
  by pat_completeness auto
termination
  by (relation "measure (\<lambda>(s1, s2, len). length s1 - len)") auto

definition strspn :: "bytes \<Rightarrow> bytes \<Rightarrow> fault + nat" where
  "strspn s1 s2 = strspn_loop s1 s2 0"

function strcspn_loop :: "bytes \<Rightarrow> bytes \<Rightarrow> nat \<Rightarrow> fault + nat" where
  "strcspn_loop s1 s2 len =
     (if len < length s1
      then (if s1 ! len \<noteq> 0
            then bindF (scan_set (s1 ! len) s2) (\<lambda>hit.
                   if hit then Inr len else strcspn_loop s1 s2 (Suc len))
            else Inr len)
      else Inl OutOfBounds)"
  by pat_completeness auto
termination
  by (relation "measure (\<lambda>(s1, s2, len). length s1 - len)") auto

definition strcspn :: "bytes \<Rightarrow> bytes \<Rightarrow> fault + nat" where
  "strcspn s1 s2 = strcspn_loop s1 s2 0"

declare strlen_loop.simps [simp del] strnlen_loop.simps [simp del]
  memset_loop.simps [simp del] memcpy_loop.simps [simp del] memcmp_loop.simps [simp del]
  strcmp_loop.simps [simp del] strncmp_loop.simps [simp del] strchr_loop.simps [simp del]
  strspn_loop.simps [simp del] strcspn_loop.simps [simp del]

section \<open>Specification vocabulary\<close>

text \<open>The characters before the terminator, and the arrays that have one.\<close>

definition cstring :: "bytes \<Rightarrow> bytes" where
  "cstring s = takeWhile (\<lambda>c. c \<noteq> 0) s"

definition terminated :: "bytes \<Rightarrow> bool" where
  "terminated s \<longleftrightarrow> 0 \<in> set s"

text \<open>What a comparison limited to \<open>n\<close> characters looks at, and when it stays in bounds.\<close>

definition strkey :: "nat \<Rightarrow> bytes \<Rightarrow> bytes" where
  "strkey n s = take n (cstring s)"

definition readable :: "nat \<Rightarrow> bytes \<Rightarrow> bool" where
  "readable n s \<longleftrightarrow> terminated s \<or> n \<le> length s"

text \<open>A string literal of the source as the array the compiler emits.\<close>

definition lit :: "string \<Rightarrow> bytes" where
  "lit str = map of_char str @ [0]"

lemma cstring_simps [simp]:
  "cstring [] = []"
  "cstring (c # s) = (if c = 0 then [] else c # cstring s)"
  by (simp_all add: cstring_def)

lemma terminated_simps [simp]:
  "\<not> terminated []"
  "terminated (c # s) \<longleftrightarrow> c = 0 \<or> terminated s"
  by (auto simp: terminated_def)

lemma cstring_no_zero: "0 \<notin> set (cstring s)"
  by (auto simp: cstring_def dest: set_takeWhileD)

lemma length_cstring_le: "length (cstring s) \<le> length s"
  by (simp add: cstring_def length_takeWhile_le)

lemma terminated_length: "terminated s \<Longrightarrow> length (cstring s) < length s"
  by (induction s) auto

lemma not_terminated_cstring: "\<not> terminated s \<Longrightarrow> cstring s = s"
  by (induction s) auto

lemma nth_cstring_end: "terminated s \<Longrightarrow> s ! length (cstring s) = 0"
  by (induction s) auto

lemma cstring_as_take: "cstring s = take (length (cstring s)) s"
  unfolding cstring_def by (rule takeWhile_eq_take)

lemma readable_simps [simp]:
  "readable 0 s"
  "readable (Suc n) (c # s) \<longleftrightarrow> c = 0 \<or> readable n s"
  "\<not> readable (Suc n) []"
  by (auto simp: readable_def)

lemma strkey_simps [simp]:
  "strkey 0 s = []"
  "strkey n [] = []"
  "strkey (Suc n) (c # s) = (if c = 0 then [] else c # strkey n s)"
  by (simp_all add: strkey_def)

lemma lit_terminated [simp]: "terminated (lit str)"
  by (simp add: lit_def terminated_def)

lemma lit_readable [simp]: "readable n (lit str)"
  by (simp add: readable_def)

lemma inj_byte_of_char: "inj (of_char :: char \<Rightarrow> byte)"
proof (rule injI)
  fix x y :: char
  assume "(of_char x :: byte) = of_char y"
  then have "(of_nat (of_char x) :: byte) = of_nat (of_char y)" by (simp only: of_nat_of_char)
  then have "(of_char x :: nat) mod 256 = of_char y mod 256"
    by (simp only: word_of_nat_eq_iff take_bit_eq_mod) simp
  then have "(of_char x :: nat) = of_char y" by simp
  then show "x = y" by simp
qed

text \<open>Short literals without a zero character are told apart by their keys.\<close>

lemma strkey_lit:
  assumes "length str \<le> n" "CHR 0x00 \<notin> set str"
  shows "strkey n (lit str) = map of_char str"
proof -
  have z: "(of_char c :: byte) = 0 \<longleftrightarrow> c = CHR 0x00" for c
    using inj_eq [OF inj_byte_of_char, of c "CHR 0x00"] by simp
  have "cstring (lit str) = map of_char str"
    using assms(2) by (induction str) (auto simp: lit_def z)
  then show ?thesis using assms(1) by (simp add: strkey_def)
qed

lemma strkey_lit_eq [simp]:
  assumes "length a \<le> n" "length b \<le> n" "CHR 0x00 \<notin> set a" "CHR 0x00 \<notin> set b"
  shows "strkey n (lit a) = strkey n (lit b) \<longleftrightarrow> a = b"
  using assms inj_byte_of_char by (simp add: strkey_lit inj_map_eq_map)

section \<open>Lengths\<close>

text \<open>The list seen from a loop index, in the form the inductions need it.\<close>

lemma drop_step: "i < length s \<Longrightarrow> drop i s = s ! i # drop (Suc i) s"
  by (simp add: Cons_nth_drop_Suc)

lemma strlen_loop_spec:
  "strlen_loop s i =
     (if terminated (drop i s) then Inr (i + length (cstring (drop i s))) else Inl OutOfBounds)"
proof (induction s i rule: strlen_loop.induct)
  case (1 s i)
  show ?case
    by (cases "i < length s")
      (simp_all add: strlen_loop.simps [of s i] drop_step "1.IH")
qed

lemma strlen_spec:
  "strlen s = (if terminated s then Inr (length (cstring s)) else Inl OutOfBounds)"
  by (simp add: strlen_def strlen_loop_spec)

lemma strnlen_loop_spec:
  assumes "i \<le> count"
  shows "strnlen_loop s count i =
     (if terminated (drop i s) \<or> count < length s
      then Inr (i + min (count - i) (length (cstring (drop i s)))) else Inl OutOfBounds)"
  using assms
proof (induction s count i rule: strnlen_loop.induct)
  case (1 s count i)
  show ?case
  proof (cases "i < length s \<and> s ! i \<noteq> 0 \<and> i < count")
    case True
    then have "strnlen_loop s count i = strnlen_loop s count (Suc i)"
      by (simp add: strnlen_loop.simps [of s count i])
    with True "1.IH" show ?thesis
      by (auto simp: drop_step [of i s])
  next
    case False
    with "1.prems" show ?thesis
      by (cases "i < length s")
        (auto simp: strnlen_loop.simps [of s count i] drop_step [of i s])
  qed
qed

lemma strnlen_spec:
  "strnlen s count =
     (if terminated s \<or> count < length s
      then Inr (min count (length (cstring s))) else Inl OutOfBounds)"
  by (simp add: strnlen_def strnlen_loop_spec)

section \<open>Block operations\<close>

lemma memset_loop_spec:
  "i \<le> len \<Longrightarrow> memset_loop b c len i =
     (if len \<le> length b \<or> len = i then Inr (take i b @ replicate (len - i) c @ drop len b)
      else Inl OutOfBounds)"
proof (induction b c len i rule: memset_loop.induct)
  case (1 b c len i)
  show ?case
  proof (cases "i < len \<and> i < length b")
    case True
    then have "memset_loop b c len i = memset_loop (b[i := c]) c len (Suc i)"
      by (simp add: memset_loop.simps [of b c len i] write_at_def)
    moreover have "take (Suc i) (b[i := c]) = take i b @ [c]"
      using True by (simp add: take_Suc_conv_app_nth)
    moreover have "replicate (len - i) c = c # replicate (len - Suc i) c"
      using True by (cases "len - i") (auto simp: Suc_diff_Suc simp flip: Suc_diff_Suc)
    ultimately show ?thesis
      using True "1.IH" [of "b[i := c]"] by (auto simp: write_at_def)
  next
    case False
    with "1.prems" show ?thesis
      by (auto simp: memset_loop.simps [of b c len i] write_at_def)
  qed
qed

lemma memset_spec:
  "memset b c len =
     (if len \<le> length b then Inr (replicate len (ucast c) @ drop len b) else Inl OutOfBounds)"
  by (auto simp: memset_def memset_loop_spec)

lemma memcpy_loop_spec:
  "i \<le> len \<Longrightarrow> len \<le> length src \<Longrightarrow> len \<le> length dst \<Longrightarrow>
   memcpy_loop dst src len i = Inr (take i dst @ take (len - i) (drop i src) @ drop len dst)"
proof (induction dst src len i rule: memcpy_loop.induct)
  case (1 dst src len i)
  show ?case
  proof (cases "i < len")
    case True
    then have "memcpy_loop dst src len i = memcpy_loop (dst[i := src ! i]) src len (Suc i)"
      using "1.prems" by (simp add: memcpy_loop.simps [of dst src len i] write_at_def)
    moreover have "take (Suc i) (dst[i := src ! i]) = take i dst @ [src ! i]"
      using True "1.prems" by (simp add: take_Suc_conv_app_nth)
    moreover have "take (len - i) (drop i src) = src ! i # take (len - Suc i) (drop (Suc i) src)"
      using True "1.prems" by (simp add: drop_step [of i src] take_Cons' flip: diff_Suc_eq_diff_pred)
    ultimately show ?thesis
      using True "1.prems" "1.IH" [of "src ! i" "dst[i := src ! i]"] by (simp add: write_at_def)
  next
    case False
    with "1.prems" show ?thesis by (simp add: memcpy_loop.simps [of dst src len len])
  qed
qed

lemma memcpy_spec:
  "len \<le> length src \<Longrightarrow> len \<le> length dst \<Longrightarrow>
   memcpy dst src len = Inr (take len src @ drop len dst)"
  by (simp add: memcpy_def memcpy_loop_spec)

lemma uint_byte_eq [simp]: "uint (x :: byte) = uint y \<longleftrightarrow> x = y"
  by (simp add: word_uint_eq_iff)

lemma memcmp_loop_zero:
  "i \<le> len \<Longrightarrow> len \<le> length p1 \<Longrightarrow> len \<le> length p2 \<Longrightarrow>
   \<exists>r. memcmp_loop p1 p2 len i = Inr r \<and> (r = 0 \<longleftrightarrow> take (len - i) (drop i p1) = take (len - i) (drop i p2))"
proof (induction p1 p2 len i rule: memcmp_loop.induct)
  case (1 p1 p2 len i)
  show ?case
  proof (cases "i < len")
    case True
    then obtain k where k: "len - i = Suc k" "len - Suc i = k" by (cases "len - i") auto
    show ?thesis
      using True "1.prems" "1.IH" k
      by (auto simp: memcmp_loop.simps [of p1 p2 len i] drop_step [of i])
  next
    case False
    with "1.prems" show ?thesis by (simp add: memcmp_loop.simps [of p1 p2 len len])
  qed
qed

lemma memcmp_zero_iff:
  assumes "len \<le> length p1" "len \<le> length p2"
  shows "memcmp p1 p2 len = Inr 0 \<longleftrightarrow> take len p1 = take len p2"
  using memcmp_loop_zero [of 0 len p1 p2] assms by (auto simp: memcmp_def)

section \<open>Comparison\<close>

text \<open>The comparison as a recursion over both strings, which the index loop implements.\<close>

fun scmp :: "nat \<Rightarrow> bytes \<Rightarrow> bytes \<Rightarrow> fault + int" where
  "scmp 0 a b = Inr 0"
| "scmp (Suc n) (x # a) (y # b) =
     (if x \<noteq> 0 \<and> x = y then scmp n a b else Inr (uint x - uint y))"
| "scmp (Suc n) a b = Inl OutOfBounds"

lemma scmp_Nil: "scmp (Suc n) a [] = Inl OutOfBounds"
  by (cases a) simp_all

lemma strncmp_loop_scmp:
  "i \<le> n \<Longrightarrow>
   bindF (strncmp_loop s1 s2 n i) (\<lambda>j. if j = n then Inr 0 else char_diff s1 s2 j) =
   scmp (n - i) (drop i s1) (drop i s2)"
proof (induction s1 s2 n i rule: strncmp_loop.induct)
  case (1 s1 s2 n i)
  show ?case
  proof (cases "i < n")
    case True
    then obtain k where k: "n - i = Suc k" "n - Suc i = k" by (cases "n - i") auto
    show ?thesis
      using True k "1.IH"
      by (cases "i < length s1"; cases "i < length s2")
        (auto simp: strncmp_loop.simps [of s1 s2 n i] drop_step [of i] char_diff_def scmp_Nil)
  next
    case False
    with "1.prems" show ?thesis by (simp add: strncmp_loop.simps [of s1 s2 n n])
  qed
qed

lemma strncmp_scmp: "strncmp s1 s2 n = scmp n s1 s2"
  using strncmp_loop_scmp [of 0 n s1 s2] by (simp add: strncmp_def)

lemma strncmp_order:
  assumes "readable n s1" "readable n s2"
  shows "\<exists>r. strncmp s1 s2 n = Inr r \<and> (r = 0 \<longleftrightarrow> strkey n s1 = strkey n s2) \<and>
     (r < 0 \<longleftrightarrow> strkey n s1 < strkey n s2)"
proof -
  have "\<exists>r. scmp n s1 s2 = Inr r \<and> (r = 0 \<longleftrightarrow> strkey n s1 = strkey n s2) \<and>
     (r < 0 \<longleftrightarrow> strkey n s1 < strkey n s2)"
    using assms
  proof (induction n s1 s2 rule: scmp.induct)
    case (2 n x a y b)
    have "0 < y \<or> y = 0" and "0 < x \<or> x = 0" by (simp_all add: word_gt_0)
    with 2 show ?case
      by (auto simp: word_less_def)
  qed auto
  then show ?thesis by (simp add: strncmp_scmp)
qed

lemma strncmp_zero_iff:
  "readable n s1 \<Longrightarrow> readable n s2 \<Longrightarrow> strncmp s1 s2 n = Inr 0 \<longleftrightarrow> strkey n s1 = strkey n s2"
  using strncmp_order [of n s1 s2] by auto

lemma strcmp_loop_strncmp:
  "length s1 \<le> n \<Longrightarrow> i \<le> length s1 \<Longrightarrow> terminated (drop i s1) \<Longrightarrow>
   strcmp_loop s1 s2 i = strncmp_loop s1 s2 n i"
proof (induction s1 s2 i rule: strcmp_loop.induct)
  case (1 s1 s2 i)
  then have i: "i < length s1" by (cases "i < length s1") auto
  with "1.prems" have "s1 ! i = 0 \<or> terminated (drop (Suc i) s1)"
    by (auto simp: drop_step [of i])
  with i "1.prems" "1.IH" show ?case
    by (cases "i < length s2")
      (auto simp: strcmp_loop.simps [of s1 s2 i] strncmp_loop.simps [of s1 s2 n i])
qed

lemma strcmp_loop_bound: "strcmp_loop s1 s2 i = Inr j \<Longrightarrow> j < length s1"
proof (induction s1 s2 i rule: strcmp_loop.induct)
  case (1 s1 s2 i)
  then show ?case
    by (auto simp: strcmp_loop.simps [of s1 s2 i] read_at_def split: if_splits)
qed

lemma strcmp_strncmp:
  assumes "terminated s1"
  shows "strcmp s1 s2 = strncmp s1 s2 (length s1)"
proof -
  have "strcmp_loop s1 s2 0 = strncmp_loop s1 s2 (length s1) 0"
    using assms by (intro strcmp_loop_strncmp) auto
  moreover have "bindF (strcmp_loop s1 s2 0) (char_diff s1 s2) =
    bindF (strcmp_loop s1 s2 0) (\<lambda>i. if i = length s1 then Inr 0 else char_diff s1 s2 i)"
    by (intro bindF_cong refl) (auto dest: strcmp_loop_bound)
  ultimately show ?thesis by (simp add: strcmp_def strncmp_def)
qed

text \<open>
  What a comparison routine promises to the code that keeps or searches a table of names:
  on arguments it may read, it orders them as their keys are ordered.
\<close>

locale name_compare =
  fixes cmp :: "bytes \<Rightarrow> bytes \<Rightarrow> fault + int" and key :: "bytes \<Rightarrow> bytes" and ok :: "bytes \<Rightarrow> bool"
  assumes cmp_order: "ok a \<Longrightarrow> ok b \<Longrightarrow>
    \<exists>r. cmp a b = Inr r \<and> (r = 0 \<longleftrightarrow> key a = key b) \<and> (r < 0 \<longleftrightarrow> key a < key b)"
begin

lemma cmpE:
  assumes "ok a" "ok b"
  obtains (same) "cmp a b = Inr 0" "key a = key b"
    | (before) r where "cmp a b = Inr r" "r < 0" "key a < key b"
    | (after) r where "cmp a b = Inr r" "r > 0" "key b < key a"
  using cmp_order [OF assms] by (metis linorder_less_linear)

lemma cmp_antisym:
  assumes "ok a" "ok b" "cmp a b = Inr r" "cmp b a = Inr r'"
  shows "r < 0 \<longleftrightarrow> r' > 0"
  using cmp_order [OF assms(1,2)] cmp_order [OF assms(2,1)] assms(3,4)
  by (auto simp: less_le_not_le not_less)

lemma cmp_trans:
  assumes "ok a" "ok b" "ok c" "cmp a b = Inr r" "r < 0" "cmp b c = Inr r'" "r' < 0"
  shows "\<exists>r''. cmp a c = Inr r'' \<and> r'' < 0"
proof -
  have "key a < key b" using cmp_order [OF assms(1,2)] assms(4,5) by auto
  moreover have "key b < key c" using cmp_order [OF assms(2,3)] assms(6,7) by auto
  ultimately have "key a < key c" by (rule less_trans)
  then show ?thesis using cmp_order [OF assms(1,3)] by blast
qed

end

interpretation strncmp32: name_compare "\<lambda>a b. strncmp a b 32" "strkey 32" "readable 32"
  by unfold_locales (rule strncmp_order)

interpretation strncmp16: name_compare "\<lambda>a b. strncmp a b 16" "strkey 16" "readable 16"
  by unfold_locales (rule strncmp_order)

section \<open>Copying\<close>

lemma cstring_append_zero: "0 \<notin> set xs \<Longrightarrow> cstring (xs @ 0 # ys) = xs"
  by (induction xs) auto

text \<open>The copied bytes with the terminator, whatever follows it.\<close>

lemma cstring_cut:
  assumes "terminated src \<or> n < length src"
    and "len = (if length (cstring src) < n then Suc (length (cstring src)) else n)"
  shows "cstring (take len src @ 0 # r) = take n (cstring src)"
proof (cases "length (cstring src) < n")
  case True
  then have t: "terminated src"
    using assms(1) not_terminated_cstring [of src] by (cases "terminated src") auto
  with True assms(2) have "take len src = cstring src @ [0]"
    using nth_cstring_end [OF t] terminated_length [OF t] cstring_as_take [of src]
    by (simp add: take_Suc_conv_app_nth)
  with True show ?thesis by (simp add: cstring_append_zero cstring_no_zero)
next
  case False
  with assms(2) have len: "len = n" by simp
  with False have "take len src = take len (cstring src)"
    by (metis (no_types, lifting) cstring_as_take min.absorb1 not_less take_take)
  moreover have "0 \<notin> set (take len (cstring src))"
    using cstring_no_zero [of src] by (auto dest: in_set_takeD)
  ultimately show ?thesis by (simp add: cstring_append_zero len)
qed

lemma strlcpy_exact:
  assumes "0 < maxlen" "maxlen \<le> length dest" "terminated src \<or> maxlen \<le> length src"
  shows "\<exists>dest'. strlcpy dest src maxlen = Inr (min (maxlen - 1) (length (cstring src)), dest') \<and>
     length dest' = length dest \<and> terminated (take maxlen dest') \<and>
     cstring dest' = take (maxlen - 1) (cstring src) \<and> drop maxlen dest' = drop maxlen dest"
proof -
  define l where "l = min (maxlen - 1) (length (cstring src))"
  define len where "len = (if l + 1 \<ge> maxlen then maxlen - 1 else l + 1)"
  have snl: "strnlen src (size_pred maxlen) = Inr l"
    using assms by (auto simp: strnlen_spec size_pred_def l_def)
  have len_src: "len \<le> length src"
    using assms terminated_length [of src] length_cstring_le [of src]
    by (auto simp: len_def l_def min_def split: if_splits)
  have len_max: "len < maxlen"
    using assms by (auto simp: len_def l_def)
  let ?d = "take len src @ 0 # drop (Suc len) dest"
  have pl: "(if l + 1 \<ge> maxlen then size_pred maxlen else l + 1) = len"
    using assms(1) by (simp add: len_def size_pred_def)
  have mc: "memcpy dest src len = Inr (take len src @ drop len dest)"
    using assms len_src len_max by (simp add: memcpy_spec)
  have wr: "write_at (take len src @ drop len dest) len 0 = Inr ?d"
    using assms len_src len_max
    by (simp add: write_at_def drop_step [of len dest] list_update_append)
  have d: "strlcpy dest src maxlen = Inr (l, ?d)"
    unfolding strlcpy_def snl bindF_simps Let_def pl mc wr by simp
  have "cstring ?d = take (maxlen - 1) (cstring src)"
    using assms by (intro cstring_cut) (auto simp: len_def l_def)
  moreover have "terminated (take maxlen ?d)"
    using len_src len_max by (auto simp: terminated_def take_Cons')
  moreover have "drop maxlen ?d = drop maxlen dest" and "length ?d = length dest"
    using len_src len_max assms by (auto simp: drop_Cons')
  ultimately show ?thesis using d by (auto simp: l_def)
qed

section \<open>Searching\<close>

lemma scan_set_spec: "terminated s \<Longrightarrow> scan_set c s = Inr (c \<in> set (cstring s))"
  by (induction s) auto

lemma strspn_loop_spec:
  "terminated (drop i s1) \<Longrightarrow> terminated s2 \<Longrightarrow>
   strspn_loop s1 s2 i =
     Inr (i + length (takeWhile (\<lambda>c. c \<in> set (cstring s2)) (cstring (drop i s1))))"
proof (induction s1 s2 i rule: strspn_loop.induct)
  case (1 s1 s2 i)
  then have "i < length s1" by (cases "i < length s1") auto
  with 1 show ?case
    by (auto simp: strspn_loop.simps [of s1 s2 i] scan_set_spec drop_step [of i])
qed

lemma strspn_spec:
  "terminated s1 \<Longrightarrow> terminated s2 \<Longrightarrow>
   strspn s1 s2 = Inr (length (takeWhile (\<lambda>c. c \<in> set (cstring s2)) (cstring s1)))"
  by (simp add: strspn_def strspn_loop_spec)

lemma strcspn_loop_spec:
  "terminated (drop i s1) \<Longrightarrow> terminated s2 \<Longrightarrow>
   strcspn_loop s1 s2 i =
     Inr (i + length (takeWhile (\<lambda>c. c \<notin> set (cstring s2)) (cstring (drop i s1))))"
proof (induction s1 s2 i rule: strcspn_loop.induct)
  case (1 s1 s2 i)
  then have "i < length s1" by (cases "i < length s1") auto
  with 1 show ?case
    by (auto simp: strcspn_loop.simps [of s1 s2 i] scan_set_spec drop_step [of i])
qed

lemma strcspn_spec:
  "terminated s1 \<Longrightarrow> terminated s2 \<Longrightarrow>
   strcspn s1 s2 = Inr (length (takeWhile (\<lambda>c. c \<notin> set (cstring s2)) (cstring s1)))"
  by (simp add: strcspn_def strcspn_loop_spec)

text \<open>A search for the terminator itself comes back empty, unlike the C standard's.\<close>

lemma strchr_loop_spec:
  "terminated (drop i s) \<Longrightarrow>
   strchr_loop s c i =
     (let k = length (takeWhile (\<lambda>x. x \<noteq> c) (cstring (drop i s)))
      in Inr (if c \<in> set (cstring (drop i s)) then Some (i + k) else None))"
proof (induction s c i rule: strchr_loop.induct)
  case (1 s c i)
  then have "i < length s" by (cases "i < length s") auto
  with 1 show ?case
    by (auto simp: strchr_loop.simps [of s c i] Let_def drop_step [of i])
qed

lemma strchr_spec:
  "terminated s \<Longrightarrow>
   strchr s c = Inr (if ucast c \<in> set (cstring s)
     then Some (length (takeWhile (\<lambda>x. x \<noteq> ucast c) (cstring s))) else None)"
  by (simp add: strchr_def strchr_loop_spec)

lemma strchr_terminator: "terminated s \<Longrightarrow> strchr s 0 = Inr None"
  using cstring_no_zero [of s] by (simp add: strchr_spec)

end
