(* ===== verification/Libc_Sprintf.thy ===== *)
theory Libc_Sprintf
  imports Libc_String
begin

text \<open>
  \<^verbatim>\<open>src/libraries/libc/lib/sprintf.c\<close>: the two character sinks behind the printf family.
  The formatter \<^verbatim>\<open>_sprintf_cb\<close> is an empty function in the repository, and is modelled as
  that; the sinks are complete, and the lemmas say what any formatter that feeds them gets.
  The structs \<^verbatim>\<open>sprintf_ctx_buffer\<close> and \<^verbatim>\<open>sprintf_ctx_realview\<close> are records (without
  the pair of function pointers, whose targets are the operations below).
\<close>

section \<open>The bounded buffer of snprintf\<close>

record sprintf_ctx_buffer =
  sb_buffer :: bytes
  sb_offset :: nat
  sb_size :: nat

definition sprintf_buffer_add :: "sprintf_ctx_buffer \<Rightarrow> byte \<Rightarrow> fault + sprintf_ctx_buffer" where
  "sprintf_buffer_add ctx c =
     bindF (if sb_offset ctx < sb_size ctx
            then bindF (write_at (sb_buffer ctx) (sb_offset ctx) c)
                   (\<lambda>b. Inr (ctx\<lparr>sb_buffer := b\<rparr>))
            else Inr ctx)
       (\<lambda>ctx'. Inr (ctx'\<lparr>sb_offset := sb_offset ctx' + 1\<rparr>))"

definition sprintf_buffer_flush :: "sprintf_ctx_buffer \<Rightarrow> fault + sprintf_ctx_buffer" where
  "sprintf_buffer_flush ctx =
     (if sb_offset ctx < sb_size ctx
      then bindF (write_at (sb_buffer ctx) (sb_offset ctx) 0) (\<lambda>b. Inr (ctx\<lparr>sb_buffer := b\<rparr>))
      else bindF (write_at (sb_buffer ctx) (size_pred (sb_size ctx)) 0)
             (\<lambda>b. Inr (ctx\<lparr>sb_buffer := b\<rparr>)))"

text \<open>The formatter, as far as the repository has it.\<close>

definition sprintf_cb :: "'ctx \<Rightarrow> bytes \<Rightarrow> 'ap \<Rightarrow> 'ctx" where
  "sprintf_cb io fmt ap = io"

definition vsnprintf :: "bytes \<Rightarrow> nat \<Rightarrow> bytes \<Rightarrow> 'ap \<Rightarrow> nat \<times> bytes" where
  "vsnprintf str n format ap =
     (let ctx = sprintf_cb \<lparr>sb_buffer = str, sb_offset = 0, sb_size = n\<rparr> format ap
      in (sb_offset ctx, sb_buffer ctx))"

definition snprintf :: "bytes \<Rightarrow> nat \<Rightarrow> bytes \<Rightarrow> 'ap \<Rightarrow> nat \<times> bytes" where
  "snprintf str n format ap = vsnprintf str n format ap"

text \<open>A run of characters through the sink.\<close>

fun buffer_add_all :: "sprintf_ctx_buffer \<Rightarrow> bytes \<Rightarrow> fault + sprintf_ctx_buffer" where
  "buffer_add_all ctx [] = Inr ctx"
| "buffer_add_all ctx (c # cs) = bindF (sprintf_buffer_add ctx c) (\<lambda>ctx'. buffer_add_all ctx' cs)"

lemma take_Suc_update: "n < length b \<Longrightarrow> take (Suc n) (b[n := c]) = take n b @ [c]"
  by (simp add: take_Suc_conv_app_nth)

lemma buffer_add_all_spec:
  assumes "sb_size ctx \<le> length (sb_buffer ctx)"
  shows "\<exists>ctx'. buffer_add_all ctx cs = Inr ctx' \<and>
     sb_offset ctx' = sb_offset ctx + length cs \<and> sb_size ctx' = sb_size ctx \<and>
     length (sb_buffer ctx') = length (sb_buffer ctx) \<and>
     take (min (sb_size ctx) (sb_offset ctx')) (sb_buffer ctx') =
       take (sb_size ctx) (take (sb_offset ctx) (sb_buffer ctx) @ cs) \<and>
     drop (sb_size ctx) (sb_buffer ctx') = drop (sb_size ctx) (sb_buffer ctx)"
  using assms
proof (induction cs arbitrary: ctx)
  case Nil
  then show ?case by (simp add: min.commute)
next
  case (Cons c cs)
  show ?case
  proof (cases "sb_offset ctx < sb_size ctx")
    case True
    define ctx1 where "ctx1 = ctx\<lparr>sb_buffer := (sb_buffer ctx)[sb_offset ctx := c],
      sb_offset := sb_offset ctx + 1\<rparr>"
    have "sprintf_buffer_add ctx c = Inr ctx1"
      using True Cons.prems by (simp add: sprintf_buffer_add_def write_at_def ctx1_def)
    moreover have "sb_size ctx1 \<le> length (sb_buffer ctx1)"
      using Cons.prems by (simp add: ctx1_def)
    note Cons.IH [OF this]
    ultimately show ?thesis
      using True Cons.prems by (auto simp: ctx1_def take_Suc_update)
  next
    case False
    define ctx1 where "ctx1 = ctx\<lparr>sb_offset := sb_offset ctx + 1\<rparr>"
    have "sprintf_buffer_add ctx c = Inr ctx1"
      using False by (simp add: sprintf_buffer_add_def ctx1_def)
    moreover have "sb_size ctx1 \<le> length (sb_buffer ctx1)"
      using Cons.prems by (simp add: ctx1_def)
    note Cons.IH [OF this]
    ultimately show ?thesis
      using False Cons.prems by (auto simp: ctx1_def)
  qed
qed

section \<open>The chunked console of printf\<close>

record sprintf_ctx_realview =
  rv_buffer :: bytes
  rv_offset :: nat
  rv_written :: nat

text \<open>
  The second component is the message handed to \<^verbatim>\<open>printf_callback\<close>, or to
  \<^verbatim>\<open>__sys_write0\<close> when no callback is set; both get the same argument.
\<close>

definition sprintf_realview_flush ::
  "sprintf_ctx_realview \<Rightarrow> fault + sprintf_ctx_realview \<times> bytes list" where
  "sprintf_realview_flush ctx =
     (if rv_offset ctx = 0 then Inr (ctx, [])
      else bindF (write_at (rv_buffer ctx) (rv_offset ctx) 0) (\<lambda>b.
             Inr (ctx\<lparr>rv_buffer := b, rv_offset := 0\<rparr>, [b])))"

definition sprintf_realview_add ::
  "sprintf_ctx_realview \<Rightarrow> byte \<Rightarrow> fault + sprintf_ctx_realview \<times> bytes list" where
  "sprintf_realview_add ctx c =
     bindF (write_at (rv_buffer ctx) (rv_offset ctx) c) (\<lambda>b.
       let ctx1 = ctx\<lparr>rv_buffer := b, rv_written := rv_written ctx + 1,
                      rv_offset := rv_offset ctx + 1\<rparr>
       in if rv_offset ctx1 = 15 then sprintf_realview_flush ctx1 else Inr (ctx1, []))"

definition vprintf :: "bytes \<Rightarrow> 'ap \<Rightarrow> nat" where
  "vprintf format ap =
     rv_offset (sprintf_cb \<lparr>rv_buffer = replicate 16 0, rv_offset = 0, rv_written = 0\<rparr> format ap)"

definition printf :: "bytes \<Rightarrow> 'ap \<Rightarrow> nat" where
  "printf format ap = vprintf format ap"

fun realview_add_all ::
  "sprintf_ctx_realview \<Rightarrow> bytes \<Rightarrow> fault + sprintf_ctx_realview \<times> bytes list" where
  "realview_add_all ctx [] = Inr (ctx, [])"
| "realview_add_all ctx (c # cs) =
     bindF (sprintf_realview_add ctx c) (\<lambda>(ctx', out).
       bindF (realview_add_all ctx' cs) (\<lambda>(ctx'', out'). Inr (ctx'', out @ out')))"

text \<open>The struct invariant: a 16-byte buffer with fewer than 15 characters pending.\<close>

definition rv_ok :: "sprintf_ctx_realview \<Rightarrow> bool" where
  "rv_ok ctx \<longleftrightarrow> length (rv_buffer ctx) = 16 \<and> rv_offset ctx < 15 \<and>
     0 \<notin> set (take (rv_offset ctx) (rv_buffer ctx))"

definition rv_pending :: "sprintf_ctx_realview \<Rightarrow> bytes" where
  "rv_pending ctx = take (rv_offset ctx) (rv_buffer ctx)"

lemma cstring_flushed:
  assumes "n < length b" and "0 \<notin> set (take n b)"
  shows "cstring (b[n := 0]) = take n b"
proof -
  have "b[n := 0] = take n b @ 0 # drop (Suc n) b"
    using assms(1) by (simp add: upd_conv_take_nth_drop)
  then show ?thesis using assms(2) by (simp add: cstring_append_zero)
qed

lemma realview_add_spec:
  assumes "rv_ok ctx" and "c \<noteq> 0"
  shows "\<exists>ctx' out. sprintf_realview_add ctx c = Inr (ctx', out) \<and> rv_ok ctx' \<and>
     rv_written ctx' = rv_written ctx + 1 \<and>
     concat (map cstring out) @ rv_pending ctx' = rv_pending ctx @ [c]"
proof -
  define b where "b = (rv_buffer ctx)[rv_offset ctx := c]"
  have pre: "length b = 16" "take (Suc (rv_offset ctx)) b = rv_pending ctx @ [c]"
    using assms by (auto simp: b_def rv_ok_def rv_pending_def take_Suc_update)
  then have nz: "0 \<notin> set (take (Suc (rv_offset ctx)) b)"
    using assms by (auto simp: rv_ok_def rv_pending_def)
  show ?thesis
    using assms pre nz
    by (auto simp: sprintf_realview_add_def sprintf_realview_flush_def write_at_def Let_def
        rv_ok_def rv_pending_def cstring_flushed simp flip: b_def)
qed

lemma realview_add_all_spec:
  "rv_ok ctx \<Longrightarrow> 0 \<notin> set cs \<Longrightarrow>
   \<exists>ctx' out. realview_add_all ctx cs = Inr (ctx', out) \<and> rv_ok ctx' \<and>
     rv_written ctx' = rv_written ctx + length cs \<and>
     concat (map cstring out) @ rv_pending ctx' = rv_pending ctx @ cs"
proof (induction cs arbitrary: ctx)
  case (Cons c cs)
  obtain ctx1 out1 where 1: "sprintf_realview_add ctx c = Inr (ctx1, out1)" "rv_ok ctx1"
      "rv_written ctx1 = rv_written ctx + 1"
      "concat (map cstring out1) @ rv_pending ctx1 = rv_pending ctx @ [c]"
    using realview_add_spec [of ctx c] Cons.prems by auto
  obtain ctx2 out2 where 2: "realview_add_all ctx1 cs = Inr (ctx2, out2)" "rv_ok ctx2"
      "rv_written ctx2 = rv_written ctx1 + length cs"
      "concat (map cstring out2) @ rv_pending ctx2 = rv_pending ctx1 @ cs"
    using Cons.IH [OF 1(2)] Cons.prems by auto
  have "concat (map cstring (out1 @ out2)) @ rv_pending ctx2 = rv_pending ctx @ c # cs"
    using 1(4) 2(4) by (metis (no_types, lifting) append.assoc append_Cons append_Nil concat_append map_append)
  with 1 2 show ?case by simp
qed simp

end
