(* ===== verification/IOS_Api.thy ===== *)
theory IOS_Api
  imports BSP_Types
begin

text \<open>
  The kernel calls of \<^verbatim>\<open>src/libraries/ios_api\<close>. The kernel is not part of the repository
  (\<^verbatim>\<open>syscalls.s\<close> only traps into it), so each call the modelled code makes is a field of a
  record that is a parameter of the definitions. What the code relies on is stated where it is
  used; the recurring one is that a kernel call changes nothing but the outside world.
\<close>

record 's ios =
  IOS_CreateSemaphore :: "u32 \<Rightarrow> u32 \<Rightarrow> ('s, u32) prog"
  IOS_WaitSemaphore :: "u32 \<Rightarrow> u32 \<Rightarrow> ('s, u32) prog"
  IOS_SignalSemaphore :: "u32 \<Rightarrow> ('s, u32) prog"
  IOS_Open :: "bytes \<Rightarrow> u32 \<Rightarrow> ('s, u32) prog"
  IOS_Write :: "u32 \<Rightarrow> bytes \<Rightarrow> u32 \<Rightarrow> ('s, u32) prog"
  IOS_HeapAlloc :: "u32 \<Rightarrow> u32 \<Rightarrow> ('s, bytes option) prog"
  IOS_HeapFree :: "u32 \<Rightarrow> ('s, u32) prog"
  IOS_GetUpTime :: "('s, u32) prog"
  IOS_GetUpTime64 :: "('s, u64) prog"
  IOS_GetCurrentThreadId :: "('s, u32) prog"
  IOS_GetCurrentProcessId :: "('s, u32) prog"
  IOS_CreateMessageQueue :: "u32 \<Rightarrow> ('s, u32) prog"
  IOS_DestroyMessageQueue :: "u32 \<Rightarrow> ('s, u32) prog"
  IOS_CreateTimer :: "u32 \<Rightarrow> u32 \<Rightarrow> u32 \<Rightarrow> u32 \<Rightarrow> ('s, u32) prog"
  IOS_DestroyTimer :: "u32 \<Rightarrow> ('s, u32) prog"
  IOS_WaitMessage :: "u32 \<Rightarrow> ('s, u32) prog"
  IOS_Panic :: "bytes \<Rightarrow> u32 \<Rightarrow> ('s, unit) prog"

text \<open>A call that comes back having changed the outside world only.\<close>

definition env_only :: "(('e, 'z) machine_scheme, 'a) prog \<Rightarrow> bool" where
  "env_only m \<longleftrightarrow> (\<forall>s. \<exists>r e. m s = Inr (r, s\<lparr>env := e\<rparr>))"

lemma env_onlyE:
  assumes "env_only m"
  obtains r e where "m s = Inr (r, s\<lparr>env := e\<rparr>)"
  using assms unfolding env_only_def by blast

lemma env_same: "\<exists>e. s = s\<lparr>env := e\<rparr>" for s :: "('e, 'z) machine_scheme"
  by (rule exI [of _ "env s"]) simp

lemma env_only_returnC [simp]: "env_only (returnC a)"
  by (auto simp: env_only_def returnC_def intro: env_same)

text \<open>A kernel whose calls all succeed and change nothing, for concrete runs.\<close>

definition quiet_ios :: "'s ios" where
  "quiet_ios = \<lparr>
     IOS_CreateSemaphore = (\<lambda>_ _. returnC 1),
     IOS_WaitSemaphore = (\<lambda>_ _. returnC 0),
     IOS_SignalSemaphore = (\<lambda>_. returnC 0),
     IOS_Open = (\<lambda>_ _. returnC 3),
     IOS_Write = (\<lambda>_ _ n. returnC 0),
     IOS_HeapAlloc = (\<lambda>_ n. returnC (Some (replicate (unat n) 0))),
     IOS_HeapFree = (\<lambda>_. returnC 0),
     IOS_GetUpTime = returnC 0,
     IOS_GetUpTime64 = returnC 0,
     IOS_GetCurrentThreadId = returnC 1,
     IOS_GetCurrentProcessId = returnC 2,
     IOS_CreateMessageQueue = (\<lambda>_. returnC 5),
     IOS_DestroyMessageQueue = (\<lambda>_. returnC 0),
     IOS_CreateTimer = (\<lambda>_ _ _ _. returnC 6),
     IOS_DestroyTimer = (\<lambda>_. returnC 0),
     IOS_WaitMessage = (\<lambda>_. returnC 0),
     IOS_Panic = (\<lambda>_ _. failC NoReturn)\<rparr>"

end
