(* ===== verification/Libc_Delay.thy ===== *)
theory Libc_Delay
  imports IOS_Api
begin

text \<open>
  \<^verbatim>\<open>src/libraries/libc/lib/delay.c\<close>, \<^verbatim>\<open>src/libraries/bsp/bsp.c\<close> and the busy wait of
  \<^verbatim>\<open>src/ios_bsp/bsp_util.c\<close>. The wait loops read a free-running 32-bit counter until the
  wrapped difference reaches the number of ticks; not returning is the value \<^term>\<open>None\<close> of the
  loop and the fault \<^const>\<open>NoReturn\<close> of the function. The lemmas show that the loops come back
  under any counter that keeps advancing, and not before the ticks have passed.
\<close>

section \<open>The code\<close>

record bsp_system_clock_info =
  systemClockFrequency :: u32
  timerFrequency :: u32

record bsp_hardware_info =
  hi_clock :: bsp_system_clock_info
  hi_hwver :: u32

definition bspHwInfo :: bsp_hardware_info where
  "bspHwInfo = \<lparr>
     hi_clock = \<lparr>systemClockFrequency = 248625000, timerFrequency = 1942382\<rparr>,
     hi_hwver = BSP_HARDWARE_VERSION_LATTE_A4X_EV\<rparr>"

definition usec_to_timer_ticks :: "u32 \<Rightarrow> u32" where
  "usec_to_timer_ticks usec =
     (let ticks64 = (ucast (timerFrequency (hi_clock bspHwInfo)) * ucast usec) div 1000000 :: u64
      in if drop_bit 32 ticks64 \<noteq> 0 then 0xFFFFFFFF
         else let ticks = ucast ticks64 :: u32
              in if usec \<noteq> 0 \<and> ticks = 0 then 1 else ticks)"

text \<open>The \<^verbatim>\<open>do ... while (now - start < ticks)\<close> loop over a counter.\<close>

partial_function (option) wait_loop ::
  "('s, u32) prog \<Rightarrow> u32 \<Rightarrow> u32 \<Rightarrow> 's \<Rightarrow> (fault + 's) option" where
  "wait_loop counter start ticks s =
     (case counter s of
        Inl e \<Rightarrow> Some (Inl e)
      | Inr (now, s') \<Rightarrow>
          if now - start < ticks then wait_loop counter start ticks s' else Some (Inr s'))"

definition wait_ticks :: "('s, u32) prog \<Rightarrow> u32 \<Rightarrow> ('s, unit) prog" where
  "wait_ticks counter ticks =
     bindC counter (\<lambda>start s.
       case wait_loop counter start ticks s of
         None \<Rightarrow> Inl NoReturn
       | Some (Inl e) \<Rightarrow> Inl e
       | Some (Inr s') \<Rightarrow> Inr ((), s'))"

definition udelay :: "'s ios \<Rightarrow> u32 \<Rightarrow> ('s, unit) prog" where
  "udelay os usec = wait_ticks (IOS_GetUpTime os) (usec_to_timer_ticks usec)"

text \<open>The counter argument is the read of \<^verbatim>\<open>*HW_TIMER\<close>.\<close>

definition udelay_realtime :: "('s, u32) prog \<Rightarrow> u32 \<Rightarrow> ('s, unit) prog" where
  "udelay_realtime read_hw_timer usec = wait_ticks read_hw_timer (usec_to_timer_ticks usec)"

definition delay_ticks :: "'s ios \<Rightarrow> u32 \<Rightarrow> ('s, u32) prog" where
  "delay_ticks os ticks =
     bindC (IOS_CreateMessageQueue os 1) (\<lambda>queue.
     if neg32 queue then returnC queue
     else
     bindC (IOS_CreateTimer os ticks 0 queue 0xbabecafe) (\<lambda>timer.
     if neg32 timer
     then seqC (IOS_DestroyMessageQueue os queue) (returnC timer)
     else
     seqC (IOS_WaitMessage os queue)
     (seqC (IOS_DestroyTimer os timer)
     (seqC (IOS_DestroyMessageQueue os queue)
     (returnC IOS_ERROR_OK)))))"

section \<open>Conversion\<close>

lemma unat_of_u32 [simp]: "unat (ucast (w :: u32) :: u64) = unat w"
  by (simp add: unsigned_ucast_eq take_bit_nat_eq_self less_le_trans [OF unsigned_less])

lemma usec_ticks_value:
  "unat (usec_to_timer_ticks usec) =
     (let t = 1942382 * unat usec div 1000000
      in if 2 ^ 32 \<le> t then 2 ^ 32 - 1 else if usec \<noteq> 0 \<and> t = 0 then 1 else t)"
proof -
  let ?p = "ucast (1942382 :: u32) * ucast usec :: u64"
  have lt: "unat usec < 2 ^ 32" using unsigned_less [of usec] by simp
  then have "1942382 * unat usec < 2 ^ 64" by simp
  then have p: "unat ?p = 1942382 * unat usec"
    by (simp add: unat_word_ariths)
  define q where "q = ?p div 1000000"
  have q: "unat q = 1942382 * unat usec div 1000000"
    unfolding q_def unat_div p by simp
  have d: "drop_bit 32 q \<noteq> 0 \<longleftrightarrow> 2 ^ 32 \<le> unat q"
    by (simp add: drop_bit_eq_div word_unat_eq_iff unat_div div_eq_0_iff not_less)
  have c: "unat q < 2 ^ 32 \<Longrightarrow> unat (ucast q :: u32) = unat q"
    by (simp add: unsigned_ucast_eq take_bit_nat_eq_self)
  have z: "unat q < 2 ^ 32 \<Longrightarrow> (ucast q :: u32) = 0 \<longleftrightarrow> unat q = 0"
    using c by (simp add: word_unat_eq_iff)
  have u: "usec_to_timer_ticks usec =
      (if drop_bit 32 q \<noteq> 0 then 0xFFFFFFFF else if usec \<noteq> 0 \<and> (ucast q :: u32) = 0 then 1 else ucast q)"
    by (simp add: usec_to_timer_ticks_def Let_def bspHwInfo_def q_def)
  show ?thesis
    unfolding u Let_def q [symmetric] using d c z by auto
qed

section \<open>Waiting\<close>

text \<open>
  A counter that is kept by the outside world: reading it takes time, so the state after the
  read is later, and it moves by at most \<open>step\<close> per read. \<open>t\<close> is the unwrapped time.
\<close>

definition advancing :: "('s, u32) prog \<Rightarrow> ('s \<Rightarrow> nat) \<Rightarrow> nat \<Rightarrow> bool" where
  "advancing counter t step \<longleftrightarrow>
     (\<forall>s. \<exists>s'. counter s = Inr (of_nat (t s), s') \<and> t s < t s' \<and> t s' \<le> t s + step)"

lemma advancingD:
  assumes "advancing counter t step"
  obtains s' where "counter s = Inr (of_nat (t s), s')" "t s < t s'" "t s' \<le> t s + step"
  using assms unfolding advancing_def by blast

lemma elapsed_word:
  assumes "a \<le> b" "b - a < 2 ^ 32"
  shows "unat (of_nat b - of_nat a :: u32) = b - a"
proof -
  have "(of_nat b - of_nat a :: u32) = of_nat (b - a)" using assms(1) by simp
  then show ?thesis using assms(2) by (simp add: take_bit_nat_eq_self unsigned_of_nat)
qed

text \<open>From a state inside the window, the loop returns in one that is past it.\<close>

lemma wait_loop_returns:
  assumes adv: "advancing counter t step" and fits: "unat ticks + step \<le> 2 ^ 32"
    and win: "t0 \<le> t s" "t s < t0 + unat ticks + step"
  shows "\<exists>s'. wait_loop counter (of_nat t0) ticks s = Some (Inr s') \<and> t0 + unat ticks < t s'"
  using win
proof (induction "t0 + unat ticks + step - t s" arbitrary: s rule: less_induct)
  case less
  obtain s1 where s1: "counter s = Inr (of_nat (t s), s1)" "t s < t s1" "t s1 \<le> t s + step"
    using adv by (rule advancingD)
  have el: "unat (of_nat (t s) - of_nat t0 :: u32) = t s - t0"
    using less.prems fits by (intro elapsed_word) auto
  show ?case
  proof (cases "t s < t0 + unat ticks")
    case True
    then have "of_nat (t s) - of_nat t0 < ticks"
      using el less.prems by (simp add: word_less_nat_alt)
    moreover have "\<exists>s'. wait_loop counter (of_nat t0) ticks s1 = Some (Inr s') \<and> t0 + unat ticks < t s'"
      using True s1 less.prems by (intro less.hyps) auto
    ultimately show ?thesis
      by (simp add: wait_loop.simps [of counter "of_nat t0" ticks s] s1)
  next
    case False
    then have "\<not> of_nat (t s) - of_nat t0 < ticks"
      using el less.prems by (simp add: word_less_nat_alt)
    then show ?thesis
      using False s1 by (simp add: wait_loop.simps [of counter "of_nat t0" ticks s])
  qed
qed

lemma wait_ticks_returns:
  assumes adv: "advancing counter t step" and fits: "unat ticks + step \<le> 2 ^ 32"
  shows "\<exists>s'. wait_ticks counter ticks s = Inr ((), s') \<and> t s + unat ticks < t s'"
proof -
  obtain s1 where s1: "counter s = Inr (of_nat (t s), s1)" "t s < t s1" "t s1 \<le> t s + step"
    using adv by (rule advancingD)
  show ?thesis
  proof (cases "t s1 < t s + unat ticks + step")
    case True
    have "\<exists>s'. wait_loop counter (of_nat (t s)) ticks s1 = Some (Inr s') \<and> t s + unat ticks < t s'"
      using True s1 by (intro wait_loop_returns [OF adv fits]) auto
    then show ?thesis
      by (auto simp: wait_ticks_def bindC_def s1)
  next
    case False
    with s1 have z: "unat ticks = 0" by simp
    then have "ticks = 0" by (simp add: unat_eq_zero)
    moreover obtain s2 where "counter s1 = Inr (of_nat (t s1), s2)" "t s1 < t s2"
      using adv by (rule advancingD)
    ultimately show ?thesis
      using s1 by (auto simp: wait_ticks_def bindC_def wait_loop.simps)
  qed
qed

text \<open>Whatever every read of the counter preserves, the wait preserves.\<close>

lemma wait_loop_invariant:
  fixes counter :: "('s, u32) prog"
  assumes step: "\<And>s now s'. counter s = Inr (now, s') \<Longrightarrow> I s \<Longrightarrow> I s'"
    and run: "wait_loop counter start ticks s = Some r"
  shows "I s \<longrightarrow> r = Inr s' \<longrightarrow> I s'"
proof -
  have "(\<forall>s now s'. counter s = Inr (now, s') \<longrightarrow> I s \<longrightarrow> I s') \<longrightarrow> I s \<longrightarrow> (\<forall>s'. r = Inr s' \<longrightarrow> I s')"
  proof (rule wait_loop.raw_induct [OF _ run])
    fix f :: "('s, u32) prog \<Rightarrow> u32 \<Rightarrow> u32 \<Rightarrow> 's \<Rightarrow> (fault + 's) option"
      and counter :: "('s, u32) prog" and start ticks s r
    assume IH: "\<And>counter start ticks s r. f counter start ticks s = Some r \<Longrightarrow>
        (\<forall>s now s'. counter s = Inr (now, s') \<longrightarrow> I s \<longrightarrow> I s') \<longrightarrow> I s \<longrightarrow> (\<forall>s'. r = Inr s' \<longrightarrow> I s')"
      and run: "(case counter s of
          Inl e \<Rightarrow> Some (Inl e)
        | Inr (now, s') \<Rightarrow> if now - start < ticks then f counter start ticks s' else Some (Inr s')) = Some r"
    show "(\<forall>s now s'. counter s = Inr (now, s') \<longrightarrow> I s \<longrightarrow> I s') \<longrightarrow> I s \<longrightarrow> (\<forall>s'. r = Inr s' \<longrightarrow> I s')"
    proof (cases "counter s")
      case (Inl e)
      then show ?thesis using run by auto
    next
      case (Inr x)
      obtain now s1 where x: "x = (now, s1)" by (cases x)
      show ?thesis
      proof (intro impI)
        assume inv: "\<forall>s now s'. counter s = Inr (now, s') \<longrightarrow> I s \<longrightarrow> I s'" and "I s"
        then have "I s1" using Inr x by blast
        show "\<forall>s'. r = Inr s' \<longrightarrow> I s'"
        proof (cases "now - start < ticks")
          case True
          then have "f counter start ticks s1 = Some r" using run Inr x by simp
          then show ?thesis using IH inv \<open>I s1\<close> by blast
        next
          case False
          then have "r = Inr s1" using run Inr x by simp
          then show ?thesis using \<open>I s1\<close> by simp
        qed
      qed
    qed
  qed
  then show ?thesis using step by blast
qed

lemma wait_ticks_invariant:
  assumes "\<And>s now s'. counter s = Inr (now, s') \<Longrightarrow> I s \<Longrightarrow> I s'"
    and "wait_ticks counter ticks s = Inr (r, s')" "I s"
  shows "I s'"
proof -
  obtain now s1 where "counter s = Inr (now, s1)" "wait_loop counter now ticks s1 = Some (Inr s')"
    using assms(2) by (auto simp: wait_ticks_def bindC_def split: sum.splits option.splits)
  then show ?thesis
    using wait_loop_invariant [of counter I now ticks s1 "Inr s'" s'] assms(1,3) by blast
qed

text \<open>
  C27: \<open>udelay\<close> comes back, and not early: on a kernel uptime counter that advances with every
  read by at most \<open>step\<close> ticks, the wait ends, in a state whose clock is more than
  \<open>usec_to_timer_ticks usec\<close> ticks later, however the 32-bit counter wraps meanwhile.
\<close>

theorem udelay_returns_not_early:
  assumes "advancing (IOS_GetUpTime os) t step"
    and "unat (usec_to_timer_ticks usec) + step \<le> 2 ^ 32"
  shows "\<exists>s'. udelay os usec s = Inr ((), s') \<and> t s + unat (usec_to_timer_ticks usec) < t s'"
  unfolding udelay_def by (rule wait_ticks_returns [OF assms])

lemma advancing_count: "advancing (\<lambda>s. Inr (of_nat s, Suc s)) (\<lambda>s. s) (Suc 0)"
  by (simp add: advancing_def)

theorem udelay_returns_not_early_witness:
  "\<exists>s'. udelay (quiet_ios\<lparr>IOS_GetUpTime := (\<lambda>s. Inr (of_nat s, Suc s))\<rparr>) 4 (2 ^ 32 - 3) = Inr ((), s') \<and>
     2 ^ 32 - 3 + 7 < s'"
proof -
  have u: "unat (usec_to_timer_ticks 4) = 7"
    by (simp add: usec_ticks_value)
  then show ?thesis
    using udelay_returns_not_early
      [where os = "quiet_ios\<lparr>IOS_GetUpTime := (\<lambda>s. Inr (of_nat s, Suc s))\<rparr>" and t = "\<lambda>s. s"
        and step = 1 and usec = 4 and s = "2 ^ 32 - 3"]
    by (simp add: advancing_count)
qed

text \<open>
  C28: the conversion from microseconds never wraps: it is the exact quotient, saturated at the
  largest 32-bit count, and at least one tick for every delay that is not zero.
\<close>

theorem usec_to_timer_ticks_exact:
  "unat (usec_to_timer_ticks usec) =
     (let t = 1942382 * unat usec div 1000000
      in if 2 ^ 32 \<le> t then 2 ^ 32 - 1 else if usec \<noteq> 0 \<and> t = 0 then 1 else t)"
  by (rule usec_ticks_value)

end
