(* ===== verification/Crc32.thy ===== *)
theory Crc32
  imports BSP_Prelude
begin

text \<open>
  \<^verbatim>\<open>src/libraries/crc32/crc32.c\<close>: the table-less CRC-32 that guards the board
  configuration. The file's static variable is the record field \<open>s_crc32Value\<close>; the byte
  loop and the eight-step inner loop are recursions. The lemmas relate the routine to the
  bit-serial shift register it optimises and show what it detects.
\<close>

section \<open>The routine\<close>

record 'e crc_state = "'e machine" +
  s_crc32Value :: u32

definition crc32MakeTable :: "('s, unit) prog" where
  "crc32MakeTable = returnC ()"

definition crc32Reset :: "(('e, 'z) crc_state_scheme, unit) prog" where
  "crc32Reset = modifyC (\<lambda>s. s\<lparr>s_crc32Value := 0\<rparr>)"

text \<open>One turn of the \<^verbatim>\<open>for (int j = 0; j < 8; j++)\<close> loop.\<close>

definition crc_shift :: "u32 \<Rightarrow> u32" where
  "crc_shift c = (if c AND 1 \<noteq> 0 then drop_bit 1 c XOR 0xedb88320 else drop_bit 1 c)"

text \<open>One turn of the byte loop.\<close>

definition crc_byte :: "u32 \<Rightarrow> byte \<Rightarrow> u32" where
  "crc_byte s b =
     (let nLookupIndex = ucast ((s XOR ucast b) AND 0xFF) :: u8;
          crc_constant = (crc_shift ^^ 8) (ucast nLookupIndex)
      in crc_constant XOR drop_bit 8 s)"

fun crc_loop :: "bytes \<Rightarrow> nat \<Rightarrow> u32 \<Rightarrow> fault + u32" where
  "crc_loop bs 0 s = Inr s"
| "crc_loop [] (Suc n) s = Inl OutOfBounds"
| "crc_loop (b # bs) (Suc n) s = crc_loop bs n (crc_byte s b)"

definition crc32Input :: "bytes \<Rightarrow> nat \<Rightarrow> (('e, 'z) crc_state_scheme, u32) prog" where
  "crc32Input data sz =
     bindC (getsC s_crc32Value) (\<lambda>v.
     bindC (liftC (crc_loop data sz (NOT v))) (\<lambda>v'.
     seqC (modifyC (\<lambda>s. s\<lparr>s_crc32Value := v'\<rparr>))
     (returnC (NOT v'))))"

section \<open>The bit-serial reference\<close>

text \<open>
  The textbook definition: a 32-bit register shifted right once per message bit, least
  significant bit of each byte first, with the polynomial added when the bit that falls out
  differs from the message bit.
\<close>

definition lfsr :: "u32 \<Rightarrow> bool \<Rightarrow> u32" where
  "lfsr s x = (if bit s 0 \<noteq> x then drop_bit 1 s XOR 0xedb88320 else drop_bit 1 s)"

definition byte_bits :: "byte \<Rightarrow> bool list" where
  "byte_bits b = map (bit b) [0..<8]"

definition crc32_ref :: "bytes \<Rightarrow> u32" where
  "crc32_ref bs = NOT (foldl lfsr (NOT 0) (concat (map byte_bits bs)))"

lemma crc_shift_bit:
  "crc_shift c = (if bit c 0 then drop_bit 1 c XOR 0xedb88320 else drop_bit 1 c)"
  by (simp add: crc_shift_def and_one_eq bit_0 odd_iff_mod_2_eq_one)

lemma crc_shift_lfsr: "crc_shift (s XOR w) = lfsr s (bit w 0) XOR drop_bit 1 w"
  by (auto simp: crc_shift_bit lfsr_def bit_xor_iff drop_bit_xor ac_simps)

lemma crc_shift_linear: "crc_shift (a XOR b) = crc_shift a XOR crc_shift b"
  by (auto simp: crc_shift_bit bit_xor_iff drop_bit_xor ac_simps)

lemma crc_shift_pow_lfsr:
  "(crc_shift ^^ n) (s XOR w) = foldl lfsr s (map (bit w) [0..<n]) XOR drop_bit n w"
proof (induction n)
  case (Suc n)
  then show ?case
    by (simp add: crc_shift_lfsr bit_drop_bit_eq drop_bit_drop_bit)
qed simp

lemma crc_shift_pow_linear: "(crc_shift ^^ n) (a XOR b) = (crc_shift ^^ n) a XOR (crc_shift ^^ n) b"
  by (induction n) (simp_all add: crc_shift_linear)

lemma lfsr_zeros: "foldl lfsr 0 (replicate n False) = 0"
  by (induction n) (simp_all add: lfsr_def)

text \<open>Shifts of a word with a clear low end are one shift by their number.\<close>

lemma crc_shift_pow_clear:
  assumes "\<And>i. i < n \<Longrightarrow> \<not> bit w i"
  shows "(crc_shift ^^ n) w = drop_bit n w"
proof -
  have "map (bit w) [0..<n] = replicate n False"
    using assms by (intro nth_equalityI) auto
  then show ?thesis
    using crc_shift_pow_lfsr [of n 0 w] by (simp add: lfsr_zeros)
qed

lemma split_low_byte: "(w :: u32) = (w AND 0xFF) XOR push_bit 8 (drop_bit 8 w)"
proof -
  have m: "(0xFF :: u32) = mask 8" by (simp add: mask_eq_exp_minus_1)
  show ?thesis
    unfolding m by (rule bit_word_eqI) (auto simp: bit_simps)
qed

lemma crc_byte_shift: "crc_byte s b = (crc_shift ^^ 8) (s XOR ucast b)"
proof -
  let ?w = "s XOR ucast b :: u32"
  have low: "ucast (ucast (?w AND 0xFF) :: u8) = ?w AND 0xFF"
  proof -
    have m: "(0xFF :: u32) = mask 8" by (simp add: mask_eq_exp_minus_1)
    show ?thesis unfolding m by (rule bit_word_eqI) (auto simp: bit_simps)
  qed
  have "drop_bit 8 (ucast b :: u32) = 0"
    by (rule bit_word_eqI) (simp add: bit_simps)
  then have high: "drop_bit 8 ?w = drop_bit 8 s"
    by (simp add: drop_bit_xor)
  have clear: "(crc_shift ^^ 8) (push_bit 8 (drop_bit 8 ?w)) = drop_bit 8 ?w"
  proof -
    have "drop_bit 8 (push_bit 8 (drop_bit 8 ?w)) = drop_bit 8 ?w"
      using bit_u32_beyond by (intro bit_word_eqI) (auto simp: bit_simps not_less)
    then show ?thesis
      by (subst crc_shift_pow_clear) (auto simp: bit_simps)
  qed
  have "(crc_shift ^^ 8) ?w =
      (crc_shift ^^ 8) (?w AND 0xFF) XOR (crc_shift ^^ 8) (push_bit 8 (drop_bit 8 ?w))"
    by (subst split_low_byte) (rule crc_shift_pow_linear)
  also have "\<dots> = crc_byte s b"
    by (simp only: crc_byte_def Let_def low clear) (simp only: high)
  finally show ?thesis by simp
qed

lemma crc_byte_lfsr: "crc_byte s b = foldl lfsr s (byte_bits b)"
proof -
  have bits: "map (bit (ucast b :: u32)) [0..<8] = byte_bits b"
    by (simp add: byte_bits_def bit_simps)
  have "drop_bit 8 (ucast b :: u32) = 0"
    by (rule bit_word_eqI) (simp add: bit_simps)
  then show ?thesis
    by (simp only: crc_byte_shift crc_shift_pow_lfsr bits) simp
qed

lemma crc_loop_fold:
  "crc_loop bs n s = (if n \<le> length bs then Inr (foldl crc_byte s (take n bs)) else Inl OutOfBounds)"
  by (induction bs n s rule: crc_loop.induct) auto

lemma foldl_crc_byte: "foldl crc_byte s bs = foldl lfsr s (concat (map byte_bits bs))"
  by (induction bs arbitrary: s) (simp_all add: crc_byte_lfsr)

section \<open>What the check detects\<close>

text \<open>
  A running check over bytes whose update loses nothing: neither two states nor two input
  bytes are confused by one update.
\<close>

locale running_check =
  fixes upd :: "'s \<Rightarrow> byte \<Rightarrow> 's"
  assumes upd_state: "upd s b = upd s' b \<longleftrightarrow> s = s'"
    and upd_byte: "upd s b = upd s b' \<longleftrightarrow> b = b'"
begin

lemma fold_state: "foldl upd s bs = foldl upd s' bs \<longleftrightarrow> s = s'"
  by (induction bs arbitrary: s s') (simp_all add: upd_state)

lemma one_byte_changed:
  "foldl upd s (xs @ b # ys) = foldl upd s (xs @ b' # ys) \<longleftrightarrow> b = b'"
  by (simp add: fold_state upd_byte)

end

lemma xor_left_cancel: "(a :: 'a :: len word) XOR b = a XOR c \<longleftrightarrow> b = c"
  by (metis xor.left_neutral xor.assoc xor_self_eq)

lemma xor_right_cancel: "(b :: 'a :: len word) XOR a = c XOR a \<longleftrightarrow> b = c"
  by (simp add: xor.commute [of _ a] xor_left_cancel)

lemma crc_shift_top: "bit (crc_shift c) 31 \<longleftrightarrow> bit c 0"
  by (simp add: crc_shift_bit bit_simps bit_u32_beyond)

lemma crc_shift_inj: "crc_shift c = crc_shift d \<longleftrightarrow> c = d"
proof
  assume eq: "crc_shift c = crc_shift d"
  then have low: "bit c 0 = bit d 0" using crc_shift_top by metis
  with eq have "drop_bit 1 c = drop_bit 1 d"
    by (auto simp: crc_shift_bit xor_right_cancel split: if_splits)
  then have "bit c (Suc n) = bit d (Suc n)" for n
    by (metis bit_drop_bit_eq o_apply plus_1_eq_Suc)
  with low show "c = d"
    by (intro bit_eqI) (metis not0_implies_Suc)
qed simp

lemma crc_shift_pow_inj: "(crc_shift ^^ n) c = (crc_shift ^^ n) d \<longleftrightarrow> c = d"
  by (induction n) (simp_all add: crc_shift_inj)

lemma ucast_byte_inj: "(ucast (b :: byte) :: u32) = ucast b' \<longleftrightarrow> b = b'"
proof
  assume "(ucast b :: u32) = ucast b'"
  then have "bit b n = bit b' n" if "n < 8" for n
    using that by (auto simp: bit_eq_iff bit_simps)
  then show "b = b'" by (intro bit_word_eqI) simp
qed simp

interpretation crc_check: running_check crc_byte
  by unfold_locales
    (simp_all add: crc_byte_shift crc_shift_pow_inj xor_left_cancel xor_right_cancel ucast_byte_inj)

section \<open>The routine as a whole\<close>

lemma crc32Input_run:
  "crc32Input data n s =
     (if n \<le> length data
      then let v = foldl crc_byte (NOT (s_crc32Value s)) (take n data)
           in Inr (NOT v, s\<lparr>s_crc32Value := v\<rparr>)
      else Inl OutOfBounds)"
  by (simp add: crc32Input_def prog_simps crc_loop_fold Let_def)

lemma crc32Reset_run: "crc32Reset s = Inr ((), s\<lparr>s_crc32Value := 0\<rparr>)"
  by (simp add: crc32Reset_def prog_simps)

lemma crc32_after_reset:
  "seqC crc32Reset (crc32Input data n) s =
     (if n \<le> length data
      then Inr (crc32_ref (take n data), s\<lparr>s_crc32Value := NOT (crc32_ref (take n data))\<rparr>)
      else Inl OutOfBounds)"
  by (simp add: prog_simps crc32Reset_run crc32Input_run crc32_ref_def foldl_crc_byte Let_def)

lemma crc32_ref_one_byte:
  "crc32_ref (xs @ b # ys) = crc32_ref (xs @ b' # ys) \<longleftrightarrow> b = b'"
proof -
  have "crc32_ref bs = NOT (foldl crc_byte (NOT 0) bs)" for bs
    by (simp add: crc32_ref_def foldl_crc_byte)
  then show ?thesis
    using crc_check.one_byte_changed [of "NOT 0" xs b ys b'] by auto
qed

text \<open>Evaluation on literals, and the published check value of CRC-32 as a test of the reference.\<close>

lemma crc_shift_eval:
  "crc_shift 0 = 0"
  "crc_shift 1 = 0xedb88320"
  "crc_shift (numeral k) =
     (if bit (numeral k :: u32) 0 then drop_bit 1 (numeral k) XOR 0xedb88320
      else drop_bit 1 (numeral k))"
  by (simp_all add: crc_shift_bit)

lemma funpow_8: "(f ^^ 8) x = f (f (f (f (f (f (f (f x)))))))"
  by (simp add: eval_nat_numeral)

lemmas crc_eval = crc_byte_shift crc_shift_eval funpow_8

lemma crc32_check_value: "crc32_ref (map of_char ''123456789'') = 0xCBF43926"
proof -
  have "foldl crc_byte 0xFFFFFFFF (map of_char ''123456789'') = 0x340BC6D9"
    by (simp add: crc_eval)
  moreover have "(NOT 0 :: u32) = 0xFFFFFFFF" by simp
  ultimately show ?thesis
    unfolding crc32_ref_def foldl_crc_byte [symmetric] by (simp only:) simp
qed

text \<open>
  C22: after \<open>crc32Reset\<close>, \<open>crc32Input\<close> over \<open>n\<close> bytes of an object returns the CRC-32 of
  those bytes as the bit-serial shift register defines it, and leaves its complement in the
  static variable; with more bytes requested than the object has, it reads out of bounds.
\<close>

theorem crc32_implements_reference:
  "seqC crc32Reset (crc32Input data n) s =
     (if n \<le> length data
      then Inr (crc32_ref (take n data), s\<lparr>s_crc32Value := NOT (crc32_ref (take n data))\<rparr>)
      else Inl OutOfBounds)"
  by (rule crc32_after_reset)

text \<open>
  C23: two objects that differ in exactly one byte never get the same CRC from
  \<open>crc32Reset\<close> and \<open>crc32Input\<close>: any corruption confined to one byte is detected.
\<close>

theorem crc32_detects_one_byte:
  assumes "b \<noteq> b'"
    and "seqC crc32Reset (crc32Input (xs @ b # ys) (length (xs @ b # ys))) s = Inr (v, t)"
    and "seqC crc32Reset (crc32Input (xs @ b' # ys) (length (xs @ b' # ys))) s' = Inr (v', t')"
  shows "v \<noteq> v'"
  using assms by (auto simp: crc32_after_reset crc32_ref_one_byte)

theorem crc32_detects_one_byte_witness:
  "\<exists>v v' t t'.
     seqC crc32Reset (crc32Input [0x12, 0x34] 2) \<lparr>regs = (\<lambda>_. 0), env = (), s_crc32Value = 7\<rparr> = Inr (v, t) \<and>
     seqC crc32Reset (crc32Input [0x13, 0x34] 2) \<lparr>regs = (\<lambda>_. 0), env = (), s_crc32Value = 7\<rparr> = Inr (v', t') \<and>
     v \<noteq> v'"
  using crc32_detects_one_byte [where b = "0x12" and b' = "0x13" and xs = "[]" and ys = "[0x34]"
      and s = "\<lparr>regs = (\<lambda>_. 0), env = (), s_crc32Value = 7\<rparr>"
      and s' = "\<lparr>regs = (\<lambda>_. 0), env = (), s_crc32Value = 7\<rparr>"]
  by (simp add: crc32_after_reset)

end
