(* ===== verification/Slot_Table.thy ===== *)
theory Slot_Table
  imports BSP_Prelude
begin

text \<open>
  The contract shared by the two handle tables of the program, the descriptor table of
  \<^verbatim>\<open>bsp_main.c\<close> and the log handle table of \<^verbatim>\<open>log.c\<close>: a fixed array of slots with an
  active flag, a search for the first free slot, and a way to claim and to release a slot.
\<close>

definition active_count :: "('a \<Rightarrow> bool) \<Rightarrow> 'a list \<Rightarrow> nat" where
  "active_count act t = length (filter act t)"

lemma active_count_simps [simp]:
  "active_count act [] = 0"
  "active_count act (x # t) = (if act x then Suc (active_count act t) else active_count act t)"
  by (simp_all add: active_count_def)

lemma active_count_le: "active_count act t \<le> length t"
  by (simp add: active_count_def)

lemma active_count_update:
  "i < length t \<Longrightarrow>
   active_count act (t[i := x]) + (if act (t ! i) then 1 else 0) =
   active_count act t + (if act x then 1 else 0)"
proof (induction t arbitrary: i)
  case (Cons y t)
  show ?case
  proof (cases i)
    case (Suc j)
    with Cons.prems Cons.IH [of j] show ?thesis by simp
  qed simp
qed simp

lemma active_count_full: "active_count act t = length t \<longleftrightarrow> (\<forall>x\<in>set t. act x)"
  unfolding active_count_def by (metis filter_True filter_id_conv length_filter_less nat_neq_iff)

locale slot_table =
  fixes active :: "'a \<Rightarrow> bool" and pick :: "'a list \<Rightarrow> nat option"
    and claim :: "'b \<Rightarrow> 'a \<Rightarrow> 'a" and release :: "'a \<Rightarrow> 'a"
  assumes pick_None: "pick t = None \<longleftrightarrow> (\<forall>x\<in>set t. active x)"
    and pick_Some: "pick t = Some i \<Longrightarrow> i < length t \<and> \<not> active (t ! i) \<and> (\<forall>j<i. active (t ! j))"
    and claim_active: "active (claim v x)"
    and release_inactive: "\<not> active (release x)"
begin

lemma claim_count:
  "pick t = Some i \<Longrightarrow> active_count active (t[i := claim v (t ! i)]) = Suc (active_count active t)"
  using active_count_update [of i t active "claim v (t ! i)"] pick_Some [of t i] claim_active [of v "t ! i"]
  by simp

lemma release_count:
  "i < length t \<Longrightarrow> active (t ! i) \<Longrightarrow>
   Suc (active_count active (t[i := release (t ! i)])) = active_count active t"
  using active_count_update [of i t active "release (t ! i)"] release_inactive [of "t ! i"] by simp

lemma pick_full: "pick t = None \<longleftrightarrow> active_count active t = length t"
  by (simp add: pick_None active_count_full)

lemma pick_free_slot: "active_count active t < length t \<Longrightarrow> \<exists>i. pick t = Some i"
  using pick_full [of t] by (cases "pick t") auto

text \<open>A slot given out is not given out again while it is active.\<close>

lemma pick_fresh:
  assumes "pick t = Some i" and "pick (t[i := claim v (t ! i)]) = Some j"
  shows "i \<noteq> j"
  using pick_Some [OF assms(1)] pick_Some [OF assms(2)] claim_active [of v "t ! i"] by auto

text \<open>Releasing the slot just given out makes the search find it again.\<close>

lemma pick_release:
  assumes "pick t = Some i"
  shows "pick (t[i := release (claim v (t ! i))]) = Some i"
proof -
  let ?t = "t[i := release (claim v (t ! i))]"
  have i: "i < length t" "\<forall>j<i. active (t ! j)" using pick_Some [OF assms] by auto
  then have free: "\<not> active (?t ! i)" by (simp add: release_inactive)
  moreover have "?t ! i \<in> set ?t" using i by (intro nth_mem) simp
  ultimately obtain j where j: "pick ?t = Some j"
    using pick_None [of ?t] by (cases "pick ?t") auto
  have "\<not> active (?t ! j)" "\<forall>k<j. active (?t ! k)" using pick_Some [OF j] by auto
  then have "\<not> i < j" and "\<not> j < i" using free i by (auto simp: nth_list_update)
  then show ?thesis using j by simp
qed

end

text \<open>The search both tables implement.\<close>

primrec free_slot :: "('a \<Rightarrow> bool) \<Rightarrow> 'a list \<Rightarrow> nat option" where
  "free_slot act [] = None"
| "free_slot act (x # t) = (if act x then map_option Suc (free_slot act t) else Some 0)"

lemma free_slot_None: "free_slot act t = None \<longleftrightarrow> (\<forall>x\<in>set t. act x)"
  by (induction t) auto

lemma free_slot_Some:
  "free_slot act t = Some i \<Longrightarrow> i < length t \<and> \<not> act (t ! i) \<and> (\<forall>j<i. act (t ! j))"
proof (induction t arbitrary: i)
  case (Cons x t)
  then show ?case
    by (auto split: if_splits simp: less_Suc_eq_0_disj)
qed simp

lemma free_slot_prefix:
  "(\<forall>x\<in>set t. act x) \<Longrightarrow> \<not> act y \<Longrightarrow> free_slot act (t @ y # u) = Some (length t)"
  by (induction t) auto

end
