(* ===== verification/BSP_Log.thy ===== *)
theory BSP_Log
  imports Libc_String Libc_Sprintf Libc_Delay Crc32 Slot_Table
begin

text \<open>
  \<^verbatim>\<open>src/libraries/log/log.c\<close>: the log handle table behind a semaphore, and the output
  paths to the system log and to the panic screen. The file's globals are the fields of
  \<open>log_state\<close>; the kernel calls go through the \<^typ>\<open>'s ios\<close> parameter.
\<close>

section \<open>State\<close>

record log_fd =
  lf_name :: bytes
  lf_unk1 :: u32
  lf_active :: bool
  lf_unk2 :: u32

record 'e log_state = "'e crc_state" +
  log_mutex :: u32
  log_fds :: "log_fd list"
  active_log_fds :: u32
  log_syslog_handle :: u32

text \<open>The initial values of the file's variables (\<^verbatim>\<open>.bss\<close> is zero).\<close>

definition log_fd_zero :: log_fd where
  "log_fd_zero = \<lparr>lf_name = replicate 16 0, lf_unk1 = 0, lf_active = False, lf_unk2 = 0\<rparr>"

section \<open>The handle table\<close>

definition log_get_fd :: "u32 \<Rightarrow> (('e, 'z) log_state_scheme, log_fd option) prog" where
  "log_get_fd handle =
     (if sint handle < 0x20
      then bindC (getsC log_fds) (\<lambda>fds.
             if sint handle < 0 then failC OutOfBounds
             else bindC (liftC (read_at fds (unat handle))) (\<lambda>fd.
                    returnC (if lf_active fd then Some fd else None)))
      else returnC None)"

text \<open>The search loop: the first free slot, unless an active slot has the name.\<close>

fun log_scan :: "log_fd list \<Rightarrow> bytes \<Rightarrow> nat \<Rightarrow> nat option \<Rightarrow> fault + nat option \<times> bool" where
  "log_scan [] name i ndx = Inr (ndx, False)"
| "log_scan (fd # fds) name i ndx =
     (if \<not> lf_active fd
      then log_scan fds name (Suc i) (if ndx = None then Some i else ndx)
      else bindF (strncmp (lf_name fd) name 16) (\<lambda>ret.
             if ret = 0 then Inr (Some i, True) else log_scan fds name (Suc i) ndx))"

definition log_open_failed :: "bytes \<Rightarrow> u32 \<Rightarrow> ('s, u32) prog" where
  "log_open_failed name unk1 =
     seqC (returnC (printf (lit ''LOG ERROR: log_open(%s, %d, ...) failed\<newline>'') (name, unk1)))
     (returnC (-1))"

definition log_claim :: "u32 \<times> u32 \<Rightarrow> log_fd \<Rightarrow> log_fd" where
  "log_claim u fd = fd\<lparr>lf_unk1 := fst u, lf_unk2 := snd u, lf_active := True\<rparr>"

definition log_open_locked ::
  "(('e, 'z) log_state_scheme) ios \<Rightarrow> bytes \<Rightarrow> u32 \<Rightarrow> u32 \<Rightarrow> (('e, 'z) log_state_scheme, u32) prog" where
  "log_open_locked os name unk1 unk2 =
     bindC (getsC log_fds) (\<lambda>fds.
     bindC (liftC (log_scan fds name 0 None)) (\<lambda>(ndx, found).
     case ndx of
       None \<Rightarrow>
         bindC (getsC log_mutex) (\<lambda>m.
         seqC (IOS_SignalSemaphore os m)
         (log_open_failed name unk1))
     | Some i \<Rightarrow>
         seqC (modifyC (\<lambda>s. s\<lparr>log_fds := (log_fds s)[i := (log_fds s ! i)\<lparr>lf_unk1 := unk1, lf_unk2 := unk2\<rparr>]\<rparr>))
         (seqC (if \<not> found
                then modifyC (\<lambda>s. s\<lparr>log_fds := (log_fds s)[i := (log_fds s ! i)\<lparr>lf_active := True\<rparr>],
                                    active_log_fds := active_log_fds s + 1\<rparr>)
                else returnC ())
         (bindC (getsC log_mutex) (\<lambda>m.
          seqC (IOS_SignalSemaphore os m)
          (returnC (of_nat i)))))))"

text \<open>The lazy creation of the mutex at the start of \<^verbatim>\<open>log_open\<close>.\<close>

definition log_mutex_init ::
  "(('e, 'z) log_state_scheme) ios \<Rightarrow> (('e, 'z) log_state_scheme, unit) prog" where
  "log_mutex_init os =
     bindC (getsC log_mutex) (\<lambda>m0.
     if neg32 m0
     then bindC (IOS_CreateSemaphore os 1 1) (\<lambda>m. modifyC (\<lambda>s. s\<lparr>log_mutex := m\<rparr>))
     else returnC ())"

definition log_open ::
  "(('e, 'z) log_state_scheme) ios \<Rightarrow> bytes \<Rightarrow> u32 \<Rightarrow> u32 \<Rightarrow> (('e, 'z) log_state_scheme, u32) prog" where
  "log_open os name unk1 unk2 =
     seqC (log_mutex_init os)
     (bindC (getsC log_mutex) (\<lambda>m.
      if neg32 m
      then seqC (returnC (printf (lit ''LOG ERROR: mutex init error!\<newline>'') ())) (returnC (-1))
      else
      bindC (IOS_WaitSemaphore os m 0) (\<lambda>err.
      if err \<noteq> IOS_ERROR_OK then log_open_failed name unk1
      else log_open_locked os name unk1 unk2)))"

section \<open>Output\<close>

text \<open>
  The timestamp and the caller's arguments reach the formatter as the abstract argument list
  \<open>ap\<close>, which the empty formatter of the repository does not look at. The time fields follow
  the source's arithmetic on 64- and 32-bit values.
\<close>

definition uptime_fields :: "u64 \<Rightarrow> u32 \<times> u32 \<times> u32 \<times> u32" where
  "uptime_fields uptime =
     (let msec = uptime div 1000;
          work0 = (msec AND 0xFFFFFFFF) div 1000;
          sec = ucast work0 :: u32;
          work1 = work0 div 60;
          min = ucast work1 :: u32;
          work2 = work1 div 60;
          hrs = ucast work2 :: u32
      in (hrs - hrs div 24 * 24, min - hrs * 60, sec - min * 60, ucast msec - sec * 1000))"

definition log_print_syslog ::
  "(('e, 'z) log_state_scheme) ios \<Rightarrow> bytes \<Rightarrow> 'ap \<Rightarrow> bool \<Rightarrow> (('e, 'z) log_state_scheme, u32) prog" where
  "log_print_syslog os fmt ap include_ts =
     bindC (getsC log_syslog_handle) (\<lambda>h0.
     seqC (if neg32 h0
           then bindC (IOS_Open os (lit ''/dev/syslog'') 0) (\<lambda>h. modifyC (\<lambda>s. s\<lparr>log_syslog_handle := h\<rparr>))
           else returnC ())
     (bindC (getsC log_syslog_handle) (\<lambda>h.
      if neg32 h then returnC IOS_ERROR_INVALID
      else
      bindC (IOS_HeapAlloc os 0xcaff 0x120) (\<lambda>str.
      case str of
        None \<Rightarrow> returnC IOS_ERROR_INVALID
      | Some str0 \<Rightarrow>
          bindC (if include_ts
                 then bindC (IOS_GetUpTime64 os) (\<lambda>uptime.
                        returnC (snprintf str0 0x100 (lit ''%02d:%02d:%02d:%03d: '') (uptime_fields uptime)))
                 else returnC (0, str0)) (\<lambda>(strOffset, str1).
          let (ret, tl) = vsnprintf (drop strOffset str1) (0x100 - strOffset) fmt ap;
              str2 = take strOffset str1 @ tl
          in if ret < 1 then returnC IOS_ERROR_INVALID
             else
             bindC (IOS_Write os h str2 (of_nat (strOffset + ret))) (\<lambda>err.
             seqC (IOS_HeapFree os 0xcaff)
             (returnC err)))))))"

definition log_panic ::
  "('s) ios \<Rightarrow> bytes \<Rightarrow> 'ap \<Rightarrow> ('s, unit) prog" where
  "log_panic os fmt ap =
     (let msg0 = replicate 128 0;
          (msg_size, msg) = vsnprintf msg0 128 fmt ap
      in seqC (IOS_Panic os msg (of_nat msg_size)) (failC NoReturn))"

definition log_print_syslog_ts ::
  "(('e, 'z) log_state_scheme) ios \<Rightarrow> bytes \<Rightarrow> 'ap \<Rightarrow> (('e, 'z) log_state_scheme, unit) prog" where
  "log_print_syslog_ts os fmt ap = seqC (log_print_syslog os fmt ap True) (returnC ())"

definition log_fatal ::
  "(('e, 'z) log_state_scheme) ios \<Rightarrow> u32 \<Rightarrow> bytes \<Rightarrow> bytes \<Rightarrow> u32 \<Rightarrow> bytes \<Rightarrow> 'ap \<Rightarrow>
   (('e, 'z) log_state_scheme, unit) prog" where
  "log_fatal os handle file fn line msg ap =
     bindC (log_get_fd handle) (\<lambda>fd.
     let msg0 = replicate 256 0;
         (off1, msg1) = (case fd of
            None \<Rightarrow> (0, msg0)
          | Some fd \<Rightarrow> snprintf msg0 256 (lit ''%s '') (lf_name fd))
     in bindC (IOS_GetCurrentThreadId os) (\<lambda>tid.
        bindC (IOS_GetCurrentProcessId os) (\<lambda>pid.
        let (r2, t2) = snprintf (drop off1 msg1) (256 - off1)
              (lit ''ASSERT: file=%s, function=%s(), line=%d, processID=%d, threadID=%d, '')
              (file, fn, line, pid, tid);
            msg2 = take off1 msg1 @ t2;
            off2 = off1 + r2;
            (r3, t3) = vsnprintf (drop off2 msg2) (256 - off2) msg ap;
            msg3 = take off2 msg2 @ t3
        in seqC (returnC (printf (lit ''\<newline>%s\<newline>'') msg3))
           (seqC (log_print_syslog_ts os (lit ''\<newline>%s\<newline>'') msg3)
           (seqC (delay_ticks os 100000)
           (log_panic os (lit ''\<newline>%s\<newline>'') msg3))))))"

section \<open>The table grows with every call\<close>

interpretation log_table: slot_table lf_active "free_slot lf_active" log_claim "\<lambda>fd. fd\<lparr>lf_active := False\<rparr>"
  by unfold_locales (auto simp: free_slot_None log_claim_def dest: free_slot_Some)

text \<open>
  What \<open>log_open\<close> needs of the kernel: its semaphore can be created, waited for and
  signalled, and these calls do not touch the caller's variables.
\<close>

definition semaphore_os :: "(('e, 'z) log_state_scheme) ios \<Rightarrow> bool" where
  "semaphore_os os \<longleftrightarrow>
     (\<forall>s. \<exists>h e. IOS_CreateSemaphore os 1 1 s = Inr (h, s\<lparr>env := e\<rparr>) \<and> \<not> neg32 h) \<and>
     (\<forall>m s. \<exists>e. IOS_WaitSemaphore os m 0 s = Inr (IOS_ERROR_OK, s\<lparr>env := e\<rparr>)) \<and>
     (\<forall>m. env_only (IOS_SignalSemaphore os m))"

lemma semaphore_os_quiet: "semaphore_os quiet_ios"
  using env_same by (auto simp: semaphore_os_def quiet_ios_def neg32_def returnC_def [of _ _])

text \<open>No slot of the table has a name: what \<^verbatim>\<open>.bss\<close> starts with and nothing changes.\<close>

definition unnamed :: "log_fd list \<Rightarrow> bool" where
  "unnamed fds \<longleftrightarrow> (\<forall>fd\<in>set fds. lf_name fd = replicate 16 0)"

lemma strncmp_unnamed:
  assumes "c \<noteq> 0"
  shows "\<exists>r. strncmp (replicate 16 0) (c # cs) 16 = Inr r \<and> r \<noteq> 0"
  using assms by (simp add: strncmp_scmp eval_nat_numeral uint_0_iff)

lemma log_scan_unnamed:
  assumes "unnamed fds" and "c \<noteq> 0"
  shows "log_scan fds (c # cs) i ndx =
     Inr (case ndx of Some k \<Rightarrow> Some k | None \<Rightarrow> map_option (\<lambda>j. i + j) (free_slot lf_active fds), False)"
  using assms(1)
proof (induction fds arbitrary: i ndx)
  case (Cons fd fds)
  obtain r where "strncmp (replicate 16 0) (c # cs) 16 = Inr r" "r \<noteq> 0"
    using strncmp_unnamed [OF assms(2)] by blast
  moreover have "(+) (Suc i) = (\<lambda>x. Suc (i + x))" by (simp add: fun_eq_iff)
  ultimately show ?case using Cons
    by (auto simp: unnamed_def option.map_comp o_def split: option.splits)
qed (simp split: option.splits)

lemma log_open_locked_run:
  assumes os: "semaphore_os os" and un: "unnamed (log_fds s)" and c: "c \<noteq> 0"
  shows "\<exists>e. log_open_locked os (c # cs) u1 u2 s =
     (case free_slot lf_active (log_fds s) of
        None \<Rightarrow> Inr (-1, s\<lparr>env := e\<rparr>)
      | Some i \<Rightarrow> Inr (of_nat i, s\<lparr>log_fds := (log_fds s)[i := log_claim (u1, u2) (log_fds s ! i)],
                                   active_log_fds := active_log_fds s + 1, env := e\<rparr>))"
proof -
  have sig: "\<And>m. env_only (IOS_SignalSemaphore os m)" using os by (simp add: semaphore_os_def)
  show ?thesis
  proof (cases "free_slot lf_active (log_fds s)")
    case None
    obtain r e where "IOS_SignalSemaphore os (log_mutex s) s = Inr (r, s\<lparr>env := e\<rparr>)"
      using sig by (rule env_onlyE)
    with None un c show ?thesis
      by (auto simp: log_open_locked_def prog_simps log_scan_unnamed log_open_failed_def)
  next
    case (Some i)
    then have i: "i < length (log_fds s)" by (auto dest: free_slot_Some)
    define s' where "s' = s\<lparr>log_fds := (log_fds s)[i := log_claim (u1, u2) (log_fds s ! i)],
      active_log_fds := active_log_fds s + 1\<rparr>"
    obtain r e where "IOS_SignalSemaphore os (log_mutex s) s' = Inr (r, s'\<lparr>env := e\<rparr>)"
      using sig by (rule env_onlyE)
    with Some un c i show ?thesis
      by (auto simp: log_open_locked_def prog_simps log_scan_unnamed log_claim_def s'_def intro!: exI)
  qed
qed

lemma log_open_run:
  assumes os: "semaphore_os os" and un: "unnamed (log_fds s)" and c: "c \<noteq> 0"
  shows "\<exists>m e. log_open os (c # cs) u1 u2 s =
     (case free_slot lf_active (log_fds s) of
        None \<Rightarrow> Inr (-1, s\<lparr>log_mutex := m, env := e\<rparr>)
      | Some i \<Rightarrow> Inr (of_nat i, s\<lparr>log_mutex := m,
                                   log_fds := (log_fds s)[i := log_claim (u1, u2) (log_fds s ! i)],
                                   active_log_fds := active_log_fds s + 1, env := e\<rparr>))"
proof -
  obtain m e where lk: "log_mutex_init os s = Inr ((), s\<lparr>log_mutex := m, env := e\<rparr>)" "\<not> neg32 m"
  proof (cases "neg32 (log_mutex s)")
    case True
    obtain h e where "IOS_CreateSemaphore os 1 1 s = Inr (h, s\<lparr>env := e\<rparr>)" "\<not> neg32 h"
      using os unfolding semaphore_os_def by blast
    with True that [of e h] show ?thesis by (simp add: log_mutex_init_def prog_simps)
  next
    case False
    with that [of "env s" "log_mutex s"] show ?thesis by (simp add: log_mutex_init_def prog_simps)
  qed
  obtain e2 where w: "IOS_WaitSemaphore os m 0 (s\<lparr>log_mutex := m, env := e\<rparr>) =
      Inr (IOS_ERROR_OK, s\<lparr>log_mutex := m, env := e2\<rparr>)"
  proof -
    have "\<And>t. \<exists>e. IOS_WaitSemaphore os m 0 t = Inr (IOS_ERROR_OK, t\<lparr>env := e\<rparr>)"
      using os unfolding semaphore_os_def by blast
    from this [of "s\<lparr>log_mutex := m, env := e\<rparr>"] that show ?thesis by auto
  qed
  have eq: "log_open os (c # cs) u1 u2 s =
      log_open_locked os (c # cs) u1 u2 (s\<lparr>log_mutex := m, env := e2\<rparr>)"
    using lk w by (simp add: log_open_def prog_simps)
  note run = log_open_locked_run [OF os, of "s\<lparr>log_mutex := m, env := e2\<rparr>" c cs u1 u2]
  show ?thesis
    by (cases "free_slot lf_active (log_fds s)") (use run un c eq in auto)
qed

text \<open>A sequence of openings, one per component that asks for a log handle.\<close>

fun log_open_all ::
  "(('e, 'z) log_state_scheme) ios \<Rightarrow> (bytes \<times> u32 \<times> u32) list \<Rightarrow>
   (('e, 'z) log_state_scheme, u32 list) prog" where
  "log_open_all os [] = returnC []"
| "log_open_all os ((name, u1, u2) # calls) =
     bindC (log_open os name u1 u2) (\<lambda>r.
     bindC (log_open_all os calls) (\<lambda>rs. returnC (r # rs)))"

definition nonempty_name :: "bytes \<Rightarrow> bool" where
  "nonempty_name name \<longleftrightarrow> name \<noteq> [] \<and> hd name \<noteq> 0"

lemma nonempty_nameE:
  assumes "nonempty_name name" obtains c cs where "name = c # cs" "c \<noteq> 0"
  using assms by (cases name) (auto simp: nonempty_name_def)

text \<open>The table while it fills up: \<open>k\<close> claimed slots, the rest as they started.\<close>

definition filled :: "nat \<Rightarrow> log_fd list \<Rightarrow> bool" where
  "filled k fds \<longleftrightarrow> length fds = 32 \<and> unnamed fds \<and> k \<le> 32 \<and>
     (\<forall>i<32. lf_active (fds ! i) \<longleftrightarrow> i < k)"

lemma filled_free_slot:
  assumes "filled k fds"
  shows "free_slot lf_active fds = (if k < 32 then Some k else None)"
proof (cases "free_slot lf_active fds")
  case None
  then have "\<forall>i<32. lf_active (fds ! i)"
    using assms by (auto simp: free_slot_None filled_def)
  with assms None show ?thesis by (auto simp: filled_def)
next
  case (Some i)
  from free_slot_Some [OF this] assms have "i < 32" "k \<le> i" "\<forall>j<i. j < k"
    by (auto simp: filled_def)
  then have "i = k" by (metis le_neq_implies_less less_irrefl)
  with Some \<open>i < 32\<close> show ?thesis by simp
qed

lemma filled_claim:
  assumes "filled k fds" "k < 32"
  shows "filled (Suc k) (fds[k := log_claim u (fds ! k)])"
  using assms
  by (auto simp: filled_def unnamed_def log_claim_def nth_list_update less_Suc_eq
      dest: in_set_conv_nth [THEN iffD1] set_update_subset_insert [THEN subsetD])

lemma log_open_filled:
  assumes os: "semaphore_os os" and k: "filled (min k 32) (log_fds s)" and nm: "nonempty_name name"
  shows "\<exists>s'. log_open os name u1 u2 s = Inr (if k < 32 then of_nat k else -1, s') \<and> filled (min (Suc k) 32) (log_fds s')"
proof -
  obtain c cs where name: "name = c # cs" "c \<noteq> 0" using nm by (auto elim: nonempty_nameE)
  have un: "unnamed (log_fds s)" using k by (simp add: filled_def)
  note run = log_open_run [OF os un name(2), of cs u1 u2, unfolded filled_free_slot [OF k]]
  show ?thesis
  proof (cases "k < 32")
    case True
    then show ?thesis using run filled_claim [of k "log_fds s"] k by (auto simp: name)
  next
    case False
    then show ?thesis using run k by (auto simp: name)
  qed
qed

lemma log_open_all_filled:
  assumes os: "semaphore_os os"
  shows "filled (min k 32) (log_fds s) \<Longrightarrow> list_all (\<lambda>(name, _). nonempty_name name) calls \<Longrightarrow>
     \<exists>s'. log_open_all os calls s =
       Inr (map (\<lambda>j. if j < 32 then of_nat j else -1) [k..<k + length calls], s')"
proof (induction calls arbitrary: k s)
  case Nil
  then show ?case by (simp add: prog_simps)
next
  case (Cons call calls)
  obtain name u1 u2 where call: "call = (name, u1, u2)" by (cases call) auto
  with Cons.prems obtain s1 where s1: "log_open os name u1 u2 s = Inr (if k < 32 then of_nat k else -1, s1)"
      "filled (min (Suc k) 32) (log_fds s1)"
    using log_open_filled [OF os, of k s name u1 u2] by auto
  from Cons.IH [OF s1(2)] Cons.prems(2) obtain s2 where "log_open_all os calls s1 =
      Inr (map (\<lambda>j. if j < 32 then of_nat j else -1) [Suc k..<Suc k + length calls], s2)" by auto
  moreover have "[k..<k + length (call # calls)] = k # [Suc k..<Suc k + length calls]"
    by (simp add: upt_conv_Cons del: upt_Suc)
  ultimately show ?case
    using s1(1) by (simp add: call bindC_def returnC_def del: upt_Suc)
qed

text \<open>
  C29: \<open>log_open\<close> hands out the table one slot per call: from the initial table, \<open>n\<close> calls with
  non-empty names return the handles 0, 1, 2, \<dots> and, from the 33rd call on, the error -1. The
  name is compared but never stored, so a second call with the same name takes a second slot.
\<close>

theorem log_open_exhausts_table:
  assumes "semaphore_os os" and "log_fds s = replicate 32 log_fd_zero"
    and "list_all (\<lambda>(name, _). nonempty_name name) calls"
  shows "\<exists>s'. log_open_all os calls s =
     Inr (map (\<lambda>j. if j < 32 then of_nat j else -1) [0..<length calls], s')"
proof -
  have "filled 0 (log_fds s)"
    by (simp add: assms(2) filled_def unnamed_def log_fd_zero_def)
  then show ?thesis
    using log_open_all_filled [OF assms(1) _ assms(3), of 0 s] by simp
qed

definition log_state0 :: "unit log_state" where
  "log_state0 = \<lparr>regs = (\<lambda>_. 0), env = (), s_crc32Value = 0, log_mutex = -1,
     log_fds = replicate 32 log_fd_zero, active_log_fds = 0, log_syslog_handle = IOS_ERROR_INVALID\<rparr>"

theorem log_open_exhausts_table_witness:
  "\<exists>s'. log_open_all quiet_ios (replicate 33 (lit ''BC'', 0, 1)) log_state0 =
     Inr (map of_nat [0..<32] @ [-1], s')"
proof -
  have split: "[0..<33] = [0..<32] @ [32]" by (simp add: upt_rec)
  have "\<exists>s'. log_open_all quiet_ios (replicate 33 (lit ''BC'', 0, 1)) log_state0 =
     Inr (map (\<lambda>j. if j < 32 then of_nat j else -1) [0..<length (replicate 33 (lit ''BC'', 0 :: u32, 1 :: u32))], s')"
    by (rule log_open_exhausts_table [OF semaphore_os_quiet])
      (simp_all add: log_state0_def nonempty_name_def lit_def list_all_iff)
  moreover have "map (\<lambda>j. if j < 32 then of_nat j else -1) [0..<32] = (map of_nat [0..<32] :: u32 list)"
    by (rule map_cong) auto
  ultimately show ?thesis by (simp add: split)
qed

end
