(* ===== verification/Entity.thy ===== *)
theory Entity
  imports BSP_Types BSP_Log
begin

text \<open>
  \<^verbatim>\<open>src/ios_bsp/libraries/bsp_entity/entity.c\<close>: the entity registry of the board support
  package and the five methods (read, query, write, init, shutdown) that clients call on
  an attribute of a registered entity, behind the permission check.

  A function pointer in an attribute is a method name of type \<open>'m\<close>; what the name stands for is
  the \<open>dispatch\<close> parameter, which the theories of the concrete entities provide. A null pointer
  is \<^term>\<open>None\<close>, an attribute array is a list, and walking past its end is the fault
  \<^const>\<open>OutOfBounds\<close>.
\<close>

section \<open>Data\<close>

record 'm bsp_attribute =
  a_pName :: "bytes option"
  a_options :: u32
  a_permissions :: u32
  a_data :: u32
  a_dataSize :: u32
  a_readMethod :: "'m option"
  a_queryMethod :: "'m option"
  a_writeMethod :: "'m option"
  a_initMethod :: "'m option"
  a_shutdownMethod :: "'m option"
  a_attribute_specific :: u32

record 'm bsp_entity =
  e_pName :: bytes
  e_version :: u32
  e_instanceCount :: u32
  e_options :: u32
  e_pAttributes :: "'m bsp_attribute list list"

record ('e, 'm) ent_state = "'e log_state" +
  bspEntityCount :: int
  bspEntityList :: "'m bsp_entity option list"

text \<open>What the function pointers of the attributes run, and the memory \<^verbatim>\<open>data\<close> points to.\<close>

record ('m, 's) dispatch =
  call_read :: "'m \<Rightarrow> u32 \<Rightarrow> 'm bsp_attribute \<Rightarrow> cptr \<Rightarrow> ('s, u32 \<times> cptr) prog"
  call_query :: "'m \<Rightarrow> u32 \<Rightarrow> 'm bsp_attribute \<Rightarrow> cptr \<Rightarrow> ('s, u32 \<times> cptr) prog"
  call_write :: "'m \<Rightarrow> u32 \<Rightarrow> 'm bsp_attribute \<Rightarrow> cptr \<Rightarrow> ('s, u32) prog"
  call_init :: "'m \<Rightarrow> u32 \<Rightarrow> 'm bsp_attribute \<Rightarrow> cptr \<Rightarrow> u32 \<Rightarrow> ('s, u32) prog"
  call_shutdown :: "'m \<Rightarrow> u32 \<Rightarrow> 'm bsp_attribute \<Rightarrow> ('s, u32) prog"
  load_mem :: "u32 \<Rightarrow> nat \<Rightarrow> ('s, bytes) prog"

section \<open>Lookup\<close>

fun find_entity_loop :: "bytes \<Rightarrow> 'm bsp_entity option list \<Rightarrow> nat \<Rightarrow> fault + u32 \<times> 'm bsp_entity option" where
  "find_entity_loop entityName ents 0 = Inr (BSP_RVAL_OK, None)"
| "find_entity_loop entityName [] (Suc n) = Inl OutOfBounds"
| "find_entity_loop entityName (None # ents) (Suc n) = Inl NullDeref"
| "find_entity_loop entityName (Some e # ents) (Suc n) =
     bindF (strncmp entityName (e_pName e) 32) (\<lambda>ret.
       if ret = 0 then Inr (BSP_RVAL_OK, Some e)
       else if ret < 0 then Inr (BSP_RVAL_UNKNOWN_ENTITY, None)
       else find_entity_loop entityName ents n)"

definition bspFindEntity ::
  "bytes \<Rightarrow> (('e, 'm, 'z) ent_state_scheme, u32 \<times> 'm bsp_entity option) prog" where
  "bspFindEntity entityName =
     bindC (getsC bspEntityCount) (\<lambda>count.
     if count = 0 then returnC (BSP_RVAL_UNKNOWN_ENTITY, None)
     else
     bindC (getsC bspEntityList) (\<lambda>ents.
     liftC (find_entity_loop entityName ents (nat count))))"

fun find_attribute_loop :: "bytes \<Rightarrow> 'm bsp_attribute list \<Rightarrow> fault + u32 \<times> 'm bsp_attribute option" where
  "find_attribute_loop attributeName [] = Inl OutOfBounds"
| "find_attribute_loop attributeName (a # as) =
     (case a_pName a of
        None \<Rightarrow> Inr (BSP_RVAL_UNKNOWN_ATTRIBUTE, None)
      | Some nm \<Rightarrow>
          bindF (strncmp attributeName nm 32) (\<lambda>ret.
            if ret = 0 then Inr (BSP_RVAL_OK, Some a) else find_attribute_loop attributeName as))"

definition attribute_array :: "'m bsp_entity \<Rightarrow> u32 \<Rightarrow> fault + 'm bsp_attribute list" where
  "attribute_array entity instance =
     (if e_options entity AND BSP_EO_FLAT_INSTANCES \<noteq> 0
      then read_at (e_pAttributes entity) 0
      else read_at (e_pAttributes entity) (unat instance))"

text \<open>The bits of the client's credentials that a command looks at; no bits for an unknown command.\<close>

definition command_mask :: "u32 \<Rightarrow> u32" where
  "command_mask attributeCommand =
     (if attributeCommand = BSP_IOCTL_METHOD_QUERY \<or> attributeCommand = BSP_IOCTL_METHOD_READ then
        BSP_PERMISSIONS_INTERNAL OR BSP_PERMISSIONS_PPC_SUPV_READ OR BSP_PERMISSIONS_PPC_USER_READ OR
        BSP_PERMISSIONS_IOS_SUPV_READ OR BSP_PERMISSIONS_IOS_USER_READ
      else if attributeCommand = BSP_IOCTL_METHOD_WRITE then
        BSP_PERMISSIONS_INTERNAL OR BSP_PERMISSIONS_PPC_SUPV_WRITE OR BSP_PERMISSIONS_PPC_USER_WRITE OR
        BSP_PERMISSIONS_IOS_SUPV_WRITE OR BSP_PERMISSIONS_IOS_USER_WRITE
      else if attributeCommand = BSP_IOCTL_METHOD_INIT then
        BSP_PERMISSIONS_INTERNAL OR BSP_PERMISSIONS_PPC_SUPV_INIT OR BSP_PERMISSIONS_PPC_USER_INIT OR
        BSP_PERMISSIONS_IOS_SUPV_INIT OR BSP_PERMISSIONS_IOS_USER_INIT
      else if attributeCommand = BSP_IOCTL_METHOD_SHUTDOWN then
        BSP_PERMISSIONS_INTERNAL OR BSP_PERMISSIONS_PPC_SUPV_SHUTDOWN OR BSP_PERMISSIONS_PPC_USER_SHUTDOWN OR
        BSP_PERMISSIONS_IOS_SUPV_SHUTDOWN OR BSP_PERMISSIONS_IOS_USER_SHUTDOWN
      else 0)"

text \<open>The part of \<^verbatim>\<open>bspFindAttribute\<close> after the lookup.\<close>

definition check_permission :: "u32 \<Rightarrow> 'm bsp_attribute option \<Rightarrow> u32 \<Rightarrow> u32 \<Rightarrow> u32" where
  "check_permission ret pA clientCredentials attributeCommand =
     (if clientCredentials AND BSP_PERMISSIONS_INTERNAL \<noteq> 0 then ret
      else case pA of
        None \<Rightarrow> ret
      | Some a \<Rightarrow>
          let permissions = (if a_permissions a AND BSP_PERMISSIONS_INTERNAL \<noteq> 0
                             then BSP_PERMISSIONS_INTERNAL else a_permissions a)
          in if clientCredentials AND command_mask attributeCommand AND permissions \<noteq> 0
             then ret else ret OR BSP_RVAL_REQUEST_DENIED)"

definition bspFindAttribute ::
  "bytes \<Rightarrow> u32 \<Rightarrow> bytes \<Rightarrow> u32 \<Rightarrow> u32 \<Rightarrow>
   (('e, 'm, 'z) ent_state_scheme, u32 \<times> 'm bsp_entity option \<times> 'm bsp_attribute option) prog" where
  "bspFindAttribute entityName instance attributeName clientCredentials attributeCommand =
     bindC (bspFindEntity entityName) (\<lambda>(ret, pE).
     if ret = BSP_RVAL_OK
     then derefC pE (\<lambda>entity.
       if instance \<ge> e_instanceCount entity then returnC (BSP_RVAL_INVALID_INSTANCE, pE, None)
       else
       bindC (liftC (read_at attributeName 0)) (\<lambda>c.
       if c = 0 then returnC (BSP_RVAL_OK, pE, None)
       else
       bindC (liftC (attribute_array entity instance)) (\<lambda>attribs.
       bindC (liftC (find_attribute_loop attributeName attribs)) (\<lambda>(found, pA).
       if found \<noteq> BSP_RVAL_OK then returnC (found, pE, None)
       else returnC (check_permission ret pA clientCredentials attributeCommand, pE, pA)))))
     else returnC (check_permission ret (None :: 'm bsp_attribute option) clientCredentials attributeCommand, pE, None))"

section \<open>Methods\<close>

definition bspMethodRead ::
  "('m, ('e, 'm, 'z) ent_state_scheme) dispatch \<Rightarrow> bytes \<Rightarrow> u32 \<Rightarrow> bytes \<Rightarrow> u32 \<Rightarrow> cptr \<Rightarrow> u32 \<Rightarrow>
   (('e, 'm, 'z) ent_state_scheme, u32 \<times> cptr) prog" where
  "bspMethodRead D entityName instance attributeName sz pReadData clientCredentials =
     bindC (bspFindAttribute entityName instance attributeName clientCredentials BSP_IOCTL_METHOD_READ)
     (\<lambda>(ret, pE, pA).
     if ret \<noteq> BSP_RVAL_OK then returnC (ret, pReadData)
     else derefC pA (\<lambda>a.
       if sz \<noteq> a_dataSize a then returnC (BSP_RVAL_SPECIFIED_SIZE_INVALID, pReadData)
       else case a_readMethod a of
         None \<Rightarrow> returnC (BSP_RVAL_UNSUPPORTED_METHOD, pReadData)
       | Some m \<Rightarrow> call_read D m instance a pReadData))"

definition bspReadInternal where
  "bspReadInternal D entityName instance attributeName sz pReadData =
     bspMethodRead D entityName instance attributeName sz pReadData BSP_PERMISSIONS_INTERNAL"

definition bspMethodQuery ::
  "('m, ('e, 'm, 'z) ent_state_scheme) dispatch \<Rightarrow> bytes \<Rightarrow> u32 \<Rightarrow> bytes \<Rightarrow> u32 \<Rightarrow> cptr \<Rightarrow> u32 \<Rightarrow>
   (('e, 'm, 'z) ent_state_scheme, u32 \<times> cptr) prog" where
  "bspMethodQuery D entityName instance attributeName sz pQueryData clientCredentials =
     bindC (bspFindAttribute entityName instance attributeName clientCredentials BSP_IOCTL_METHOD_QUERY)
     (\<lambda>(ret, pE, pA).
     if ret \<noteq> BSP_RVAL_OK then returnC (ret, pQueryData)
     else derefC pA (\<lambda>a.
       if sz \<noteq> a_dataSize a then returnC (BSP_RVAL_SPECIFIED_SIZE_INVALID, pQueryData)
       else case a_queryMethod a of
         Some m \<Rightarrow> call_query D m instance a pQueryData
       | None \<Rightarrow>
           if a_options a AND BSP_AO_QUERY_DATA_DIRECT \<noteq> 0
           then (if sz > 4 then returnC (BSP_RVAL_CFG_CORRUPTED, pQueryData)
                 else
                 bindC (liftC (store_ptr 0 (drop (4 - unat sz) (enc32 (a_data a))) pQueryData)) (\<lambda>p.
                 returnC (BSP_RVAL_OK, p)))
           else if a_options a AND BSP_AO_QUERY_DATA_INDIRECT \<noteq> 0
           then bindC (load_mem D (a_data a) (unat sz)) (\<lambda>bs.
                bindC (liftC (store_ptr 0 bs pQueryData)) (\<lambda>p.
                returnC (BSP_RVAL_OK, p)))
           else returnC (BSP_RVAL_QUERY_UNAVAILABLE, pQueryData)))"

definition bspQueryInternal where
  "bspQueryInternal D entityName instance attributeName sz pQueryData =
     bspMethodQuery D entityName instance attributeName sz pQueryData BSP_PERMISSIONS_INTERNAL"

definition bspMethodWrite ::
  "('m, ('e, 'm, 'z) ent_state_scheme) dispatch \<Rightarrow> bytes \<Rightarrow> u32 \<Rightarrow> bytes \<Rightarrow> u32 \<Rightarrow> cptr \<Rightarrow> u32 \<Rightarrow>
   (('e, 'm, 'z) ent_state_scheme, u32) prog" where
  "bspMethodWrite D entityName instance attributeName sz pWrittenData clientCredentials =
     bindC (bspFindAttribute entityName instance attributeName clientCredentials BSP_IOCTL_METHOD_WRITE)
     (\<lambda>(ret, pE, pA).
     if ret \<noteq> BSP_RVAL_OK then returnC ret
     else derefC pA (\<lambda>a.
       if sz \<noteq> a_dataSize a then returnC BSP_RVAL_SPECIFIED_SIZE_INVALID
       else case a_writeMethod a of
         None \<Rightarrow> returnC BSP_RVAL_UNSUPPORTED_METHOD
       | Some m \<Rightarrow> call_write D m instance a pWrittenData))"

definition bspWriteInternal where
  "bspWriteInternal D entityName instance attributeName sz pWrittenData =
     bspMethodWrite D entityName instance attributeName sz pWrittenData BSP_PERMISSIONS_INTERNAL"

text \<open>
  The \<^verbatim>\<open>while (pA->pName != NULL)\<close> loop of the global initialisation. Its two \<^verbatim>\<open>continue\<close>
  statements go back to the test with the same \<^verbatim>\<open>pA\<close>, as they do in the source.
\<close>

partial_function (option) init_global_loop ::
  "('m, 's) dispatch \<Rightarrow> u32 \<Rightarrow> 'm bsp_attribute list \<Rightarrow> u32 \<Rightarrow> 's \<Rightarrow> (fault + u32 \<times> 's) option" where
  "init_global_loop D instance pA ret s =
     (case pA of
        [] \<Rightarrow> Some (Inl OutOfBounds)
      | a # as \<Rightarrow>
          if a_pName a = None then Some (Inr (ret, s))
          else if a_initMethod a = None then init_global_loop D instance (a # as) ret s
          else if a_options a AND BSP_AO_INIT_GLOBAL = 0 then init_global_loop D instance (a # as) ret s
          else case call_init D (the (a_initMethod a)) instance a Null 0 s of
                 Inl e \<Rightarrow> Some (Inl e)
               | Inr (r, s') \<Rightarrow> init_global_loop D instance as (ret OR r) s')"

definition bspMethodInit ::
  "('m, ('e, 'm, 'z) ent_state_scheme) dispatch \<Rightarrow> bytes \<Rightarrow> u32 \<Rightarrow> bytes \<Rightarrow> u32 \<Rightarrow> cptr \<Rightarrow> u32 \<Rightarrow>
   (('e, 'm, 'z) ent_state_scheme, u32) prog" where
  "bspMethodInit D entityName instance attributeName sz pInitData clientCredentials =
     bindC (bspFindAttribute entityName instance attributeName clientCredentials BSP_IOCTL_METHOD_INIT)
     (\<lambda>(ret, pE, pA).
     if ret \<noteq> BSP_RVAL_OK then returnC ret
     else
     bindC (liftC (read_at attributeName 0)) (\<lambda>c.
     if c \<noteq> 0
     then derefC pA (\<lambda>a.
       case a_initMethod a of
         None \<Rightarrow> returnC BSP_RVAL_UNSUPPORTED_METHOD
       | Some m \<Rightarrow> call_init D m instance a pInitData sz)
     else derefC pE (\<lambda>entity.
       bindC (liftC (attribute_array entity instance)) (\<lambda>attribs.
       \<lambda>s. case init_global_loop D instance attribs ret s of
              None \<Rightarrow> Inl NoReturn
            | Some r \<Rightarrow> r))))"

definition bspInitInternal where
  "bspInitInternal D entityName instance attributeName sz pInitData =
     bspMethodInit D entityName instance attributeName sz pInitData BSP_PERMISSIONS_INTERNAL"

definition bspMethodShutdown ::
  "('m, ('e, 'm, 'z) ent_state_scheme) dispatch \<Rightarrow> bytes \<Rightarrow> u32 \<Rightarrow> bytes \<Rightarrow> u32 \<Rightarrow>
   (('e, 'm, 'z) ent_state_scheme, u32) prog" where
  "bspMethodShutdown D entityName instance attributeName clientCredentials =
     bindC (bspFindAttribute entityName instance attributeName clientCredentials BSP_IOCTL_METHOD_SHUTDOWN)
     (\<lambda>(ret, pE, pA).
     if ret \<noteq> BSP_RVAL_OK then returnC ret
     else derefC pA (\<lambda>a.
       case a_shutdownMethod a of
         None \<Rightarrow> returnC BSP_RVAL_UNSUPPORTED_METHOD
       | Some m \<Rightarrow> call_shutdown D m instance a))"

definition bspShutdownInternal where
  "bspShutdownInternal D entityName instance attributeName =
     bspMethodShutdown D entityName instance attributeName BSP_PERMISSIONS_INTERNAL"

definition bspGetEntityVersion ::
  "bytes \<Rightarrow> cptr \<Rightarrow> (('e, 'm, 'z) ent_state_scheme, u32 \<times> cptr) prog" where
  "bspGetEntityVersion entityName version =
     bindC (bspFindEntity entityName) (\<lambda>(ret, pE).
     if ret \<noteq> BSP_RVAL_OK then returnC (ret, version)
     else derefC pE (\<lambda>e.
       bindC (liftC (store_ptr 0 (enc32 (e_version e)) version)) (\<lambda>p.
       returnC (BSP_RVAL_OK, p))))"

section \<open>Well-formed registries\<close>

text \<open>
  A table need not end in an entry without a name, and those of the entities of the repository do not: a
  search in one that does not end so is safe for the names it holds.
\<close>

definition table_wf :: "'m bsp_attribute list \<Rightarrow> bool" where
  "table_wf tbl \<longleftrightarrow> list_all (\<lambda>a. case a_pName a of None \<Rightarrow> True | Some nm \<Rightarrow> readable 32 nm) tbl"

definition entity_wf :: "'m bsp_entity \<Rightarrow> bool" where
  "entity_wf e \<longleftrightarrow> readable 32 (e_pName e) \<and> list_all table_wf (e_pAttributes e) \<and>
     (if e_options e AND BSP_EO_FLAT_INSTANCES \<noteq> 0 then e_pAttributes e \<noteq> []
      else unat (e_instanceCount e) \<le> length (e_pAttributes e))"

definition registered :: "('e, 'm, 'z) ent_state_scheme \<Rightarrow> 'm bsp_entity list" where
  "registered s = map the (take (nat (bspEntityCount s)) (bspEntityList s))"

text \<open>
  The list is filled up to the counter, and ascending by name: the early exit of
  \<^verbatim>\<open>bspFindEntity\<close> on a smaller name relies on it.
\<close>

definition registry_wf :: "('e, 'm, 'z) ent_state_scheme \<Rightarrow> bool" where
  "registry_wf s \<longleftrightarrow> 0 < bspEntityCount s \<and> nat (bspEntityCount s) \<le> length (bspEntityList s) \<and>
     list_all (\<lambda>p. p \<noteq> None) (take (nat (bspEntityCount s)) (bspEntityList s)) \<and>
     list_all entity_wf (registered s) \<and>
     sorted_wrt (<) (map (\<lambda>e. strkey 32 (e_pName e)) (registered s))"

definition lookup_entity :: "bytes \<Rightarrow> 'm bsp_entity list \<Rightarrow> 'm bsp_entity option" where
  "lookup_entity nm es = find (\<lambda>e. strkey 32 (e_pName e) = strkey 32 nm) es"

text \<open>The names the search can decide: present, or smaller than some registered name.\<close>

definition decidable_name :: "bytes \<Rightarrow> 'm bsp_entity list \<Rightarrow> bool" where
  "decidable_name nm es \<longleftrightarrow> list_ex (\<lambda>e. strkey 32 nm \<le> strkey 32 (e_pName e)) es"

lemma find_entity_loop_spec:
  assumes "readable 32 nm" "list_all entity_wf es"
    "sorted_wrt (<) (map (\<lambda>e. strkey 32 (e_pName e)) es)"
  shows "find_entity_loop nm (map Some es @ rest) (length es) =
     Inr (case lookup_entity nm es of
            Some e \<Rightarrow> (BSP_RVAL_OK, Some e)
          | None \<Rightarrow> (if decidable_name nm es then BSP_RVAL_UNKNOWN_ENTITY else BSP_RVAL_OK, None))"
  using assms(2,3)
proof (induction es)
  case Nil
  then show ?case by (simp add: lookup_entity_def decidable_name_def)
next
  case (Cons e es)
  have e: "readable 32 (e_pName e)" using Cons.prems by (simp add: entity_wf_def)
  from assms(1) e show ?case
  proof (cases rule: strncmp32.cmpE)
    case same
    then show ?thesis by (simp add: lookup_entity_def)
  next
    case (before r)
    then have "lookup_entity nm (e # es) = None"
      using Cons.prems by (fastforce simp: lookup_entity_def find_None_iff)
    with before show ?thesis by (simp add: decidable_name_def less_imp_le)
  next
    case (after r)
    with Cons show ?thesis
      by (auto simp: lookup_entity_def decidable_name_def split: option.splits)
  qed
qed

lemma registered_list:
  assumes "registry_wf s"
  shows "bspEntityList s = map Some (registered s) @ drop (nat (bspEntityCount s)) (bspEntityList s)"
    and "length (registered s) = nat (bspEntityCount s)"
proof -
  let ?l = "take (nat (bspEntityCount s)) (bspEntityList s)"
  have "map Some (map the ?l) = ?l"
    using assms by (auto simp: registry_wf_def list_all_iff intro!: map_idI)
  then show "bspEntityList s = map Some (registered s) @ drop (nat (bspEntityCount s)) (bspEntityList s)"
    by (metis append_take_drop_id registered_def)
  show "length (registered s) = nat (bspEntityCount s)"
    using assms by (simp add: registered_def registry_wf_def)
qed

lemma bspFindEntity_run:
  assumes wf: "registry_wf s" and nm: "readable 32 nm"
  shows "bspFindEntity nm s =
     Inr (case lookup_entity nm (registered s) of
            Some e \<Rightarrow> (BSP_RVAL_OK, Some e)
          | None \<Rightarrow> (if decidable_name nm (registered s) then BSP_RVAL_UNKNOWN_ENTITY else BSP_RVAL_OK, None),
          s)"
proof -
  have "find_entity_loop nm (bspEntityList s) (nat (bspEntityCount s)) =
     Inr (case lookup_entity nm (registered s) of
            Some e \<Rightarrow> (BSP_RVAL_OK, Some e)
          | None \<Rightarrow> (if decidable_name nm (registered s) then BSP_RVAL_UNKNOWN_ENTITY else BSP_RVAL_OK, None))"
    using find_entity_loop_spec [OF nm, of "registered s"] wf registered_list [OF wf]
    by (metis registry_wf_def)
  then show ?thesis
    using wf by (simp add: bspFindEntity_def prog_simps registry_wf_def)
qed

lemma lookup_entity_member: "lookup_entity nm es = Some e \<Longrightarrow> e \<in> set es"
  by (auto simp: lookup_entity_def find_Some_iff)

lemma lookup_entity_name: "lookup_entity nm es = Some e \<Longrightarrow> strkey 32 (e_pName e) = strkey 32 nm"
  by (auto simp: lookup_entity_def find_Some_iff)

lemma lookup_entity_decidable: "lookup_entity nm es = Some e \<Longrightarrow> decidable_name nm es"
  using lookup_entity_member [of nm es e] lookup_entity_name [of nm es e]
  by (auto simp: decidable_name_def list_ex_iff intro: bexI [of _ e])

section \<open>Attributes\<close>

definition named_attributes :: "'m bsp_attribute list \<Rightarrow> 'm bsp_attribute list" where
  "named_attributes tbl = takeWhile (\<lambda>a. a_pName a \<noteq> None) tbl"

definition has_name :: "bytes \<Rightarrow> 'm bsp_attribute \<Rightarrow> bool" where
  "has_name nm a \<longleftrightarrow> map_option (strkey 32) (a_pName a) = Some (strkey 32 nm)"

definition lookup_attribute :: "bytes \<Rightarrow> 'm bsp_attribute list \<Rightarrow> 'm bsp_attribute option" where
  "lookup_attribute nm tbl = find (has_name nm) (named_attributes tbl)"

lemma find_attribute_loop_spec:
  assumes "readable 32 nm"
    and "list_all (\<lambda>a. case a_pName a of None \<Rightarrow> True | Some n \<Rightarrow> readable 32 n) tbl"
  shows "find_attribute_loop nm tbl =
     (case lookup_attribute nm tbl of
        Some a \<Rightarrow> Inr (BSP_RVAL_OK, Some a)
      | None \<Rightarrow> if list_ex (\<lambda>a. a_pName a = None) tbl
                then Inr (BSP_RVAL_UNKNOWN_ATTRIBUTE, None) else Inl OutOfBounds)"
  using assms(2)
proof (induction tbl)
  case Nil
  then show ?case by (simp add: lookup_attribute_def named_attributes_def)
next
  case (Cons a tbl)
  show ?case
  proof (cases "a_pName a")
    case None
    then show ?thesis by (simp add: lookup_attribute_def named_attributes_def)
  next
    case (Some n)
    then have "readable 32 n" using Cons.prems by simp
    with assms(1) show ?thesis
      by (cases rule: strncmp32.cmpE)
        (use Cons Some in \<open>auto simp: lookup_attribute_def named_attributes_def has_name_def
           split: option.splits\<close>)
  qed
qed

text \<open>The names a search of the table can decide: present, or the table ends in an entry without a name.\<close>

definition search_ends :: "bytes \<Rightarrow> 'm bsp_attribute list \<Rightarrow> bool" where
  "search_ends anm tbl \<longleftrightarrow> list_ex (\<lambda>a. a_pName a = None \<or> has_name anm a) tbl"

lemma search_ends_None:
  assumes "search_ends anm tbl" "lookup_attribute anm tbl = None"
  shows "list_ex (\<lambda>a. a_pName a = None) tbl"
proof (rule ccontr)
  assume "\<not> list_ex (\<lambda>a. a_pName a = None) tbl"
  then have named: "\<forall>a \<in> set tbl. a_pName a \<noteq> None" by (simp add: list_ex_iff)
  then have "named_attributes tbl = tbl" by (simp add: named_attributes_def takeWhile_eq_all_conv)
  with assms(2) have "\<forall>a \<in> set tbl. \<not> has_name anm a" by (simp add: lookup_attribute_def find_None_iff)
  with assms(1) named show False by (auto simp: search_ends_def list_ex_iff)
qed

lemma search_ends_Some: "lookup_attribute anm tbl = Some a \<Longrightarrow> search_ends anm tbl"
  by (auto simp: lookup_attribute_def named_attributes_def search_ends_def list_ex_iff find_Some_iff
      dest!: nth_mem set_takeWhileD)

lemma attribute_array_wf:
  assumes "entity_wf e" "inst < e_instanceCount e"
  obtains tbl where "attribute_array e inst = Inr tbl" "table_wf tbl" "tbl \<in> set (e_pAttributes e)"
proof -
  define i where "i = (if e_options e AND BSP_EO_FLAT_INSTANCES \<noteq> 0 then 0 else unat inst)"
  have "i < length (e_pAttributes e)"
    using assms by (auto simp: i_def entity_wf_def word_less_nat_alt split: if_splits)
  moreover have "attribute_array e inst = read_at (e_pAttributes e) i"
    by (simp add: attribute_array_def i_def)
  ultimately show ?thesis
    using that assms(1) by (simp add: entity_wf_def list_all_iff)
qed


section \<open>Permissions\<close>

text \<open>
  Who may do what: the board support package itself may do everything; anybody else needs, for
  the command, a credential bit that the attribute grants, and an attribute marked internal grants
  nothing.
\<close>

definition permitted :: "u32 \<Rightarrow> u32 \<Rightarrow> 'm bsp_attribute \<Rightarrow> bool" where
  "permitted cred cmd a \<longleftrightarrow> bit cred 31 \<or>
     (\<not> bit (a_permissions a) 31 \<and>
      (\<exists>n<31. bit cred n \<and> bit (command_mask cmd) n \<and> bit (a_permissions a) n))"

lemma bit_internal: "w AND BSP_PERMISSIONS_INTERNAL \<noteq> 0 \<longleftrightarrow> bit w 31" for w :: u32
proof -
  have "BSP_PERMISSIONS_INTERNAL = push_bit 31 (1 :: u32)" by simp
  then show ?thesis
    by (simp only: and_exp_eq_0_iff_not_bit push_bit_eq_mult mult_1) simp
qed

lemma word_neq_0_bit: "w \<noteq> 0 \<longleftrightarrow> (\<exists>n<32. bit w n)" for w :: u32
  by (auto simp: bit_eq_iff)

lemma ex_less_32: "(\<exists>n<32. P n) \<longleftrightarrow> P 31 \<or> (\<exists>n<31. P n)" for P :: "nat \<Rightarrow> bool"
  using Ex_less_Suc [of 31 P] by (simp add: disj_commute)

lemma check_permission_OK:
  "check_permission BSP_RVAL_OK (Some a) cred cmd =
     (if permitted cred cmd a then BSP_RVAL_OK else BSP_RVAL_REQUEST_DENIED)"
proof -
  consider (internal) "bit cred 31" | (hidden) "\<not> bit cred 31" "bit (a_permissions a) 31"
    | (open_attr) "\<not> bit cred 31" "\<not> bit (a_permissions a) 31" by blast
  then show ?thesis
  proof cases
    case internal
    then show ?thesis by (simp only: check_permission_def bit_internal permitted_def) simp
  next
    case hidden
    have "cred AND BSP_PERMISSIONS_INTERNAL = 0" using bit_internal [of cred] hidden(1) by blast
    then have "cred AND command_mask cmd AND BSP_PERMISSIONS_INTERNAL = 0"
      by (subst and.left_commute) simp
    with hidden show ?thesis
      by (simp only: check_permission_def bit_internal permitted_def option.simps Let_def) simp
  next
    case open_attr
    have "cred AND command_mask cmd AND a_permissions a \<noteq> 0 \<longleftrightarrow>
        (\<exists>n<31. bit cred n \<and> bit (command_mask cmd) n \<and> bit (a_permissions a) n)"
      using open_attr unfolding word_neq_0_bit ex_less_32 by (simp add: bit_and_iff)
    with open_attr show ?thesis
      by (simp only: check_permission_def bit_internal permitted_def option.simps Let_def if_False)
         auto
  qed
qed


lemma permitted_iff: "permitted cred cmd a \<longleftrightarrow> check_permission BSP_RVAL_OK (Some a) cred cmd = BSP_RVAL_OK"
  by (simp add: check_permission_OK)

section \<open>The contract of the lookup\<close>

definition attribute_table :: "'m bsp_entity \<Rightarrow> u32 \<Rightarrow> 'm bsp_attribute list" where
  "attribute_table e inst =
     e_pAttributes e ! (if e_options e AND BSP_EO_FLAT_INSTANCES \<noteq> 0 then 0 else unat inst)"

text \<open>What a lookup answers, over the registered entities as a set of named tables.\<close>

definition find_attribute_spec ::
  "'m bsp_entity list \<Rightarrow> bytes \<Rightarrow> u32 \<Rightarrow> bytes \<Rightarrow> u32 \<Rightarrow> u32 \<Rightarrow>
   u32 \<times> 'm bsp_entity option \<times> 'm bsp_attribute option" where
  "find_attribute_spec es nm inst anm cred cmd =
     (case lookup_entity nm es of
        None \<Rightarrow> (BSP_RVAL_UNKNOWN_ENTITY, None, None)
      | Some e \<Rightarrow>
          if e_instanceCount e \<le> inst then (BSP_RVAL_INVALID_INSTANCE, Some e, None)
          else if cstring anm = [] then (BSP_RVAL_OK, Some e, None)
          else case lookup_attribute anm (attribute_table e inst) of
                 None \<Rightarrow> (BSP_RVAL_UNKNOWN_ATTRIBUTE, Some e, None)
               | Some a \<Rightarrow> (if permitted cred cmd a then BSP_RVAL_OK else BSP_RVAL_REQUEST_DENIED,
                             Some e, Some a))"

lemma attribute_array_table:
  assumes "entity_wf e" "inst < e_instanceCount e"
  shows "attribute_array e inst = Inr (attribute_table e inst)" "table_wf (attribute_table e inst)"
proof -
  obtain tbl where "attribute_array e inst = Inr tbl" "table_wf tbl"
    using attribute_array_wf [OF assms] by blast
  moreover from this have "tbl = attribute_table e inst"
    by (auto simp: attribute_array_def attribute_table_def read_at_Inr_iff split: if_splits)
  ultimately show "attribute_array e inst = Inr (attribute_table e inst)"
    "table_wf (attribute_table e inst)" by simp_all
qed

lemma readable_first: "readable 32 nm \<Longrightarrow> read_at nm 0 = Inr (nm ! 0) \<and> (nm ! 0 = 0 \<longleftrightarrow> cstring nm = [])"
  by (cases nm) (auto simp: readable_def)

lemma find_attribute_loop_wf:
  assumes "readable 32 nm" "table_wf tbl" "search_ends nm tbl"
  shows "find_attribute_loop nm tbl =
     Inr (case lookup_attribute nm tbl of
            Some a \<Rightarrow> (BSP_RVAL_OK, Some a) | None \<Rightarrow> (BSP_RVAL_UNKNOWN_ATTRIBUTE, None))"
  using find_attribute_loop_spec [OF assms(1), of tbl] assms(2) search_ends_None [OF assms(3)]
  by (simp add: table_wf_def split: option.splits)

text \<open>The attribute names the lookup can decide, in the table of the entity and the instance.\<close>

definition decidable_attribute :: "bytes \<Rightarrow> u32 \<Rightarrow> bytes \<Rightarrow> 'm bsp_entity list \<Rightarrow> bool" where
  "decidable_attribute nm inst anm es \<longleftrightarrow> cstring anm = [] \<or>
     (case lookup_entity nm es of
        None \<Rightarrow> True
      | Some e \<Rightarrow> e_instanceCount e \<le> inst \<or> search_ends anm (attribute_table e inst))"

lemma bspFindAttribute_spec:
  assumes "registry_wf s" "readable 32 nm" "readable 32 anm" "decidable_name nm (registered s)"
    and "decidable_attribute nm inst anm (registered s)"
  shows "bspFindAttribute nm inst anm cred cmd s =
     Inr (find_attribute_spec (registered s) nm inst anm cred cmd, s)"
proof (cases "lookup_entity nm (registered s)")
  case None
  then show ?thesis
    using assms by (simp add: bspFindAttribute_def bindC_def bspFindEntity_run find_attribute_spec_def
        returnC_def check_permission_def)
next
  case (Some e)
  then have "entity_wf e"
    using assms(1) lookup_entity_member by (force simp: registry_wf_def list_all_iff)
  note array = attribute_array_table [OF this]
  show ?thesis
    using assms Some readable_first [OF assms(3)]
    by (cases "inst < e_instanceCount e"; cases "cstring anm = []";
        cases "lookup_attribute anm (attribute_table e inst)")
      (simp_all add: bspFindAttribute_def prog_simps bspFindEntity_run find_attribute_spec_def decidable_attribute_def
        array find_attribute_loop_wf check_permission_OK not_less [symmetric])
qed


section \<open>What runs a method\<close>

text \<open>The attribute a request reaches, when it passes every check of the lookup.\<close>

definition reaches :: "'m bsp_entity list \<Rightarrow> bytes \<Rightarrow> u32 \<Rightarrow> bytes \<Rightarrow> u32 \<Rightarrow> u32 \<Rightarrow> 'm bsp_attribute \<Rightarrow> bool" where
  "reaches es nm inst anm cred cmd a \<longleftrightarrow>
     (\<exists>e. lookup_entity nm es = Some e \<and> inst < e_instanceCount e \<and>
          lookup_attribute anm (attribute_table e inst) = Some a \<and> permitted cred cmd a)"

lemma find_attribute_spec_cases:
  assumes "cstring anm \<noteq> []"
  obtains (reached) e a where "find_attribute_spec es nm inst anm cred cmd = (BSP_RVAL_OK, Some e, Some a)"
      "reaches es nm inst anm cred cmd a"
  | (refused) ret pE pA where "find_attribute_spec es nm inst anm cred cmd = (ret, pE, pA)"
      "ret \<noteq> BSP_RVAL_OK" "\<And>a. \<not> reaches es nm inst anm cred cmd a"
  using assms that
  by (fastforce simp: find_attribute_spec_def reaches_def not_le split: option.splits if_splits)

lemma reaches_inject:
  "reaches es nm inst anm cred cmd a \<Longrightarrow> reaches es nm inst anm cred cmd a' \<Longrightarrow> a = a'"
  by (auto simp: reaches_def)

text \<open>The requests the lookup answers without a fault.\<close>

definition answerable :: "('e, 'm, 'z) ent_state_scheme \<Rightarrow> bytes \<Rightarrow> u32 \<Rightarrow> bytes \<Rightarrow> bool" where
  "answerable s nm inst anm \<longleftrightarrow> registry_wf s \<and> readable 32 nm \<and> readable 32 anm \<and>
     decidable_name nm (registered s) \<and> decidable_attribute nm inst anm (registered s) \<and> cstring anm \<noteq> []"

lemma reaches_answerable:
  "registry_wf s \<Longrightarrow> readable 32 nm \<Longrightarrow> readable 32 anm \<Longrightarrow> cstring anm \<noteq> [] \<Longrightarrow>
   reaches (registered s) nm inst anm cred cmd a \<Longrightarrow> answerable s nm inst anm"
  by (auto simp: answerable_def reaches_def decidable_attribute_def dest: lookup_entity_decidable search_ends_Some)

lemma answerable_lookup:
  "answerable s nm inst anm \<Longrightarrow>
   bspFindAttribute nm inst anm cred cmd s = Inr (find_attribute_spec (registered s) nm inst anm cred cmd, s)"
  by (simp add: answerable_def bspFindAttribute_spec)

lemma refused_lookup:
  assumes "answerable s nm inst anm" "\<And>a. \<not> reaches (registered s) nm inst anm cred cmd a"
  obtains ret pE pA where "bspFindAttribute nm inst anm cred cmd s = Inr ((ret, pE, pA), s)" "ret \<noteq> BSP_RVAL_OK"
proof -
  have "cstring anm \<noteq> []" using assms(1) by (simp add: answerable_def)
  then show thesis
    using that answerable_lookup [OF assms(1), of cred cmd] assms(2)
    by (cases rule: find_attribute_spec_cases [of anm "registered s" nm inst cred cmd]) simp_all
qed

lemma reached_lookup:
  assumes "answerable s nm inst anm" "reaches (registered s) nm inst anm cred cmd a"
  obtains e where "bspFindAttribute nm inst anm cred cmd s = Inr ((BSP_RVAL_OK, Some e, Some a), s)"
proof -
  have "cstring anm \<noteq> []" using assms(1) by (simp add: answerable_def)
  then show thesis
  proof (cases rule: find_attribute_spec_cases [of anm "registered s" nm inst cred cmd])
    case (reached e b)
    then have "b = a" using assms(2) reaches_inject by metis
    with reached that answerable_lookup [OF assms(1), of cred cmd] show thesis by simp
  next
    case refused
    with assms(2) show thesis by simp
  qed
qed

lemma reached_read:
  assumes "answerable s nm inst anm" "reaches (registered s) nm inst anm cred BSP_IOCTL_METHOD_READ a"
  shows "bspMethodRead D nm inst anm sz p cred s =
     (if sz \<noteq> a_dataSize a then Inr ((BSP_RVAL_SPECIFIED_SIZE_INVALID, p), s)
      else case a_readMethod a of
        None \<Rightarrow> Inr ((BSP_RVAL_UNSUPPORTED_METHOD, p), s)
      | Some m \<Rightarrow> call_read D m inst a p s)"
  by (rule reached_lookup [OF assms])
     (simp add: bspMethodRead_def prog_simps split: option.split)

lemma reached_write:
  assumes "answerable s nm inst anm" "reaches (registered s) nm inst anm cred BSP_IOCTL_METHOD_WRITE a"
  shows "bspMethodWrite D nm inst anm sz p cred s =
     (if sz \<noteq> a_dataSize a then Inr (BSP_RVAL_SPECIFIED_SIZE_INVALID, s)
      else case a_writeMethod a of
        None \<Rightarrow> Inr (BSP_RVAL_UNSUPPORTED_METHOD, s)
      | Some m \<Rightarrow> call_write D m inst a p s)"
  by (rule reached_lookup [OF assms])
     (simp add: bspMethodWrite_def prog_simps split: option.split)

lemma reached_init:
  assumes "answerable s nm inst anm" "reaches (registered s) nm inst anm cred BSP_IOCTL_METHOD_INIT a"
  shows "bspMethodInit D nm inst anm sz p cred s =
     (case a_initMethod a of
        None \<Rightarrow> Inr (BSP_RVAL_UNSUPPORTED_METHOD, s)
      | Some m \<Rightarrow> call_init D m inst a p sz s)"
proof -
  have "read_at anm 0 = Inr (anm ! 0)" "anm ! 0 \<noteq> 0"
    using readable_first [of anm] assms(1) by (simp_all add: answerable_def)
  then show ?thesis
    by (rule_tac reached_lookup [OF assms])
       (simp add: bspMethodInit_def prog_simps split: option.split)
qed

lemma reached_shutdown:
  assumes "answerable s nm inst anm" "reaches (registered s) nm inst anm cred BSP_IOCTL_METHOD_SHUTDOWN a"
  shows "bspMethodShutdown D nm inst anm cred s =
     (case a_shutdownMethod a of
        None \<Rightarrow> Inr (BSP_RVAL_UNSUPPORTED_METHOD, s)
      | Some m \<Rightarrow> call_shutdown D m inst a s)"
  by (rule reached_lookup [OF assms])
     (simp add: bspMethodShutdown_def prog_simps split: option.split)

text \<open>A query of an attribute that has no query function.\<close>

definition query_data :: "('m, 's) dispatch \<Rightarrow> 'm bsp_attribute \<Rightarrow> u32 \<Rightarrow> cptr \<Rightarrow> ('s, u32 \<times> cptr) prog" where
  "query_data D a sz p =
     (if a_options a AND BSP_AO_QUERY_DATA_DIRECT \<noteq> 0
      then (if sz > 4 then returnC (BSP_RVAL_CFG_CORRUPTED, p)
            else bindC (liftC (store_ptr 0 (drop (4 - unat sz) (enc32 (a_data a))) p)) (\<lambda>q.
                 returnC (BSP_RVAL_OK, q)))
      else if a_options a AND BSP_AO_QUERY_DATA_INDIRECT \<noteq> 0
      then bindC (load_mem D (a_data a) (unat sz)) (\<lambda>bs.
           bindC (liftC (store_ptr 0 bs p)) (\<lambda>q. returnC (BSP_RVAL_OK, q)))
      else returnC (BSP_RVAL_QUERY_UNAVAILABLE, p))"

lemma reached_query:
  assumes "answerable s nm inst anm" "reaches (registered s) nm inst anm cred BSP_IOCTL_METHOD_QUERY a"
  shows "bspMethodQuery D nm inst anm sz p cred s =
     (if sz \<noteq> a_dataSize a then Inr ((BSP_RVAL_SPECIFIED_SIZE_INVALID, p), s)
      else case a_queryMethod a of
        Some m \<Rightarrow> call_query D m inst a p s
      | None \<Rightarrow> query_data D a sz p s)"
proof -
  obtain e where "bspFindAttribute nm inst anm cred BSP_IOCTL_METHOD_QUERY s = Inr ((BSP_RVAL_OK, Some e, Some a), s)"
    by (rule reached_lookup [OF assms])
  then show ?thesis
    by (cases "sz = a_dataSize a")
       (simp_all add: bspMethodQuery_def query_data_def bindC_def [of "bspFindAttribute _ _ _ _ _"] derefC_def
         returnC_def split: option.split)
qed

text \<open>The five methods as one request, and what a granted request does to its attribute.\<close>

definition method_command :: "u32 \<Rightarrow> bool" where
  "method_command cmd \<longleftrightarrow> cmd \<in> {BSP_IOCTL_METHOD_READ, BSP_IOCTL_METHOD_QUERY, BSP_IOCTL_METHOD_WRITE,
     BSP_IOCTL_METHOD_INIT, BSP_IOCTL_METHOD_SHUTDOWN}"

definition request ::
  "('m, ('e, 'm, 'z) ent_state_scheme) dispatch \<Rightarrow> u32 \<Rightarrow> bytes \<Rightarrow> u32 \<Rightarrow> bytes \<Rightarrow> u32 \<Rightarrow> cptr \<Rightarrow> u32 \<Rightarrow>
   (('e, 'm, 'z) ent_state_scheme, u32 \<times> cptr) prog" where
  "request D cmd nm inst anm sz p cred =
     (if cmd = BSP_IOCTL_METHOD_READ then bspMethodRead D nm inst anm sz p cred
      else if cmd = BSP_IOCTL_METHOD_QUERY then bspMethodQuery D nm inst anm sz p cred
      else if cmd = BSP_IOCTL_METHOD_WRITE
      then bindC (bspMethodWrite D nm inst anm sz p cred) (\<lambda>r. returnC (r, p))
      else if cmd = BSP_IOCTL_METHOD_INIT
      then bindC (bspMethodInit D nm inst anm sz p cred) (\<lambda>r. returnC (r, p))
      else bindC (bspMethodShutdown D nm inst anm cred) (\<lambda>r. returnC (r, p)))"

definition perform ::
  "('m, 's) dispatch \<Rightarrow> u32 \<Rightarrow> 'm bsp_attribute \<Rightarrow> u32 \<Rightarrow> u32 \<Rightarrow> cptr \<Rightarrow> ('s, u32 \<times> cptr) prog" where
  "perform D cmd a inst sz p =
     (if cmd \<notin> {BSP_IOCTL_METHOD_INIT, BSP_IOCTL_METHOD_SHUTDOWN} \<and> sz \<noteq> a_dataSize a
      then returnC (BSP_RVAL_SPECIFIED_SIZE_INVALID, p)
      else if cmd = BSP_IOCTL_METHOD_QUERY
      then (case a_queryMethod a of None \<Rightarrow> query_data D a sz p | Some m \<Rightarrow> call_query D m inst a p)
      else if cmd = BSP_IOCTL_METHOD_READ
      then (case a_readMethod a of
              None \<Rightarrow> returnC (BSP_RVAL_UNSUPPORTED_METHOD, p) | Some m \<Rightarrow> call_read D m inst a p)
      else
      bindC (case (if cmd = BSP_IOCTL_METHOD_WRITE then a_writeMethod a
                   else if cmd = BSP_IOCTL_METHOD_INIT then a_initMethod a else a_shutdownMethod a) of
               None \<Rightarrow> returnC BSP_RVAL_UNSUPPORTED_METHOD
             | Some m \<Rightarrow> (if cmd = BSP_IOCTL_METHOD_WRITE then call_write D m inst a p
                          else if cmd = BSP_IOCTL_METHOD_INIT then call_init D m inst a p sz
                          else call_shutdown D m inst a)) (\<lambda>r. returnC (r, p)))"

lemma method_commandE:
  assumes "method_command cmd"
  obtains (rd) "cmd = BSP_IOCTL_METHOD_READ" | (qry) "cmd = BSP_IOCTL_METHOD_QUERY"
    | (wr) "cmd = BSP_IOCTL_METHOD_WRITE" | (ini) "cmd = BSP_IOCTL_METHOD_INIT"
    | (shut) "cmd = BSP_IOCTL_METHOD_SHUTDOWN"
  using assms by (auto simp: method_command_def)

lemma request_refused:
  assumes "answerable s nm inst anm" "method_command cmd" "\<And>a. \<not> reaches (registered s) nm inst anm cred cmd a"
  shows "\<exists>ret. ret \<noteq> BSP_RVAL_OK \<and> request D cmd nm inst anm sz p cred s = Inr ((ret, p), s)"
proof -
  obtain ret pE pA where "bspFindAttribute nm inst anm cred cmd s = Inr ((ret, pE, pA), s)"
    "ret \<noteq> BSP_RVAL_OK" by (rule refused_lookup [OF assms(1,3)])
  note run = this request_def bindC_def returnC_def
  from assms(2) show ?thesis
    by (cases rule: method_commandE)
       (use run(1,2) in \<open>simp_all add: run(3-) bspMethodRead_def bspMethodQuery_def bspMethodWrite_def
          bspMethodInit_def bspMethodShutdown_def\<close>)
qed

lemma request_reached:
  assumes "answerable s nm inst anm" "method_command cmd" "reaches (registered s) nm inst anm cred cmd a"
  shows "request D cmd nm inst anm sz p cred s = perform D cmd a inst sz p s"
  using assms(2,3)
  by (cases rule: method_commandE)
     (simp_all add: request_def perform_def reached_read [OF assms(1)]
       reached_query [OF assms(1)] reached_write [OF assms(1)] reached_init [OF assms(1)]
       reached_shutdown [OF assms(1)] prog_simps split: option.split)

section \<open>Global initialisation\<close>

definition takes_global_init :: "'m bsp_attribute \<Rightarrow> bool" where
  "takes_global_init a \<longleftrightarrow> a_initMethod a \<noteq> None \<and> a_options a AND BSP_AO_INIT_GLOBAL \<noteq> 0"

text \<open>Run every attribute's init method in table order, collecting the error bits.\<close>

fun init_all :: "('m, 's) dispatch \<Rightarrow> u32 \<Rightarrow> 'm bsp_attribute list \<Rightarrow> u32 \<Rightarrow> ('s, u32) prog" where
  "init_all D inst [] ret = returnC ret"
| "init_all D inst (a # as) ret =
     bindC (call_init D (the (a_initMethod a)) inst a Null 0) (\<lambda>r. init_all D inst as (ret OR r))"

lemma init_global_loop_all:
  assumes "list_ex (\<lambda>a. a_pName a = None) tbl" "list_all takes_global_init (named_attributes tbl)"
  shows "init_global_loop D inst tbl ret s = Some (init_all D inst (named_attributes tbl) ret s)"
  using assms
proof (induction tbl arbitrary: ret s)
  case (Cons a tbl)
  show ?case
    using Cons
    by (subst init_global_loop.simps)
       (auto simp: named_attributes_def takes_global_init_def prog_simps split: sum.split)
qed simp

lemma init_global_loop_returns:
  fixes D :: "('m, 's) dispatch"
  assumes "init_global_loop D inst pA ret s = Some r"
  shows "pA \<noteq> [] \<longrightarrow> a_pName (hd pA) \<noteq> None \<longrightarrow> takes_global_init (hd pA)"
proof (rule init_global_loop.raw_induct [OF _ assms])
  fix f :: "('m, 's) dispatch \<Rightarrow> u32 \<Rightarrow> 'm bsp_attribute list \<Rightarrow> u32 \<Rightarrow> 's \<Rightarrow> (fault + u32 \<times> 's) option"
    and D inst and pA :: "'m bsp_attribute list" and ret s r
  assume IH: "\<And>D inst pA ret s r. f D inst pA ret s = Some r \<Longrightarrow>
      pA \<noteq> [] \<longrightarrow> a_pName (hd pA) \<noteq> None \<longrightarrow> takes_global_init (hd pA)"
    and run: "(case pA of
        [] \<Rightarrow> Some (Inl OutOfBounds)
      | a # as \<Rightarrow>
          if a_pName a = None then Some (Inr (ret, s))
          else if a_initMethod a = None then f D inst (a # as) ret s
          else if a_options a AND BSP_AO_INIT_GLOBAL = 0 then f D inst (a # as) ret s
          else case call_init D (the (a_initMethod a)) inst a Null 0 s of
                 Inl e \<Rightarrow> Some (Inl e)
               | Inr (r, s') \<Rightarrow> f D inst as (ret OR r) s') = Some r"
  show "pA \<noteq> [] \<longrightarrow> a_pName (hd pA) \<noteq> None \<longrightarrow> takes_global_init (hd pA)"
    using run IH [of D inst pA ret s r]
    by (cases pA) (auto simp: takes_global_init_def split: if_splits)
qed

lemma init_global_loop_stuck:
  assumes "a_pName a \<noteq> None" "\<not> takes_global_init a"
  shows "init_global_loop D inst (a # tbl) ret s = None"
  using init_global_loop_returns [of D inst "a # tbl" ret s] assms
  by (cases "init_global_loop D inst (a # tbl) ret s") auto

text \<open>The first attribute without a global init method stops the run for good.\<close>

lemma init_global_loop_hangs:
  assumes "list_all takes_global_init as" "list_all (\<lambda>a. a_pName a \<noteq> None) as"
    "a_pName a \<noteq> None" "\<not> takes_global_init a"
    "\<And>m b s. \<exists>r s'. call_init D m inst b Null 0 s = Inr (r, s')"
  shows "init_global_loop D inst (as @ a # tbl) ret s = None"
  using assms(1,2)
proof (induction as arbitrary: ret s)
  case Nil
  then show ?case using init_global_loop_stuck [OF assms(3,4)] by simp
next
  case (Cons b as)
  obtain r s' where "call_init D (the (a_initMethod b)) inst b Null 0 s = Inr (r, s')"
    using assms(5) by blast
  then show ?case
    using Cons by (subst init_global_loop.simps) (auto simp: takes_global_init_def)
qed

lemma init_global_lookup:
  assumes "registry_wf s" "readable 32 nm" "decidable_name nm (registered s)"
    "readable 32 anm" "cstring anm = []"
    "lookup_entity nm (registered s) = Some e" "inst < e_instanceCount e"
  shows "bspFindAttribute nm inst anm cred cmd s = Inr ((BSP_RVAL_OK, Some e, None), s)"
    and "bspMethodInit D nm inst anm sz p cred s =
           (case init_global_loop D inst (attribute_table e inst) BSP_RVAL_OK s of
              None \<Rightarrow> Inl NoReturn | Some r \<Rightarrow> r)"
proof -
  show lookup: "bspFindAttribute nm inst anm cred cmd s = Inr ((BSP_RVAL_OK, Some e, None), s)" for cmd
    using assms by (simp add: bspFindAttribute_spec decidable_attribute_def find_attribute_spec_def not_less [symmetric])
  have "entity_wf e"
    using assms(1,6) lookup_entity_member by (force simp: registry_wf_def list_all_iff)
  with assms(4,5,7) show "bspMethodInit D nm inst anm sz p cred s =
      (case init_global_loop D inst (attribute_table e inst) BSP_RVAL_OK s of
         None \<Rightarrow> Inl NoReturn | Some r \<Rightarrow> r)"
    using readable_first [of anm]
    by (simp add: bspMethodInit_def prog_simps lookup attribute_array_table)
qed


section \<open>Properties\<close>

text \<open>A registry of two entities for the concrete runs below; the methods are numbers.\<close>

definition sample_attribute :: "string \<Rightarrow> u32 \<Rightarrow> nat bsp_attribute" where
  "sample_attribute nm perms =
     \<lparr>a_pName = Some (lit nm), a_options = BSP_AO_QUERY_DATA_DIRECT, a_permissions = perms,
      a_data = 0x11223344, a_dataSize = 2, a_readMethod = Some 1, a_queryMethod = None,
      a_writeMethod = Some 2, a_initMethod = None, a_shutdownMethod = Some 3, a_attribute_specific = 0\<rparr>"

definition end_attribute :: "nat bsp_attribute" where
  "end_attribute =
     \<lparr>a_pName = None, a_options = 0, a_permissions = 0, a_data = 0, a_dataSize = 0, a_readMethod = None,
      a_queryMethod = None, a_writeMethod = None, a_initMethod = None, a_shutdownMethod = None,
      a_attribute_specific = 0\<rparr>"

definition sample_entity :: "string \<Rightarrow> nat bsp_attribute list \<Rightarrow> nat bsp_entity" where
  "sample_entity nm tbl =
     \<lparr>e_pName = lit nm, e_version = 1, e_instanceCount = 1, e_options = 0, e_pAttributes = [tbl]\<rparr>"

definition sample_registry :: "(unit, nat) ent_state" where
  "sample_registry =
     \<lparr>regs = (\<lambda>_. 0), env = (), s_crc32Value = 0, log_mutex = 0, log_fds = [], active_log_fds = 0,
      log_syslog_handle = 0, bspEntityCount = 2,
      bspEntityList =
        [Some (sample_entity ''A'' [sample_attribute ''x'' BSP_PERMISSIONS_IOS_USER_READ, end_attribute]),
         Some (sample_entity ''B'' [(sample_attribute ''y'' 0)\<lparr>a_options := 5, a_initMethod := Some 4\<rparr>,
                                    end_attribute]), None]\<rparr>"

definition sample_dispatch :: "(nat, (unit, nat) ent_state) dispatch" where
  "sample_dispatch =
     \<lparr>call_read = (\<lambda>m i a p. returnC (0, p)), call_query = (\<lambda>m i a p. returnC (0, p)),
      call_write = (\<lambda>m i a p. returnC 0), call_init = (\<lambda>m i a p n. returnC 0x40),
      call_shutdown = (\<lambda>m i a. returnC 0), load_mem = (\<lambda>a n. failC WildPointer)\<rparr>"

lemmas sample_defs = sample_attribute_def end_attribute_def sample_entity_def

lemma sample_registered:
  "registered sample_registry =
     [sample_entity ''A'' [sample_attribute ''x'' BSP_PERMISSIONS_IOS_USER_READ, end_attribute],
      sample_entity ''B'' [(sample_attribute ''y'' 0)\<lparr>a_options := 5, a_initMethod := Some 4\<rparr>, end_attribute]]"
  by (simp add: registered_def sample_registry_def)

lemma sample_registry_wf: "registry_wf sample_registry"
  unfolding registry_wf_def sample_registered
  by (simp add: sample_registry_def sample_defs entity_wf_def table_wf_def) code_simp



lemma sample_lookup:
  "lookup_entity (lit ''A'') (registered sample_registry) =
     Some (sample_entity ''A'' [sample_attribute ''x'' BSP_PERMISSIONS_IOS_USER_READ, end_attribute])"
  "lookup_entity (lit ''B'') (registered sample_registry) =
     Some (sample_entity ''B'' [(sample_attribute ''y'' 0)\<lparr>a_options := 5, a_initMethod := Some 4\<rparr>, end_attribute])"
  unfolding sample_registered by (simp add: lookup_entity_def sample_entity_def, (simp add: lookup_entity_def sample_entity_def; code_simp))

lemma sample_attribute_lookup:
  "lookup_attribute (lit ''x'') [sample_attribute ''x'' perms, end_attribute] = Some (sample_attribute ''x'' perms)"
  by (simp add: lookup_attribute_def named_attributes_def has_name_def sample_defs)

lemma sample_permissions:
  "\<not> permitted BSP_PERMISSIONS_IOS_USER_WRITE BSP_IOCTL_METHOD_READ (sample_attribute ''x'' BSP_PERMISSIONS_IOS_USER_READ)"
  "permitted BSP_PERMISSIONS_IOS_USER_READ BSP_IOCTL_METHOD_READ (sample_attribute ''x'' BSP_PERMISSIONS_IOS_USER_READ)"
  "permitted BSP_PERMISSIONS_IOS_USER_READ BSP_IOCTL_METHOD_QUERY (sample_attribute ''x'' BSP_PERMISSIONS_IOS_USER_READ)"
  by (simp_all add: permitted_iff check_permission_def command_mask_def sample_attribute_def)

lemma sample_table: "attribute_table (sample_entity nm tbl) 0 = tbl" "e_instanceCount (sample_entity nm tbl) = 1"
  by (simp_all add: attribute_table_def sample_entity_def)

lemma sample_answerable: "answerable sample_registry (lit ''A'') 0 (lit ''x'')"
proof -
  have "search_ends (lit ''x'') [sample_attribute ''x'' BSP_PERMISSIONS_IOS_USER_READ, end_attribute]"
    by (rule search_ends_Some [OF sample_attribute_lookup])
  then have "decidable_attribute (lit ''A'') 0 (lit ''x'') (registered sample_registry)"
    by (simp add: decidable_attribute_def sample_lookup sample_table)
  moreover have "cstring (lit ''x'') \<noteq> []" by (simp add: lit_def)
  ultimately show ?thesis
    by (simp add: answerable_def sample_registry_wf lookup_entity_decidable [OF sample_lookup(1)])
qed

lemma sample_names: "cstring (lit ''x'') \<noteq> []" "cstring (lit ''y'') \<noteq> []" "cstring (lit []) = []"
  by (simp_all add: lit_def)

lemmas sample_facts = sample_names sample_lookup sample_attribute_lookup sample_permissions sample_table

lemma sample_spec:
  "find_attribute_spec (registered sample_registry) (lit ''A'') 0 (lit ''x'') BSP_PERMISSIONS_IOS_USER_WRITE
     BSP_IOCTL_METHOD_READ = (BSP_RVAL_REQUEST_DENIED,
       Some (sample_entity ''A'' [sample_attribute ''x'' BSP_PERMISSIONS_IOS_USER_READ, end_attribute]),
       Some (sample_attribute ''x'' BSP_PERMISSIONS_IOS_USER_READ))"
  by (simp add: find_attribute_spec_def sample_facts)
text \<open>
  C1: On a registry filled up to its counter in ascending order of name,
  \<open>bspFindAttribute\<close> computes exactly the lookup of the specification, without a fault and without
  changing the state: unknown entity, bad instance, unknown attribute, denied and granted requests
  each get their own answer. The names have to be ones the searches can decide: the entity name not
  beyond the last registered one, the attribute name one that the table holds, unless the table ends in an
  entry without a name.
\<close>

theorem bspFindAttribute_refines:
  assumes "registry_wf s" "readable 32 nm" "readable 32 anm" "decidable_name nm (registered s)"
    and "decidable_attribute nm inst anm (registered s)"
  shows "bspFindAttribute nm inst anm cred cmd s =
     Inr (find_attribute_spec (registered s) nm inst anm cred cmd, s)"
  using assms by (rule bspFindAttribute_spec)

theorem bspFindAttribute_refines_witness:
  "bspFindAttribute (lit ''A'') 0 (lit ''x'') BSP_PERMISSIONS_IOS_USER_WRITE BSP_IOCTL_METHOD_READ
     sample_registry =
     Inr ((BSP_RVAL_REQUEST_DENIED,
           Some (sample_entity ''A'' [sample_attribute ''x'' BSP_PERMISSIONS_IOS_USER_READ, end_attribute]),
           Some (sample_attribute ''x'' BSP_PERMISSIONS_IOS_USER_READ)), sample_registry)"
  using bspFindAttribute_refines [of sample_registry "lit ''A''" "lit ''x''" 0 "BSP_PERMISSIONS_IOS_USER_WRITE"
      BSP_IOCTL_METHOD_READ] sample_answerable
  by (simp add: answerable_def sample_spec)



text \<open>
  C3: A request that reaches an attribute does to it what the command says: read, query and write
  first compare the client's size with the attribute's, then the attribute's own function runs with
  the client's buffer, a missing function is reported as unsupported, and a query without a function
  copies the attribute's data.
\<close>

theorem granted_requests_perform:
  assumes "answerable s nm inst anm" "method_command cmd" "reaches (registered s) nm inst anm cred cmd a"
  shows "request D cmd nm inst anm sz p cred s = perform D cmd a inst sz p s"
  using assms by (rule request_reached)

theorem granted_requests_perform_witness:
  "request sample_dispatch BSP_IOCTL_METHOD_QUERY (lit ''A'') 0 (lit ''x'') 2 (Buf [0, 0, 7])
     BSP_PERMISSIONS_IOS_USER_READ sample_registry =
   Inr ((BSP_RVAL_OK, Buf [0x33, 0x44, 7]), sample_registry)"
proof -
  have "reaches (registered sample_registry) (lit ''A'') 0 (lit ''x'') BSP_PERMISSIONS_IOS_USER_READ
      BSP_IOCTL_METHOD_QUERY (sample_attribute ''x'' BSP_PERMISSIONS_IOS_USER_READ)"
    by (simp add: reaches_def sample_facts)
  then show ?thesis
    using granted_requests_perform [OF sample_answerable, of BSP_IOCTL_METHOD_QUERY]
    by (simp add: method_command_def perform_def query_data_def sample_attribute_def prog_simps enc32_def
        splice_at_def)
qed

lemma enc32_low:
  "drop 3 (enc32 w) = enc8 (ucast w)"
  "drop 2 (enc32 w) = enc16 (ucast w)"
  by (auto simp: enc8_def enc16_def enc32_def bit_simps intro!: bit_word_eqI)

lemma direct_data:
  fixes sz :: u32
  assumes "sz \<in> {1, 2, 4}" "unat sz \<le> length b"
  shows "store_ptr 0 (drop (4 - unat sz) (enc32 w)) (Buf b) =
     Inr (Buf ((if sz = 1 then enc8 (ucast w) else if sz = 2 then enc16 (ucast w) else enc32 w) @
       drop (unat sz) b))"
proof -
  consider "sz = 1" | "sz = 2" | "sz = 4" using assms(1) by blast
  then show ?thesis
    using assms(2)
    by cases (simp_all add: enc32_low splice_at_def codec8.enc_length
        codec16.enc_length codec32.enc_length flip: numeral_2_eq_2)
qed

text \<open>
  A query of an attribute whose data is held in the attribute record, as one, two or four
  bytes, stores the least significant bytes of the data word, in the machine's byte order, at the
  start of the client's buffer and touches no byte behind them.
\<close>

theorem query_direct_low_bytes:
  assumes "answerable s nm inst anm" "reaches (registered s) nm inst anm cred BSP_IOCTL_METHOD_QUERY a"
    and "a_queryMethod a = None" "a_options a AND BSP_AO_QUERY_DATA_DIRECT \<noteq> 0"
    and "a_dataSize a \<in> {1, 2, 4}" "unat (a_dataSize a) \<le> length b"
  shows "bspMethodQuery D nm inst anm (a_dataSize a) (Buf b) cred s =
     Inr ((BSP_RVAL_OK,
           Buf ((if a_dataSize a = 1 then enc8 (ucast (a_data a))
                 else if a_dataSize a = 2 then enc16 (ucast (a_data a))
                 else enc32 (a_data a)) @ drop (unat (a_dataSize a)) b)), s)"
  using assms(3-5) direct_data [OF assms(5,6)]
  by (auto simp: reached_query [OF assms(1,2)] query_data_def prog_simps)

theorem query_direct_low_bytes_witness:
  "bspMethodQuery sample_dispatch (lit ''A'') 0 (lit ''x'') 2 (Buf [0, 0, 7])
     BSP_PERMISSIONS_IOS_USER_READ sample_registry =
   Inr ((BSP_RVAL_OK, Buf [0x33, 0x44, 7]), sample_registry)"
proof -
  have "reaches (registered sample_registry) (lit ''A'') 0 (lit ''x'') BSP_PERMISSIONS_IOS_USER_READ
      BSP_IOCTL_METHOD_QUERY (sample_attribute ''x'' BSP_PERMISSIONS_IOS_USER_READ)"
    by (simp add: reaches_def sample_facts)
  then show ?thesis
    using query_direct_low_bytes [OF sample_answerable, of "BSP_PERMISSIONS_IOS_USER_READ"
        "sample_attribute ''x'' BSP_PERMISSIONS_IOS_USER_READ" "[0, 0, 7]" sample_dispatch]
    by (simp add: sample_attribute_def enc16_def)
qed

text \<open>
  C26: An init request with an empty attribute name runs, in table order and with no data, the init
  method of every attribute of the table and returns the union of their error bits, provided
  every attribute of the table has an init method and is marked for global initialisation and the table
  ends in an entry without a name. The client's credentials play no part.
\<close>

theorem global_init_runs_every_attribute:
  assumes "registry_wf s" "readable 32 nm" "readable 32 anm" "cstring anm = []"
    and "lookup_entity nm (registered s) = Some e" "inst < e_instanceCount e"
    and "list_all takes_global_init (named_attributes (attribute_table e inst))"
    and "list_ex (\<lambda>a. a_pName a = None) (attribute_table e inst)"
  shows "bspMethodInit D nm inst anm sz p cred s =
     init_all D inst (named_attributes (attribute_table e inst)) BSP_RVAL_OK s"
proof -
  have "init_global_loop D inst (attribute_table e inst) BSP_RVAL_OK s =
      Some (init_all D inst (named_attributes (attribute_table e inst)) BSP_RVAL_OK s)"
    using assms(7,8) by (intro init_global_loop_all)
  then show ?thesis
    using init_global_lookup(2) [OF assms(1,2) lookup_entity_decidable [OF assms(5)] assms(3-6)] by simp
qed

theorem global_init_runs_every_attribute_witness:
  "bspMethodInit sample_dispatch (lit ''B'') 0 (lit []) 0 Null 0 sample_registry = Inr (0x40, sample_registry)"
  using global_init_runs_every_attribute [OF sample_registry_wf _ _ _ sample_lookup(2), of "lit []" 0 sample_dispatch 0 Null 0]
  by (simp add: sample_facts named_attributes_def sample_attribute_def end_attribute_def takes_global_init_def
      sample_dispatch_def prog_simps)

text \<open>
  C31: The same request never returns when some attribute of the table has no init method or is not
  marked for global initialisation and the init methods before it return: the \<^verbatim>\<open>continue\<close> of
  the loop goes back to its test without advancing to the next attribute.
\<close>

theorem global_init_hangs:
  assumes "registry_wf s" "readable 32 nm" "readable 32 anm" "cstring anm = []"
    and "lookup_entity nm (registered s) = Some e" "inst < e_instanceCount e"
    and "a \<in> set (named_attributes (attribute_table e inst))" "\<not> takes_global_init a"
    and "\<And>m b s. \<exists>r s'. call_init D m inst b Null 0 s = Inr (r, s')"
  shows "bspMethodInit D nm inst anm sz p cred s = Inl NoReturn"
proof -
  let ?tbl = "attribute_table e inst"
  obtain as b bs where split: "named_attributes ?tbl = as @ b # bs" "\<not> takes_global_init b"
      "\<forall>c \<in> set as. takes_global_init c"
    using split_list_first_prop [of "named_attributes ?tbl" "\<lambda>c. \<not> takes_global_init c"] assms(7,8) by blast
  have "?tbl = named_attributes ?tbl @ dropWhile (\<lambda>a. a_pName a \<noteq> None) ?tbl"
    by (simp add: named_attributes_def)
  then obtain tl where tl: "?tbl = as @ b # tl" using split(1) by auto
  have "\<forall>c \<in> set (as @ b # bs). a_pName c \<noteq> None"
    unfolding split(1) [symmetric] named_attributes_def by (auto dest: set_takeWhileD)
  then have "init_global_loop D inst ?tbl BSP_RVAL_OK s = None"
    unfolding tl using split(2,3) assms(9) by (intro init_global_loop_hangs) (auto simp: list_all_iff)
  then show ?thesis
    using init_global_lookup(2) [OF assms(1,2) lookup_entity_decidable [OF assms(5)] assms(3-6)] by simp
qed

theorem global_init_hangs_witness:
  "bspMethodInit sample_dispatch (lit ''A'') 0 (lit []) 0 Null 0 sample_registry = Inl NoReturn"
proof -
  let ?a = "sample_attribute ''x'' BSP_PERMISSIONS_IOS_USER_READ"
  have "?a \<in> set (named_attributes [?a, end_attribute])" "\<not> takes_global_init ?a"
    by (simp_all add: named_attributes_def sample_attribute_def end_attribute_def takes_global_init_def)
  then show ?thesis
    using global_init_hangs [OF sample_registry_wf _ _ _ sample_lookup(1), of "lit []" 0 ?a sample_dispatch 0 Null 0]
    by (simp add: sample_facts sample_dispatch_def returnC_def)
qed

text \<open>
  C32: The lookup dereferences a null pointer for every entity name beyond the last registered one:
  \<open>bspFindEntity\<close> leaves its loop with the OK code and no entity.
\<close>

theorem unknown_entity_beyond_last_faults:
  assumes "registry_wf s" "readable 32 nm" "\<not> decidable_name nm (registered s)"
  shows "request D cmd nm inst anm sz p cred s = Inl NullDeref"
proof -
  have "lookup_entity nm (registered s) = None"
    using assms(3) lookup_entity_decidable by (cases "lookup_entity nm (registered s)") auto
  then have "bspFindAttribute nm inst anm cred cmd s = Inl NullDeref" for cmd
    using assms by (simp add: bspFindAttribute_def bspFindEntity_run prog_simps)
  then show ?thesis
    by (simp add: request_def bspMethodRead_def bspMethodQuery_def bspMethodWrite_def bspMethodInit_def
        bspMethodShutdown_def bindC_def)
qed

theorem unknown_entity_beyond_last_faults_witness:
  "request sample_dispatch BSP_IOCTL_METHOD_READ (lit ''C'') 0 (lit ''x'') 2 (Buf [0, 0]) 0 sample_registry =
     Inl NullDeref"
proof -
  have "\<not> decidable_name (lit ''C'') (registered sample_registry)"
    unfolding sample_registered decidable_name_def by code_simp
  then show ?thesis by (intro unknown_entity_beyond_last_faults [OF sample_registry_wf]) simp_all
qed

text \<open>
  C33: A read, query, write or shutdown request with an empty attribute name on a registered entity
  dereferences a null attribute: the lookup answers OK for it before it has looked at the table or at
  the client's credentials.
\<close>

theorem empty_attribute_name_faults:
  assumes "registry_wf s" "readable 32 nm" "readable 32 anm" "cstring anm = []"
    and "lookup_entity nm (registered s) = Some e" "inst < e_instanceCount e"
    and "cmd \<noteq> BSP_IOCTL_METHOD_INIT"
  shows "request D cmd nm inst anm sz p cred s = Inl NullDeref"
  using init_global_lookup(1) [OF assms(1,2) lookup_entity_decidable [OF assms(5)] assms(3-6)] assms(7)
  by (simp add: request_def bspMethodRead_def bspMethodQuery_def bspMethodWrite_def bspMethodShutdown_def
      prog_simps)

theorem empty_attribute_name_faults_witness:
  "request sample_dispatch BSP_IOCTL_METHOD_WRITE (lit ''A'') 0 (lit []) 2 (Buf [0, 0]) 0 sample_registry =
     Inl NullDeref"
  by (rule empty_attribute_name_faults [OF sample_registry_wf _ _ _ sample_lookup(1)])
     (simp_all add: sample_facts)

end
