(* ===== verification/Eeprom.thy ===== *)
theory Eeprom
  imports Entity
begin

text \<open>
  \<^verbatim>\<open>src/ios_bsp/libraries/eeprom_drv\<close>: the bit-banged driver of the serial EEPROM
  (\<^verbatim>\<open>eeprom_bits.c\<close>) and its word interface with the status of each context
  (\<^verbatim>\<open>eeprom.c\<close>). The driver moves its three output lines and reads its input line through
  the attributes of the \<^verbatim>\<open>GPIO\<close> entity, so every definition takes the \<open>dispatch\<close> parameter
  of the registry and the kernel record for the delays.
\<close>

section \<open>State\<close>

abbreviation (input) EEPROM_STATUS_UNINITIALISED :: u32 where
  "EEPROM_STATUS_UNINITIALISED \<equiv> 0"

abbreviation (input) EEPROM_STATUS_INITIALISED :: u32 where
  "EEPROM_STATUS_INITIALISED \<equiv> 1"

abbreviation (input) EEPROM_STATUS_OPEN :: u32 where
  "EEPROM_STATUS_OPEN \<equiv> 2"

abbreviation (input) EEPROM_STATUS_CLOSED :: u32 where
  "EEPROM_STATUS_CLOSED \<equiv> 3"

abbreviation (input) EEPROM_WRITE_DISABLE :: u32 where
  "EEPROM_WRITE_DISABLE \<equiv> 1"

abbreviation (input) EEPROM_WRITE_ENABLE :: u32 where
  "EEPROM_WRITE_ENABLE \<equiv> 2"

abbreviation (input) EEPROM_WRITE_ERASE :: u32 where
  "EEPROM_WRITE_ERASE \<equiv> 3"

abbreviation (input) NUM_EEPROMS :: nat where
  "NUM_EEPROMS \<equiv> 1"

record eepromCtx =
  ee_status :: u32

record ('e, 'm) eeprom_state = "('e, 'm) ent_state" +
  eepromContexts :: "eepromCtx list"

section \<open>Bits\<close>

text \<open>The three setters differ in the name of the attribute only.\<close>

definition eepromDrvSetSK ::
  "('m, ('e, 'm, 'z) eeprom_state_scheme) dispatch \<Rightarrow> u32 \<Rightarrow> (('e, 'm, 'z) eeprom_state_scheme, u32) prog" where
  "eepromDrvSetSK D state =
     bindC (bspWriteInternal D (lit ''GPIO'') 0 (lit ''EEPROM_SK'') 4
              (Buf (enc32 (if state \<noteq> 0 then 1 else state)))) (\<lambda>ret.
     if ret \<noteq> BSP_RVAL_OK then returnC IOS_ERROR_EXISTS else returnC IOS_ERROR_OK)"

definition eepromDrvSetCS ::
  "('m, ('e, 'm, 'z) eeprom_state_scheme) dispatch \<Rightarrow> u32 \<Rightarrow> (('e, 'm, 'z) eeprom_state_scheme, u32) prog" where
  "eepromDrvSetCS D state =
     bindC (bspWriteInternal D (lit ''GPIO'') 0 (lit ''EEPROM_CS'') 4
              (Buf (enc32 (if state \<noteq> 0 then 1 else state)))) (\<lambda>ret.
     if ret \<noteq> BSP_RVAL_OK then returnC IOS_ERROR_EXISTS else returnC IOS_ERROR_OK)"

definition eepromDrvSetDO ::
  "('m, ('e, 'm, 'z) eeprom_state_scheme) dispatch \<Rightarrow> u32 \<Rightarrow> (('e, 'm, 'z) eeprom_state_scheme, u32) prog" where
  "eepromDrvSetDO D state =
     bindC (bspWriteInternal D (lit ''GPIO'') 0 (lit ''EEPROM_DO'') 4
              (Buf (enc32 (if state \<noteq> 0 then 1 else state)))) (\<lambda>ret.
     if ret \<noteq> BSP_RVAL_OK then returnC IOS_ERROR_EXISTS else returnC IOS_ERROR_OK)"

text \<open>The local variable the read fills is a buffer of its own.\<close>

definition eepromDrvReadBit ::
  "('m, ('e, 'm, 'z) eeprom_state_scheme) dispatch \<Rightarrow> (('e, 'm, 'z) eeprom_state_scheme) ios \<Rightarrow>
   (('e, 'm, 'z) eeprom_state_scheme, u32) prog" where
  "eepromDrvReadBit D os =
     seqC (eepromDrvSetSK D 0)
     (seqC (eepromDrvSetCS D 1)
     (seqC (udelay os 4)
     (seqC (eepromDrvSetSK D 1)
     (seqC (udelay os 4)
     (bindC (bspReadInternal D (lit ''GPIO'') 0 (lit ''EEPROM_DI'') 4 (Buf (replicate 4 0))) (\<lambda>(err, p).
      if err \<noteq> BSP_RVAL_OK then returnC 0
      else
      bindC (liftC (load_ptr 0 4 p)) (\<lambda>bs.
      returnC (if dec32 bs \<noteq> 0 then 1 else 0))))))))"

fun finish_clocks ::
  "('m, ('e, 'm, 'z) eeprom_state_scheme) dispatch \<Rightarrow> (('e, 'm, 'z) eeprom_state_scheme) ios \<Rightarrow> nat \<Rightarrow>
   (('e, 'm, 'z) eeprom_state_scheme, unit) prog" where
  "finish_clocks D os 0 = returnC ()"
| "finish_clocks D os (Suc n) =
     seqC (eepromDrvSetSK D 0)
     (seqC (udelay os 4)
     (seqC (eepromDrvSetSK D 1)
     (seqC (udelay os 4)
     (finish_clocks D os n))))"

definition eepromDrvFinishCommand ::
  "('m, ('e, 'm, 'z) eeprom_state_scheme) dispatch \<Rightarrow> (('e, 'm, 'z) eeprom_state_scheme) ios \<Rightarrow> u32 \<Rightarrow>
   (('e, 'm, 'z) eeprom_state_scheme, unit) prog" where
  "eepromDrvFinishCommand D os clocks =
     seqC (eepromDrvSetSK D 0)
     (seqC (eepromDrvSetCS D 0)
     (seqC (eepromDrvSetDO D 0)
     (seqC (if clocks \<noteq> 0 then finish_clocks D os (nat (sint clocks)) else returnC ())
     (seqC (eepromDrvSetSK D 0) (returnC ())))))"

text \<open>The polling loop; it returns \<^verbatim>\<open>timeout\<close>.\<close>

fun ready_loop ::
  "('m, ('e, 'm, 'z) eeprom_state_scheme) dispatch \<Rightarrow> (('e, 'm, 'z) eeprom_state_scheme) ios \<Rightarrow> nat \<Rightarrow>
   (('e, 'm, 'z) eeprom_state_scheme, bool) prog" where
  "ready_loop D os 0 = returnC True"
| "ready_loop D os (Suc n) =
     bindC (eepromDrvReadBit D os) (\<lambda>b.
     if b \<noteq> 0 then returnC False else ready_loop D os n)"

definition eepromDrvWaitForReady ::
  "('m, ('e, 'm, 'z) eeprom_state_scheme) dispatch \<Rightarrow> (('e, 'm, 'z) eeprom_state_scheme) ios \<Rightarrow>
   (('e, 'm, 'z) eeprom_state_scheme, u32) prog" where
  "eepromDrvWaitForReady D os =
     seqC (eepromDrvSetDO D 0)
     (bindC (ready_loop D os 1000) (\<lambda>timeout.
      seqC (eepromDrvFinishCommand D os 2)
      (if timeout then returnC IOS_ERROR_FAIL_INTERNAL else returnC IOS_ERROR_OK)))"

text \<open>The loop over \<^verbatim>\<open>i\<close> from the top bit down; the argument is \<^verbatim>\<open>i + 1\<close>.\<close>

fun send_bits_loop ::
  "('m, ('e, 'm, 'z) eeprom_state_scheme) dispatch \<Rightarrow> (('e, 'm, 'z) eeprom_state_scheme) ios \<Rightarrow> u32 \<Rightarrow> nat \<Rightarrow>
   (('e, 'm, 'z) eeprom_state_scheme, unit) prog" where
  "send_bits_loop D os data 0 = returnC ()"
| "send_bits_loop D os data (Suc i) =
     seqC (eepromDrvSetSK D 0)
     (seqC (eepromDrvSetCS D 1)
     (seqC (eepromDrvSetDO D (drop_bit i data AND 1))
     (seqC (udelay os 4)
     (seqC (eepromDrvSetSK D 1)
     (seqC (udelay os 4)
     (send_bits_loop D os data i))))))"

definition eepromDrvSendBits ::
  "('m, ('e, 'm, 'z) eeprom_state_scheme) dispatch \<Rightarrow> (('e, 'm, 'z) eeprom_state_scheme) ios \<Rightarrow> u32 \<Rightarrow> u32 \<Rightarrow>
   (('e, 'm, 'z) eeprom_state_scheme, u32) prog" where
  "eepromDrvSendBits D os sz data =
     (if sz > 32 then returnC IOS_ERROR_INVALID
      else seqC (send_bits_loop D os data (nat (sint (sz - 1) + 1))) (returnC IOS_ERROR_OK))"

section \<open>Words\<close>

text \<open>\<^verbatim>\<open>&eepromContexts[ndx]\<close> for an index below \<^verbatim>\<open>NUM_EEPROMS\<close>; a negative one is outside.\<close>

definition ctx_status :: "int \<Rightarrow> (('e, 'm, 'z) eeprom_state_scheme, u32) prog" where
  "ctx_status eeprom_ndx =
     (if eeprom_ndx < 0 then failC OutOfBounds
      else bindC (getsC eepromContexts) (\<lambda>cs.
           bindC (liftC (read_at cs (nat eeprom_ndx))) (\<lambda>c.
           returnC (ee_status c))))"

definition set_ctx_status :: "int \<Rightarrow> u32 \<Rightarrow> (('e, 'm, 'z) eeprom_state_scheme, unit) prog" where
  "set_ctx_status eeprom_ndx st =
     (if eeprom_ndx < 0 then failC OutOfBounds
      else bindC (getsC eepromContexts) (\<lambda>cs.
           bindC (liftC (write_at cs (nat eeprom_ndx) \<lparr>ee_status = st\<rparr>)) (\<lambda>cs'.
           modifyC (\<lambda>s. s\<lparr>eepromContexts := cs'\<rparr>))))"

text \<open>The loop over \<^verbatim>\<open>offset\<close> from 15 down; the argument is \<^verbatim>\<open>offset + 1\<close>.\<close>

fun read_word_loop ::
  "('m, ('e, 'm, 'z) eeprom_state_scheme) dispatch \<Rightarrow> (('e, 'm, 'z) eeprom_state_scheme) ios \<Rightarrow> nat \<Rightarrow> u16 \<Rightarrow>
   (('e, 'm, 'z) eeprom_state_scheme, u16) prog" where
  "read_word_loop D os 0 acc = returnC acc"
| "read_word_loop D os (Suc offset) acc =
     bindC (eepromDrvReadBit D os) (\<lambda>b.
     read_word_loop D os offset (acc OR ucast (push_bit offset (if b \<noteq> 0 then 1 else b))))"

text \<open>The word stored through \<^verbatim>\<open>data\<close> is part of the result; \<^term>\<open>None\<close> when it is not stored.\<close>

definition eepromDrvReadWord ::
  "('m, ('e, 'm, 'z) eeprom_state_scheme) dispatch \<Rightarrow> (('e, 'm, 'z) eeprom_state_scheme) ios \<Rightarrow> int \<Rightarrow> u8 \<Rightarrow>
   (('e, 'm, 'z) eeprom_state_scheme, u32 \<times> u16 option) prog" where
  "eepromDrvReadWord D os eeprom_ndx addr =
     (if \<not> eeprom_ndx < int NUM_EEPROMS then returnC (IOS_ERROR_MAX, None)
      else
      bindC (ctx_status eeprom_ndx) (\<lambda>status.
      if status \<noteq> EEPROM_STATUS_OPEN then returnC (IOS_ERROR_NOTREADY, None)
      else
      bindC (eepromDrvSendBits D os 11 (0x600 OR ucast addr)) (\<lambda>ret.
      bindC (if ret = IOS_ERROR_OK
             then bindC (read_word_loop D os 16 0) (\<lambda>r. returnC (Some r))
             else returnC None) (\<lambda>data.
      seqC (eepromDrvFinishCommand D os 2)
      (returnC (ret, data))))))"

definition eepromDrvWriteWord ::
  "('m, ('e, 'm, 'z) eeprom_state_scheme) dispatch \<Rightarrow> (('e, 'm, 'z) eeprom_state_scheme) ios \<Rightarrow> int \<Rightarrow> u8 \<Rightarrow> u16 \<Rightarrow>
   (('e, 'm, 'z) eeprom_state_scheme, u32) prog" where
  "eepromDrvWriteWord D os eeprom_ndx addr data =
     (if \<not> eeprom_ndx < int NUM_EEPROMS then returnC IOS_ERROR_MAX
      else
      bindC (ctx_status eeprom_ndx) (\<lambda>status.
      if status \<noteq> EEPROM_STATUS_OPEN then returnC IOS_ERROR_NOTREADY
      else
      bindC (eepromDrvSendBits D os 27 (push_bit 16 (0x500 OR ucast addr) OR ucast data)) (\<lambda>ret.
      seqC (eepromDrvFinishCommand D os 2)
      (if ret \<noteq> IOS_ERROR_OK then returnC ret
       else eepromDrvWaitForReady D os))))"

definition eepromDrvSetWriteControl ::
  "('m, ('e, 'm, 'z) eeprom_state_scheme) dispatch \<Rightarrow> (('e, 'm, 'z) eeprom_state_scheme) ios \<Rightarrow> int \<Rightarrow> u32 \<Rightarrow>
   (('e, 'm, 'z) eeprom_state_scheme, u32) prog" where
  "eepromDrvSetWriteControl D os eeprom_ndx control =
     (if \<not> eeprom_ndx < int NUM_EEPROMS then returnC IOS_ERROR_MAX
      else
      bindC (ctx_status eeprom_ndx) (\<lambda>status.
      if status \<noteq> EEPROM_STATUS_OPEN then returnC IOS_ERROR_NOTREADY
      else if control = EEPROM_WRITE_ERASE
      then bindC (eepromDrvSendBits D os 11 0x480) (\<lambda>ret.
           seqC (eepromDrvFinishCommand D os 2)
           (if ret \<noteq> IOS_ERROR_OK then returnC ret else eepromDrvWaitForReady D os))
      else if control \<noteq> EEPROM_WRITE_DISABLE \<and> control \<noteq> EEPROM_WRITE_ENABLE then returnC IOS_ERROR_INVALID
      else
      bindC (eepromDrvSendBits D os 11 (if control = EEPROM_WRITE_DISABLE then 0x400 else 0x4c0)) (\<lambda>ret.
      seqC (eepromDrvFinishCommand D os 2)
      (returnC ret))))"

definition eepromDrvInit ::
  "('m, ('e, 'm, 'z) eeprom_state_scheme) dispatch \<Rightarrow> int \<Rightarrow> (('e, 'm, 'z) eeprom_state_scheme, u32) prog" where
  "eepromDrvInit D eeprom_ndx =
     (if \<not> eeprom_ndx < int NUM_EEPROMS then returnC IOS_ERROR_MAX
      else
      seqC (set_ctx_status eeprom_ndx 0)
      (bindC (eepromDrvSetCS D 0) (\<lambda>e1.
       bindC (eepromDrvSetSK D 0) (\<lambda>e2.
       bindC (eepromDrvSetDO D 0) (\<lambda>e3.
       if e1 OR e2 OR e3 \<noteq> IOS_ERROR_OK then returnC (e1 OR e2 OR e3)
       else seqC (set_ctx_status eeprom_ndx EEPROM_STATUS_INITIALISED) (returnC IOS_ERROR_OK))))))"

definition eepromDrvOpen ::
  "('m, ('e, 'm, 'z) eeprom_state_scheme) dispatch \<Rightarrow> int \<Rightarrow> (('e, 'm, 'z) eeprom_state_scheme, u32) prog" where
  "eepromDrvOpen D eeprom_ndx =
     (if \<not> eeprom_ndx < int NUM_EEPROMS then returnC IOS_ERROR_MAX
      else
      bindC (ctx_status eeprom_ndx) (\<lambda>status.
      if status \<noteq> EEPROM_STATUS_CLOSED \<and> status \<noteq> EEPROM_STATUS_INITIALISED then returnC IOS_ERROR_NOTREADY
      else
      seqC (eepromDrvSetCS D 0)
      (seqC (eepromDrvSetSK D 0)
      (seqC (eepromDrvSetDO D 0)
      (seqC (set_ctx_status eeprom_ndx EEPROM_STATUS_OPEN)
      (returnC IOS_ERROR_OK))))))"

definition eepromDrvShutdown ::
  "('m, ('e, 'm, 'z) eeprom_state_scheme) dispatch \<Rightarrow> int \<Rightarrow> (('e, 'm, 'z) eeprom_state_scheme, u32) prog" where
  "eepromDrvShutdown D eeprom_ndx =
     (if \<not> eeprom_ndx < int NUM_EEPROMS then returnC IOS_ERROR_MAX
      else
      bindC (ctx_status eeprom_ndx) (\<lambda>status.
      if status \<noteq> EEPROM_STATUS_OPEN then returnC IOS_ERROR_NOTREADY
      else
      seqC (eepromDrvSetCS D 0)
      (seqC (eepromDrvSetSK D 0)
      (seqC (eepromDrvSetDO D 0)
      (seqC (set_ctx_status eeprom_ndx EEPROM_STATUS_CLOSED)
      (returnC IOS_ERROR_OK))))))"


section \<open>The bus under the driver\<close>

datatype line = SK | CS | DO

fun line_name :: "line \<Rightarrow> bytes" where
  "line_name SK = lit ''EEPROM_SK''"
| "line_name CS = lit ''EEPROM_CS''"
| "line_name DO = lit ''EEPROM_DO''"

text \<open>
  A program that, started in a ready state whose device is \<open>d\<close>, changes the outside world only,
  returns \<open>r\<close>, and leaves the device in \<open>d'\<close>.
\<close>

definition bus_run ::
  "(('e, 'z) machine_scheme \<Rightarrow> bool) \<Rightarrow> ('e \<Rightarrow> 'd) \<Rightarrow> (('e, 'z) machine_scheme, 'a) prog \<Rightarrow> 'd \<Rightarrow> 'a \<Rightarrow> 'd \<Rightarrow> bool" where
  "bus_run ready view m d r d' \<longleftrightarrow>
     (\<forall>s. ready s \<and> view (env s) = d \<longrightarrow> (\<exists>e. m s = Inr (r, s\<lparr>env := e\<rparr>) \<and> view e = d'))"

lemma bus_runE:
  assumes "bus_run ready view m d r d'" "ready s" "view (env s) = d"
  obtains e where "m s = Inr (r, s\<lparr>env := e\<rparr>)" "view e = d'"
  using assms unfolding bus_run_def by blast

lemma bus_run_return: "bus_run ready view (returnC a) d a d"
  by (auto simp: bus_run_def returnC_def) (rule_tac x = "env s" in exI, simp)

lemma bus_run_bind:
  assumes inv: "\<And>s e. ready s \<Longrightarrow> ready (s\<lparr>env := e\<rparr>)"
    and m: "bus_run ready view m d r d'" and f: "bus_run ready view (f r) d' r' d''"
  shows "bus_run ready view (bindC m f) d r' d''"
  unfolding bus_run_def
proof (intro allI impI)
  fix s assume s: "ready s \<and> view (env s) = d"
  with m obtain e where e: "m s = Inr (r, s\<lparr>env := e\<rparr>)" "view e = d'" by (auto elim: bus_runE)
  moreover obtain e' where "f r (s\<lparr>env := e\<rparr>) = Inr (r', s\<lparr>env := e, env := e'\<rparr>)" "view e' = d''"
    using bus_runE [OF f, of "s\<lparr>env := e\<rparr>"] inv [of s e] s e by auto
  ultimately show "\<exists>e. bindC m f s = Inr (r', s\<lparr>env := e\<rparr>) \<and> view e = d''"
    by (auto simp: bindC_def)
qed

text \<open>
  What the lines do to the device behind them: \<open>drive\<close> is the effect of setting a line and \<open>di\<close> the
  level the device puts on the input line. The functions below are the waveforms of the driver.
\<close>

definition clock_in :: "(line \<Rightarrow> bool \<Rightarrow> 'd \<Rightarrow> 'd) \<Rightarrow> bool \<Rightarrow> 'd \<Rightarrow> 'd" where
  "clock_in drive v d = drive SK True (drive DO v (drive CS True (drive SK False d)))"

definition clock_out :: "(line \<Rightarrow> bool \<Rightarrow> 'd \<Rightarrow> 'd) \<Rightarrow> 'd \<Rightarrow> 'd" where
  "clock_out drive d = drive SK True (drive CS True (drive SK False d))"

definition idle_lines :: "(line \<Rightarrow> bool \<Rightarrow> 'd \<Rightarrow> 'd) \<Rightarrow> 'd \<Rightarrow> 'd" where
  "idle_lines drive d = drive DO False (drive SK False (drive CS False d))"

definition tick :: "(line \<Rightarrow> bool \<Rightarrow> 'd \<Rightarrow> 'd) \<Rightarrow> 'd \<Rightarrow> 'd" where
  "tick drive d = drive SK True (drive SK False d)"

definition finish_wave :: "(line \<Rightarrow> bool \<Rightarrow> 'd \<Rightarrow> 'd) \<Rightarrow> nat \<Rightarrow> 'd \<Rightarrow> 'd" where
  "finish_wave drive n d =
     drive SK False ((tick drive ^^ n) (drive DO False (drive CS False (drive SK False d))))"

definition send_wave :: "(line \<Rightarrow> bool \<Rightarrow> 'd \<Rightarrow> 'd) \<Rightarrow> bool list \<Rightarrow> 'd \<Rightarrow> 'd" where
  "send_wave drive bs d = fold (clock_in drive) bs d"

text \<open>The lowest \<open>n\<close> bits of a word, most significant first.\<close>

definition msb_first :: "nat \<Rightarrow> 'a::len word \<Rightarrow> bool list" where
  "msb_first n w = map (bit w) (rev [0..<n])"

text \<open>The levels of the input line over the next \<open>n\<close> clocks.\<close>

definition sampled :: "(line \<Rightarrow> bool \<Rightarrow> 'd \<Rightarrow> 'd) \<Rightarrow> ('d \<Rightarrow> bool) \<Rightarrow> nat \<Rightarrow> 'd \<Rightarrow> bool list" where
  "sampled drive di n d = map (\<lambda>k. di ((clock_out drive ^^ Suc k) d)) [0..<n]"

lemma msb_first_Suc: "msb_first (Suc n) w = bit w n # msb_first n w"
  by (simp add: msb_first_def)

lemma sampled_Suc:
  "sampled drive di (Suc n) d = di (clock_out drive d) # sampled drive di n (clock_out drive d)"
  unfolding sampled_def by (simp only: upt_conv_Cons map_Suc_upt [symmetric] zero_less_Suc) (simp add: funpow_swap1)

lemma length_sampled [simp]: "length (sampled drive di n d) = n"
  by (simp add: sampled_def)

fun word_of_bits :: "bool list \<Rightarrow> u16" where
  "word_of_bits [] = 0"
| "word_of_bits (b # bs) = push_bit (length bs) (of_bool b) OR word_of_bits bs"

lemma bit_word_of_bits:
  "length bs \<le> 16 \<Longrightarrow> bit (word_of_bits bs) i \<longleftrightarrow> i < length bs \<and> bs ! (length bs - 1 - i)"
proof (induction bs)
  case (Cons b bs)
  then show ?case
    by (cases "i = length bs") (auto simp: bit_simps nth_Cons' less_Suc_eq)
qed simp

lemma word_of_bits_msb_first: "word_of_bits (msb_first 16 w) = w"
  by (rule bit_word_eqI) (simp add: bit_word_of_bits msb_first_def rev_nth)


text \<open>Clock the device until it raises the input line, at most \<open>n\<close> times.\<close>

definition poll_wave :: "(line \<Rightarrow> bool \<Rightarrow> 'd \<Rightarrow> 'd) \<Rightarrow> ('d \<Rightarrow> bool) \<Rightarrow> nat \<Rightarrow> 'd \<Rightarrow> 'd" where
  "poll_wave drive di n d =
     (clock_out drive ^^ min n (Suc (length (takeWhile Not (sampled drive di n d))))) d"

text \<open>The commands, as the bits that go over the line.\<close>

definition read_command :: "u8 \<Rightarrow> bool list" where
  "read_command addr = [True, True, False] @ msb_first 8 addr"

definition write_command :: "u8 \<Rightarrow> u16 \<Rightarrow> bool list" where
  "write_command addr data = [True, False, True] @ msb_first 8 addr @ msb_first 16 data"

definition control_command :: "u32 \<Rightarrow> bool list" where
  "control_command control =
     [True, False, False] @ (let b = (control = EEPROM_WRITE_ENABLE) in [b, b]) @ replicate 6 False"

lemma read_command: "msb_first 11 (0x600 OR ucast addr :: u32) = read_command addr"
  by (simp add: read_command_def msb_first_def upt_rec bit_simps)

lemma bit_u16_beyond [simp]: "16 \<le> n \<Longrightarrow> \<not> bit (w :: u16) n"
  using bit_imp_le_length [of w n] by auto

lemma write_command:
  "msb_first 27 (push_bit 16 (0x500 OR ucast addr) OR ucast data :: u32) = write_command addr data"
  by (simp add: write_command_def msb_first_def upt_rec bit_simps)

lemma control_command:
  "msb_first 11 (0x400 :: u32) = control_command EEPROM_WRITE_DISABLE"
  "msb_first 11 (0x4c0 :: u32) = control_command EEPROM_WRITE_ENABLE"
  by (simp_all add: control_command_def msb_first_def upt_rec eval_nat_numeral)

text \<open>The driver's only context is open.\<close>

definition opened :: "('e, 'm, 'z) eeprom_state_scheme \<Rightarrow> bool" where
  "opened s \<longleftrightarrow> eepromContexts s \<noteq> [] \<and> ee_status (hd (eepromContexts s)) = EEPROM_STATUS_OPEN"

lemma opened_status: "opened s \<Longrightarrow> bindC (ctx_status 0) f s = f EEPROM_STATUS_OPEN s"
  by (cases "eepromContexts s") (auto simp: opened_def ctx_status_def prog_simps)

lemma sint_pred:
  fixes n :: u32
  assumes "n \<le> 32"
  shows "sint (n - 1) = int (unat n) - 1"
proof -
  have n: "0 \<le> uint n" "uint n \<le> 32" using assms by (simp_all add: word_le_def)
  have "sint (word_of_int (uint n - 1) :: u32) = uint n - 1"
    unfolding signed_of_int of_int_eq_id id_apply by (rule signed_take_bit_int_eq_self; simp; use n in linarith)
  then show ?thesis by simp
qed

text \<open>
  What the driver relies on. In a \<open>ready\<close> state the GPIO entity answers: setting a line acts on the
  device as \<open>drive\<close> says, reading the input line gives the device's level and leaves the device
  alone, and so does the passing of four microseconds. Whether a state is ready depends neither on
  the outside world nor on the driver's own variables.
\<close>

locale eeprom_bus =
  fixes D :: "('m, ('e, 'm, 'z) eeprom_state_scheme) dispatch"
    and os :: "(('e, 'm, 'z) eeprom_state_scheme) ios"
    and ready :: "('e, 'm, 'z) eeprom_state_scheme \<Rightarrow> bool"
    and view :: "'e \<Rightarrow> 'd"
    and drive :: "line \<Rightarrow> bool \<Rightarrow> 'd \<Rightarrow> 'd"
    and di :: "'d \<Rightarrow> bool"
  assumes set_line: "bus_run ready view
        (bspWriteInternal D (lit ''GPIO'') 0 (line_name l) 4 (Buf (enc32 (of_bool v))))
        d BSP_RVAL_OK (drive l v d)"
    and sense: "\<exists>w. (w \<noteq> 0 \<longleftrightarrow> di d) \<and> bus_run ready view
        (bspReadInternal D (lit ''GPIO'') 0 (lit ''EEPROM_DI'') 4 (Buf (replicate 4 0)))
        d (BSP_RVAL_OK, Buf (enc32 w)) d"
    and wait: "bus_run ready view (udelay os 4) d () d"
    and ready_env: "ready s \<Longrightarrow> ready (s\<lparr>env := e\<rparr>)"
    and ready_ctx: "ready s \<Longrightarrow> ready (s\<lparr>eepromContexts := cs\<rparr>)"
begin

lemma run_bind:
  "bus_run ready view m d r d' \<Longrightarrow> bus_run ready view (f r) d' r' d'' \<Longrightarrow> bus_run ready view (bindC m f) d r' d''"
  by (rule bus_run_bind) (rule ready_env)

lemma run_seq:
  "bus_run ready view m d r d' \<Longrightarrow> bus_run ready view n d' r' d'' \<Longrightarrow> bus_run ready view (seqC m n) d r' d''"
  unfolding seqC_def by (rule run_bind)

lemma set_bit:
  "bus_run ready view (eepromDrvSetSK D (of_bool v)) d IOS_ERROR_OK (drive SK v d)"
  "bus_run ready view (eepromDrvSetCS D (of_bool v)) d IOS_ERROR_OK (drive CS v d)"
  "bus_run ready view (eepromDrvSetDO D (of_bool v)) d IOS_ERROR_OK (drive DO v d)"
  unfolding eepromDrvSetSK_def eepromDrvSetCS_def eepromDrvSetDO_def
  using set_line [of SK v d] set_line [of CS v d] set_line [of DO v d]
  by (cases v; auto intro!: run_bind bus_run_return)+

lemmas set_consts = set_bit [of False, simplified] set_bit [of True, simplified]

lemmas run_rules = run_seq set_consts wait bus_run_return

lemma read_bit:
  "bus_run ready view (eepromDrvReadBit D os) d (of_bool (di (clock_out drive d))) (clock_out drive d)"
proof -
  let ?d = "clock_out drive d"
  obtain w where w: "w \<noteq> 0 \<longleftrightarrow> di ?d" "bus_run ready view
        (bspReadInternal D (lit ''GPIO'') 0 (lit ''EEPROM_DI'') 4 (Buf (replicate 4 0)))
        ?d (BSP_RVAL_OK, Buf (enc32 w)) ?d"
    using sense by blast
  have load: "bindC (liftC (load_ptr 0 4 (Buf (enc32 w)))) (\<lambda>bs. returnC (if dec32 bs \<noteq> 0 then 1 else 0)) =
      returnC (of_bool (di ?d))"
    using w(1) by (auto simp: fun_eq_iff prog_simps codec32.load_Buf_enc codec32.dec_enc simp del: load_ptr.simps)
  have get: "bus_run ready view (bindC (bspReadInternal D (lit ''GPIO'') 0 (lit ''EEPROM_DI'') 4 (Buf (replicate 4 0)))
      (\<lambda>(err, p). if err \<noteq> BSP_RVAL_OK then returnC 0
         else bindC (liftC (load_ptr 0 4 p)) (\<lambda>bs. returnC (if dec32 bs \<noteq> 0 then 1 else 0))))
      ?d (of_bool (di ?d)) ?d"
    by (intro run_bind [OF w(2)]) (simp only: prod.case simp_thms if_False load bus_run_return)
  show ?thesis
    unfolding eepromDrvReadBit_def by (rule run_rules get [unfolded clock_out_def] | simp only: clock_out_def)+
qed

lemma finish_clocks: "bus_run ready view (finish_clocks D os n) d () ((tick drive ^^ n) d)"
proof (induction n arbitrary: d)
  case 0
  show ?case by (simp add: bus_run_return)
next
  case (Suc n)
  have rest: "bus_run ready view (finish_clocks D os n) (drive SK True (drive SK False d)) () ((tick drive ^^ Suc n) d)"
    using Suc.IH [of "tick drive d"] by (simp add: funpow_swap1 tick_def [of drive d])
  show ?case
    unfolding finish_clocks.simps by (rule run_rules rest)+
qed

lemma finish_command:
  "bus_run ready view (eepromDrvFinishCommand D os 2) d () (finish_wave drive 2 d)"
proof -
  have clocks: "bus_run ready view (if (2 :: u32) \<noteq> 0 then finish_clocks D os (nat (sint (2 :: u32))) else returnC ()) d ()
      ((tick drive ^^ 2) d)" for d
    using finish_clocks [of 2 d] by simp
  show ?thesis
    unfolding eepromDrvFinishCommand_def finish_wave_def by (rule clocks run_rules)+
qed

lemma send_loop: "bus_run ready view (send_bits_loop D os data n) d () (send_wave drive (msb_first n data) d)"
proof (induction n arbitrary: d)
  case 0
  show ?case by (simp add: bus_run_return send_wave_def msb_first_def)
next
  case (Suc n)
  have b: "drop_bit n data AND 1 = of_bool (bit data n)"
    by (simp add: and_one_eq bit_iff_odd_drop_bit mod_2_eq_odd)
  have rest: "bus_run ready view (send_bits_loop D os data n)
      (drive SK True (drive DO (bit data n) (drive CS True (drive SK False d)))) ()
      (send_wave drive (msb_first (Suc n) data) d)"
    using Suc.IH by (simp add: send_wave_def msb_first_Suc clock_in_def)
  show ?case
    unfolding send_bits_loop.simps b by (rule run_seq set_consts set_bit wait rest)+
qed

lemma send_bits:
  assumes "n \<le> 32"
  shows "bus_run ready view (eepromDrvSendBits D os n data) d IOS_ERROR_OK
     (send_wave drive (msb_first (unat n) data) d)"
proof -
  have "nat (sint (n - 1) + 1) = unat n"
    using assms by (simp add: sint_pred)
  then show ?thesis
    using assms run_seq [OF send_loop [of data "unat n" d] bus_run_return]
    by (simp add: eepromDrvSendBits_def not_less [symmetric])
qed

lemma read_loop:
  "n \<le> 16 \<Longrightarrow> bus_run ready view (read_word_loop D os n acc) d (acc OR word_of_bits (sampled drive di n d))
     ((clock_out drive ^^ n) d)"
proof (induction n arbitrary: acc d)
  case 0
  show ?case by (simp add: bus_run_return sampled_def)
next
  case (Suc n)
  let ?d = "clock_out drive d"
  let ?b = "of_bool (di ?d) :: u32"
  have push: "(ucast (push_bit n (if ?b \<noteq> 0 then 1 else ?b)) :: u16) = push_bit n (of_bool (di ?d))"
    using Suc.prems by (auto intro!: bit_word_eqI simp: bit_simps)
  have "bus_run ready view (read_word_loop D os n (acc OR ucast (push_bit n (if ?b \<noteq> 0 then 1 else ?b)))) ?d
      (acc OR word_of_bits (sampled drive di (Suc n) d)) ((clock_out drive ^^ Suc n) d)"
    unfolding push using Suc.IH [of "acc OR push_bit n (of_bool (di ?d))" ?d] Suc.prems
    by (simp add: sampled_Suc funpow_swap1 or.assoc)
  then show ?case
    unfolding read_word_loop.simps by (rule run_bind [OF read_bit])
qed


lemma ready_loop:
  "bus_run ready view (ready_loop D os n) d (True \<notin> set (sampled drive di n d)) (poll_wave drive di n d)"
proof (induction n arbitrary: d)
  case 0
  show ?case by (simp add: bus_run_return sampled_def poll_wave_def)
next
  case (Suc n)
  let ?d = "clock_out drive d"
  have "bus_run ready view (if of_bool (di ?d) \<noteq> (0 :: u32) then returnC False else ready_loop D os n) ?d
      (True \<notin> set (sampled drive di (Suc n) d)) (poll_wave drive di (Suc n) d)"
    using Suc.IH [of ?d] bus_run_return [of ready view False ?d]
    by (simp add: sampled_Suc poll_wave_def funpow_swap1)
  then show ?case
    unfolding ready_loop.simps by (rule run_bind [OF read_bit])
qed

lemma wait_for_ready:
  "bus_run ready view (eepromDrvWaitForReady D os) d
     (if True \<in> set (sampled drive di 1000 (drive DO False d)) then IOS_ERROR_OK else IOS_ERROR_FAIL_INTERNAL)
     (finish_wave drive 2 (poll_wave drive di 1000 (drive DO False d)))"
proof -
  let ?d = "drive DO False d"
  have "bus_run ready view
      (seqC (eepromDrvFinishCommand D os 2)
        (if True \<notin> set (sampled drive di 1000 ?d) then returnC IOS_ERROR_FAIL_INTERNAL else returnC IOS_ERROR_OK))
      (poll_wave drive di 1000 ?d)
      (if True \<in> set (sampled drive di 1000 ?d) then IOS_ERROR_OK else IOS_ERROR_FAIL_INTERNAL)
      (finish_wave drive 2 (poll_wave drive di 1000 ?d))"
    by (rule run_seq [OF finish_command]) (simp add: bus_run_return)
  then show ?thesis
    unfolding eepromDrvWaitForReady_def
    by (intro run_seq [OF set_consts(3)] run_bind [OF ready_loop])
qed


text \<open>The word operations, in a ready state whose first context is open.\<close>

lemma opened_run:
  assumes "\<And>s. ready s \<and> opened s \<Longrightarrow> m s = m' s" "bus_run ready view m' d r d'"
  shows "bus_run (\<lambda>s. ready s \<and> opened s) view m d r d'"
  using assms unfolding bus_run_def by metis

lemma read_word:
  defines "d1 d addr \<equiv> send_wave drive (read_command addr) d"
  shows "bus_run (\<lambda>s. ready s \<and> opened s) view (eepromDrvReadWord D os 0 addr) d
     (IOS_ERROR_OK, Some (word_of_bits (sampled drive di 16 (d1 d addr))))
     (finish_wave drive 2 ((clock_out drive ^^ 16) (d1 d addr)))"
proof (rule opened_run)
  let ?m = "\<lambda>ret. bindC (if ret = IOS_ERROR_OK
      then bindC (read_word_loop D os 16 0) (\<lambda>r. returnC (Some r)) else returnC None) (\<lambda>data.
      seqC (eepromDrvFinishCommand D os 2) (returnC (ret, data)))"
  show "eepromDrvReadWord D os 0 addr s = bindC (eepromDrvSendBits D os 11 (0x600 OR ucast addr)) ?m s"
    if "ready s \<and> opened s" for s
    using that by (simp add: eepromDrvReadWord_def opened_status)
  have send: "bus_run ready view (eepromDrvSendBits D os 11 (0x600 OR ucast addr)) d IOS_ERROR_OK (d1 d addr)"
    using send_bits [of 11 "0x600 OR ucast addr" d] by (simp add: d1_def read_command)
  have "bus_run ready view (read_word_loop D os 16 0) (d1 d addr)
      (word_of_bits (sampled drive di 16 (d1 d addr))) ((clock_out drive ^^ 16) (d1 d addr))"
    using read_loop [of 16 0 "d1 d addr"] by simp
  then have "bus_run ready view (bindC (read_word_loop D os 16 0) (\<lambda>r. returnC (Some r))) (d1 d addr)
      (Some (word_of_bits (sampled drive di 16 (d1 d addr)))) ((clock_out drive ^^ 16) (d1 d addr))"
    by (rule run_bind) (rule bus_run_return)
  then have "bus_run ready view (?m IOS_ERROR_OK) (d1 d addr)
      (IOS_ERROR_OK, Some (word_of_bits (sampled drive di 16 (d1 d addr))))
      (finish_wave drive 2 ((clock_out drive ^^ 16) (d1 d addr)))"
    unfolding simp_thms if_True by (rule run_bind) (rule run_seq [OF finish_command bus_run_return])
  with send show "bus_run ready view (bindC (eepromDrvSendBits D os 11 (0x600 OR ucast addr)) ?m) d
      (IOS_ERROR_OK, Some (word_of_bits (sampled drive di 16 (d1 d addr))))
      (finish_wave drive 2 ((clock_out drive ^^ 16) (d1 d addr)))"
    by (rule run_bind)
qed

lemma program_word:
  defines "d1 d addr data \<equiv> drive DO False (finish_wave drive 2 (send_wave drive (write_command addr data) d))"
  shows "bus_run (\<lambda>s. ready s \<and> opened s) view (eepromDrvWriteWord D os 0 addr data) d
     (if True \<in> set (sampled drive di 1000 (d1 d addr data)) then IOS_ERROR_OK else IOS_ERROR_FAIL_INTERNAL)
     (finish_wave drive 2 (poll_wave drive di 1000 (d1 d addr data)))"
proof (rule opened_run)
  let ?w = "push_bit 16 (0x500 OR ucast addr) OR ucast data :: u32"
  let ?m = "\<lambda>ret. seqC (eepromDrvFinishCommand D os 2)
      (if ret \<noteq> IOS_ERROR_OK then returnC ret else eepromDrvWaitForReady D os)"
  show "eepromDrvWriteWord D os 0 addr data s = bindC (eepromDrvSendBits D os 27 ?w) ?m s"
    if "ready s \<and> opened s" for s
    using that by (simp add: eepromDrvWriteWord_def opened_status)
  have "bus_run ready view (eepromDrvSendBits D os 27 ?w) d IOS_ERROR_OK (send_wave drive (write_command addr data) d)"
    using send_bits [of 27 ?w d] by (simp add: write_command [symmetric])
  moreover have "bus_run ready view (?m IOS_ERROR_OK) (send_wave drive (write_command addr data) d)
     (if True \<in> set (sampled drive di 1000 (d1 d addr data)) then IOS_ERROR_OK else IOS_ERROR_FAIL_INTERNAL)
     (finish_wave drive 2 (poll_wave drive di 1000 (d1 d addr data)))"
    unfolding simp_thms if_False d1_def by (rule run_seq [OF finish_command wait_for_ready])
  ultimately show "bus_run ready view (bindC (eepromDrvSendBits D os 27 ?w) ?m) d
     (if True \<in> set (sampled drive di 1000 (d1 d addr data)) then IOS_ERROR_OK else IOS_ERROR_FAIL_INTERNAL)
     (finish_wave drive 2 (poll_wave drive di 1000 (d1 d addr data)))"
    by (rule run_bind)
qed

lemma write_control:
  assumes "control = EEPROM_WRITE_ENABLE \<or> control = EEPROM_WRITE_DISABLE"
  shows "bus_run (\<lambda>s. ready s \<and> opened s) view (eepromDrvSetWriteControl D os 0 control) d IOS_ERROR_OK
     (finish_wave drive 2 (send_wave drive (control_command control) d))"
proof (rule opened_run)
  let ?w = "if control = EEPROM_WRITE_DISABLE then 0x400 else 0x4c0 :: u32"
  let ?m = "\<lambda>ret. seqC (eepromDrvFinishCommand D os 2) (returnC ret)"
  show "eepromDrvSetWriteControl D os 0 control s = bindC (eepromDrvSendBits D os 11 ?w) ?m s"
    if "ready s \<and> opened s" for s
    using that assms by (auto simp: eepromDrvSetWriteControl_def opened_status)
  show "bus_run ready view (bindC (eepromDrvSendBits D os 11 ?w) ?m) d IOS_ERROR_OK
     (finish_wave drive 2 (send_wave drive (control_command control) d))"
    using send_bits [of 11 ?w d] assms
    by (intro run_bind) (auto simp: control_command intro: run_seq [OF finish_command bus_run_return])
qed

end

end
