(* ===== verification/Eeprom_Bus.thy ===== *)
theory Eeprom_Bus
  imports Eeprom
begin

text \<open>
  The contract of the EEPROM driver with what is under it, derived from the layers of the model:
  an entity named \<^verbatim>\<open>GPIO\<close> in the registry whose four EEPROM attributes act on a device, and a
  kernel clock that advances. The registry's lookup, the permission check of internal clients and
  the busy wait of \<^verbatim>\<open>udelay\<close> turn these into the laws of \<open>eeprom_bus\<close>.
\<close>

lemma registry_untouched [simp]:
  "registered (s\<lparr>env := e\<rparr>) = registered s"
  "registry_wf (s\<lparr>env := e\<rparr>) \<longleftrightarrow> registry_wf s"
  "registered (s\<lparr>eepromContexts := cs\<rparr>) = registered s"
  "registry_wf (s\<lparr>eepromContexts := cs\<rparr>) \<longleftrightarrow> registry_wf s"
  by (simp_all add: registered_def registry_wf_def)

lemma permitted_internal: "permitted BSP_PERMISSIONS_INTERNAL cmd a"
  by (simp add: permitted_iff check_permission_def)

definition holds :: "'m bsp_entity list \<Rightarrow> ('e, 'm, 'z) eeprom_state_scheme \<Rightarrow> bool" where
  "holds es s \<longleftrightarrow> registry_wf s \<and> registered s = es"

locale gpio_lines =
  fixes D :: "('m, ('e, 'm, 'z) eeprom_state_scheme) dispatch"
    and os :: "(('e, 'm, 'z) eeprom_state_scheme) ios"
    and es :: "'m bsp_entity list" and gpio :: "'m bsp_entity"
    and out_attr :: "line \<Rightarrow> 'm bsp_attribute" and out_method :: "line \<Rightarrow> 'm"
    and in_attr :: "'m bsp_attribute" and in_method :: 'm
    and view :: "'e \<Rightarrow> 'd" and drive :: "line \<Rightarrow> bool \<Rightarrow> 'd \<Rightarrow> 'd" and level :: "'d \<Rightarrow> u32"
    and clock :: "('e, 'm, 'z) eeprom_state_scheme \<Rightarrow> nat" and stride :: nat
  assumes gpio_found: "lookup_entity (lit ''GPIO'') es = Some gpio"
    and gpio_instance: "0 < e_instanceCount gpio"
    and out_found: "lookup_attribute (line_name l) (attribute_table gpio 0) = Some (out_attr l)"
    and out_shape: "a_dataSize (out_attr l) = 4" "a_writeMethod (out_attr l) = Some (out_method l)"
    and in_found: "lookup_attribute (lit ''EEPROM_DI'') (attribute_table gpio 0) = Some in_attr"
    and in_shape: "a_dataSize in_attr = 4" "a_readMethod in_attr = Some in_method"
    and drives: "\<exists>e. call_write D (out_method l) 0 (out_attr l) (Buf (enc32 (of_bool v))) s =
        Inr (BSP_RVAL_OK, s\<lparr>env := e\<rparr>) \<and> view e = drive l v (view (env s))"
    and senses: "\<exists>e. call_read D in_method 0 in_attr (Buf (replicate 4 0)) s =
        Inr ((BSP_RVAL_OK, Buf (enc32 (level (view (env s))))), s\<lparr>env := e\<rparr>) \<and> view e = view (env s)"
    and clock_advances: "advancing (IOS_GetUpTime os) clock stride" "stride < 2 ^ 31"
    and clock_apart: "IOS_GetUpTime os s = Inr (now, s') \<Longrightarrow> \<exists>e. s' = s\<lparr>env := e\<rparr> \<and> view e = view (env s)"
begin

lemma out_reached: "holds es s \<Longrightarrow>
    reaches (registered s) (lit ''GPIO'') 0 (line_name l) BSP_PERMISSIONS_INTERNAL cmd (out_attr l)"
  using gpio_found gpio_instance out_found by (simp add: reaches_def holds_def permitted_internal)

lemma in_reached: "holds es s \<Longrightarrow>
    reaches (registered s) (lit ''GPIO'') 0 (lit ''EEPROM_DI'') BSP_PERMISSIONS_INTERNAL cmd in_attr"
  using gpio_found gpio_instance in_found by (simp add: reaches_def holds_def permitted_internal)

lemma line_answerable:
  assumes "holds es s"
  shows "answerable s (lit ''GPIO'') 0 (line_name l)" "answerable s (lit ''GPIO'') 0 (lit ''EEPROM_DI'')"
proof -
  have wf: "registry_wf s" using assms by (simp add: holds_def)
  have "readable 32 (lit ''GPIO'')" "readable 32 (line_name l)" "cstring (line_name l) \<noteq> []"
    "readable 32 (lit ''EEPROM_DI'')" "cstring (lit ''EEPROM_DI'') \<noteq> []"
    by (cases l; simp add: lit_def readable_def)+
  then show "answerable s (lit ''GPIO'') 0 (line_name l)" "answerable s (lit ''GPIO'') 0 (lit ''EEPROM_DI'')"
    using reaches_answerable [OF wf _ _ _ out_reached [OF assms, of l 0]]
      reaches_answerable [OF wf _ _ _ in_reached [OF assms, of 0]] by blast+
qed

lemma delay_apart: "bus_run (holds es) view (udelay os 4) d () d"
  unfolding bus_run_def
proof (intro allI impI)
  fix s :: "('e, 'm, 'z) eeprom_state_scheme"
  assume s: "holds es s \<and> view (env s) = d"
  let ?I = "\<lambda>s'. \<exists>e. s' = s\<lparr>env := e\<rparr> \<and> view e = d"
  have "unat (usec_to_timer_ticks 4) + stride \<le> 2 ^ 32"
    using clock_advances(2) by (simp add: usec_ticks_value)
  then obtain s' where run: "udelay os 4 s = Inr ((), s')"
    using wait_ticks_returns [OF clock_advances(1)] unfolding udelay_def by blast
  have "?I s" using s by (intro exI [of _ "env s"]) simp
  moreover have "?I s2" if "IOS_GetUpTime os s1 = Inr (now, s2)" "?I s1" for s1 now s2
    using clock_apart [OF that(1)] that(2) by auto
  ultimately have "?I s'"
    using wait_ticks_invariant [of "IOS_GetUpTime os" ?I] run unfolding udelay_def by blast
  with run show "\<exists>e. udelay os 4 s = Inr ((), s\<lparr>env := e\<rparr>) \<and> view e = d" by auto
qed

end

sublocale gpio_lines \<subseteq> eeprom_bus D os "holds es" view drive "\<lambda>d. level d \<noteq> 0"
proof
  fix l v d
  show "bus_run (holds es) view (bspWriteInternal D (lit ''GPIO'') 0 (line_name l) 4 (Buf (enc32 (of_bool v))))
      d BSP_RVAL_OK (drive l v d)"
    unfolding bus_run_def bspWriteInternal_def
    using drives [of l v]
    by (auto simp: reached_write [OF line_answerable(1) out_reached] out_shape)
next
  fix d
  have "bus_run (holds es) view
      (bspReadInternal D (lit ''GPIO'') 0 (lit ''EEPROM_DI'') 4 (Buf (replicate 4 0)))
      d (BSP_RVAL_OK, Buf (enc32 (level d))) d"
    unfolding bus_run_def bspReadInternal_def
    using senses by (auto simp: reached_read [OF line_answerable(2) in_reached] in_shape)
  then show "\<exists>w. (w \<noteq> 0 \<longleftrightarrow> level d \<noteq> 0) \<and> bus_run (holds es) view
      (bspReadInternal D (lit ''GPIO'') 0 (lit ''EEPROM_DI'') 4 (Buf (replicate 4 0)))
      d (BSP_RVAL_OK, Buf (enc32 w)) d"
    by blast
next
  show "bus_run (holds es) view (udelay os 4) d () d" for d by (rule delay_apart)
qed (simp_all add: holds_def)

end
