(* ===== verification/Eeprom_Device.thy ===== *)
theory Eeprom_Device
  imports Eeprom_Bus
begin

text \<open>
  The serial EEPROM at the other end of the four lines, as its data sheet describes it (a
  93C66-style device of 256 16-bit words), and the driver run against it. The device is not code
  of the repository: it is the environment in which the driver's words are shown to be stored and
  found again.
\<close>

section \<open>The device\<close>

record ee_dev =
  ee_mem :: "u8 \<Rightarrow> u16"
  ee_wen :: bool
  ee_cs :: bool
  ee_sk :: bool
  ee_do :: bool
  ee_shift :: "bool list"
  ee_out :: "bool list"
  ee_level :: bool

definition ee_address :: "bool list \<Rightarrow> u8" where
  "ee_address sh = ucast (word_of_bits (take 8 (drop 3 sh)))"

text \<open>The last bit of an instruction selects what it does; a write waits for its data.\<close>

definition ee_decode :: "ee_dev \<Rightarrow> ee_dev" where
  "ee_decode d =
     (if length (ee_shift d) \<noteq> 11 then d
      else if take 3 (ee_shift d) = [True, True, False]
      then d\<lparr>ee_out := msb_first 16 (ee_mem d (ee_address (ee_shift d))), ee_level := False\<rparr>
      else if take 5 (ee_shift d) = [True, False, False, True, True] then d\<lparr>ee_wen := True\<rparr>
      else if take 5 (ee_shift d) = [True, False, False, False, False] then d\<lparr>ee_wen := False\<rparr>
      else d)"

text \<open>A rising clock edge while selected: a data bit out, or a bit of an instruction in.\<close>

definition ee_clock :: "ee_dev \<Rightarrow> ee_dev" where
  "ee_clock d =
     (case ee_out d of
        b # bs \<Rightarrow> d\<lparr>ee_level := b, ee_out := bs\<rparr>
      | [] \<Rightarrow> if ee_shift d = [] \<and> \<not> ee_do d then d
              else ee_decode (d\<lparr>ee_shift := ee_shift d @ [ee_do d]\<rparr>))"

text \<open>Releasing chip select starts the programming of a complete write or erase instruction.\<close>

definition ee_commit :: "ee_dev \<Rightarrow> ee_dev" where
  "ee_commit d =
     (if \<not> ee_wen d then d
      else if length (ee_shift d) = 27 \<and> take 3 (ee_shift d) = [True, False, True]
      then d\<lparr>ee_mem := (ee_mem d)(ee_address (ee_shift d) := word_of_bits (drop 11 (ee_shift d)))\<rparr>
      else if length (ee_shift d) = 11 \<and> take 5 (ee_shift d) = [True, False, False, True, False]
      then d\<lparr>ee_mem := (\<lambda>_. 0xFFFF)\<rparr>
      else d)"

fun ee_drive :: "line \<Rightarrow> bool \<Rightarrow> ee_dev \<Rightarrow> ee_dev" where
  "ee_drive DO v d = d\<lparr>ee_do := v\<rparr>"
| "ee_drive SK v d = (if v \<and> \<not> ee_sk d \<and> ee_cs d then ee_clock d else d)\<lparr>ee_sk := v\<rparr>"
| "ee_drive CS v d =
     (if v = ee_cs d then d
      else if v then d\<lparr>ee_cs := True, ee_level := True\<rparr>
      else (ee_commit d)\<lparr>ee_cs := False, ee_shift := [], ee_out := [], ee_level := False\<rparr>)"

definition ee_di :: "ee_dev \<Rightarrow> u32" where
  "ee_di d = of_bool (ee_level d)"

section \<open>The driver's waveforms at the device\<close>

definition ee_idle :: "ee_dev \<Rightarrow> bool" where
  "ee_idle d \<longleftrightarrow> \<not> ee_cs d \<and> ee_shift d = [] \<and> ee_out d = []"

text \<open>In the middle of an instruction of which \<open>sh\<close> has been received.\<close>

definition ee_mid :: "ee_dev \<Rightarrow> bool list \<Rightarrow> bool" where
  "ee_mid d sh \<longleftrightarrow> ee_cs d \<and> ee_shift d = sh \<and> ee_out d = []"

definition ee_same :: "ee_dev \<Rightarrow> ee_dev \<Rightarrow> bool" where
  "ee_same d d' \<longleftrightarrow> ee_mem d' = ee_mem d \<and> ee_wen d' = ee_wen d"

lemma ee_same_trans: "ee_same d d' \<Longrightarrow> ee_same d' d'' \<Longrightarrow> ee_same d d''"
  by (simp add: ee_same_def)

lemma clock_in_first:
  "ee_idle d \<Longrightarrow> ee_mid (clock_in ee_drive True d) [True] \<and> ee_same d (clock_in ee_drive True d)"
  by (simp add: ee_idle_def ee_mid_def ee_same_def clock_in_def ee_clock_def ee_decode_def)

lemma clock_in_mid:
  assumes "ee_mid d sh" "sh \<noteq> []"
  shows "clock_in ee_drive v d =
     (ee_decode (d\<lparr>ee_sk := False, ee_do := v, ee_shift := sh @ [v]\<rparr>))\<lparr>ee_sk := True\<rparr>"
  using assms by (simp add: ee_mid_def clock_in_def ee_clock_def)

lemma take_5_3: "take 5 sh = a # b # c # xs \<Longrightarrow> take 3 sh = [a, b, c]"
  by (drule arg_cong [where f = "take 3"]) simp

lemma send_quiet:
  assumes "ee_mid d sh" "sh \<noteq> []"
    and "length sh + length bs < 11 \<or> 3 \<le> length sh \<and> take 3 sh = [True, False, True]"
  shows "ee_mid (send_wave ee_drive bs d) (sh @ bs) \<and> ee_same d (send_wave ee_drive bs d)"
  using assms
proof (induction bs arbitrary: d sh)
  case Nil
  then show ?case by (simp add: send_wave_def ee_same_def)
next
  case (Cons v bs)
  let ?d = "clock_in ee_drive v d"
  have "ee_mid ?d (sh @ [v]) \<and> ee_same d ?d"
    using Cons.prems by (auto simp: clock_in_mid ee_decode_def ee_mid_def ee_same_def dest: take_5_3)
  moreover from this have "ee_mid (send_wave ee_drive bs ?d) ((sh @ [v]) @ bs) \<and> ee_same ?d (send_wave ee_drive bs ?d)"
    using Cons.prems by (intro Cons.IH) auto
  ultimately show ?case
    by (auto simp: send_wave_def intro: ee_same_trans)
qed

lemma ee_address_msb: "length p = 3 \<Longrightarrow> ee_address (p @ msb_first 8 a @ bs) = a"
proof -
  assume "length p = 3"
  then have "ee_address (p @ msb_first 8 a @ bs) = ucast (word_of_bits (msb_first 8 a))"
    by (simp add: ee_address_def msb_first_def)
  also have "\<dots> = a"
    by (rule bit_word_eqI) (simp add: bit_simps bit_word_of_bits msb_first_def rev_nth)
  finally show ?thesis .
qed


lemma msb_first_snoc: "0 < n \<Longrightarrow> \<exists>bs. msb_first n w = bs @ [bit w 0] \<and> length bs = n - 1"
proof -
  assume "0 < n"
  then have "[0..<n] = 0 # [1..<n]" by (simp add: upt_conv_Cons)
  then show ?thesis
    by (intro exI [of _ "map (bit w) (rev [1..<n])"]) (simp add: msb_first_def)
qed

lemma length_msb_first [simp]: "length (msb_first n w) = n"
  by (simp add: msb_first_def)

text \<open>An instruction of eleven bits that starts with a one: ten quiet clocks, then the decoding.\<close>

lemma send_eleven:
  assumes "ee_idle d" "length bs = 9"
  obtains d1 where "send_wave ee_drive (True # bs @ [v]) d = (ee_decode d1)\<lparr>ee_sk := True\<rparr>"
    "ee_mid d1 (True # bs @ [v])" "ee_same d d1"
proof -
  let ?d = "send_wave ee_drive bs (clock_in ee_drive True d)"
  have "ee_mid ?d (True # bs)" "ee_same d ?d"
    using clock_in_first [OF assms(1)] send_quiet [of "clock_in ee_drive True d" "[True]" bs] assms(2)
    by (auto intro: ee_same_trans)
  moreover have "send_wave ee_drive (True # bs @ [v]) d = clock_in ee_drive v ?d"
    by (simp add: send_wave_def)
  ultimately show thesis
    using clock_in_mid [of ?d "True # bs" v]
    by (intro that [of "?d\<lparr>ee_sk := False, ee_do := v, ee_shift := True # bs @ [v]\<rparr>"])
       (auto simp: ee_mid_def ee_same_def)
qed

lemma send_read:
  assumes "ee_idle d"
  shows "let d' = send_wave ee_drive (read_command a) d
    in ee_cs d' \<and> ee_shift d' = read_command a \<and> ee_out d' = msb_first 16 (ee_mem d a) \<and> ee_same d d'"
proof -
  obtain bs where bs: "msb_first 8 a = bs @ [bit a 0]" "length bs = 7" using msb_first_snoc [of 8 a] by auto
  then have rc: "read_command a = True # (True # False # bs) @ [bit a 0]" by (simp add: read_command_def)
  obtain d1 where "send_wave ee_drive (read_command a) d = (ee_decode d1)\<lparr>ee_sk := True\<rparr>"
    "ee_mid d1 (read_command a)" "ee_same d d1"
    unfolding rc by (rule send_eleven [OF assms, of "True # False # bs"]) (simp add: bs)
  then show ?thesis
    using ee_address_msb [of "[True, True, False]" a "[]"]
    by (auto simp: ee_mid_def ee_same_def ee_decode_def read_command_def)
qed

lemma send_write:
  assumes "ee_idle d"
  shows "ee_mid (send_wave ee_drive (write_command a w) d) (write_command a w) \<and>
     ee_same d (send_wave ee_drive (write_command a w) d)"
proof -
  let ?d1 = "clock_in ee_drive True d" and ?d3 = "send_wave ee_drive [False, True] (clock_in ee_drive True d)"
  have 3: "ee_mid ?d3 [True, False, True] \<and> ee_same ?d1 ?d3"
    using send_quiet [of ?d1 "[True]" "[False, True]"] clock_in_first [OF assms] by simp
  then have "ee_mid (send_wave ee_drive (msb_first 8 a @ msb_first 16 w) ?d3) (write_command a w) \<and>
      ee_same ?d3 (send_wave ee_drive (msb_first 8 a @ msb_first 16 w) ?d3)"
    using send_quiet [of ?d3 "[True, False, True]" "msb_first 8 a @ msb_first 16 w"]
    by (simp add: write_command_def)
  moreover have "send_wave ee_drive (write_command a w) d = send_wave ee_drive (msb_first 8 a @ msb_first 16 w) ?d3"
    by (simp add: write_command_def send_wave_def)
  ultimately show ?thesis
    using 3 clock_in_first [OF assms] by (auto intro: ee_same_trans)
qed

lemma send_control:
  assumes "ee_idle d" "control = EEPROM_WRITE_ENABLE \<or> control = EEPROM_WRITE_DISABLE"
  shows "let d' = send_wave ee_drive (control_command control) d
    in ee_cs d' \<and> ee_shift d' = control_command control \<and> ee_out d' = [] \<and> ee_mem d' = ee_mem d \<and>
       (ee_wen d' \<longleftrightarrow> control = EEPROM_WRITE_ENABLE)"
proof -
  let ?b = "control = EEPROM_WRITE_ENABLE"
  have cc: "control_command control = True # [False, False, ?b, ?b, False, False, False, False, False] @ [False]"
    by (simp add: control_command_def eval_nat_numeral Let_def)
  obtain d1 where "send_wave ee_drive (control_command control) d = (ee_decode d1)\<lparr>ee_sk := True\<rparr>"
    "ee_mid d1 (control_command control)" "ee_same d d1"
    unfolding cc by (rule send_eleven [OF assms(1), of "[False, False, ?b, ?b, False, False, False, False, False]"]) simp
  then show ?thesis
    using assms(2) by (auto simp: ee_mid_def ee_same_def ee_decode_def cc)
qed

text \<open>Clocking out what the device has prepared.\<close>

lemma clock_out_selected:
  "ee_cs d \<Longrightarrow> ee_out d = b # bs \<Longrightarrow>
   clock_out ee_drive d = d\<lparr>ee_sk := True, ee_level := b, ee_out := bs\<rparr>"
  by (simp add: clock_out_def ee_clock_def)

lemma read_out:
  assumes "ee_cs d" "ee_out d = bs"
  shows "sampled ee_drive (\<lambda>d. ee_di d \<noteq> 0) (length bs) d = bs \<and>
     (let d' = (clock_out ee_drive ^^ length bs) d
      in ee_cs d' \<and> ee_shift d' = ee_shift d \<and> ee_out d' = [] \<and> ee_same d d')"
  using assms
proof (induction bs arbitrary: d)
  case Nil
  then show ?case by (simp add: sampled_def ee_same_def)
next
  case (Cons b bs)
  let ?d = "clock_out ee_drive d"
  have d: "ee_cs ?d" "ee_out ?d = bs" "ee_shift ?d = ee_shift d" "ee_same d ?d" "ee_di ?d \<noteq> 0 \<longleftrightarrow> b"
    using Cons.prems by (simp_all add: clock_out_selected ee_same_def ee_di_def)
  show ?case
    using Cons.IH [OF d(1,2)] d(3-5) by (auto simp: Let_def sampled_Suc funpow_swap1 intro: ee_same_trans)
qed

text \<open>The end of a command: chip select falls, and the clocks after it are not seen.\<close>

lemma finish_device:
  assumes "ee_cs d"
  shows "let d' = finish_wave ee_drive 2 d
    in ee_idle d' \<and> ee_mem d' = ee_mem (ee_commit d) \<and> ee_wen d' = ee_wen d \<and> \<not> ee_do d'"
  using assms
  by (simp add: finish_wave_def tick_def eval_nat_numeral ee_idle_def ee_commit_def Let_def)

text \<open>An idle device with its data line low answers the first poll.\<close>

lemma poll_device:
  assumes "ee_idle d" "\<not> ee_do d" "0 < n"
  shows "True \<in> set (sampled ee_drive (\<lambda>d. ee_di d \<noteq> 0) n d)"
    and "poll_wave ee_drive (\<lambda>d. ee_di d \<noteq> 0) n d = clock_out ee_drive d"
    and "ee_mid (clock_out ee_drive d) [] \<and> ee_same d (clock_out ee_drive d)"
proof -
  have d: "clock_out ee_drive d = d\<lparr>ee_sk := True, ee_cs := True, ee_level := True\<rparr>"
    using assms by (simp add: clock_out_def ee_clock_def ee_idle_def)
  obtain m where n: "n = Suc m" using assms(3) by (cases n) auto
  have "ee_di (clock_out ee_drive d) \<noteq> 0" by (simp add: d ee_di_def)
  then show "True \<in> set (sampled ee_drive (\<lambda>d. ee_di d \<noteq> 0) n d)"
    "poll_wave ee_drive (\<lambda>d. ee_di d \<noteq> 0) n d = clock_out ee_drive d"
    by (simp_all add: n sampled_Suc poll_wave_def)
  show "ee_mid (clock_out ee_drive d) [] \<and> ee_same d (clock_out ee_drive d)"
    using assms(1) by (simp add: d ee_mid_def ee_same_def ee_idle_def)
qed


section \<open>The driver against the device\<close>

text \<open>What the clients of the driver use of it: words that are stored can be read.\<close>

locale word_reader =
  fixes rd :: "u8 \<Rightarrow> (('e, 'z) machine_scheme, u32 \<times> u16 option) prog"
    and stored :: "(u8 \<Rightarrow> u16) \<Rightarrow> ('e, 'z) machine_scheme \<Rightarrow> bool"
  assumes rd_stored: "stored m s \<Longrightarrow>
      \<exists>e. rd a s = Inr ((IOS_ERROR_OK, Some (m a)), s\<lparr>env := e\<rparr>) \<and> stored m (s\<lparr>env := e\<rparr>)"
begin

text \<open>Reading a range of words one after the other.\<close>

lemma rd_bind:
  assumes "stored m s"
    and "\<And>e. stored m (s\<lparr>env := e\<rparr>) \<Longrightarrow> \<exists>e'. f (IOS_ERROR_OK, Some (m a)) (s\<lparr>env := e\<rparr>) = Inr (r, s\<lparr>env := e'\<rparr>) \<and>
           stored m (s\<lparr>env := e'\<rparr>)"
  shows "\<exists>e'. bindC (rd a) f s = Inr (r, s\<lparr>env := e'\<rparr>) \<and> stored m (s\<lparr>env := e'\<rparr>)"
proof -
  obtain e where "rd a s = Inr ((IOS_ERROR_OK, Some (m a)), s\<lparr>env := e\<rparr>)" "stored m (s\<lparr>env := e\<rparr>)"
    using rd_stored [OF assms(1)] by blast
  then show ?thesis using assms(2) [of e] by (simp add: bindC_def)
qed

end

locale eeprom_attached =
  eeprom_bus D os ready view ee_drive "\<lambda>d. ee_di d \<noteq> 0"
  for D :: "('m, ('e, 'm, 'z) eeprom_state_scheme) dispatch"
    and os :: "(('e, 'm, 'z) eeprom_state_scheme) ios"
    and ready :: "('e, 'm, 'z) eeprom_state_scheme \<Rightarrow> bool"
    and view :: "'e \<Rightarrow> ee_dev"
begin

lemma device_read:
  assumes "ee_idle d"
  shows "\<exists>d'. bus_run (\<lambda>s. ready s \<and> opened s) view (eepromDrvReadWord D os 0 a) d
      (IOS_ERROR_OK, Some (ee_mem d a)) d' \<and> ee_idle d' \<and> ee_same d d'"
proof -
  let ?d1 = "send_wave ee_drive (read_command a) d"
  let ?d2 = "(clock_out ee_drive ^^ 16) ?d1"
  have 1: "ee_cs ?d1" "ee_shift ?d1 = read_command a" "ee_out ?d1 = msb_first 16 (ee_mem d a)" "ee_same d ?d1"
    using send_read [OF assms, of a] by (simp_all add: Let_def)
  then have 2: "sampled ee_drive (\<lambda>d. ee_di d \<noteq> 0) 16 ?d1 = msb_first 16 (ee_mem d a)"
    "ee_cs ?d2" "ee_shift ?d2 = read_command a" "ee_same ?d1 ?d2"
    using read_out [OF 1(1,3)] by (simp_all add: Let_def)
  have "ee_commit ?d2 = ?d2" using 2(3) by (simp add: ee_commit_def read_command_def)
  with 2 finish_device [OF 2(2)] have "ee_idle (finish_wave ee_drive 2 ?d2)" "ee_same ?d2 (finish_wave ee_drive 2 ?d2)"
    by (simp_all add: Let_def ee_same_def)
  moreover have "bus_run (\<lambda>s. ready s \<and> opened s) view (eepromDrvReadWord D os 0 a) d
      (IOS_ERROR_OK, Some (ee_mem d a)) (finish_wave ee_drive 2 ?d2)"
    using read_word [of a d] by (simp add: 2(1) word_of_bits_msb_first)
  ultimately show ?thesis using 1(4) 2(4) by (blast intro: ee_same_trans)
qed

lemma device_write:
  assumes "ee_idle d"
  shows "\<exists>d'. bus_run (\<lambda>s. ready s \<and> opened s) view (eepromDrvWriteWord D os 0 a w) d IOS_ERROR_OK d' \<and>
      ee_idle d' \<and> ee_wen d' = ee_wen d \<and> ee_mem d' = (if ee_wen d then (ee_mem d)(a := w) else ee_mem d)"
proof -
  let ?d1 = "send_wave ee_drive (write_command a w) d"
  let ?d2 = "ee_drive DO False (finish_wave ee_drive 2 ?d1)"
  let ?d3 = "clock_out ee_drive ?d2"
  have 1: "ee_mid ?d1 (write_command a w)" "ee_same d ?d1" using send_write [OF assms] by blast+
  have "ee_mem (ee_commit ?d1) = (if ee_wen d then (ee_mem d)(a := w) else ee_mem d)"
    using 1 ee_address_msb [of "[True, False, True]" a "msb_first 16 w"]
    by (auto simp: ee_commit_def ee_mid_def ee_same_def write_command_def word_of_bits_msb_first)
  with 1 finish_device [of ?d1] have 2: "ee_idle ?d2" "\<not> ee_do ?d2" "ee_wen ?d2 = ee_wen d"
    "ee_mem ?d2 = (if ee_wen d then (ee_mem d)(a := w) else ee_mem d)"
    by (simp_all add: Let_def ee_mid_def ee_same_def ee_idle_def)
  note poll = poll_device [OF 2(1,2), of 1000, simplified]
  have "ee_commit ?d3 = ?d3" using poll(3) by (simp add: ee_commit_def ee_mid_def)
  then have 3: "ee_idle (finish_wave ee_drive 2 ?d3)" "ee_same ?d2 (finish_wave ee_drive 2 ?d3)"
    using finish_device [of ?d3] poll(3) by (simp_all add: Let_def ee_same_def ee_mid_def)
  have "bus_run (\<lambda>s. ready s \<and> opened s) view (eepromDrvWriteWord D os 0 a w) d IOS_ERROR_OK (finish_wave ee_drive 2 ?d3)"
    using program_word [of a w d] poll(1,2) by simp
  then show ?thesis using 2(3,4) 3 by (intro exI [of _ "finish_wave ee_drive 2 ?d3"]) (simp add: ee_same_def)
qed

end


text \<open>The driver is ready and open, and the device behind it is between commands.\<close>

definition ee_settled ::
  "(('e, 'm, 'z) eeprom_state_scheme \<Rightarrow> bool) \<Rightarrow> ('e \<Rightarrow> ee_dev) \<Rightarrow> ('e, 'm, 'z) eeprom_state_scheme \<Rightarrow> bool" where
  "ee_settled ready view s \<longleftrightarrow> ready s \<and> opened s \<and> ee_idle (view (env s))"

context eeprom_attached
begin

lemma device_control:
  assumes "ee_idle d" "control = EEPROM_WRITE_ENABLE \<or> control = EEPROM_WRITE_DISABLE"
  shows "\<exists>d'. bus_run (\<lambda>s. ready s \<and> opened s) view (eepromDrvSetWriteControl D os 0 control) d IOS_ERROR_OK d' \<and>
      ee_idle d' \<and> ee_mem d' = ee_mem d \<and> (ee_wen d' \<longleftrightarrow> control = EEPROM_WRITE_ENABLE)"
proof -
  let ?d1 = "send_wave ee_drive (control_command control) d"
  have 1: "ee_cs ?d1" "ee_shift ?d1 = control_command control" "ee_mem ?d1 = ee_mem d"
    "ee_wen ?d1 \<longleftrightarrow> control = EEPROM_WRITE_ENABLE"
    using send_control [OF assms] by (simp_all add: Let_def)
  have "ee_commit ?d1 = ?d1"
    using 1(2) assms(2) by (auto simp: ee_commit_def control_command_def)
  then have "ee_idle (finish_wave ee_drive 2 ?d1)" "ee_mem (finish_wave ee_drive 2 ?d1) = ee_mem d"
    "ee_wen (finish_wave ee_drive 2 ?d1) \<longleftrightarrow> control = EEPROM_WRITE_ENABLE"
    using finish_device [OF 1(1)] 1(3,4) by (simp_all add: Let_def)
  then show ?thesis using write_control [OF assms(2), of d] by blast
qed

lemma settled_run:
  assumes "ee_settled ready view s" "\<exists>d'. bus_run (\<lambda>s. ready s \<and> opened s) view m (view (env s)) r d' \<and> ee_idle d' \<and> P d'"
  shows "\<exists>e. m s = Inr (r, s\<lparr>env := e\<rparr>) \<and> ee_settled ready view (s\<lparr>env := e\<rparr>) \<and> P (view e)"
proof -
  obtain d' where d': "bus_run (\<lambda>s. ready s \<and> opened s) view m (view (env s)) r d'" "ee_idle d'" "P d'"
    using assms(2) by blast
  then obtain e where "m s = Inr (r, s\<lparr>env := e\<rparr>)" "view e = d'"
    using bus_runE [OF d'(1), of s] assms(1) by (auto simp: ee_settled_def)
  then show ?thesis
    using d'(2,3) assms(1) ready_env by (auto simp: ee_settled_def opened_def)
qed

lemma settled_ops:
  assumes s: "ee_settled ready view s"
  shows "\<exists>e. eepromDrvReadWord D os 0 a s = Inr ((IOS_ERROR_OK, Some (ee_mem (view (env s)) a)), s\<lparr>env := e\<rparr>) \<and>
      ee_settled ready view (s\<lparr>env := e\<rparr>) \<and> ee_same (view (env s)) (view e)"
    and "\<exists>e. eepromDrvWriteWord D os 0 a w s = Inr (IOS_ERROR_OK, s\<lparr>env := e\<rparr>) \<and> ee_settled ready view (s\<lparr>env := e\<rparr>) \<and>
      ee_wen (view e) = ee_wen (view (env s)) \<and>
      ee_mem (view e) = (if ee_wen (view (env s)) then (ee_mem (view (env s)))(a := w) else ee_mem (view (env s)))"
    and "control = EEPROM_WRITE_ENABLE \<or> control = EEPROM_WRITE_DISABLE \<Longrightarrow>
      \<exists>e. eepromDrvSetWriteControl D os 0 control s = Inr (IOS_ERROR_OK, s\<lparr>env := e\<rparr>) \<and> ee_settled ready view (s\<lparr>env := e\<rparr>) \<and>
      ee_mem (view e) = ee_mem (view (env s)) \<and> (ee_wen (view e) \<longleftrightarrow> control = EEPROM_WRITE_ENABLE)"
proof -
  have idle: "ee_idle (view (env s))" using s by (simp add: ee_settled_def)
  show "\<exists>e. eepromDrvReadWord D os 0 a s = Inr ((IOS_ERROR_OK, Some (ee_mem (view (env s)) a)), s\<lparr>env := e\<rparr>) \<and>
      ee_settled ready view (s\<lparr>env := e\<rparr>) \<and> ee_same (view (env s)) (view e)"
    by (rule settled_run [OF s device_read [OF idle]])
  show "\<exists>e. eepromDrvWriteWord D os 0 a w s = Inr (IOS_ERROR_OK, s\<lparr>env := e\<rparr>) \<and> ee_settled ready view (s\<lparr>env := e\<rparr>) \<and>
      ee_wen (view e) = ee_wen (view (env s)) \<and>
      ee_mem (view e) = (if ee_wen (view (env s)) then (ee_mem (view (env s)))(a := w) else ee_mem (view (env s)))"
    by (rule settled_run [OF s device_write [OF idle]])
  show "\<exists>e. eepromDrvSetWriteControl D os 0 control s = Inr (IOS_ERROR_OK, s\<lparr>env := e\<rparr>) \<and> ee_settled ready view (s\<lparr>env := e\<rparr>) \<and>
      ee_mem (view e) = ee_mem (view (env s)) \<and> (ee_wen (view e) \<longleftrightarrow> control = EEPROM_WRITE_ENABLE)"
    if "control = EEPROM_WRITE_ENABLE \<or> control = EEPROM_WRITE_DISABLE"
    by (rule settled_run [OF s device_control [OF idle that]])
qed

end

text \<open>The driver is ready and open, and the idle device holds the words \<open>m\<close>.\<close>

definition ee_stored ::
  "(('e, 'm, 'z) eeprom_state_scheme \<Rightarrow> bool) \<Rightarrow> ('e \<Rightarrow> ee_dev) \<Rightarrow> (u8 \<Rightarrow> u16) \<Rightarrow>
   ('e, 'm, 'z) eeprom_state_scheme \<Rightarrow> bool" where
  "ee_stored ready view m s \<longleftrightarrow> ee_settled ready view s \<and> ee_mem (view (env s)) = m"

lemma opened_env [simp]: "opened (s\<lparr>env := e\<rparr>) \<longleftrightarrow> opened s"
  by (simp add: opened_def)

sublocale eeprom_attached \<subseteq> word_reader "eepromDrvReadWord D os 0" "ee_stored ready view"
proof
  show "\<exists>e. eepromDrvReadWord D os 0 a s = Inr ((IOS_ERROR_OK, Some (m a)), s\<lparr>env := e\<rparr>) \<and>
      ee_stored ready view m (s\<lparr>env := e\<rparr>)" if "ee_stored ready view m s" for m s a
    using that settled_ops(1) [of s a] by (auto simp: ee_stored_def ee_same_def)
qed

context eeprom_attached
begin

lemma reads_words: "word_reader (eepromDrvReadWord D os 0) (ee_stored ready view)"
  by (rule word_reader_axioms)

end

section \<open>A bench\<close>

text \<open>
  A concrete system: one GPIO entity whose methods move the lines of the device, and a clock that
  counts its own readings. It satisfies the contracts above.
\<close>

record bench =
  bench_dev :: ee_dev
  bench_clock :: nat

definition bench_attribute :: "bytes \<Rightarrow> line option \<Rightarrow> line option bsp_attribute" where
  "bench_attribute nm m =
     \<lparr>a_pName = Some nm, a_options = 0, a_permissions = BSP_PERMISSIONS_INTERNAL, a_data = 0, a_dataSize = 4,
      a_readMethod = (if m = None then Some m else None), a_queryMethod = None,
      a_writeMethod = (if m = None then None else Some m), a_initMethod = None, a_shutdownMethod = None,
      a_attribute_specific = 0\<rparr>"

definition bench_gpio :: "line option bsp_entity" where
  "bench_gpio =
     \<lparr>e_pName = lit ''GPIO'', e_version = 1, e_instanceCount = 1, e_options = BSP_EO_NONE,
      e_pAttributes =
        [[bench_attribute (lit ''EEPROM_DI'') None, bench_attribute (lit ''EEPROM_CS'') (Some CS),
          bench_attribute (lit ''EEPROM_SK'') (Some SK), bench_attribute (lit ''EEPROM_DO'') (Some DO),
          (bench_attribute [] None)\<lparr>a_pName := None\<rparr>]]\<rparr>"

type_synonym 'z bench_state = "(bench, line option, 'z) eeprom_state_scheme"

definition bench_dispatch :: "(line option, 'z bench_state) dispatch" where
  "bench_dispatch =
     \<lparr>call_read = (\<lambda>m i a p s.
        case store_ptr 0 (enc32 (ee_di (bench_dev (env s)))) p of
          Inl f \<Rightarrow> Inl f | Inr q \<Rightarrow> Inr ((BSP_RVAL_OK, q), s)),
      call_query = (\<lambda>m i a p. returnC (BSP_RVAL_QUERY_UNAVAILABLE, p)),
      call_write = (\<lambda>m i a p s.
        case load_ptr 0 4 p of
          Inl f \<Rightarrow> Inl f
        | Inr bs \<Rightarrow> Inr (BSP_RVAL_OK,
            s\<lparr>env := (env s)\<lparr>bench_dev := ee_drive (the m) (dec32 bs \<noteq> 0) (bench_dev (env s))\<rparr>\<rparr>)),
      call_init = (\<lambda>m i a p n. returnC BSP_RVAL_OK),
      call_shutdown = (\<lambda>m i a. returnC BSP_RVAL_OK),
      load_mem = (\<lambda>a n. failC WildPointer)\<rparr>"

definition bench_os :: "((bench, 'm, 'z) eeprom_state_scheme) ios" where
  "bench_os = quiet_ios\<lparr>IOS_GetUpTime :=
     (\<lambda>s. Inr (of_nat (bench_clock (env s)), s\<lparr>env := (env s)\<lparr>bench_clock := Suc (bench_clock (env s))\<rparr>\<rparr>))\<rparr>"

definition bench0 :: "unit bench_state" where
  "bench0 =
     \<lparr>regs = (\<lambda>_. 0),
      env = \<lparr>bench_dev = \<lparr>ee_mem = (\<lambda>a. ucast a * 3), ee_wen = True, ee_cs = False, ee_sk = False, ee_do = False,
               ee_shift = [], ee_out = [], ee_level = False\<rparr>, bench_clock = 0\<rparr>,
      s_crc32Value = 0, log_mutex = 0, log_fds = [], active_log_fds = 0, log_syslog_handle = 0,
      bspEntityCount = 1, bspEntityList = [Some bench_gpio],
      eepromContexts = [\<lparr>ee_status = EEPROM_STATUS_OPEN\<rparr>]\<rparr>"

lemma bench_lookup:
  "lookup_attribute (line_name l) (attribute_table bench_gpio 0) = Some (bench_attribute (line_name l) (Some l))"
  "lookup_attribute (lit ''EEPROM_DI'') (attribute_table bench_gpio 0) = Some (bench_attribute (lit ''EEPROM_DI'') None)"
  by (cases l; simp add: lookup_attribute_def attribute_table_def bench_gpio_def named_attributes_def has_name_def
      bench_attribute_def)+

interpretation bench: gpio_lines "bench_dispatch :: (line option, 'z bench_state) dispatch" bench_os "[bench_gpio]" bench_gpio
    "\<lambda>l. bench_attribute (line_name l) (Some l)" Some "bench_attribute (lit ''EEPROM_DI'') None" None
    bench_dev ee_drive ee_di "\<lambda>s. bench_clock (env s)" 1
proof
  show "lookup_entity (lit ''GPIO'') [bench_gpio] = Some bench_gpio"
    by (simp add: lookup_entity_def bench_gpio_def)
  show "\<exists>e. call_write bench_dispatch (Some l) 0 (bench_attribute (line_name l) (Some l))
      (Buf (enc32 (of_bool v))) s = Inr (BSP_RVAL_OK, s\<lparr>env := e\<rparr>) \<and>
      bench_dev e = ee_drive l v (bench_dev (env s))" for l v s
    by (rule exI [of _ "(env s)\<lparr>bench_dev := ee_drive l v (bench_dev (env s))\<rparr>"])
       (simp add: bench_dispatch_def codec32.load_Buf_enc codec32.dec_enc del: load_ptr.simps)
  show "\<exists>e. call_read bench_dispatch None 0 (bench_attribute (lit ''EEPROM_DI'') None) (Buf (replicate 4 0)) s =
      Inr ((BSP_RVAL_OK, Buf (enc32 (ee_di (bench_dev (env s))))), s\<lparr>env := e\<rparr>) \<and>
      bench_dev e = bench_dev (env s)" for s
    by (rule exI [of _ "env s"]) (simp add: bench_dispatch_def splice_at_def codec32.enc_length)
  show "0 < e_instanceCount bench_gpio" by (simp add: bench_gpio_def)
  show "advancing (IOS_GetUpTime bench_os) (\<lambda>s. bench_clock (env s)) 1"
    by (simp add: bench_os_def advancing_def)
  show "\<exists>e. s' = s\<lparr>env := e\<rparr> \<and> bench_dev e = bench_dev (env s)"
    if "IOS_GetUpTime bench_os s = Inr (now, s')" for s now s'
    using that by (auto simp: bench_os_def)
qed (rule bench_lookup | simp add: bench_attribute_def)+

interpretation bench: eeprom_attached "bench_dispatch :: (line option, 'z bench_state) dispatch" bench_os "holds [bench_gpio]" bench_dev
  by unfold_locales


section \<open>Properties\<close>

lemma bench0_settled: "ee_settled (holds [bench_gpio]) bench_dev bench0"
proof -
  have "registry_wf bench0"
    by (simp add: registry_wf_def registered_def bench0_def entity_wf_def table_wf_def bench_gpio_def
        bench_attribute_def)
  then show ?thesis
    by (simp add: ee_settled_def holds_def registered_def bench0_def opened_def ee_idle_def)
qed

text \<open>
  C18: Words written through the driver can be read back through it. On an open driver whose GPIO
  lines go to a serial EEPROM with writing enabled, \<open>eepromDrvWriteWord\<close> followed by
  \<open>eepromDrvReadWord\<close> both succeed; the second returns the word just written at its address, and at
  every other address the word that was there. Nothing but the outside world has changed.
\<close>

theorem eeprom_read_after_write:
  assumes "eeprom_attached D os ready view" "ee_settled ready view s" "ee_wen (view (env s))"
  shows "\<exists>e. bindC (eepromDrvWriteWord D os 0 a w) (\<lambda>r. bindC (eepromDrvReadWord D os 0 b) (\<lambda>x. returnC (r, x))) s =
     Inr ((IOS_ERROR_OK, IOS_ERROR_OK, Some (if b = a then w else ee_mem (view (env s)) b)), s\<lparr>env := e\<rparr>)"
proof -
  note ops = eeprom_attached.settled_ops [OF assms(1)]
  obtain e where e: "eepromDrvWriteWord D os 0 a w s = Inr (IOS_ERROR_OK, s\<lparr>env := e\<rparr>)"
    "ee_settled ready view (s\<lparr>env := e\<rparr>)" "ee_mem (view e) = (ee_mem (view (env s)))(a := w)"
    using ops(2) [OF assms(2), of a w] assms(3) by auto
  obtain e' where "eepromDrvReadWord D os 0 b (s\<lparr>env := e\<rparr>) = Inr ((IOS_ERROR_OK, Some (ee_mem (view e) b)), s\<lparr>env := e'\<rparr>)"
    using ops(1) [OF e(2), of b] by auto
  then show ?thesis
    using e by (intro exI [of _ e']) (simp add: bindC_def returnC_def)
qed

theorem eeprom_read_after_write_witness:
  "\<exists>e. bindC (eepromDrvWriteWord bench_dispatch bench_os 0 7 0xBEEF)
         (\<lambda>r. bindC (eepromDrvReadWord bench_dispatch bench_os 0 7) (\<lambda>x. returnC (r, x))) bench0 =
     Inr ((IOS_ERROR_OK, IOS_ERROR_OK, Some 0xBEEF), bench0\<lparr>env := e\<rparr>)"
proof -
  have "ee_wen (bench_dev (env bench0))" by (simp add: bench0_def)
  then show ?thesis
    using eeprom_read_after_write [OF bench.eeprom_attached_axioms bench0_settled, of 7 "0xBEEF" 7] by simp
qed

text \<open>
  C19: After \<^verbatim>\<open>EEPROM_WRITE_DISABLE\<close> the words are protected: a write still goes through the
  driver's motions and reports success, and every word reads as before.
\<close>

theorem eeprom_write_disable_protects:
  assumes "eeprom_attached D os ready view" "ee_settled ready view s"
  shows "\<exists>e. bindC (eepromDrvSetWriteControl D os 0 EEPROM_WRITE_DISABLE) (\<lambda>c.
             bindC (eepromDrvWriteWord D os 0 a w) (\<lambda>r.
             bindC (eepromDrvReadWord D os 0 b) (\<lambda>x. returnC (c, r, x)))) s =
     Inr ((IOS_ERROR_OK, IOS_ERROR_OK, IOS_ERROR_OK, Some (ee_mem (view (env s)) b)), s\<lparr>env := e\<rparr>)"
proof -
  note ops = eeprom_attached.settled_ops [OF assms(1)]
  obtain e1 where e1: "eepromDrvSetWriteControl D os 0 EEPROM_WRITE_DISABLE s = Inr (IOS_ERROR_OK, s\<lparr>env := e1\<rparr>)"
    "ee_settled ready view (s\<lparr>env := e1\<rparr>)" "ee_mem (view e1) = ee_mem (view (env s))" "\<not> ee_wen (view e1)"
    using ops(3) [OF assms(2), of EEPROM_WRITE_DISABLE] by auto
  obtain e2 where e2: "eepromDrvWriteWord D os 0 a w (s\<lparr>env := e1\<rparr>) = Inr (IOS_ERROR_OK, s\<lparr>env := e2\<rparr>)"
    "ee_settled ready view (s\<lparr>env := e2\<rparr>)" "ee_mem (view e2) = ee_mem (view (env s))"
    using ops(2) [OF e1(2), of a w] e1(3,4) by auto
  obtain e3 where "eepromDrvReadWord D os 0 b (s\<lparr>env := e2\<rparr>) = Inr ((IOS_ERROR_OK, Some (ee_mem (view e2) b)), s\<lparr>env := e3\<rparr>)"
    using ops(1) [OF e2(2), of b] by auto
  then show ?thesis
    using e1 e2 by (intro exI [of _ e3]) (simp add: bindC_def returnC_def)
qed

theorem eeprom_write_disable_protects_witness:
  "\<exists>e. bindC (eepromDrvSetWriteControl bench_dispatch bench_os 0 EEPROM_WRITE_DISABLE) (\<lambda>c.
         bindC (eepromDrvWriteWord bench_dispatch bench_os 0 7 0xBEEF) (\<lambda>r.
         bindC (eepromDrvReadWord bench_dispatch bench_os 0 7) (\<lambda>x. returnC (c, r, x)))) bench0 =
     Inr ((IOS_ERROR_OK, IOS_ERROR_OK, IOS_ERROR_OK, Some 21), bench0\<lparr>env := e\<rparr>)"
proof -
  have "ee_mem (bench_dev (env bench0)) 7 = 21" by (simp add: bench0_def)
  then show ?thesis
    using eeprom_write_disable_protects [OF bench.eeprom_attached_axioms bench0_settled, of 7 "0xBEEF" 7] by simp
qed

text \<open>
  C20: \<open>eepromDrvReadWord\<close> on any device: it clocks out, with chip select high, the eleven bits of the
  read instruction (110 and the address, most significant bit first), samples the input line on each
  of the sixteen clocks that follow, returns the samples as a word whose bit \<open>15 - k\<close> is the
  \<open>k\<close>-th sample, and ends with chip select low and two clocks.
\<close>

theorem eeprom_read_waveform:
  fixes drive :: "line \<Rightarrow> bool \<Rightarrow> 'd \<Rightarrow> 'd"
  assumes "eeprom_bus D os ready view drive di" "ready s" "opened s"
  shows "\<exists>e w. eepromDrvReadWord D os 0 addr s = Inr ((IOS_ERROR_OK, Some w), s\<lparr>env := e\<rparr>) \<and>
     (let d1 = fold (clock_in drive) ([True, True, False] @ map (bit addr) [7, 6, 5, 4, 3, 2, 1, 0]) (view (env s))
      in (\<forall>k. k < 16 \<longrightarrow> (bit w (15 - k) \<longleftrightarrow> di ((clock_out drive ^^ Suc k) d1))) \<and>
         view e = finish_wave drive 2 ((clock_out drive ^^ 16) d1))"
proof -
  let ?d1 = "send_wave drive (read_command addr) (view (env s))"
  have d1: "?d1 = fold (clock_in drive) ([True, True, False] @ map (bit addr) [7, 6, 5, 4, 3, 2, 1, 0]) (view (env s))"
    by (simp add: send_wave_def read_command_def msb_first_def upt_rec eval_nat_numeral)
  obtain e where "eepromDrvReadWord D os 0 addr s =
      Inr ((IOS_ERROR_OK, Some (word_of_bits (sampled drive di 16 ?d1))), s\<lparr>env := e\<rparr>)"
    "view e = finish_wave drive 2 ((clock_out drive ^^ 16) ?d1)"
    using bus_runE [OF eeprom_bus.read_word [OF assms(1)], of s "view (env s)" addr] assms(2,3) by auto
  moreover have "bit (word_of_bits (sampled drive di 16 ?d1)) (15 - k) \<longleftrightarrow> di ((clock_out drive ^^ Suc k) ?d1)"
    if "k < 16" for k
    using that by (auto simp: bit_word_of_bits sampled_def simp del: funpow.simps)
  ultimately show ?thesis unfolding d1 [symmetric] Let_def by blast
qed

theorem eeprom_read_waveform_witness:
  "\<exists>e w. eepromDrvReadWord bench_dispatch bench_os 0 7 bench0 = Inr ((IOS_ERROR_OK, Some w), bench0\<lparr>env := e\<rparr>)"
proof -
  have "holds [bench_gpio] bench0" "opened bench0" using bench0_settled by (simp_all add: ee_settled_def)
  then show ?thesis
    using eeprom_read_waveform [OF bench.eeprom_bus_axioms, of bench0 7] by blast
qed

text \<open>
  A driver context that is not open refuses: reading, writing, write control and shutdown answer
  not ready, whatever the GPIO methods are, without touching a line or changing any state.
\<close>

theorem closed_eeprom_refuses:
  assumes "eepromContexts s = c # cs" "ee_status c \<noteq> EEPROM_STATUS_OPEN"
  shows "eepromDrvReadWord D os 0 addr s = Inr ((IOS_ERROR_NOTREADY, None), s) \<and>
     eepromDrvWriteWord D os 0 addr data s = Inr (IOS_ERROR_NOTREADY, s) \<and>
     eepromDrvSetWriteControl D os 0 control s = Inr (IOS_ERROR_NOTREADY, s) \<and>
     eepromDrvShutdown D 0 s = Inr (IOS_ERROR_NOTREADY, s)"
  using assms
  by (simp add: eepromDrvReadWord_def eepromDrvWriteWord_def eepromDrvSetWriteControl_def eepromDrvShutdown_def
      ctx_status_def prog_simps)

theorem closed_eeprom_refuses_witness:
  "eepromDrvWriteWord bench_dispatch bench_os 0 7 1 (bench0\<lparr>eepromContexts := [\<lparr>ee_status = EEPROM_STATUS_CLOSED\<rparr>]\<rparr>) =
     Inr (IOS_ERROR_NOTREADY, bench0\<lparr>eepromContexts := [\<lparr>ee_status = EEPROM_STATUS_CLOSED\<rparr>]\<rparr>)"
  using closed_eeprom_refuses [of "bench0\<lparr>eepromContexts := [\<lparr>ee_status = EEPROM_STATUS_CLOSED\<rparr>]\<rparr>"
      "\<lparr>ee_status = EEPROM_STATUS_CLOSED\<rparr>" "[]" bench_dispatch bench_os] by simp


text \<open>Lowering the three lines, as every change of the driver's status does.\<close>

lemma lines_low:
  assumes bus: "eeprom_bus D os ready view drive di" and s: "ready s"
  obtains e1 e2 e3 where "eepromDrvSetCS D 0 s = Inr (IOS_ERROR_OK, s\<lparr>env := e1\<rparr>)"
    "eepromDrvSetSK D 0 (s\<lparr>env := e1\<rparr>) = Inr (IOS_ERROR_OK, s\<lparr>env := e2\<rparr>)"
    "eepromDrvSetDO D 0 (s\<lparr>env := e2\<rparr>) = Inr (IOS_ERROR_OK, s\<lparr>env := e3\<rparr>)"
    "view e3 = idle_lines drive (view (env s))"
proof -
  note set = eeprom_bus.set_consts [OF bus] and keep = eeprom_bus.ready_env [OF bus s]
  obtain e1 where 1: "eepromDrvSetCS D 0 s = Inr (IOS_ERROR_OK, s\<lparr>env := e1\<rparr>)"
    "view e1 = drive CS False (view (env s))" by (rule bus_runE [OF set(2) s refl])
  obtain e2 where 2: "eepromDrvSetSK D 0 (s\<lparr>env := e1\<rparr>) = Inr (IOS_ERROR_OK, s\<lparr>env := e2\<rparr>)"
    "view e2 = drive SK False (view e1)" using bus_runE [OF set(1) keep [of e1] refl] by auto
  obtain e3 where 3: "eepromDrvSetDO D 0 (s\<lparr>env := e2\<rparr>) = Inr (IOS_ERROR_OK, s\<lparr>env := e3\<rparr>)"
    "view e3 = drive DO False (view e2)" using bus_runE [OF set(3) keep [of e2] refl] by auto
  show thesis by (rule that [OF 1(1) 2(1) 3(1)]) (simp add: idle_lines_def 1(2) 2(2) 3(2))
qed

lemma init_run:
  assumes "eeprom_bus D os ready view drive di" "ready s" "eepromContexts s = c # cs"
  shows "\<exists>e. eepromDrvInit D 0 s =
       Inr (IOS_ERROR_OK, s\<lparr>env := e, eepromContexts := \<lparr>ee_status = EEPROM_STATUS_INITIALISED\<rparr> # cs\<rparr>) \<and>
     view e = idle_lines drive (view (env s))"
proof -
  let ?s = "s\<lparr>eepromContexts := \<lparr>ee_status = 0\<rparr> # cs\<rparr>"
  have "ready ?s" by (rule eeprom_bus.ready_ctx [OF assms(1,2)])
  then obtain e1 e2 e3 where e: "eepromDrvSetCS D 0 ?s = Inr (IOS_ERROR_OK, ?s\<lparr>env := e1\<rparr>)"
    "eepromDrvSetSK D 0 (?s\<lparr>env := e1\<rparr>) = Inr (IOS_ERROR_OK, ?s\<lparr>env := e2\<rparr>)"
    "eepromDrvSetDO D 0 (?s\<lparr>env := e2\<rparr>) = Inr (IOS_ERROR_OK, ?s\<lparr>env := e3\<rparr>)"
    "view e3 = idle_lines drive (view (env ?s))" by (rule lines_low [OF assms(1)])
  then show ?thesis
    using assms(3) by (intro exI [of _ e3])
      (simp add: eepromDrvInit_def set_ctx_status_def write_at_def seqC_def bindC_def getsC_def liftC_def
        modifyC_def returnC_def)
qed

lemma open_run:
  assumes "eeprom_bus D os ready view drive di" "ready s" "eepromContexts s = c # cs"
    "ee_status c = EEPROM_STATUS_INITIALISED \<or> ee_status c = EEPROM_STATUS_CLOSED"
  shows "\<exists>e. eepromDrvOpen D 0 s =
       Inr (IOS_ERROR_OK, s\<lparr>env := e, eepromContexts := \<lparr>ee_status = EEPROM_STATUS_OPEN\<rparr> # cs\<rparr>) \<and>
     view e = idle_lines drive (view (env s))"
proof -
  obtain e1 e2 e3 where "eepromDrvSetCS D 0 s = Inr (IOS_ERROR_OK, s\<lparr>env := e1\<rparr>)"
    "eepromDrvSetSK D 0 (s\<lparr>env := e1\<rparr>) = Inr (IOS_ERROR_OK, s\<lparr>env := e2\<rparr>)"
    "eepromDrvSetDO D 0 (s\<lparr>env := e2\<rparr>) = Inr (IOS_ERROR_OK, s\<lparr>env := e3\<rparr>)"
    "view e3 = idle_lines drive (view (env s))" by (rule lines_low [OF assms(1,2)])
  then show ?thesis
    using assms(3,4) by (intro exI [of _ e3])
      (auto simp: eepromDrvOpen_def ctx_status_def set_ctx_status_def write_at_def seqC_def bindC_def getsC_def
        liftC_def modifyC_def returnC_def)
qed

text \<open>
  Whatever state a context is in, \<open>eepromDrvInit\<close> followed by \<open>eepromDrvOpen\<close> opens it: both
  succeed, the context ends open, the three lines have been driven low twice (chip select first), and
  nothing else of the program's state has changed.
\<close>

theorem eeprom_setup_opens:
  assumes "eeprom_bus D os ready view drive di" "ready s" "eepromContexts s = c # cs"
  shows "\<exists>e. bindC (eepromDrvInit D 0) (\<lambda>r. bindC (eepromDrvOpen D 0) (\<lambda>q. returnC (r, q))) s =
       Inr ((IOS_ERROR_OK, IOS_ERROR_OK),
            s\<lparr>env := e, eepromContexts := \<lparr>ee_status = EEPROM_STATUS_OPEN\<rparr> # cs\<rparr>) \<and>
     view e = idle_lines drive (idle_lines drive (view (env s)))"
proof -
  obtain e where e: "eepromDrvInit D 0 s =
      Inr (IOS_ERROR_OK, s\<lparr>env := e, eepromContexts := \<lparr>ee_status = EEPROM_STATUS_INITIALISED\<rparr> # cs\<rparr>)"
    "view e = idle_lines drive (view (env s))" using init_run [OF assms] by blast
  let ?s = "s\<lparr>env := e, eepromContexts := \<lparr>ee_status = EEPROM_STATUS_INITIALISED\<rparr> # cs\<rparr>"
  have "ready ?s" by (intro eeprom_bus.ready_ctx [OF assms(1)] eeprom_bus.ready_env [OF assms(1,2)])
  then obtain e' where "eepromDrvOpen D 0 ?s =
      Inr (IOS_ERROR_OK, ?s\<lparr>env := e', eepromContexts := \<lparr>ee_status = EEPROM_STATUS_OPEN\<rparr> # cs\<rparr>)"
    "view e' = idle_lines drive (view (env ?s))"
    using open_run [OF assms(1), of ?s] by auto
  then show ?thesis using e by (intro exI [of _ e']) (simp add: bindC_def returnC_def)
qed

theorem eeprom_setup_opens_witness:
  "\<exists>e. bindC (eepromDrvInit bench_dispatch 0) (\<lambda>r. bindC (eepromDrvOpen bench_dispatch 0) (\<lambda>q. returnC (r, q))) bench0 =
     Inr ((IOS_ERROR_OK, IOS_ERROR_OK), bench0\<lparr>env := e, eepromContexts := [\<lparr>ee_status = EEPROM_STATUS_OPEN\<rparr>]\<rparr>)"
proof -
  have "holds [bench_gpio] bench0" "eepromContexts bench0 = [\<lparr>ee_status = EEPROM_STATUS_OPEN\<rparr>]"
    using bench0_settled by (simp_all add: ee_settled_def bench0_def)
  then show ?thesis using eeprom_setup_opens [OF bench.eeprom_bus_axioms] by blast
qed

end
