(* ===== verification/Bc.thy ===== *)
theory Bc
  imports Eeprom_Device
begin

text \<open>
  \<^verbatim>\<open>src/ios_bsp/libraries/bc\<close>: the board configuration, read word by word from the serial
  EEPROM and guarded by a CRC-32. The structure \<^verbatim>\<open>BC_CONFIG\<close> is a record with its 0x28-byte
  big-endian layout as a codec, because \<^verbatim>\<open>bcGet\<close> fills it with \<^verbatim>\<open>memcpy\<close>.
\<close>

section \<open>State\<close>

record bc_config =
  bc_crc :: u32
  bc_size :: u16
  bc_version :: u16
  bc_author :: u16
  bc_boardType :: u16
  bc_boardRevision :: u16
  bc_bootSource :: u16
  bc_ddr3Size :: u16
  bc_ddr3Speed :: u16
  bc_ppcClockMultiplier :: u16
  bc_iopClockMultiplier :: u16
  bc_video1080p :: u16
  bc_ddr3Vendor :: u16
  bc_movPassiveReset :: u16
  bc_sysPllSpeed :: u16
  bc_sataDevice :: u16
  bc_consoleType :: u16
  bc_devicePresence :: u32

text \<open>\<^verbatim>\<open>BC_CONSOLE_TYPE\<close>, the values of the field \<open>bc_consoleType\<close>.\<close>

abbreviation (input) BC_CONSOLE_TYPE_WUP :: u16 where
  "BC_CONSOLE_TYPE_WUP \<equiv> 1"

abbreviation (input) BC_CONSOLE_TYPE_CAT_R :: u16 where
  "BC_CONSOLE_TYPE_CAT_R \<equiv> 2"

abbreviation (input) BC_CONSOLE_TYPE_CAT_DEV :: u16 where
  "BC_CONSOLE_TYPE_CAT_DEV \<equiv> 3"

abbreviation (input) BC_CONSOLE_TYPE_EV :: u16 where
  "BC_CONSOLE_TYPE_EV \<equiv> 4"

abbreviation (input) BC_CONSOLE_TYPE_CAT_I :: u16 where
  "BC_CONSOLE_TYPE_CAT_I \<equiv> 5"

abbreviation (input) BC_CONSOLE_TYPE_ORCHESTRA_X :: u16 where
  "BC_CONSOLE_TYPE_ORCHESTRA_X \<equiv> 6"

abbreviation (input) BC_CONSOLE_TYPE_WUIH :: u16 where
  "BC_CONSOLE_TYPE_WUIH \<equiv> 7"

abbreviation (input) BC_CONSOLE_TYPE_WUIH_DEV :: u16 where
  "BC_CONSOLE_TYPE_WUIH_DEV \<equiv> 8"

abbreviation (input) BC_CONSOLE_TYPE_CAT_DEV_WUIH :: u16 where
  "BC_CONSOLE_TYPE_CAT_DEV_WUIH \<equiv> 9"

record ('e, 'm) bc_state = "('e, 'm) eeprom_state" +
  bc_log_handle :: u32
  bc_initialised :: bool

definition bc_enc :: "bc_config \<Rightarrow> bytes" where
  "bc_enc c =
     enc32 (bc_crc c) @ enc16 (bc_size c) @ enc16 (bc_version c) @ enc16 (bc_author c) @
     enc16 (bc_boardType c) @ enc16 (bc_boardRevision c) @ enc16 (bc_bootSource c) @
     enc16 (bc_ddr3Size c) @ enc16 (bc_ddr3Speed c) @ enc16 (bc_ppcClockMultiplier c) @
     enc16 (bc_iopClockMultiplier c) @ enc16 (bc_video1080p c) @ enc16 (bc_ddr3Vendor c) @
     enc16 (bc_movPassiveReset c) @ enc16 (bc_sysPllSpeed c) @ enc16 (bc_sataDevice c) @
     enc16 (bc_consoleType c) @ enc32 (bc_devicePresence c)"

definition bc_dec :: "bytes \<Rightarrow> bc_config" where
  "bc_dec bs =
     (let h = (\<lambda>k. dec16 (take 2 (drop k bs)))
      in \<lparr>bc_crc = dec32 (take 4 bs), bc_size = h 4, bc_version = h 6, bc_author = h 8,
          bc_boardType = h 10, bc_boardRevision = h 12, bc_bootSource = h 14, bc_ddr3Size = h 16,
          bc_ddr3Speed = h 18, bc_ppcClockMultiplier = h 20, bc_iopClockMultiplier = h 22,
          bc_video1080p = h 24, bc_ddr3Vendor = h 26, bc_movPassiveReset = h 28, bc_sysPllSpeed = h 30,
          bc_sataDevice = h 32, bc_consoleType = h 34, bc_devicePresence = dec32 (take 4 (drop 36 bs))\<rparr>)"

section \<open>The code\<close>

definition bcInit ::
  "('m, ('e, 'm, 'z) bc_state_scheme) dispatch \<Rightarrow> (('e, 'm, 'z) bc_state_scheme) ios \<Rightarrow>
   (('e, 'm, 'z) bc_state_scheme, u32) prog" where
  "bcInit D os =
     bindC (log_open os (lit ''BC'') 0 1) (\<lambda>h.
     seqC (modifyC (\<lambda>s. s\<lparr>bc_log_handle := h\<rparr>))
     (bindC (getsC bc_initialised) (\<lambda>initialised.
      if \<not> initialised
      then bindC (eepromDrvInit D 0) (\<lambda>err.
           bindC (if err = IOS_ERROR_OK
                  then bindC (eepromDrvOpen D 0) (\<lambda>err.
                       if err = IOS_ERROR_OK
                       then seqC (modifyC (\<lambda>s. s\<lparr>bc_initialised := True\<rparr>)) (returnC err)
                       else returnC err)
                  else returnC err) (\<lambda>err.
           seqC crc32MakeTable (returnC err)))
      else returnC IOS_ERROR_OK)))"

text \<open>The loop that fills \<^verbatim>\<open>data[i]\<close>, from \<open>i\<close> for \<open>n\<close> more words.\<close>

fun bc_read_loop ::
  "('m, ('e, 'm, 'z) bc_state_scheme) dispatch \<Rightarrow> (('e, 'm, 'z) bc_state_scheme) ios \<Rightarrow> nat \<Rightarrow> nat \<Rightarrow> u16 list \<Rightarrow>
   (('e, 'm, 'z) bc_state_scheme, u32 \<times> u16 list) prog" where
  "bc_read_loop D os i 0 data = returnC (IOS_ERROR_OK, data)"
| "bc_read_loop D os i (Suc n) data =
     bindC (eepromDrvReadWord D os 0 (of_nat (i + 0x1c))) (\<lambda>(err, w).
     bindC (case w of
              None \<Rightarrow> returnC data
            | Some v \<Rightarrow> liftC (write_at data i v)) (\<lambda>data.
     if err \<noteq> IOS_ERROR_OK then returnC (err, data)
     else bc_read_loop D os (Suc i) n data))"

text \<open>
  \<^verbatim>\<open>config\<close> is the pointer the caller passes, and is returned with the bytes written through it.
  The two field accesses after the copy are at the offsets 6 and 26 of the layout. The length
  handed to \<^verbatim>\<open>crc32Input\<close> is computed in 32 bits.
\<close>

definition bcGet ::
  "('m, ('e, 'm, 'z) bc_state_scheme) dispatch \<Rightarrow> (('e, 'm, 'z) bc_state_scheme) ios \<Rightarrow> cptr \<Rightarrow>
   (('e, 'm, 'z) bc_state_scheme, u32 \<times> cptr) prog" where
  "bcGet D os config =
     (if config = Null then returnC (IOS_ERROR_INVALID, config)
      else
      bindC (eepromDrvReadWord D os 0 0x1E) (\<lambda>(err, w).
      if err \<noteq> IOS_ERROR_OK then returnC (err, config)
      else case w of None \<Rightarrow> failC Uninitialised
      | Some bcStructSize0 \<Rightarrow>
      let bcStructSize = bcStructSize0 div 2
      in if bcStructSize > 0x24 then returnC (IOS_ERROR_INVALID, config)
      else
      bindC (bc_read_loop D os 0 (unat bcStructSize) (replicate 0x24 0)) (\<lambda>(err, data).
      if err \<noteq> IOS_ERROR_OK then returnC (err, config)
      else
      let raw = concat (map enc16 data)
      in bindC (liftC (store_ptr 0 (take 0x28 raw) config)) (\<lambda>config.
      bindC (liftC (load_ptr 6 2 config)) (\<lambda>version.
      bindC (if dec16 version = 0 then liftC (store_ptr 26 (enc16 0x5521) config) else returnC config) (\<lambda>config.
      let sz = ucast (bcStructSize * 2) - 2 :: u32
      in bindC (seqC crc32Reset (crc32Input (drop 4 raw) (unat sz))) (\<lambda>crc.
      if crc \<noteq> push_bit 16 (ucast (data ! 0)) OR ucast (data ! 1) then returnC (IOS_ERROR_INVALID, config)
      else returnC (IOS_ERROR_OK, config))))))))"

section \<open>The layout\<close>

lemma split_slice: "take n (drop k bs) @ drop (k + n) bs = drop k bs"
  by (metis add.commute append_take_drop_id drop_drop)

lemma length_bc_enc: "length (bc_enc c) = 40"
  by (simp add: bc_enc_def codec16.enc_length codec32.enc_length)

lemma bc_dec_enc: "bc_dec (bc_enc c) = c"
  by (simp add: bc_dec_def bc_enc_def Let_def codec16.enc_length codec32.enc_length codec16.dec_enc codec32.dec_enc)

lemma bc_enc_dec:
  assumes "length bs = 40"
  shows "bc_enc (bc_dec bs) = bs"
proof -
  have h: "enc16 (dec16 (take 2 (drop k bs))) = take 2 (drop k bs)" if "k \<le> 38" for k
    using assms that by (intro codec16.enc_dec) simp
  have w: "enc32 (dec32 (take 4 bs)) = take 4 bs" "enc32 (dec32 (take 4 (drop 36 bs))) = drop 36 bs"
    using assms by (simp_all add: codec32.enc_dec)
  have "take 2 (drop k bs) @ drop (k + 2) bs = drop k bs" for k by (rule split_slice)
  note s = this [of 34, simplified] this [of 32, simplified] this [of 30, simplified] this [of 28, simplified]
    this [of 26, simplified] this [of 24, simplified] this [of 22, simplified] this [of 20, simplified]
    this [of 18, simplified] this [of 16, simplified] this [of 14, simplified] this [of 12, simplified]
    this [of 10, simplified] this [of 8, simplified] this [of 6, simplified] this [of 4, simplified]
  show ?thesis
    by (simp add: bc_enc_def bc_dec_def Let_def h w s)
qed

interpretation bc_codec: codec bc_enc bc_dec 40
  by unfold_locales (auto simp: length_bc_enc bc_dec_enc bc_enc_dec)


lemma bc_set_vendor:
  assumes "length x = 40"
  shows "take 26 x @ enc16 v @ drop 28 x = bc_enc ((bc_dec x)\<lparr>bc_ddr3Vendor := v\<rparr>)"
proof -
  let ?c = "bc_dec x"
  have "take 26 (bc_enc ?c) @ enc16 v @ drop 28 (bc_enc ?c) = bc_enc (?c\<lparr>bc_ddr3Vendor := v\<rparr>)"
    by (simp add: bc_enc_def codec16.enc_length codec32.enc_length)
  then show ?thesis by (simp add: bc_enc_dec assms)
qed

section \<open>Reading the configuration\<close>

text \<open>The image in the array \<^verbatim>\<open>data\<close>: \<open>n\<close> words of the EEPROM from address 0x1c on, then zeros.\<close>

definition bc_words :: "(u8 \<Rightarrow> u16) \<Rightarrow> nat \<Rightarrow> u16 list" where
  "bc_words m n = map (\<lambda>i. m (of_nat (i + 0x1c))) [0..<n] @ replicate (0x24 - n) 0"

definition bc_raw :: "(u8 \<Rightarrow> u16) \<Rightarrow> nat \<Rightarrow> bytes" where
  "bc_raw m n = concat (map enc16 (bc_words m n))"

text \<open>The configuration as the caller sees it; version 0 has a fixed memory vendor.\<close>

definition bc_image :: "(u8 \<Rightarrow> u16) \<Rightarrow> nat \<Rightarrow> bc_config" where
  "bc_image m n =
     (let c = bc_dec (take 0x28 (bc_raw m n))
      in if bc_version c = 0 then c\<lparr>bc_ddr3Vendor := 0x5521\<rparr> else c)"

definition bc_checksum :: "(u8 \<Rightarrow> u16) \<Rightarrow> nat \<Rightarrow> u32" where
  "bc_checksum m n = crc32_ref (take (2 * n - 2) (drop 4 (bc_raw m n)))"

lemma length_bc_words: "n \<le> 0x24 \<Longrightarrow> length (bc_words m n) = 0x24"
  by (simp add: bc_words_def)

lemma length_concat_enc16: "length (concat (map enc16 ws)) = 2 * length ws"
  by (induction ws) (simp_all add: codec16.enc_length)

lemma length_bc_raw: "n \<le> 0x24 \<Longrightarrow> length (bc_raw m n) = 72"
  by (simp add: bc_raw_def length_concat_enc16 length_bc_words)

lemma bc_read_loop_run:
  fixes D :: "('m, ('e, 'm, 'z) bc_state_scheme) dispatch"
  assumes rd: "word_reader (eepromDrvReadWord D os 0) stored" and s: "stored m s"
    and "i + n \<le> 0x24" "length data = 0x24"
  shows "\<exists>e. bc_read_loop D os i n data s =
       Inr ((IOS_ERROR_OK, take i data @ map (\<lambda>j. m (of_nat (j + 0x1c))) [i..<i + n] @ drop (i + n) data),
            s\<lparr>env := e\<rparr>) \<and> stored m (s\<lparr>env := e\<rparr>)"
  using s assms(3,4)
proof (induction n arbitrary: i data s)
  case 0
  then show ?case by (intro exI [of _ "env s"]) (simp add: returnC_def)
next
  case (Suc n)
  obtain e where e: "eepromDrvReadWord D os 0 (of_nat (i + 0x1c)) s =
      Inr ((IOS_ERROR_OK, Some (m (of_nat (i + 0x1c)))), s\<lparr>env := e\<rparr>)" "stored m (s\<lparr>env := e\<rparr>)"
    using word_reader.rd_stored [OF rd Suc.prems(1)] by blast
  let ?data = "data[i := m (of_nat (i + 0x1c))]"
  obtain e' where e': "bc_read_loop D os (Suc i) n ?data (s\<lparr>env := e\<rparr>) =
      Inr ((IOS_ERROR_OK, take (Suc i) ?data @ map (\<lambda>j. m (of_nat (j + 0x1c))) [Suc i..<Suc i + n] @
        drop (Suc i + n) ?data), s\<lparr>env := e'\<rparr>)" "stored m (s\<lparr>env := e'\<rparr>)"
    using Suc.IH [OF e(2), of "Suc i" ?data] Suc.prems by auto
  have "take (Suc i) ?data @ map (\<lambda>j. m (of_nat (j + 0x1c))) [Suc i..<Suc i + n] @ drop (Suc i + n) ?data =
      take i data @ map (\<lambda>j. m (of_nat (j + 0x1c))) [i..<i + Suc n] @ drop (i + Suc n) data"
    using Suc.prems by (simp add: take_Suc_conv_app_nth upt_conv_Cons [of i "Suc (i + n)"] del: upt_Suc)
  with e e' show ?case
    using Suc.prems by (intro exI [of _ e']) (simp add: bindC_def liftC_def write_at_def)
qed


lemma dec32_halves: "dec32 (enc16 a @ enc16 b) = push_bit 16 (ucast a) OR ucast b"
proof (rule bit_word_eqI)
  fix n assume n: "n < LENGTH(32)"
  consider "n < 8" | "8 \<le> n" "n < 16" | "16 \<le> n" "n < 24" | "24 \<le> n" by linarith
  then show "bit (dec32 (enc16 a @ enc16 b)) n \<longleftrightarrow> bit (push_bit 16 (ucast a) OR ucast b :: u32) n"
    using n by cases (auto simp: dec32_def enc16_def bit_simps)
qed

lemma bc_stored_crc:
  assumes "n \<le> 0x24"
  shows "push_bit 16 (ucast (bc_words m n ! 0)) OR ucast (bc_words m n ! 1) = bc_crc (bc_dec (take 0x28 (bc_raw m n)))"
proof -
  obtain a b ws where w: "bc_words m n = a # b # ws"
    using length_bc_words [OF assms, of m] by (cases "bc_words m n"; cases "tl (bc_words m n)") auto
  then have "take 4 (bc_raw m n) = enc16 a @ enc16 b"
    by (simp add: bc_raw_def enc16_def)
  then have "bc_crc (bc_dec (take 0x28 (bc_raw m n))) = dec32 (enc16 a @ enc16 b)"
    by (simp add: bc_dec_def Let_def)
  also have "\<dots> = push_bit 16 (ucast a) OR ucast b" by (rule dec32_halves)
  finally show ?thesis by (simp add: w)
qed

text \<open>The part of \<^verbatim>\<open>bcGet\<close> after the words have been read.\<close>

lemma bc_store_image:
  assumes "n \<le> 0x24" "0x28 \<le> length b"
  shows "bindF (store_ptr 0 (take 0x28 (bc_raw m n)) (Buf b)) (\<lambda>config.
           bindF (load_ptr 6 2 config) (\<lambda>version.
           if dec16 version = 0 then store_ptr 26 (enc16 0x5521) config else Inr config)) =
         Inr (Buf (bc_enc (bc_image m n) @ drop 0x28 b))"
proof -
  let ?x = "take 0x28 (bc_raw m n)"
  have x: "length ?x = 40" using length_bc_raw [OF assms(1), of m] by simp
  have v: "dec16 (take 2 (drop 6 (?x @ drop 40 b))) = bc_version (bc_dec ?x)"
    using x by (simp add: bc_dec_def Let_def)
  have "take 26 (?x @ drop 40 b) @ enc16 0x5521 @ drop 28 (?x @ drop 40 b) =
      bc_enc ((bc_dec ?x)\<lparr>bc_ddr3Vendor := 0x5521\<rparr>) @ drop 40 b"
    using bc_set_vendor [OF x, of "0x5521"] x by simp
  then show ?thesis
    using assms(2) x v bc_enc_dec [OF x]
    by (simp add: splice_at_def bc_image_def Let_def codec16.enc_length)
qed


lemma bc_crc_size:
  assumes "1 \<le> unat w" "unat w \<le> 0x24"
  shows "unat (ucast (w * 2 :: u16) - 2 :: u32) = 2 * unat w - 2"
proof -
  have "unat (w * 2) = unat w * 2"
    using assms(2) by (simp add: unat_word_ariths)
  then have u: "unat (ucast (w * 2) :: u32) = unat w * 2"
    using assms(2) by (simp add: unsigned_ucast_eq take_bit_nat_eq_self)
  then have "(2 :: u32) \<le> ucast (w * 2)" using assms(1) by (simp add: word_le_nat_alt)
  then show ?thesis using u by (simp add: unat_sub mult.commute)
qed

lemma bcGet_tail:
  assumes "n \<le> 0x24" "0x28 \<le> length b" "2 * n + 2 \<le> 72" "unat sz = 2 * n - 2"
  shows "bindC (liftC (store_ptr 0 (take 0x28 (bc_raw m n)) (Buf b))) (\<lambda>config.
      bindC (liftC (load_ptr 6 2 config)) (\<lambda>version.
      bindC (if dec16 version = 0 then liftC (store_ptr 26 (enc16 0x5521) config) else returnC config) (\<lambda>config.
      bindC (seqC crc32Reset (crc32Input (drop 4 (bc_raw m n)) (unat sz))) (\<lambda>crc. k crc config)))) s =
    k (bc_checksum m n) (Buf (bc_enc (bc_image m n) @ drop 0x28 b)) (s\<lparr>s_crc32Value := NOT (bc_checksum m n)\<rparr>)"
proof -
  have crc: "seqC crc32Reset (crc32Input (drop 4 (bc_raw m n)) (unat sz)) s =
      Inr (bc_checksum m n, s\<lparr>s_crc32Value := NOT (bc_checksum m n)\<rparr>)"
    using assms(3,4) length_bc_raw [OF assms(1), of m] by (simp add: crc32_after_reset bc_checksum_def)
  show ?thesis
    using bc_store_image [OF assms(1,2), of m]
    by (auto simp: bindF_Inr_iff bindC_def liftC_def returnC_def crc split: if_splits)
qed


text \<open>The number of words the EEPROM claims for the structure.\<close>

definition bc_length :: "(u8 \<Rightarrow> u16) \<Rightarrow> nat" where
  "bc_length m = unat (m 0x1E) div 2"

lemma bcGet_read:
  fixes D :: "('m, ('e, 'm, 'z) bc_state_scheme) dispatch"
  assumes rd: "word_reader (eepromDrvReadWord D os 0) stored" and s: "stored m s" and p: "p \<noteq> Null"
    and n: "bc_length m \<le> 0x24"
  shows "\<exists>e. stored m (s\<lparr>env := e\<rparr>) \<and> bcGet D os p s =
     bindC (liftC (store_ptr 0 (take 0x28 (bc_raw m (bc_length m))) p)) (\<lambda>config.
     bindC (liftC (load_ptr 6 2 config)) (\<lambda>version.
     bindC (if dec16 version = 0 then liftC (store_ptr 26 (enc16 0x5521) config) else returnC config) (\<lambda>config.
     bindC (seqC crc32Reset (crc32Input (drop 4 (bc_raw m (bc_length m)))
              (unat (ucast (m 0x1E div 2 * 2) - 2 :: u32)))) (\<lambda>crc.
     if crc \<noteq> bc_crc (bc_dec (take 0x28 (bc_raw m (bc_length m)))) then returnC (IOS_ERROR_INVALID, config)
     else returnC (IOS_ERROR_OK, config))))) (s\<lparr>env := e\<rparr>)"
proof -
  obtain e where e: "eepromDrvReadWord D os 0 0x1E s = Inr ((IOS_ERROR_OK, Some (m 0x1E)), s\<lparr>env := e\<rparr>)"
    "stored m (s\<lparr>env := e\<rparr>)"
    using word_reader.rd_stored [OF rd s] by blast
  have w: "unat (m 0x1E div 2) = bc_length m" by (simp add: bc_length_def unat_div)
  have le: "\<not> m 0x1E div 2 > 0x24" using n w by (simp add: word_less_nat_alt)
  obtain e' where e': "bc_read_loop D os 0 (bc_length m) (replicate 0x24 0) (s\<lparr>env := e\<rparr>) =
      Inr ((IOS_ERROR_OK, bc_words m (bc_length m)), s\<lparr>env := e'\<rparr>)" "stored m (s\<lparr>env := e'\<rparr>)"
    using bc_read_loop_run [OF rd e(2), of 0 "bc_length m" "replicate 0x24 0"] n by (auto simp: bc_words_def)
  show ?thesis
    by (rule exI [of _ e'])
       (simp add: bcGet_def bindC_def [of "eepromDrvReadWord D os 0 30"] bindC_def [of "bc_read_loop D os 0 _ _"]
         e(1) e' p le w Let_def bc_stored_crc [OF n, simplified] flip: bc_raw_def)
qed

lemma bcGet_run:
  fixes D :: "('m, ('e, 'm, 'z) bc_state_scheme) dispatch"
  assumes rd: "word_reader (eepromDrvReadWord D os 0) stored" and s: "stored m s"
    and b: "0x28 \<le> length b" and n: "0 < bc_length m" "bc_length m < 0x24"
  shows "\<exists>e. stored m (s\<lparr>env := e\<rparr>) \<and> bcGet D os (Buf b) s =
     Inr ((if bc_checksum m (bc_length m) = bc_crc (bc_dec (take 0x28 (bc_raw m (bc_length m))))
           then IOS_ERROR_OK else IOS_ERROR_INVALID,
           Buf (bc_enc (bc_image m (bc_length m)) @ drop 0x28 b)),
          s\<lparr>env := e, s_crc32Value := NOT (bc_checksum m (bc_length m))\<rparr>)"
proof -
  obtain e where e: "stored m (s\<lparr>env := e\<rparr>)" "bcGet D os (Buf b) s =
     bindC (liftC (store_ptr 0 (take 0x28 (bc_raw m (bc_length m))) (Buf b))) (\<lambda>config.
     bindC (liftC (load_ptr 6 2 config)) (\<lambda>version.
     bindC (if dec16 version = 0 then liftC (store_ptr 26 (enc16 0x5521) config) else returnC config) (\<lambda>config.
     bindC (seqC crc32Reset (crc32Input (drop 4 (bc_raw m (bc_length m)))
              (unat (ucast (m 0x1E div 2 * 2) - 2 :: u32)))) (\<lambda>crc.
     if crc \<noteq> bc_crc (bc_dec (take 0x28 (bc_raw m (bc_length m)))) then returnC (IOS_ERROR_INVALID, config)
     else returnC (IOS_ERROR_OK, config))))) (s\<lparr>env := e\<rparr>)"
    using bcGet_read [OF rd s, of "Buf b"] n(2) by auto
  have "unat (m 0x1E div 2) = bc_length m" by (simp add: bc_length_def unat_div)
  then have sz: "unat (ucast (m 0x1E div 2 * 2) - 2 :: u32) = 2 * bc_length m - 2"
    using bc_crc_size [of "m 0x1E div 2"] n by simp
  note tail = bcGet_tail [where k = "\<lambda>crc config.
      if crc \<noteq> bc_crc (bc_dec (take 0x28 (bc_raw m (bc_length m)))) then returnC (IOS_ERROR_INVALID, config)
      else returnC (IOS_ERROR_OK, config)", OF _ b _ sz]
  have "bcGet D os (Buf b) s =
     Inr ((if bc_checksum m (bc_length m) = bc_crc (bc_dec (take 0x28 (bc_raw m (bc_length m))))
           then IOS_ERROR_OK else IOS_ERROR_INVALID,
           Buf (bc_enc (bc_image m (bc_length m)) @ drop 0x28 b)),
          s\<lparr>env := e, s_crc32Value := NOT (bc_checksum m (bc_length m))\<rparr>)"
    unfolding e(2) using n by (subst tail) (simp_all add: returnC_def)
  then show ?thesis using e(1) by blast
qed


section \<open>Properties\<close>

text \<open>
  The 40-byte image of a board configuration and its fields determine each other: every
  configuration is recovered from its image, and every 40 bytes are the image of one.
\<close>

theorem bc_layout_roundtrip:
  "bc_dec (bc_enc c) = c \<and> length (bc_enc c) = 40 \<and> (length bs = 40 \<longrightarrow> bc_enc (bc_dec bs) = bs)"
  by (simp add: bc_dec_enc length_bc_enc bc_enc_dec)

theorem bc_layout_roundtrip_witness:
  "bc_enc (bc_dec (replicate 40 7)) = replicate 40 7"
  using bc_layout_roundtrip [of _ "replicate 40 7"] by simp

text \<open>
  C21: \<open>bcGet\<close> from the registry down to the EEPROM's words. On an open driver with the device
  attached, holding the words \<open>m\<close>, and a stored size of 1 to 35 words, it copies the first 40 bytes of the
  image (words from address 0x1c, zero padded; memory vendor "U!" for version 0) to the caller and
  nothing behind them, and succeeds exactly when the CRC-32 of the image from byte 4 on, over the
  stored size less two bytes, is the big-endian word at its start. The only state it leaves changed
  besides the outside world is the running CRC.
\<close>

theorem bcGet_reads_and_checks:
  fixes D :: "('m, ('e, 'm, 'z) bc_state_scheme) dispatch"
  assumes "eeprom_attached D os ready view" "ee_stored ready view m s"
    and "0x28 \<le> length b" "0 < bc_length m" "bc_length m < 0x24"
  shows "\<exists>e. bcGet D os (Buf b) s =
     Inr ((if bc_checksum m (bc_length m) = bc_crc (bc_dec (take 0x28 (bc_raw m (bc_length m))))
           then IOS_ERROR_OK else IOS_ERROR_INVALID,
           Buf (bc_enc (bc_image m (bc_length m)) @ drop 0x28 b)),
          s\<lparr>env := e, s_crc32Value := NOT (bc_checksum m (bc_length m))\<rparr>)"
  using bcGet_run [OF eeprom_attached.reads_words [OF assms(1)] assms(2-5)] by blast

text \<open>A bench whose EEPROM holds the shortest accepted configuration: four bytes and their CRC.\<close>

definition bc_bench_mem :: "u8 \<Rightarrow> u16" where
  "bc_bench_mem a = (if a = 0x1C then 0x41D9 else if a = 0x1D then 0x12FF else if a = 0x1E then 4 else 0)"

definition bc_bench :: "(u8 \<Rightarrow> u16) \<Rightarrow> (bench, line option) bc_state" where
  "bc_bench m =
     \<lparr>regs = (\<lambda>_. 0),
      env = \<lparr>bench_dev = \<lparr>ee_mem = m, ee_wen = False, ee_cs = False, ee_sk = False, ee_do = False,
               ee_shift = [], ee_out = [], ee_level = False\<rparr>, bench_clock = 0\<rparr>,
      s_crc32Value = 0, log_mutex = 0, log_fds = [], active_log_fds = 0, log_syslog_handle = 0,
      bspEntityCount = 1, bspEntityList = [Some bench_gpio],
      eepromContexts = [\<lparr>ee_status = EEPROM_STATUS_OPEN\<rparr>], bc_log_handle = 0, bc_initialised = True\<rparr>"

lemma bc_bench_stored: "ee_stored (holds [bench_gpio]) bench_dev m (bc_bench m)"
proof -
  have "registry_wf (bc_bench m)"
    by (simp add: registry_wf_def registered_def bc_bench_def entity_wf_def table_wf_def bench_gpio_def
        bench_attribute_def)
  then show ?thesis
    by (simp add: ee_stored_def ee_settled_def holds_def registered_def bc_bench_def opened_def ee_idle_def)
qed

lemma bc_bench_words:
  "bc_length bc_bench_mem = 2" "bc_words bc_bench_mem 2 = [0x41D9, 0x12FF] @ replicate 34 0"
  by (simp_all add: bc_length_def bc_words_def bc_bench_mem_def upt_rec)

lemma bc_bench_crc:
  "bc_checksum bc_bench_mem 2 = 0x41D912FF"
  "bc_crc (bc_dec (take 0x28 (bc_raw bc_bench_mem 2))) = 0x41D912FF"
  unfolding bc_checksum_def bc_raw_def bc_bench_words by code_simp+

theorem bcGet_reads_and_checks_witness:
  "\<exists>p s'. bcGet bench_dispatch bench_os (Buf (replicate 40 0)) (bc_bench bc_bench_mem) = Inr ((IOS_ERROR_OK, p), s')"
proof -
  have "\<exists>e. bcGet bench_dispatch bench_os (Buf (replicate 40 0)) (bc_bench bc_bench_mem) =
     Inr ((if bc_checksum bc_bench_mem (bc_length bc_bench_mem) =
              bc_crc (bc_dec (take 0x28 (bc_raw bc_bench_mem (bc_length bc_bench_mem))))
           then IOS_ERROR_OK else IOS_ERROR_INVALID,
           Buf (bc_enc (bc_image bc_bench_mem (bc_length bc_bench_mem)) @ drop 0x28 (replicate 40 0))),
          (bc_bench bc_bench_mem)\<lparr>env := e, s_crc32Value := NOT (bc_checksum bc_bench_mem (bc_length bc_bench_mem))\<rparr>)"
    by (rule bcGet_reads_and_checks [OF bench.eeprom_attached_axioms bc_bench_stored])
       (simp_all add: bc_bench_words)
  then show ?thesis unfolding bc_bench_words bc_bench_crc by auto
qed

text \<open>
  C30: \<open>bcGet\<close> has no bound on the bytes it checks: with a stored size of zero words the length of
  the CRC wraps to nearly four gigabytes, and with 36 words, the largest size it accepts, the CRC
  runs two bytes past the end of the array. Both read outside the array.
\<close>

theorem bcGet_size_overrun:
  fixes D :: "('m, ('e, 'm, 'z) bc_state_scheme) dispatch"
  assumes "eeprom_attached D os ready view" "ee_stored ready view m s"
    and "0x28 \<le> length b" "bc_length m = 0 \<or> bc_length m = 0x24"
  shows "bcGet D os (Buf b) s = Inl OutOfBounds"
proof -
  let ?n = "bc_length m" and ?sz = "unat (ucast (m 0x1E div 2 * 2) - 2 :: u32)"
  have le: "?n \<le> 0x24" using assms(4) by auto
  have w: "unat (m 0x1E div 2) = ?n" by (simp add: bc_length_def unat_div)
  have "68 < ?sz"
  proof (cases "?n = 0")
    case True
    then have "m 0x1E div 2 = 0" using w by (simp add: unat_eq_zero)
    then show ?thesis by simp
  next
    case False
    then show ?thesis using assms(4) bc_crc_size [of "m 0x1E div 2"] w by simp
  qed
  then have "crc32Input (drop 4 (bc_raw m ?n)) ?sz s = Inl OutOfBounds" for s :: "('e, 'm, 'z) bc_state_scheme"
    using length_bc_raw [OF le, of m] by (simp add: crc32Input_run)
  then have crc: "seqC crc32Reset (crc32Input (drop 4 (bc_raw m ?n)) ?sz) s = Inl OutOfBounds"
    for s :: "('e, 'm, 'z) bc_state_scheme"
    by (simp add: seqC_def bindC_def crc32Reset_run)
  show ?thesis
    using bcGet_read [OF eeprom_attached.reads_words [OF assms(1)] assms(2), of "Buf b"] le
      bc_store_image [OF le assms(3), of m]
    by (auto simp: bindF_Inr_iff bindC_def liftC_def returnC_def crc split: if_splits)
qed

theorem bcGet_size_overrun_witness:
  "bcGet bench_dispatch bench_os (Buf (replicate 40 0)) (bc_bench (\<lambda>_. 0)) = Inl OutOfBounds"
  by (rule bcGet_size_overrun [OF bench.eeprom_attached_axioms bc_bench_stored]) (simp_all add: bc_length_def)

end
