(* ===== verification/HwRev.thy ===== *)
theory HwRev
  imports Bc
begin

text \<open>
  \<^verbatim>\<open>src/ios_bsp/bsp_hwrev.c\<close>, the hardware versioning part of \<^verbatim>\<open>src/ios_bsp/bsp_main.c\<close>
  and \<^verbatim>\<open>src/ios_bsp/entities/gpio/gpio.c\<close>: how the program finds out which chip and which
  board it runs on, and what it derives from that.

  \<^verbatim>\<open>BSP_HARDWARE_VERSION *version\<close> sometimes points to a local variable of the caller and
  sometimes to the global \<^verbatim>\<open>bspHardwareVersion\<close> that the same function reads; the type
  \<open>ver_ptr\<close> says which, and the local variable is an argument and part of the result.
\<close>

section \<open>State\<close>

record bsp_ppc_pvr =
  pvr_version :: u16
  pvr_revision :: u16

record ('e, 'm) hw_state = "('e, 'm) bc_state" +
  bspHardwareVersion :: u32
  bspBoardConfig :: bc_config
  hw_pvr :: bsp_ppc_pvr
  eePVRAddr :: u16
  main_log_fd :: u32

text \<open>The functions and the object the sources call or name but do not define.\<close>

record ('m, 's) bsp_ext =
  BSPCheckCortado :: "('s, u32 \<times> u32) prog"
  bspEepromRead :: "u32 \<Rightarrow> u32 \<Rightarrow> u16 \<Rightarrow> ('s, u32 \<times> u16) prog"
  bspPPCSetPVR :: "bsp_ppc_pvr \<Rightarrow> ('s, u32) prog"
  bspRegisterEntity :: "'m bsp_entity \<Rightarrow> ('s, u32) prog"
  BSPGetPowerMode :: "('s, u32 \<times> u32) prog"
  BSPSleep :: "u32 \<Rightarrow> ('s, unit) prog"
  BSP_SleepTimer :: "u32 \<Rightarrow> ('s, unit) prog"
  IOS_IOPCPUUtilisation :: "('s, u32) prog"
  IOS_SetIOP2xState :: "bool \<Rightarrow> ('s, u32) prog"
  gpio_latte_entity :: "'m bsp_entity"

section \<open>The out parameter\<close>

datatype ver_ptr = VLocal | VGlobal

definition get_ver :: "ver_ptr \<Rightarrow> u32 \<Rightarrow> (('e, 'm, 'z) hw_state_scheme, u32) prog" where
  "get_ver p v = (case p of VLocal \<Rightarrow> returnC v | VGlobal \<Rightarrow> getsC bspHardwareVersion)"

definition set_ver :: "ver_ptr \<Rightarrow> u32 \<Rightarrow> (('e, 'm, 'z) hw_state_scheme, u32) prog" where
  "set_ver p v =
     (case p of
        VLocal \<Rightarrow> returnC v
      | VGlobal \<Rightarrow> seqC (modifyC (\<lambda>s. s\<lparr>bspHardwareVersion := v\<rparr>)) (returnC v))"

text \<open>Assign through the pointer and return a code.\<close>

definition give_ver :: "ver_ptr \<Rightarrow> u32 \<Rightarrow> u32 \<Rightarrow> (('e, 'm, 'z) hw_state_scheme, u32 \<times> u32) prog" where
  "give_ver p ret v = bindC (set_ver p v) (\<lambda>v. returnC (ret, v))"

section \<open>The chip\<close>

definition bspPPCGetPVR ::
  "('m, ('e, 'm, 'z) hw_state_scheme) bsp_ext \<Rightarrow> bsp_ppc_pvr \<Rightarrow>
   (('e, 'm, 'z) hw_state_scheme, u32 \<times> bsp_ppc_pvr) prog" where
  "bspPPCGetPVR X pvr =
     bindC (getsC eePVRAddr) (\<lambda>a.
     bindC (bspEepromRead X (scast a) 1 (pvr_version pvr)) (\<lambda>(ret, w).
     if ret \<noteq> IOS_ERROR_OK then returnC (BSP_RVAL_DEVICE_ERROR, pvr\<lparr>pvr_version := w\<rparr>)
     else
     bindC (bspEepromRead X (scast a + 1) 1 (pvr_revision pvr)) (\<lambda>(ret, w').
     if ret \<noteq> IOS_ERROR_OK
     then returnC (BSP_RVAL_DEVICE_ERROR, pvr\<lparr>pvr_version := w, pvr_revision := w'\<rparr>)
     else returnC (BSP_RVAL_OK, pvr\<lparr>pvr_version := w, pvr_revision := w'\<rparr>))))"

definition determineWoodBasedHardwareVersion ::
  "('m, ('e, 'm, 'z) hw_state_scheme) bsp_ext \<Rightarrow> ver_ptr \<Rightarrow> bool \<Rightarrow> u32 \<Rightarrow>
   (('e, 'm, 'z) hw_state_scheme, u32 \<times> u32) prog" where
  "determineWoodBasedHardwareVersion X p fullCheck v =
     bindC (rd_reg HW_CHIPREVID) (\<lambda>rev.
     let verlo = rev AND 0xFF
     in if verlo = 0x00 then give_ver p BSP_RVAL_OK BSP_HARDWARE_VERSION_HOLLYWOOD_ENG_SAMPLE_1
        else if verlo = 0x10 then give_ver p BSP_RVAL_OK BSP_HARDWARE_VERSION_HOLLYWOOD_ENG_SAMPLE_2
        else if verlo = 0x11 then
          bindC (set_ver p BSP_HARDWARE_VERSION_HOLLYWOOD_CORTADO) (\<lambda>v.
          if \<not> fullCheck then returnC (BSP_RVAL_OK, v)
          else
          bindC (BSPCheckCortado X) (\<lambda>(ret, isCortado).
          if ret \<noteq> 0 then returnC (BSP_RVAL_OK, v)
          else if isCortado = 0 then give_ver p BSP_RVAL_OK BSP_HARDWARE_VERSION_HOLLYWOOD_PROD_FOR_WII
          else
          bindC (getsC hw_pvr) (\<lambda>old.
          bindC (bspPPCGetPVR X old) (\<lambda>(_, pvr).
          seqC (modifyC (\<lambda>s. s\<lparr>hw_pvr := pvr\<rparr>))
          (bindC (set_ver p BSP_HARDWARE_VERSION_HOLLYWOOD_CORTADO) (\<lambda>v.
           if pvr_version pvr = 0x7001
           then give_ver p BSP_RVAL_OK BSP_HARDWARE_VERSION_HOLLYWOOD_CORTADO_ESPRESSO
           else returnC (BSP_RVAL_OK, v)))))))
        else if verlo = 0x20 then give_ver p BSP_RVAL_OK BSP_HARDWARE_VERSION_BOLLYWOOD
        else if verlo = 0x21 then give_ver p BSP_RVAL_OK BSP_HARDWARE_VERSION_BOLLYWOOD_PROD_FOR_WII
        else give_ver p BSP_RVAL_UNKNOWN_HARDWARE_VERSION BSP_HARDWARE_VERSION_UNKNOWN)"

definition latte_revision :: "u32 \<Rightarrow> u32" where
  "latte_revision verlo =
     (if verlo = 0x10 then 0x21100000 else if verlo = 0x18 then 0x21200000
      else if verlo = 0x21 then 0x22100000 else if verlo = 0x30 then 0x23100000
      else if verlo = 0x40 then 0x24100000 else if verlo = 0x50 then 0x25100000
      else 0x26100000)"

definition determineLatteBasedHardwareVersion ::
  "ver_ptr \<Rightarrow> u32 \<Rightarrow> (('e, 'm, 'z) hw_state_scheme, u32 \<times> u32) prog" where
  "determineLatteBasedHardwareVersion p v =
     bindC (rd_reg LT_CHIPREVID) (\<lambda>lt_chiprev.
     if lt_chiprev AND 0xFFFF0000 \<noteq> 0xCAFE0000 then returnC (BSP_RVAL_UNKNOWN_HARDWARE_VERSION, v)
     else
     bindC (get_ver p v) (\<lambda>c.
     bindC (set_ver p (c AND 0x000FFFFF)) (\<lambda>v.
     bindC (get_ver p v) (\<lambda>c.
     give_ver p BSP_RVAL_OK (c OR latte_revision (lt_chiprev AND 0xFF))))))"

section \<open>The board\<close>

definition bspReadBoardConfig ::
  "('m, ('e, 'm, 'z) hw_state_scheme) dispatch \<Rightarrow> (('e, 'm, 'z) hw_state_scheme) ios \<Rightarrow>
   (('e, 'm, 'z) hw_state_scheme, u32) prog" where
  "bspReadBoardConfig D os =
     (let clear = modifyC (\<lambda>s. s\<lparr>bspBoardConfig := bc_dec (replicate 0x28 0)\<rparr>)
      in bindC (bcInit D os) (\<lambda>err.
         if err \<noteq> IOS_ERROR_OK then seqC clear (returnC BSP_RVAL_DEVICE_ERROR)
         else
         bindC (getsC bspBoardConfig) (\<lambda>c.
         bindC (bcGet D os (Buf (bc_enc c))) (\<lambda>(err, p).
         bindC (liftC (load_ptr 0 0x28 p)) (\<lambda>bs.
         seqC (modifyC (\<lambda>s. s\<lparr>bspBoardConfig := bc_dec bs\<rparr>))
         (if err \<noteq> IOS_ERROR_OK then seqC clear (returnC BSP_RVAL_BOARD_CONFIG_INVALID)
          else returnC BSP_RVAL_OK))))))"

definition board_variant :: "u16 \<Rightarrow> u32" where
  "board_variant boardType =
     (if boardType = 0x4346 then BSP_VARIANT_CAFE else if boardType = 0x4354 then BSP_VARIANT_CAT
      else if boardType = 0x4556 then BSP_VARIANT_EV else if boardType = 0x4944 then BSP_VARIANT_ID
      else if boardType = 0x4948 then BSP_VARIANT_IH else 0)"

definition bspMethodGetHardwareVersion ::
  "('m, ('e, 'm, 'z) hw_state_scheme) dispatch \<Rightarrow> (('e, 'm, 'z) hw_state_scheme) ios \<Rightarrow>
   ('m, ('e, 'm, 'z) hw_state_scheme) bsp_ext \<Rightarrow> ver_ptr \<Rightarrow> (('e, 'm, 'z) hw_state_scheme, u32 \<times> u32) prog" where
  "bspMethodGetHardwareVersion D os X p =
     (let finish = (\<lambda>v. bindC (get_ver p v) (\<lambda>c.
            seqC (modifyC (\<lambda>s. s\<lparr>bspHardwareVersion := c\<rparr>)) (returnC (BSP_RVAL_OK, v))))
      in bindC (getsC bspHardwareVersion) (\<lambda>g.
         bindC (set_ver p g) (\<lambda>v.
         if g \<noteq> 0 then returnC (BSP_RVAL_OK, v)
         else
         bindC (determineWoodBasedHardwareVersion X p True v) (\<lambda>(ret, v).
         if ret \<noteq> BSP_RVAL_OK then returnC (ret, v)
         else
         bindC (get_ver p v) (\<lambda>c.
         if c = BSP_HARDWARE_VERSION_BOLLYWOOD_PROD_FOR_WII
         then bindC (determineLatteBasedHardwareVersion p v) (\<lambda>(ret, v).
              if ret \<noteq> BSP_RVAL_OK then finish v
              else
              bindC (get_ver p v) (\<lambda>c.
              bindC (set_ver p (c AND 0xFFFF0000)) (\<lambda>v.
              bindC (bspReadBoardConfig D os) (\<lambda>ret.
              bindC (getsC (\<lambda>s. bc_boardType (bspBoardConfig s))) (\<lambda>boardType.
              bindC (get_ver p v) (\<lambda>c.
              bindC (set_ver p (c OR (if ret \<noteq> BSP_RVAL_OK then BSP_VARIANT_EV_Y
                                      else board_variant boardType))) (\<lambda>v.
              finish v)))))))
         else finish v)))))"

definition bspGetConsoleMask :: "(('e, 'm, 'z) hw_state_scheme, u32 \<times> u32) prog" where
  "bspGetConsoleMask =
     bindC (getsC bspBoardConfig) (\<lambda>c.
     returnC (
       if bc_size c = 0 then (BSP_RVAL_BOARD_CONFIG_INVALID, -1)
       else if bc_version c < 4
       then (if bc_boardType c = 0x4354 \<or> bc_boardType c = 0x4556
             then (BSP_RVAL_OK, 0x13000048) else (BSP_RVAL_OK, 0x03000050))
       else if bc_consoleType c = BC_CONSOLE_TYPE_CAT_DEV \<or> bc_consoleType c = BC_CONSOLE_TYPE_EV then (BSP_RVAL_OK, 0x13000048)
       else if bc_consoleType c = 6 then (BSP_RVAL_OK, 0x23000050)
       else (BSP_RVAL_OK, 0x03000050)))"

definition bspGetConsoleType :: "(('e, 'm, 'z) hw_state_scheme, u32 \<times> u32) prog" where
  "bspGetConsoleType =
     bindC (getsC bspBoardConfig) (\<lambda>c.
     returnC (
       if bc_size c = 0 then (BSP_RVAL_BOARD_CONFIG_INVALID, -1)
       else if bc_version c > 3 then (BSP_RVAL_OK, ucast (bc_consoleType c))
       else if bc_boardType c = 0x4354 then (BSP_RVAL_OK, BSP_CONSOLE_TYPE_CAT)
       else if bc_boardType c = 0x4556 then (BSP_RVAL_OK, BSP_CONSOLE_TYPE_EV)
       else if bc_boardType c = 0x4346 then (BSP_RVAL_OK, BSP_CONSOLE_TYPE_CAFE)
       else (BSP_RVAL_OK, -1)))"

text \<open>The result is the content of \<^verbatim>\<open>*clock\<close>; it starts as \<^verbatim>\<open>BSPDefaultClockdata\<close>.\<close>

definition bspGetSystemClockInfo ::
  "('m, ('e, 'm, 'z) hw_state_scheme) dispatch \<Rightarrow> (('e, 'm, 'z) hw_state_scheme) ios \<Rightarrow>
   ('m, ('e, 'm, 'z) hw_state_scheme) bsp_ext \<Rightarrow>
   (('e, 'm, 'z) hw_state_scheme, u32 \<times> bsp_system_clock_info) prog" where
  "bspGetSystemClockInfo D os X =
     (let give = (\<lambda>f. returnC (BSP_RVAL_OK, \<lparr>systemClockFrequency = f, timerFrequency = f div 128\<rparr>))
      in bindC (bspMethodGetHardwareVersion D os X VLocal) (\<lambda>(ret, hwver).
         if ret \<noteq> BSP_RVAL_OK then returnC (ret, \<lparr>systemClockFrequency = 0, timerFrequency = 0\<rparr>)
         else if BSP_IS_HOLLYWOOD hwver \<or> BSP_IS_HOLLYWOOD_ES1 hwver
         then bindC (rd_reg HW_CLOCKS) (\<lambda>clocks.
              give (if hwver = BSP_HARDWARE_VERSION_HOLLYWOOD_CORTADO_ESPRESSO \<or>
                       hwver = BSP_HARDWARE_VERSION_HOLLYWOOD_CORTADO then 167000000
                    else if clocks AND HW_CLOCKS_SPEED \<noteq> 0 then 162000000 else 243000000))
         else if BSP_IS_LATTE hwver
         then bindC (getsC bspBoardConfig) (\<lambda>c.
              let f = (if bc_version c > 2
                       then if bc_sysPllSpeed c = 0xf0 then 239625000
                            else if bc_sysPllSpeed c = 0xf8 then 248625000 else 0
                       else 243000000)
              in bindC (rd_reg LT_PLLSYS) (\<lambda>pll.
                 give (if pll AND LT_PLLSYS_HALFSPEED \<noteq> 0 then f div 2 else f)))
         else give 0))"

section \<open>Start-up\<close>

definition InitASICVersion ::
  "('m, ('e, 'm, 'z) hw_state_scheme) bsp_ext \<Rightarrow> ver_ptr \<Rightarrow> (('e, 'm, 'z) hw_state_scheme, u32 \<times> u32) prog" where
  "InitASICVersion X p =
     bindC (getsC bspHardwareVersion) (\<lambda>g.
     bindC (set_ver p g) (\<lambda>v.
     if g \<noteq> 0 then returnC (0, v)
     else
     bindC (determineWoodBasedHardwareVersion X p False v) (\<lambda>(ret, v).
     if ret \<noteq> 0 then returnC (ret, v)
     else
     bindC (get_ver p v) (\<lambda>c.
     if c = BSP_HARDWARE_VERSION_BOLLYWOOD_PROD_FOR_WII
     then bindC (determineLatteBasedHardwareVersion p v) (\<lambda>(ret, v).
          if ret = 0
          then bindC (get_ver p v) (\<lambda>c. give_ver p 0 (c AND 0xFFFF0000 OR 0x11))
          else returnC (0, v))
     else returnC (0, v)))))"

definition bspGPIOInstall ::
  "('m, ('e, 'm, 'z) hw_state_scheme) dispatch \<Rightarrow> (('e, 'm, 'z) hw_state_scheme) ios \<Rightarrow>
   ('m, ('e, 'm, 'z) hw_state_scheme) bsp_ext \<Rightarrow> (('e, 'm, 'z) hw_state_scheme, u32) prog" where
  "bspGPIOInstall D os X =
     bindC (bspMethodGetHardwareVersion D os X VLocal) (\<lambda>(ret, hwver).
     if ret \<noteq> BSP_RVAL_OK then returnC ret
     else if \<not> BSP_IS_LATTE hwver then returnC BSP_RVAL_UNKNOWN_HARDWARE_VERSION
     else bspRegisterEntity X (gpio_latte_entity X))"

text \<open>The function has no \<^verbatim>\<open>return\<close> after the register read, and its callers use its value.\<close>

definition bspGPIO_IOStrength_init ::
  "('m, ('e, 'm, 'z) hw_state_scheme) dispatch \<Rightarrow> (('e, 'm, 'z) hw_state_scheme) ios \<Rightarrow>
   ('m, ('e, 'm, 'z) hw_state_scheme) bsp_ext \<Rightarrow> (('e, 'm, 'z) hw_state_scheme, u32) prog" where
  "bspGPIO_IOStrength_init D os X =
     bindC (bspMethodGetHardwareVersion D os X VLocal) (\<lambda>(ret, hwver).
     if ret \<noteq> BSP_RVAL_OK then returnC ret
     else bindC (rd_reg HW_IOSTRCTRL1) (\<lambda>reg. failC Uninitialised))"

definition bspInitEssential ::
  "('m, ('e, 'm, 'z) hw_state_scheme) dispatch \<Rightarrow> (('e, 'm, 'z) hw_state_scheme) ios \<Rightarrow>
   ('m, ('e, 'm, 'z) hw_state_scheme) bsp_ext \<Rightarrow> (('e, 'm, 'z) hw_state_scheme, u32) prog" where
  "bspInitEssential D os X =
     seqC (modifyC (\<lambda>s. s\<lparr>bspEntityCount := 0, bspEntityList := replicate 32 None\<rparr>))
     (bindC (log_open os (lit ''BSP'') 1 3) (\<lambda>h.
      seqC (modifyC (\<lambda>s. s\<lparr>main_log_fd := h\<rparr>))
      (bindC (rd_reg HW_RSTB) (\<lambda>r.
       seqC (wr_reg HW_RSTB (r OR (HW_RSTB_IOEXI OR HW_RSTB_IOMEM OR HW_RSTB_IOPI)))
       (bindC (rd_reg HW_AIP_PROT) (\<lambda>r.
        seqC (wr_reg HW_AIP_PROT (r OR HW_AIP_PROT_ENAHBIOPI))
        (bindC (InitASICVersion X VGlobal) (\<lambda>(e1, _).
         bindC (bspGPIOInstall D os X) (\<lambda>e2.
         seqC (modifyC (\<lambda>s. s\<lparr>bspHardwareVersion := 0\<rparr>))
         (bindC (bspMethodGetHardwareVersion D os X VGlobal) (\<lambda>(e3, _).
          returnC (e1 OR e2 OR e3))))))))))))"

text \<open>The other installers are commented out in the source.\<close>

definition bspInstall ::
  "('m, ('e, 'm, 'z) hw_state_scheme) dispatch \<Rightarrow> (('e, 'm, 'z) hw_state_scheme) ios \<Rightarrow>
   ('m, ('e, 'm, 'z) hw_state_scheme) bsp_ext \<Rightarrow> (('e, 'm, 'z) hw_state_scheme, u32) prog" where
  "bspInstall D os X = bspInitEssential D os X"


section \<open>Lemmas\<close>

lemmas ver_simps = give_ver_def set_ver_def get_ver_def

lemma hwver_cached:
  assumes "bspHardwareVersion s \<noteq> 0"
  shows "bspMethodGetHardwareVersion D os X p s = Inr ((BSP_RVAL_OK, bspHardwareVersion s), s)"
  using assms by (cases p) (simp_all add: bspMethodGetHardwareVersion_def Let_def prog_simps ver_simps)

lemma latte_revision_range:
  "latte_revision w \<in> {0x21100000, 0x21200000, 0x22100000, 0x23100000, 0x24100000, 0x25100000, 0x26100000}"
  by (simp add: latte_revision_def)

lemma board_variant_range: "board_variant b \<in> {0, 0x10, 0x20, 0x21, 0x28, 0x29}"
  by (simp add: board_variant_def)

text \<open>A version put together from a revision and a variant falls apart into them again.\<close>

lemma latte_version_parts:
  assumes "r \<in> {0x21100000, 0x21200000, 0x22100000, 0x23100000, 0x24100000, 0x25100000, 0x26100000 :: u32}"
    and "x \<in> {0, 0x10, 0x11, 0x20, 0x21, 0x28, 0x29}"
  shows "BSP_IS_LATTE (r OR x)" "BSP_GET_VARIANT (r OR x) = x" "BSP_LATTE_REV (r OR x) = drop_bit 24 r" "r OR x \<noteq> 0"
  using assms by (auto simp: BSP_IS_LATTE_def BSP_GET_VARIANT_def BSP_LATTE_REV_def)

text \<open>Which of the versions that can be put together the enumeration has.\<close>

lemma latte_version_enumerated:
  assumes "r \<in> {0x21100000, 0x21200000, 0x22100000, 0x23100000, 0x24100000, 0x25100000, 0x26100000 :: u32}"
    and "x \<in> {0, 0x10, 0x11, 0x20, 0x21, 0x28, 0x29}"
  shows "BSP_LATTE_REV (r OR x) \<in> set BSP_LATTE_REVS"
    "r OR x \<in> set BSP_HARDWARE_VERSIONS \<longleftrightarrow>
       BSP_IS_EV (r OR x) \<or> BSP_IS_CAT (r OR x) \<or>
       BSP_GET_VARIANT (r OR x) = BSP_VARIANT_CAFE \<and> BSP_LATTE_REV_A3X \<le> BSP_LATTE_REV (r OR x) \<or>
       BSP_IS_EV_Y (r OR x) \<and> BSP_LATTE_REV_A5X \<le> BSP_LATTE_REV (r OR x)"
proof -
  have all: "\<forall>r \<in> set [0x21100000, 0x21200000, 0x22100000, 0x23100000, 0x24100000, 0x25100000, 0x26100000 :: u32].
      \<forall>x \<in> set [0, 0x10, 0x11, 0x20, 0x21, 0x28, 0x29]. BSP_LATTE_REV (r OR x) \<in> set BSP_LATTE_REVS \<and>
        (r OR x \<in> set BSP_HARDWARE_VERSIONS \<longleftrightarrow> BSP_IS_EV (r OR x) \<or> BSP_IS_CAT (r OR x) \<or>
         BSP_GET_VARIANT (r OR x) = BSP_VARIANT_CAFE \<and> BSP_LATTE_REV_A3X \<le> BSP_LATTE_REV (r OR x) \<or>
         BSP_IS_EV_Y (r OR x) \<and> BSP_LATTE_REV_A5X \<le> BSP_LATTE_REV (r OR x))"
    by code_simp
  have r: "r \<in> set [0x21100000, 0x21200000, 0x22100000, 0x23100000, 0x24100000, 0x25100000, 0x26100000 :: u32]"
    and x: "x \<in> set [0, 0x10, 0x11, 0x20, 0x21, 0x28, 0x29]"
    using assms by simp_all
  note parts = all [THEN bspec, OF r, THEN bspec, OF x]
  show "BSP_LATTE_REV (r OR x) \<in> set BSP_LATTE_REVS" by (rule parts [THEN conjunct1])
  show "r OR x \<in> set BSP_HARDWARE_VERSIONS \<longleftrightarrow>
       BSP_IS_EV (r OR x) \<or> BSP_IS_CAT (r OR x) \<or>
       BSP_GET_VARIANT (r OR x) = BSP_VARIANT_CAFE \<and> BSP_LATTE_REV_A3X \<le> BSP_LATTE_REV (r OR x) \<or>
       BSP_IS_EV_Y (r OR x) \<and> BSP_LATTE_REV_A5X \<le> BSP_LATTE_REV (r OR x)"
    by (rule parts [THEN conjunct2])
qed

lemma latte_run:
  assumes "regs s LT_CHIPREVID AND 0xFFFF0000 = 0xCAFE0000"
  shows "determineLatteBasedHardwareVersion VLocal v s =
     Inr ((BSP_RVAL_OK, v AND 0x000FFFFF OR latte_revision (regs s LT_CHIPREVID AND 0xFF)), s)"
  using assms by (simp add: determineLatteBasedHardwareVersion_def prog_simps ver_simps)

lemma hwver_latte_run:
  assumes "bspHardwareVersion s = 0" "regs s HW_CHIPREVID AND 0xFF = 0x21"
    and cafe: "regs s LT_CHIPREVID AND 0xFFFF0000 = 0xCAFE0000"
    and cfg: "bspReadBoardConfig D os s = Inr (ret, s2)"
  defines "v \<equiv> latte_revision (regs s LT_CHIPREVID AND 0xFF) OR
     (if ret = BSP_RVAL_OK then board_variant (bc_boardType (bspBoardConfig s2)) else BSP_VARIANT_EV_Y)"
  shows "bspMethodGetHardwareVersion D os X VLocal s = Inr ((BSP_RVAL_OK, v), s2\<lparr>bspHardwareVersion := v\<rparr>)"
proof -
  have wood: "determineWoodBasedHardwareVersion X VLocal True w s =
      Inr ((BSP_RVAL_OK, BSP_HARDWARE_VERSION_BOLLYWOOD_PROD_FOR_WII), s)" for w
    using assms(2) by (simp add: determineWoodBasedHardwareVersion_def Let_def prog_simps ver_simps)
  have rev: "(1 OR r) AND 0xFFFF0000 = r"
    if "r \<in> {0x21100000, 0x21200000, 0x22100000, 0x23100000, 0x24100000, 0x25100000, 0x26100000 :: u32}" for r
    using that by auto
  show ?thesis
    using assms(1)
    by (simp add: bspMethodGetHardwareVersion_def Let_def bindC_def getsC_def returnC_def seqC_def modifyC_def
        ver_simps wood latte_run [OF cafe] rev [OF latte_revision_range] cfg v_def)
qed


text \<open>What success of the version functions means for the result.\<close>

lemma bindC_InrE:
  assumes "bindC m f s = Inr r"
  obtains a s1 where "m s = Inr (a, s1)" "f a s1 = Inr r"
  using assms by (auto simp: bindC_def split: sum.splits)

lemma wood_nonzero:
  assumes "determineWoodBasedHardwareVersion X VLocal full w s = Inr ((BSP_RVAL_OK, v), s')"
  shows "v \<noteq> 0"
  using assms
  by (auto simp: determineWoodBasedHardwareVersion_def Let_def ver_simps returnC_def seqC_def
      elim!: bindC_InrE split: if_splits prod.splits)

lemma latte_revision_bit: "bit (latte_revision w) 29"
  using latte_revision_range [of w] by auto

lemma latte_bit:
  assumes "determineLatteBasedHardwareVersion VLocal w s = Inr ((BSP_RVAL_OK, v), s')"
  shows "bit v 29"
  using assms
  by (auto simp: determineLatteBasedHardwareVersion_def ver_simps returnC_def latte_revision_bit bit_or_iff
      elim!: bindC_InrE split: if_splits)

lemma nonzero_bit: "bit v 29 \<Longrightarrow> (v AND 0xFFFF0000) OR x \<noteq> 0" for v x :: u32
proof
  assume "bit v 29" "(v AND 0xFFFF0000) OR x = 0"
  moreover have "bit ((v AND 0xFFFF0000) OR x) 29" if "bit v 29" using that by (simp add: bit_simps)
  ultimately show False by simp
qed

lemma latte_failed:
  assumes "determineLatteBasedHardwareVersion VLocal w s = Inr ((ret, v), s')" "ret \<noteq> BSP_RVAL_OK"
  shows "v = w"
  using assms
  by (auto simp: determineLatteBasedHardwareVersion_def ver_simps returnC_def elim!: bindC_InrE split: if_splits)

lemma local_ver [simp]: "get_ver VLocal v = returnC v" "set_ver VLocal v = returnC v"
  by (simp_all add: get_ver_def set_ver_def)

lemma hwver_success:
  assumes "bspMethodGetHardwareVersion D os X VLocal s = Inr ((BSP_RVAL_OK, v), s')"
  shows "v \<noteq> 0 \<and> bspHardwareVersion s' = v"
  using assms
  by (auto simp: bspMethodGetHardwareVersion_def Let_def getsC_def returnC_def modifyC_def seqC_def
      elim!: bindC_InrE split: if_splits prod.splits dest!: wood_nonzero latte_bit)
    (use latte_failed nonzero_bit in \<open>fastforce+\<close>)

text \<open>A state for concrete runs: a retail board's chip identification registers.\<close>

definition hw_bench :: "(u32 \<Rightarrow> u32) \<Rightarrow> u32 \<Rightarrow> bc_config \<Rightarrow> (unit, unit) hw_state" where
  "hw_bench r v c =
     \<lparr>regs = r, env = (), s_crc32Value = 0, log_mutex = 0, log_fds = [], active_log_fds = 0,
      log_syslog_handle = 0, bspEntityCount = 0, bspEntityList = [], eepromContexts = [\<lparr>ee_status = 0\<rparr>],
      bc_log_handle = 0, bc_initialised = False, bspHardwareVersion = v, bspBoardConfig = c,
      hw_pvr = \<lparr>pvr_version = 0, pvr_revision = 0\<rparr>, eePVRAddr = 0x42, main_log_fd = -1\<rparr>"

definition hw_dispatch :: "(unit, (unit, unit) hw_state) dispatch" where
  "hw_dispatch =
     \<lparr>call_read = (\<lambda>m i a p. returnC (0, p)), call_query = (\<lambda>m i a p. returnC (0, p)),
      call_write = (\<lambda>m i a p. returnC 0), call_init = (\<lambda>m i a p n. returnC 0),
      call_shutdown = (\<lambda>m i a. returnC 0), load_mem = (\<lambda>a n. failC WildPointer)\<rparr>"

definition hw_ext :: "(unit, (unit, unit) hw_state) bsp_ext" where
  "hw_ext =
     \<lparr>BSPCheckCortado = returnC (0, 0), bspEepromRead = (\<lambda>a n w. returnC (0, w)),
      bspPPCSetPVR = (\<lambda>_. returnC 0), bspRegisterEntity = (\<lambda>_. returnC 0), BSPGetPowerMode = returnC (0, 0),
      BSPSleep = (\<lambda>_. returnC ()), BSP_SleepTimer = (\<lambda>_. returnC ()), IOS_IOPCPUUtilisation = returnC 0,
      IOS_SetIOP2xState = (\<lambda>_. returnC 0),
      gpio_latte_entity = \<lparr>e_pName = lit ''GPIO'', e_version = 1, e_instanceCount = 1, e_options = 0,
        e_pAttributes = []\<rparr>\<rparr>"

definition hw_regs :: "u32 \<Rightarrow> u32" where
  "hw_regs a = (if a = HW_CHIPREVID then 0x21 else if a = LT_CHIPREVID then 0xCAFE0040 else 0)"

section \<open>Properties\<close>

text \<open>
  C24: On a chip that identifies as Latte, \<open>bspMethodGetHardwareVersion\<close> succeeds whatever reading the
  board configuration does (as long as it returns): the version is the chip's revision together with
  the variant of the board type, or the variant EV_Y when the configuration cannot be read. It is
  never zero, is classified as Latte, gives back its revision and variant through the macros, and is
  remembered. The revision is one of the enumerated ones; the version itself is enumerated only for EV and CAT
  boards, for CAFE boards from revision A3X on, and for EV_Y from A5X on.
\<close>

theorem latte_hardware_version:
  assumes "bspHardwareVersion s = 0" "regs s HW_CHIPREVID AND 0xFF = 0x21"
    and "regs s LT_CHIPREVID AND 0xFFFF0000 = 0xCAFE0000"
    and "bspReadBoardConfig D os s = Inr (ret, s2)"
  shows "\<exists>v. bspMethodGetHardwareVersion D os X VLocal s = Inr ((BSP_RVAL_OK, v), s2\<lparr>bspHardwareVersion := v\<rparr>) \<and>
     v \<noteq> 0 \<and> BSP_IS_LATTE v \<and>
     BSP_LATTE_REV v = drop_bit 24 (latte_revision (regs s LT_CHIPREVID AND 0xFF)) \<and> BSP_LATTE_REV v \<in> set BSP_LATTE_REVS \<and>
     BSP_GET_VARIANT v = (if ret = BSP_RVAL_OK then board_variant (bc_boardType (bspBoardConfig s2))
                          else BSP_VARIANT_EV_Y) \<and>
     (v \<in> set BSP_HARDWARE_VERSIONS \<longleftrightarrow>
        BSP_IS_EV v \<or> BSP_IS_CAT v \<or> BSP_GET_VARIANT v = BSP_VARIANT_CAFE \<and> BSP_LATTE_REV_A3X \<le> BSP_LATTE_REV v \<or>
        BSP_IS_EV_Y v \<and> BSP_LATTE_REV_A5X \<le> BSP_LATTE_REV v)"
proof -
  let ?x = "if ret = BSP_RVAL_OK then board_variant (bc_boardType (bspBoardConfig s2)) else BSP_VARIANT_EV_Y"
  have "?x \<in> {0, 0x10, 0x11, 0x20, 0x21, 0x28, 0x29}" using board_variant_range by auto
  from hwver_latte_run [OF assms, of X] latte_version_parts [OF latte_revision_range this]
    latte_version_enumerated [OF latte_revision_range this]
  show ?thesis by blast
qed

text \<open>The board configuration cannot be read here: no entity is registered.\<close>

lemma hw_bench_bcInit:
  "\<exists>s2. bcInit hw_dispatch quiet_ios (hw_bench r v c) = Inr (IOS_ERROR_EXISTS, s2)"
proof -
  have set: "eepromDrvSetCS hw_dispatch 0 s = Inr (IOS_ERROR_EXISTS, s)"
    "eepromDrvSetSK hw_dispatch 0 s = Inr (IOS_ERROR_EXISTS, s)"
    "eepromDrvSetDO hw_dispatch 0 s = Inr (IOS_ERROR_EXISTS, s)" if "bspEntityCount s = 0" for s
    using that by (simp_all add: eepromDrvSetCS_def eepromDrvSetSK_def eepromDrvSetDO_def bspWriteInternal_def
        bspMethodWrite_def bspFindAttribute_def bspFindEntity_def check_permission_def prog_simps)
  have init: "\<exists>s'. eepromDrvInit hw_dispatch 0 s = Inr (IOS_ERROR_EXISTS, s')"
    if "bspEntityCount s = 0" "eepromContexts s = [\<lparr>ee_status = 0\<rparr>]" for s
    using that by (simp add: eepromDrvInit_def set_ctx_status_def write_at_def prog_simps set)
  have "log_open quiet_ios nm a b (hw_bench r v c) = Inr (-1, hw_bench r v c)" for nm a b
    by (simp add: log_open_def log_mutex_init_def log_open_locked_def log_open_failed_def quiet_ios_def hw_bench_def
        prog_simps neg32_def)
  then show ?thesis
    using init [of "(hw_bench r v c)\<lparr>bc_log_handle := -1\<rparr>"]
    by (auto simp: bcInit_def prog_simps crc32MakeTable_def hw_bench_def)
qed

lemma hw_bench_config:
  "\<exists>s2. bspReadBoardConfig hw_dispatch quiet_ios (hw_bench r v c) = Inr (BSP_RVAL_DEVICE_ERROR, s2)"
  using hw_bench_bcInit [of r v c] by (auto simp: bspReadBoardConfig_def Let_def prog_simps)

theorem latte_hardware_version_witness:
  "\<exists>v s'. bspMethodGetHardwareVersion hw_dispatch quiet_ios hw_ext VLocal (hw_bench hw_regs 0 undefined) =
      Inr ((BSP_RVAL_OK, v), s') \<and> BSP_LATTE_REV v = 0x24 \<and> BSP_IS_EV_Y v \<and> v \<notin> set BSP_HARDWARE_VERSIONS"
proof -
  obtain s2 where s2: "bspReadBoardConfig hw_dispatch quiet_ios (hw_bench hw_regs 0 undefined) =
      Inr (BSP_RVAL_DEVICE_ERROR, s2)" using hw_bench_config by blast
  show ?thesis
    using latte_hardware_version [OF _ _ _ s2, of hw_ext]
    by (auto simp: hw_bench_def hw_regs_def latte_revision_def BSP_IS_EV_Y_def BSP_IS_EV_def BSP_IS_CAT_def)
qed


text \<open>
  C25: The version is determined once: when \<open>bspMethodGetHardwareVersion\<close> has succeeded with a version,
  every later call answers that version without reading a register or changing anything, and the
  version is not the unknown one.
\<close>

theorem hardware_version_is_remembered:
  assumes "bspMethodGetHardwareVersion D os X VLocal s = Inr ((BSP_RVAL_OK, v), s')"
  shows "v \<noteq> BSP_HARDWARE_VERSION_UNKNOWN \<and>
     bspMethodGetHardwareVersion D' os' X' p s' = Inr ((BSP_RVAL_OK, v), s')"
  using hwver_success [OF assms] hwver_cached [of s' D' os' X' p] by auto

theorem hardware_version_is_remembered_witness:
  "bspMethodGetHardwareVersion hw_dispatch quiet_ios hw_ext VGlobal (hw_bench hw_regs 0x24100028 undefined) =
     Inr ((BSP_RVAL_OK, 0x24100028), hw_bench hw_regs 0x24100028 undefined)"
proof -
  have "bspMethodGetHardwareVersion hw_dispatch quiet_ios hw_ext VLocal (hw_bench hw_regs 0x24100028 undefined) =
      Inr ((BSP_RVAL_OK, 0x24100028), hw_bench hw_regs 0x24100028 undefined)"
    by (simp add: hwver_cached hw_bench_def)
  from hardware_version_is_remembered [OF this] show ?thesis by simp
qed

text \<open>
  The clock a Latte board reports with the 248.625 MHz system PLL at full speed is the one the
  delay routines assume (\<open>bspHwInfo\<close>), so a delay in microseconds is exact there.
\<close>

theorem clock_info_matches_delays:
  assumes "bspHardwareVersion s \<noteq> 0" "BSP_IS_LATTE (bspHardwareVersion s)"
    and "bc_version (bspBoardConfig s) > 2" "bc_sysPllSpeed (bspBoardConfig s) = 0xf8"
    and "regs s LT_PLLSYS AND LT_PLLSYS_HALFSPEED = 0"
  shows "bspGetSystemClockInfo D os X s = Inr ((BSP_RVAL_OK, hi_clock bspHwInfo), s)"
  using assms families_disjoint(1) [OF assms(2)]
  by (simp add: bspGetSystemClockInfo_def Let_def prog_simps hwver_cached bspHwInfo_def)

definition hw_config :: bc_config where
  "hw_config = (bc_dec (replicate 40 0))\<lparr>bc_size := 0x28, bc_version := 4, bc_boardType := 0x4346,
     bc_sysPllSpeed := 0xf8, bc_consoleType := 1\<rparr>"

theorem clock_info_matches_delays_witness:
  "bspGetSystemClockInfo hw_dispatch quiet_ios hw_ext (hw_bench hw_regs 0x24100028 hw_config) =
     Inr ((BSP_RVAL_OK, \<lparr>systemClockFrequency = 248625000, timerFrequency = 1942382\<rparr>),
          hw_bench hw_regs 0x24100028 hw_config)"
  using clock_info_matches_delays [of "hw_bench hw_regs 0x24100028 hw_config" hw_dispatch quiet_ios hw_ext]
  by (simp add: hw_bench_def hw_config_def BSP_IS_LATTE_def hw_regs_def bspHwInfo_def)

lemma read_config_failed:
  assumes "bspReadBoardConfig D os s = Inr (ret, s')" "ret \<noteq> BSP_RVAL_OK"
  shows "bspBoardConfig s' = bc_dec (replicate 40 0)"
  using assms
  by (auto simp: bspReadBoardConfig_def Let_def seqC_def modifyC_def returnC_def getsC_def
      elim!: bindC_InrE split: if_splits prod.splits)

text \<open>
  A board configuration that could not be read is not used: when \<open>bspReadBoardConfig\<close> fails, the
  stored configuration is all zero, and the console mask and type are then refused as invalid.
\<close>

theorem unreadable_config_is_refused:
  assumes "bspReadBoardConfig D os s = Inr (ret, s')" "ret \<noteq> BSP_RVAL_OK"
  shows "bspGetConsoleMask s' = Inr ((BSP_RVAL_BOARD_CONFIG_INVALID, -1), s') \<and>
     bspGetConsoleType s' = Inr ((BSP_RVAL_BOARD_CONFIG_INVALID, -1), s')"
proof -
  have "bc_size (bspBoardConfig s') = 0"
    unfolding read_config_failed [OF assms] by code_simp
  then show ?thesis by (simp add: bspGetConsoleMask_def bspGetConsoleType_def prog_simps)
qed

theorem unreadable_config_is_refused_witness:
  "\<exists>s'. bspReadBoardConfig hw_dispatch quiet_ios (hw_bench hw_regs 0 hw_config) = Inr (BSP_RVAL_DEVICE_ERROR, s') \<and>
     bspGetConsoleMask s' = Inr ((BSP_RVAL_BOARD_CONFIG_INVALID, -1), s')"
proof -
  obtain s' where "bspReadBoardConfig hw_dispatch quiet_ios (hw_bench hw_regs 0 hw_config) =
      Inr (BSP_RVAL_DEVICE_ERROR, s')" using hw_bench_config by blast
  with unreadable_config_is_refused [OF this] show ?thesis by auto
qed

end
