(* ===== verification/Frame.thy ===== *)
theory Frame
  imports HwRev
begin

text \<open>
  What a routine leaves alone. \<open>keeps f m\<close> says that whenever \<open>m\<close> returns, the part \<open>f\<close> of the state
  is what it was; the rules follow the program monad. The locale \<open>frame\<close> collects what has to be
  known of the parameters (the attribute methods, the kernel and the functions the repository does
  not define) and of \<open>f\<close> itself, which may depend on the sizes of the arrays, and shows that the lookup, the EEPROM driver, the board
  configuration and the version routines then keep \<open>f\<close>.
\<close>

section \<open>Rules\<close>

definition keeps :: "('s \<Rightarrow> 'b) \<Rightarrow> ('s, 'a) prog \<Rightarrow> bool" where
  "keeps f m \<longleftrightarrow> (\<forall>s. case m s of Inl _ \<Rightarrow> True | Inr (a, s') \<Rightarrow> f s' = f s)"

named_theorems keeps_intros \<open>introduction rules for the frame predicate\<close>

lemma keepsI: "(\<And>s a s'. m s = Inr (a, s') \<Longrightarrow> f s' = f s) \<Longrightarrow> keeps f m"
  by (auto simp: keeps_def split: sum.splits)

lemma keepsD: "keeps f m \<Longrightarrow> m s = Inr (a, s') \<Longrightarrow> f s' = f s"
  by (auto simp: keeps_def dest: spec [of _ s])

lemma keeps_atoms [keeps_intros]:
  "keeps f (returnC a)" "keeps f (failC e)" "keeps f (getsC g)" "keeps f (liftC r)"
  by (auto simp: keeps_def prog_simps split: sum.splits)

lemma keeps_modifyC [keeps_intros]: "(\<And>s. f (u s) = f s) \<Longrightarrow> keeps f (modifyC u)"
  by (auto simp: keeps_def prog_simps)

lemma keeps_bindC [keeps_intros]: "keeps f m \<Longrightarrow> (\<And>a. keeps f (g a)) \<Longrightarrow> keeps f (bindC m g)"
  by (auto intro!: keepsI elim!: bindC_InrE) (metis keepsD)

lemma keeps_seqC [keeps_intros]: "keeps f m \<Longrightarrow> keeps f n \<Longrightarrow> keeps f (seqC m n)"
  by (simp add: seqC_def keeps_bindC)

lemma keeps_derefC [keeps_intros]: "(\<And>a. p = Some a \<Longrightarrow> keeps f (g a)) \<Longrightarrow> keeps f (derefC p g)"
  by (cases p) (auto simp: derefC_def intro: keeps_atoms)

lemma keeps_if [keeps_intros]: "(b \<Longrightarrow> keeps f m) \<Longrightarrow> (\<not> b \<Longrightarrow> keeps f n) \<Longrightarrow> keeps f (if b then m else n)"
  by simp

lemma keeps_option [keeps_intros]:
  "keeps f m \<Longrightarrow> (\<And>a. keeps f (g a)) \<Longrightarrow> keeps f (case p of None \<Rightarrow> m | Some a \<Rightarrow> g a)"
  by (cases p) auto

lemma keeps_prod [keeps_intros]: "(\<And>a b. keeps f (g a b)) \<Longrightarrow> keeps f (case p of (a, b) \<Rightarrow> g a b)"
  by (cases p) auto

lemma keeps_Let [keeps_intros]: "keeps f (g x) \<Longrightarrow> keeps f (let y = x in g y)"
  by (simp add: Let_def)

lemma keeps_rd_reg [keeps_intros]: "keeps f (rd_reg a)"
  by (simp add: rd_reg_def keeps_atoms)

lemma keeps_wait_ticks:
  assumes "keeps f counter"
  shows "keeps f (wait_ticks counter ticks)"
proof (rule keepsI)
  fix s a s' assume "wait_ticks counter ticks s = Inr (a, s')"
  then show "f s' = f s"
    using wait_ticks_invariant [of counter "\<lambda>s'. f s' = f s" ticks s a s'] keepsD [OF assms] by metis
qed

section \<open>The parameters\<close>

definition dispatch_keeps :: "('s \<Rightarrow> 'b) \<Rightarrow> ('m, 's) dispatch \<Rightarrow> bool" where
  "dispatch_keeps f D \<longleftrightarrow>
     (\<forall>m i a p. keeps f (call_read D m i a p)) \<and> (\<forall>m i a p. keeps f (call_query D m i a p)) \<and>
     (\<forall>m i a p. keeps f (call_write D m i a p)) \<and> (\<forall>m i a p n. keeps f (call_init D m i a p n)) \<and>
     (\<forall>m i a. keeps f (call_shutdown D m i a)) \<and> (\<forall>a n. keeps f (load_mem D a n))"

definition ios_keeps :: "('s \<Rightarrow> 'b) \<Rightarrow> 's ios \<Rightarrow> bool" where
  "ios_keeps f os \<longleftrightarrow>
     (\<forall>a b. keeps f (IOS_CreateSemaphore os a b)) \<and> (\<forall>a b. keeps f (IOS_WaitSemaphore os a b)) \<and>
     (\<forall>a. keeps f (IOS_SignalSemaphore os a)) \<and> keeps f (IOS_GetUpTime os)"

definition ext_keeps :: "('s \<Rightarrow> 'b) \<Rightarrow> ('m, 's) bsp_ext \<Rightarrow> bool" where
  "ext_keeps f X \<longleftrightarrow> keeps f (BSPCheckCortado X) \<and> (\<forall>a n w. keeps f (bspEepromRead X a n w))"

lemma dispatch_keepsD:
  assumes "dispatch_keeps f D"
  shows "keeps f (call_read D m i a p)" "keeps f (call_query D m i a p)" "keeps f (call_write D m i a p)"
    "keeps f (call_init D m i a p n)" "keeps f (call_shutdown D m i a)" "keeps f (load_mem D w k)"
  using assms by (auto simp: dispatch_keeps_def)

lemma init_global_loop_keeps:
  assumes "dispatch_keeps f D" "init_global_loop D instance pA ret s = Some (Inr (r, s'))"
  shows "f s' = f s"
proof -
  have "dispatch_keeps f D \<longrightarrow> (\<forall>r s'. x = Inr (r, s') \<longrightarrow> f s' = f s)"
    if "init_global_loop D instance pA ret s = Some x" for x
  proof (rule init_global_loop.raw_induct [OF _ that], goal_cases)
    case (1 g D inst pA ret s x)
    show ?case
    proof (intro impI allI)
      fix r s' assume D: "dispatch_keeps f D" and x: "x = Inr (r, s')"
      from 1(2) x show "f s' = f s"
        by (auto split: list.splits if_splits sum.splits dest!: 1(1) [rule_format, OF _ D]
            dest: keepsD [OF dispatch_keepsD(4) [OF D]])
    qed
  qed
  with assms show ?thesis by blast
qed

locale frame =
  fixes f :: "('e, 'm, 'z) hw_state_scheme \<Rightarrow> 'b"
    and D :: "('m, ('e, 'm, 'z) hw_state_scheme) dispatch"
    and os :: "(('e, 'm, 'z) hw_state_scheme) ios"
    and X :: "('m, ('e, 'm, 'z) hw_state_scheme) bsp_ext"
  assumes dispatch: "dispatch_keeps f D" and kernel: "ios_keeps f os" and external: "ext_keeps f X"
    and log_fields: "\<And>s v. f (s\<lparr>log_mutex := v\<rparr>) = f s" "\<And>s v. length v = length (log_fds s) \<Longrightarrow> f (s\<lparr>log_fds := v\<rparr>) = f s"
      "\<And>s v. f (s\<lparr>active_log_fds := v\<rparr>) = f s"
    and crc_field: "\<And>s v. f (s\<lparr>s_crc32Value := v\<rparr>) = f s"
    and eeprom_field: "\<And>s v. length v = length (eepromContexts s) \<Longrightarrow> f (s\<lparr>eepromContexts := v\<rparr>) = f s"
    and bc_fields: "\<And>s v. f (s\<lparr>bc_log_handle := v\<rparr>) = f s" "\<And>s v. f (s\<lparr>bc_initialised := v\<rparr>) = f s"
    and hw_fields: "\<And>s v. f (s\<lparr>bspHardwareVersion := v\<rparr>) = f s" "\<And>s v. f (s\<lparr>bspBoardConfig := v\<rparr>) = f s"
      "\<And>s v. f (s\<lparr>hw_pvr := v\<rparr>) = f s"
begin

lemmas fields = log_fields crc_field eeprom_field bc_fields hw_fields

lemmas methods = dispatch_keepsD [OF dispatch]

lemma kernel_calls:
  "keeps f (IOS_CreateSemaphore os a b)" "keeps f (IOS_WaitSemaphore os a b)"
  "keeps f (IOS_SignalSemaphore os a)" "keeps f (IOS_GetUpTime os)"
  using kernel by (auto simp: ios_keeps_def)

lemma external_calls: "keeps f (BSPCheckCortado X)" "keeps f (bspEepromRead X w n v)"
  using external by (auto simp: ext_keeps_def)

lemmas params = methods kernel_calls external_calls

lemma lookup: "keeps f (bspFindEntity nm)" "keeps f (bspFindAttribute nm i at c k)"
  by (auto simp: bspFindAttribute_def bspFindEntity_def intro!: keeps_intros)

lemma requests:
  "keeps f (bspMethodRead D nm i at n p c)" "keeps f (bspMethodQuery D nm i at n p c)"
  "keeps f (bspMethodWrite D nm i at n p c)" "keeps f (bspMethodShutdown D nm i at c)"
  "keeps f (bspGetEntityVersion nm p)"
  by (auto simp: bspMethodRead_def bspMethodQuery_def bspMethodWrite_def bspMethodShutdown_def
      bspGetEntityVersion_def intro!: keeps_intros lookup methods)

lemma request_init: "keeps f (bspMethodInit D nm i at n p c)"
proof -
  have "keeps f (\<lambda>s. case init_global_loop D i attribs ret s of None \<Rightarrow> Inl NoReturn | Some r \<Rightarrow> r)"
    for attribs ret
    by (rule keepsI) (auto split: option.splits dest: init_global_loop_keeps [OF dispatch])
  then show ?thesis
    by (auto simp: bspMethodInit_def intro!: keeps_intros lookup methods)
qed

lemma internal:
  "keeps f (bspReadInternal D nm i at n p)" "keeps f (bspWriteInternal D nm i at n p)"
  "keeps f (bspInitInternal D nm i at n p)"
  by (simp_all add: bspReadInternal_def bspWriteInternal_def bspInitInternal_def requests request_init)

lemma delays: "keeps f (udelay os n)"
  by (simp add: udelay_def keeps_wait_ticks kernel_calls)

lemma lines: "keeps f (eepromDrvSetSK D v)" "keeps f (eepromDrvSetCS D v)" "keeps f (eepromDrvSetDO D v)"
  by (auto simp: eepromDrvSetSK_def eepromDrvSetCS_def eepromDrvSetDO_def intro!: keeps_intros internal)

lemma read_bit: "keeps f (eepromDrvReadBit D os)"
  by (auto simp: eepromDrvReadBit_def intro!: keeps_intros internal lines delays)

lemma finish: "keeps f (eepromDrvFinishCommand D os n)"
proof -
  have "keeps f (finish_clocks D os k)" for k
    by (induction k) (auto intro!: keeps_intros lines delays)
  then show ?thesis by (auto simp: eepromDrvFinishCommand_def intro!: keeps_intros lines)
qed

lemma send_bits: "keeps f (eepromDrvSendBits D os n w)"
proof -
  have "keeps f (send_bits_loop D os w k)" for k
    by (induction k) (auto intro!: keeps_intros lines delays)
  then show ?thesis by (auto simp: eepromDrvSendBits_def intro!: keeps_intros)
qed

lemma status: "keeps f (ctx_status n)" "keeps f (set_ctx_status n v)"
  by (auto simp: ctx_status_def intro!: keeps_intros)
     (rule keepsI, auto simp: set_ctx_status_def prog_simps write_at_def eeprom_field split: if_splits)

lemma read_word: "keeps f (eepromDrvReadWord D os n a)"
proof -
  have "keeps f (read_word_loop D os k w)" for k w
    by (induction k arbitrary: w) (auto intro!: keeps_intros read_bit)
  then show ?thesis by (auto simp: eepromDrvReadWord_def intro!: keeps_intros status send_bits finish)
qed

lemma bring_up: "keeps f (eepromDrvInit D n)" "keeps f (eepromDrvOpen D n)"
  by (auto simp: eepromDrvInit_def eepromDrvOpen_def intro!: keeps_intros status lines)

lemma open_log: "keeps f (log_open os nm u v)"
  by (auto simp: log_open_def log_mutex_init_def log_open_locked_def log_open_failed_def log_fields
      intro!: keeps_intros kernel_calls)

lemma crc: "keeps f crc32Reset" "keeps f (crc32Input bs n)" "keeps f crc32MakeTable"
  by (auto simp: crc32Reset_def crc32Input_def crc32MakeTable_def crc_field intro!: keeps_intros)

lemma board_config: "keeps f (bcInit D os)" "keeps f (bcGet D os p)"
proof -
  have "keeps f (bc_read_loop D os i n ws)" for i n ws
    by (induction n arbitrary: i ws) (auto intro!: keeps_intros read_word)
  then show "keeps f (bcInit D os)" "keeps f (bcGet D os p)"
    by (auto simp: bcInit_def bcGet_def bc_fields intro!: keeps_intros bring_up open_log read_word crc)
qed

lemma read_board_config: "keeps f (bspReadBoardConfig D os)"
  by (auto simp: bspReadBoardConfig_def hw_fields intro!: keeps_intros board_config)

lemma version_pointer: "keeps f (get_ver p v)" "keeps f (set_ver p v)" "keeps f (give_ver p ret v)"
proof -
  show "keeps f (get_ver p v)" for v by (cases p) (auto simp: get_ver_def intro!: keeps_intros)
  show set: "keeps f (set_ver p v)" for v
    by (cases p) (auto simp: set_ver_def hw_fields intro!: keeps_intros)
  show "keeps f (give_ver p ret v)" by (auto simp: give_ver_def intro!: keeps_intros set)
qed

lemma chip_version:
  "keeps f (determineWoodBasedHardwareVersion X p b v)" "keeps f (determineLatteBasedHardwareVersion p v)"
  by (auto simp: determineWoodBasedHardwareVersion_def determineLatteBasedHardwareVersion_def
      bspPPCGetPVR_def hw_fields intro!: keeps_intros version_pointer external_calls)

lemma hardware_version: "keeps f (bspMethodGetHardwareVersion D os X p)"
  by (auto simp: bspMethodGetHardwareVersion_def hw_fields
      intro!: keeps_intros version_pointer chip_version read_board_config)

lemma console: "keeps f bspGetConsoleMask" "keeps f bspGetConsoleType"
  by (auto simp: bspGetConsoleMask_def bspGetConsoleType_def intro!: keeps_intros)

end

end
