(* ===== verification/Entities_Io.thy ===== *)
theory Entities_Io
  imports HwRev
begin

text \<open>
  The entities whose methods are accesses to a register: \<^verbatim>\<open>src/ios_bsp/entities/di/bsp_di.c\<close>,
  \<^verbatim>\<open>si/bsp_si.c\<close>, \<^verbatim>\<open>reset/bsp_reset.c\<close> and \<^verbatim>\<open>sdio/bsp_sdio.c\<close>. A method gets the instance, the attribute and
  the data pointer, as the function pointers of \<^verbatim>\<open>BSP_ATTRIBUTE\<close> do; a read method returns the pointer
  with the bytes it stored.

  Names the files use but no file of the repository defines are fields of \<open>dev_ext\<close>: register addresses
  and field macros of the Latte chip, the credentials \<^verbatim>\<open>BSP_CLIENT_INTERNAL\<close>, \<^verbatim>\<open>BSPGetClockInfo\<close>,
  \<^verbatim>\<open>log_debug_printf\<close> (declared in \<^verbatim>\<open>log.h\<close> only), the
  layout of \<^verbatim>\<open>BSP_SYSTEM_ASIC_REVISION\<close> and the methods of the PPC entity that are named but not
  written. \<open>stack_junk\<close> is what an uninitialised local byte happens to hold.
\<close>

section \<open>What the sources leave open\<close>

record 's dev_ext =
  LT_RSTB :: u32
  LT_GPIO_DIR :: u32
  LT_IOSTRCTRL2 :: u32
  LT_IOSTRCTRL2_MASK :: u32
  LT_IOSTRCTRL2_SDIOB :: "u32 \<Rightarrow> u32"
  LT_IOSTRCTRL2_SDIOC :: "u32 \<Rightarrow> u32"
  LT_IOSTRCTRL2_SDIOD :: "u32 \<Rightarrow> u32"
  HW_SICLKDIV :: u32
  HW_IPC_ARMCTRL :: u32
  HW_IPC_ARMCTRL_X2 :: u32
  HW_IPC_ARMCTRL_Y2 :: u32
  BSP_CLIENT_INTERNAL :: u32
  BSPGetClockInfo :: "('s, u32 \<times> bsp_system_clock_info) prog"
  asic_revision_layout :: "u32 \<Rightarrow> u32 \<Rightarrow> bytes"
  bspPPC_Clock :: "u32 \<Rightarrow> cptr \<Rightarrow> ('s, u32) prog"
  bspPPC_EXIRegBoot :: "u32 \<Rightarrow> cptr \<Rightarrow> ('s, u32) prog"
  bspPPCExecStopLatte :: "('s, u32) prog"
  log_debug_printf :: "bytes \<Rightarrow> ('s, u32) prog"
  stack_junk :: byte

text \<open>Store bytes through the data pointer and return a code; load a byte through it.\<close>

definition give_bytes :: "bytes \<Rightarrow> cptr \<Rightarrow> u32 \<Rightarrow> ('s, u32 \<times> cptr) prog" where
  "give_bytes bs p ret = bindC (liftC (store_ptr 0 bs p)) (\<lambda>q. returnC (ret, q))"

definition take_byte :: "cptr \<Rightarrow> ('s, byte) prog" where
  "take_byte p = bindC (liftC (load_ptr 0 1 p)) (\<lambda>bs. returnC (dec8 bs))"

section \<open>DI\<close>

definition bspDI_IOStrength_init ::
  "('m, ('e, 'm, 'z) hw_state_scheme) dispatch \<Rightarrow> (('e, 'm, 'z) hw_state_scheme) ios \<Rightarrow>
   ('m, ('e, 'm, 'z) hw_state_scheme) bsp_ext \<Rightarrow> u32 \<Rightarrow> 'm bsp_attribute \<Rightarrow> cptr \<Rightarrow> u32 \<Rightarrow>
   (('e, 'm, 'z) hw_state_scheme, u32) prog" where
  "bspDI_IOStrength_init D os X instance pAttribute pInitData sz =
     bindC (bspMethodGetHardwareVersion D os X VLocal) (\<lambda>(err, hwver).
     if err \<noteq> 0 then returnC err
     else
     bindC (rd_reg HW_IOSTRCTRL0) (\<lambda>r.
     let reg = r AND NOT (HW_IOSTRCTRL0_DI HW_IOSTRCTRL0_MASK)
     in if BSP_IS_HOLLYWOOD hwver \<or> BSP_IS_HOLLYWOOD_ES1 hwver
        then seqC (wr_reg HW_IOSTRCTRL0 (reg OR HW_IOSTRCTRL0_DI 1)) (returnC BSP_RVAL_OK)
        else if BSP_IS_LATTE hwver \<or> BSP_IS_BOLLYWOOD hwver
        then seqC (wr_reg HW_IOSTRCTRL0 (reg OR HW_IOSTRCTRL0_DI 2)) (returnC BSP_RVAL_OK)
        else returnC BSP_RVAL_UNKNOWN_HARDWARE_VERSION))"

definition bspDI_IOPower_read ::
  "u32 \<Rightarrow> 'm bsp_attribute \<Rightarrow> cptr \<Rightarrow> (('e, 'z) machine_scheme, u32 \<times> cptr) prog" where
  "bspDI_IOPower_read instance pAttribute pReadData =
     bindC (rd_reg HW_IOPWRCTRL) (\<lambda>reg.
     if reg AND HW_IOPWRCTRL_DI 1 \<noteq> 0 \<and> reg AND HW_IOPWRCTRL_DI 2 \<noteq> 0
     then give_bytes [1] pReadData BSP_RVAL_OK
     else give_bytes [0] pReadData BSP_RVAL_OK)"

definition bspDI_IOPower_write ::
  "u32 \<Rightarrow> 'm bsp_attribute \<Rightarrow> cptr \<Rightarrow> (('e, 'z) machine_scheme, u32) prog" where
  "bspDI_IOPower_write instance pAttribute pWrittenData =
     bindC (rd_reg HW_IOPWRCTRL) (\<lambda>r.
     let reg = r AND NOT (HW_IOPWRCTRL_DI HW_IOPWRCTRL_MASK)
     in bindC (take_byte pWrittenData) (\<lambda>v.
        seqC (wr_reg HW_IOPWRCTRL (if v \<noteq> 0 then reg OR (HW_IOPWRCTRL_DI 1 OR HW_IOPWRCTRL_DI 2) else reg))
        (returnC BSP_RVAL_OK)))"

text \<open>The function has no \<^verbatim>\<open>return\<close>, and \<^verbatim>\<open>bspMethodInit\<close> uses its value.\<close>

definition bspDI_IOPower_init ::
  "u32 \<Rightarrow> 'm bsp_attribute \<Rightarrow> cptr \<Rightarrow> u32 \<Rightarrow> (('e, 'z) machine_scheme, u32) prog" where
  "bspDI_IOPower_init instance pAttribute pInitData sz =
     (let enable = ucast (a_data pAttribute) :: byte;
          enable = (if enable \<noteq> 0 then 1 else enable)
      in seqC (bspDI_IOPower_write instance pAttribute (Buf [enable])) (failC Uninitialised))"

definition bspDI_Reset_read ::
  "('m, ('e, 'm, 'z) ent_state_scheme) dispatch \<Rightarrow> (('e, 'm, 'z) ent_state_scheme) dev_ext \<Rightarrow>
   u32 \<Rightarrow> 'm bsp_attribute \<Rightarrow> cptr \<Rightarrow> (('e, 'm, 'z) ent_state_scheme, u32 \<times> cptr) prog" where
  "bspDI_Reset_read D A instance pAttribute pReadData =
     bindC (bspMethodRead D (lit ''Reset'') 0 (lit ''RSTB_DIRSTB'') 1 (Buf [stack_junk A]) (BSP_CLIENT_INTERNAL A))
     (\<lambda>(err, p).
     bindC (take_byte p) (\<lambda>state.
     give_bytes [if state = 0 then 1 else 0] pReadData err))"

definition bspDI_Reset_write ::
  "('m, ('e, 'm, 'z) ent_state_scheme) dispatch \<Rightarrow> (('e, 'm, 'z) ent_state_scheme) dev_ext \<Rightarrow>
   u32 \<Rightarrow> 'm bsp_attribute \<Rightarrow> cptr \<Rightarrow> (('e, 'm, 'z) ent_state_scheme, u32) prog" where
  "bspDI_Reset_write D A instance pAttribute pWrittenData =
     bindC (take_byte pWrittenData) (\<lambda>v.
     bspMethodWrite D (lit ''Reset'') 0 (lit ''RSTB_DIRSTB'') 1 (Buf [if v = 0 then 1 else 0]) (BSP_CLIENT_INTERNAL A))"

section \<open>SI\<close>

definition bspSI_IOStrength_init ::
  "('m, ('e, 'm, 'z) hw_state_scheme) dispatch \<Rightarrow> (('e, 'm, 'z) hw_state_scheme) ios \<Rightarrow>
   ('m, ('e, 'm, 'z) hw_state_scheme) bsp_ext \<Rightarrow> u32 \<Rightarrow> 'm bsp_attribute \<Rightarrow> cptr \<Rightarrow> u32 \<Rightarrow>
   (('e, 'm, 'z) hw_state_scheme, u32) prog" where
  "bspSI_IOStrength_init D os X instance pAttribute pInitData sz =
     bindC (bspMethodGetHardwareVersion D os X VLocal) (\<lambda>(err, hwver).
     if err \<noteq> 0 then returnC err
     else
     bindC (rd_reg HW_IOSTRCTRL0) (\<lambda>r.
     let reg = r AND NOT (HW_IOSTRCTRL0_SI HW_IOSTRCTRL0_MASK)
     in if BSP_IS_HOLLYWOOD hwver \<or> BSP_IS_HOLLYWOOD_ES1 hwver \<or> BSP_IS_BOLLYWOOD hwver
        then seqC (wr_reg HW_IOSTRCTRL0 (reg OR HW_IOSTRCTRL0_SI 1)) (returnC BSP_RVAL_OK)
        else if BSP_IS_LATTE hwver
        then seqC (wr_reg HW_IOSTRCTRL0 (reg OR HW_IOSTRCTRL0_SI 2)) (returnC BSP_RVAL_OK)
        else returnC BSP_RVAL_UNKNOWN_HARDWARE_VERSION))"

definition bspSI_IOPower_read ::
  "u32 \<Rightarrow> 'm bsp_attribute \<Rightarrow> cptr \<Rightarrow> (('e, 'z) machine_scheme, u32 \<times> cptr) prog" where
  "bspSI_IOPower_read instance pAttribute pReadData =
     bindC (rd_reg HW_IOPWRCTRL) (\<lambda>reg.
     if reg AND HW_IOPWRCTRL_SI 1 \<noteq> 0 \<and> reg AND HW_IOPWRCTRL_SI 2 \<noteq> 0
     then give_bytes [1] pReadData BSP_RVAL_OK
     else give_bytes [0] pReadData BSP_RVAL_OK)"

definition bspSI_IOPower_write ::
  "u32 \<Rightarrow> 'm bsp_attribute \<Rightarrow> cptr \<Rightarrow> (('e, 'z) machine_scheme, u32) prog" where
  "bspSI_IOPower_write instance pAttribute pWrittenData =
     bindC (rd_reg HW_IOPWRCTRL) (\<lambda>r.
     let reg = r AND NOT (HW_IOPWRCTRL_SI HW_IOPWRCTRL_MASK)
     in bindC (take_byte pWrittenData) (\<lambda>v.
        seqC (wr_reg HW_IOPWRCTRL (if v \<noteq> 0 then reg OR (HW_IOPWRCTRL_SI 1 OR HW_IOPWRCTRL_SI 2) else reg))
        (returnC BSP_RVAL_OK)))"

definition bspSI_IOPower_init ::
  "u32 \<Rightarrow> 'm bsp_attribute \<Rightarrow> cptr \<Rightarrow> u32 \<Rightarrow> (('e, 'z) machine_scheme, u32) prog" where
  "bspSI_IOPower_init instance pAttribute pInitData sz =
     (let enable = ucast (a_data pAttribute) :: byte;
          enable = (if enable \<noteq> 0 then 1 else enable)
      in seqC (bspSI_IOPower_write instance pAttribute (Buf [enable])) (failC Uninitialised))"

text \<open>Unfinished in the source: after the register read the function ends without a \<^verbatim>\<open>return\<close>.\<close>

definition bspSI_Subsystem_init ::
  "(('e, 'z) machine_scheme) dev_ext \<Rightarrow> u32 \<Rightarrow> 'm bsp_attribute \<Rightarrow> cptr \<Rightarrow> u32 \<Rightarrow>
   (('e, 'z) machine_scheme, u32) prog" where
  "bspSI_Subsystem_init A instance pAttribute pInitData sz =
     bindC (BSPGetClockInfo A) (\<lambda>(err, clockInfo).
     if err \<noteq> 0 then returnC err
     else bindC (rd_reg (HW_SICLKDIV A)) (\<lambda>reg. failC Uninitialised))"

section \<open>Reset\<close>

definition bspReset_LT_RSTB_read ::
  "(('e, 'z) machine_scheme) dev_ext \<Rightarrow> u32 \<Rightarrow> 'm bsp_attribute \<Rightarrow> cptr \<Rightarrow>
   (('e, 'z) machine_scheme, u32 \<times> cptr) prog" where
  "bspReset_LT_RSTB_read A instance pAttribute pReadData =
     bindC (rd_reg (LT_RSTB A)) (\<lambda>reg.
     if reg AND a_attribute_specific pAttribute \<noteq> 0 then give_bytes [1] pReadData BSP_RVAL_OK
     else give_bytes [0] pReadData BSP_RVAL_OK)"

definition bspReset_LT_RSTB_write ::
  "(('e, 'z) machine_scheme) dev_ext \<Rightarrow> u32 \<Rightarrow> 'm bsp_attribute \<Rightarrow> cptr \<Rightarrow> (('e, 'z) machine_scheme, u32) prog" where
  "bspReset_LT_RSTB_write A instance pAttribute pWrittenData =
     bindC (take_byte pWrittenData) (\<lambda>cmd.
     bindC (rd_reg (LT_RSTB A)) (\<lambda>reg.
     seqC (wr_reg (LT_RSTB A) (if cmd = 0 then reg AND NOT (a_attribute_specific pAttribute)
                               else reg OR a_attribute_specific pAttribute))
     (returnC BSP_RVAL_OK)))"

section \<open>SDIO\<close>

definition bspSDIO_IOStrength_init ::
  "('m, ('e, 'm, 'z) hw_state_scheme) dispatch \<Rightarrow> (('e, 'm, 'z) hw_state_scheme) ios \<Rightarrow>
   ('m, ('e, 'm, 'z) hw_state_scheme) bsp_ext \<Rightarrow> (('e, 'm, 'z) hw_state_scheme) dev_ext \<Rightarrow>
   u32 \<Rightarrow> 'm bsp_attribute \<Rightarrow> cptr \<Rightarrow> u32 \<Rightarrow> (('e, 'm, 'z) hw_state_scheme, u32) prog" where
  "bspSDIO_IOStrength_init D os X A instance pAttribute pInitData sz =
     bindC (bspMethodGetHardwareVersion D os X VLocal) (\<lambda>(err, hwver).
     if err \<noteq> 0 then returnC err
     else
     bindC (rd_reg HW_IOSTRCTRL1) (\<lambda>r.
     let reg1 = r AND NOT (HW_IOSTRCTRL1_SDIO HW_IOSTRCTRL1_MASK);
         finish = (\<lambda>v. seqC (wr_reg HW_IOSTRCTRL1 v) (returnC BSP_RVAL_OK))
     in if BSP_IS_HOLLYWOOD hwver \<or> BSP_IS_HOLLYWOOD_ES1 hwver
        then finish (reg1 OR HW_IOSTRCTRL1_SDIO 2)
        else if BSP_IS_BOLLYWOOD hwver then finish (reg1 OR HW_IOSTRCTRL1_SDIO 1)
        else if BSP_IS_LATTE hwver
        then bindC (rd_reg (LT_IOSTRCTRL2 A)) (\<lambda>r2.
             let reg2 = r2 AND NOT (LT_IOSTRCTRL2_SDIOB A (LT_IOSTRCTRL2_MASK A) OR
                   LT_IOSTRCTRL2_SDIOC A (LT_IOSTRCTRL2_MASK A) OR LT_IOSTRCTRL2_SDIOD A (LT_IOSTRCTRL2_MASK A));
                 (w2, w1) = (if BSP_IS_EV_Y hwver
                   then (reg2 OR (LT_IOSTRCTRL2_SDIOB A 4 OR LT_IOSTRCTRL2_SDIOC A 4 OR LT_IOSTRCTRL2_SDIOD A 4),
                         reg1 OR HW_IOSTRCTRL1_SDIO 5)
                   else (reg2 OR (LT_IOSTRCTRL2_SDIOB A 2 OR LT_IOSTRCTRL2_SDIOC A 4 OR LT_IOSTRCTRL2_SDIOD A 2),
                         reg1 OR HW_IOSTRCTRL1_SDIO 4))
             in bindC (rd_reg 0x0d8005cc) (\<lambda>unk05cc.
                seqC (wr_reg (LT_IOSTRCTRL2 A) w2)
                (seqC (wr_reg 0x0d8005cc (unk05cc AND NOT 6))
                (finish w1))))
        else returnC BSP_RVAL_UNKNOWN_HARDWARE_VERSION))"

section \<open>Power switches\<close>

text \<open>
  The contract of the two power attributes: a two-bit field of a register, written whole and read as on
  when both bits are set. The write clears only the upper bit (the source uses the field's width where
  a mask is needed), which is still enough for the read to see it off.
\<close>

locale io_power =
  fixes sh :: nat
    and rd :: "u32 \<Rightarrow> 'm bsp_attribute \<Rightarrow> cptr \<Rightarrow> (('e, 'z) machine_scheme, u32 \<times> cptr) prog"
    and wr :: "u32 \<Rightarrow> 'm bsp_attribute \<Rightarrow> cptr \<Rightarrow> (('e, 'z) machine_scheme, u32) prog"
  assumes bits: "Suc sh < 32"
    and rd_run: "rd i a p s =
      give_bytes [if bit (regs s HW_IOPWRCTRL) sh \<and> bit (regs s HW_IOPWRCTRL) (Suc sh) then 1 else 0] p 0 s"
    and wr_run: "\<exists>w. wr i a (Buf (v # bs)) s = Inr (0, s\<lparr>regs := (regs s)(HW_IOPWRCTRL := w)\<rparr>) \<and>
      (\<forall>n. bit w n \<longleftrightarrow> (if v \<noteq> 0 then n \<in> {sh, Suc sh} \<or> bit (regs s HW_IOPWRCTRL) n
                        else n \<noteq> Suc sh \<and> bit (regs s HW_IOPWRCTRL) n))"
begin

lemma rd_value:
  "rd i a (Buf (c # cs)) s =
     Inr ((0, Buf ((if bit (regs s HW_IOPWRCTRL) sh \<and> bit (regs s HW_IOPWRCTRL) (Suc sh) then 1 else 0) # cs)), s)"
  by (simp add: rd_run give_bytes_def prog_simps splice_at_def)

text \<open>What was written is what is read, and no bit outside the field moves.\<close>

lemma read_back:
  assumes "wr i a (Buf (v # bs)) s = Inr (ret, s')"
  shows "rd i' a' (Buf (c # cs)) s' = Inr ((0, Buf ((if v \<noteq> 0 then 1 else 0) # cs)), s')"
    and "n \<notin> {sh, Suc sh} \<Longrightarrow> bit (regs s' HW_IOPWRCTRL) n \<longleftrightarrow> bit (regs s HW_IOPWRCTRL) n"
    and "r \<noteq> HW_IOPWRCTRL \<Longrightarrow> regs s' r = regs s r"
proof -
  obtain w where s': "s' = s\<lparr>regs := (regs s)(HW_IOPWRCTRL := w)\<rparr>"
    and w: "bit w n \<longleftrightarrow> (if v \<noteq> 0 then n \<in> {sh, Suc sh} \<or> bit (regs s HW_IOPWRCTRL) n
              else n \<noteq> Suc sh \<and> bit (regs s HW_IOPWRCTRL) n)" for n
    using wr_run [of i a v bs s] assms by auto
  show "rd i' a' (Buf (c # cs)) s' = Inr ((0, Buf ((if v \<noteq> 0 then 1 else 0) # cs)), s')"
    by (simp add: rd_run give_bytes_def prog_simps splice_at_def s' w)
  show "bit (regs s' HW_IOPWRCTRL) n \<longleftrightarrow> bit (regs s HW_IOPWRCTRL) n" if "n \<notin> {sh, Suc sh}" for n
    using that by (simp add: s' w)
  show "regs s' r = regs s r" if "r \<noteq> HW_IOPWRCTRL" for r
    using that by (simp add: s')
qed

end

text \<open>The literal fields of the two switches.\<close>

lemma power_fields:
  "HW_IOPWRCTRL_DI 1 = 2 ^ 6" "HW_IOPWRCTRL_DI 2 = 2 ^ 7" "HW_IOPWRCTRL_SI 1 = 2 ^ 18" "HW_IOPWRCTRL_SI 2 = 2 ^ 19"
  by (simp_all add: reg_field_defs)

lemma and_bit: "w AND 2 ^ k \<noteq> 0 \<longleftrightarrow> bit w k" for w :: u32
  by (simp add: and_exp_eq_0_iff_not_bit)

lemma power_bits:
  "w AND HW_IOPWRCTRL_DI 1 = 0 \<longleftrightarrow> \<not> bit w 6" "w AND HW_IOPWRCTRL_DI 2 = 0 \<longleftrightarrow> \<not> bit w 7"
  "w AND HW_IOPWRCTRL_SI 1 = 0 \<longleftrightarrow> \<not> bit w 18" "w AND HW_IOPWRCTRL_SI 2 = 0 \<longleftrightarrow> \<not> bit w 19"
  unfolding power_fields using and_bit by blast+

lemma set_field:
  "Suc sh < 32 \<Longrightarrow> bit (if v \<noteq> 0 then w AND NOT (2 ^ Suc sh) OR (2 ^ sh OR 2 ^ Suc sh) else w AND NOT (2 ^ Suc sh) :: u32) n \<longleftrightarrow>
     (if v \<noteq> 0 then n \<in> {sh, Suc sh} \<or> bit w n else n \<noteq> Suc sh \<and> bit w n)"
  using bit_imp_le_length [of w n]
  by (auto simp: bit_or_iff bit_and_iff bit_not_iff bit_exp_iff simp del: power_Suc)

interpretation di_power: io_power 6 bspDI_IOPower_read bspDI_IOPower_write
proof (unfold_locales, goal_cases)
  case (3 i a v bs s)
  show ?case
  proof (intro exI conjI allI)
    show "bspDI_IOPower_write i a (Buf (v # bs)) s = Inr (0, s\<lparr>regs := (regs s)(HW_IOPWRCTRL :=
        if v \<noteq> 0 then regs s HW_IOPWRCTRL AND NOT (2 ^ Suc 6) OR (2 ^ 6 OR 2 ^ Suc 6)
        else regs s HW_IOPWRCTRL AND NOT (2 ^ Suc 6))\<rparr>)"
      by (simp add: bspDI_IOPower_write_def Let_def take_byte_def dec8_def prog_simps power_fields)
  qed (rule set_field, simp)
qed (simp_all add: bspDI_IOPower_read_def prog_simps power_bits)

interpretation si_power: io_power 18 bspSI_IOPower_read bspSI_IOPower_write
proof (unfold_locales, goal_cases)
  case (3 i a v bs s)
  show ?case
  proof (intro exI conjI allI)
    show "bspSI_IOPower_write i a (Buf (v # bs)) s = Inr (0, s\<lparr>regs := (regs s)(HW_IOPWRCTRL :=
        if v \<noteq> 0 then regs s HW_IOPWRCTRL AND NOT (2 ^ Suc 18) OR (2 ^ 18 OR 2 ^ Suc 18)
        else regs s HW_IOPWRCTRL AND NOT (2 ^ Suc 18))\<rparr>)"
      by (simp add: bspSI_IOPower_write_def Let_def take_byte_def dec8_def prog_simps power_fields)
  qed (rule set_field, simp)
qed (simp_all add: bspSI_IOPower_read_def prog_simps power_bits)

section \<open>The reset line of the disc interface\<close>

lemma answerable_regs [simp]: "answerable (s\<lparr>regs := r\<rparr>) nm i anm \<longleftrightarrow> answerable s nm i anm"
  by (simp add: answerable_def registry_wf_def registered_def)

lemma registered_regs [simp]: "registered (s\<lparr>regs := r\<rparr>) = registered s"
  by (simp add: registered_def)

text \<open>
  The attribute behind the reset line. The table of the reset entity is not in the repository; this is
  what the disc interface relies on: the lookup reaches an attribute of one byte whose functions are
  those of \<^verbatim>\<open>bsp_reset.c\<close>.
\<close>

definition reset_line ::
  "('m, ('e, 'm, 'z) ent_state_scheme) dispatch \<Rightarrow> (('e, 'm, 'z) ent_state_scheme) dev_ext \<Rightarrow>
   ('e, 'm, 'z) ent_state_scheme \<Rightarrow> 'm bsp_attribute \<Rightarrow> bool" where
  "reset_line D A s a \<longleftrightarrow>
     answerable s (lit ''Reset'') 0 (lit ''RSTB_DIRSTB'') \<and>
     reaches (registered s) (lit ''Reset'') 0 (lit ''RSTB_DIRSTB'') (BSP_CLIENT_INTERNAL A) BSP_IOCTL_METHOD_READ a \<and>
     reaches (registered s) (lit ''Reset'') 0 (lit ''RSTB_DIRSTB'') (BSP_CLIENT_INTERNAL A) BSP_IOCTL_METHOD_WRITE a \<and>
     a_dataSize a = 1 \<and> a_attribute_specific a \<noteq> 0 \<and>
     (\<exists>rm. a_readMethod a = Some rm \<and> (\<forall>p. call_read D rm 0 a p = bspReset_LT_RSTB_read A 0 a p)) \<and>
     (\<exists>wm. a_writeMethod a = Some wm \<and> (\<forall>p. call_write D wm 0 a p = bspReset_LT_RSTB_write A 0 a p))"

lemma reset_line_regs: "reset_line D A (s\<lparr>regs := r\<rparr>) a \<longleftrightarrow> reset_line D A s a"
  by (simp add: reset_line_def)

lemma reset_line_requests:
  assumes "reset_line D A s a"
  shows "bspMethodRead D (lit ''Reset'') 0 (lit ''RSTB_DIRSTB'') 1 p (BSP_CLIENT_INTERNAL A) s =
      bspReset_LT_RSTB_read A 0 a p s"
    "bspMethodWrite D (lit ''Reset'') 0 (lit ''RSTB_DIRSTB'') 1 p (BSP_CLIENT_INTERNAL A) s =
      bspReset_LT_RSTB_write A 0 a p s"
  using assms
    reached_read [of s "lit ''Reset''" 0 "lit ''RSTB_DIRSTB''" "BSP_CLIENT_INTERNAL A" a D 1 p]
    reached_write [of s "lit ''Reset''" 0 "lit ''RSTB_DIRSTB''" "BSP_CLIENT_INTERNAL A" a D 1 p]
  by (auto simp: reset_line_def)

lemma reset_write_run:
  assumes "reset_line D A s a"
  shows "bspDI_Reset_write D A i at (Buf (v # bs)) s =
     Inr (BSP_RVAL_OK, s\<lparr>regs := (regs s)(LT_RSTB A :=
       if v = 0 then regs s (LT_RSTB A) OR a_attribute_specific a
       else regs s (LT_RSTB A) AND NOT (a_attribute_specific a))\<rparr>)"
  by (simp add: bspDI_Reset_write_def take_byte_def prog_simps dec8_def reset_line_requests [OF assms]
      bspReset_LT_RSTB_write_def)

lemma reset_read_run:
  assumes "reset_line D A s a"
  shows "bspDI_Reset_read D A i at (Buf (c # cs)) s =
     Inr ((BSP_RVAL_OK, Buf ((if regs s (LT_RSTB A) AND a_attribute_specific a = 0 then 1 else 0) # cs)), s)"
  by (simp add: bspDI_Reset_read_def take_byte_def give_bytes_def prog_simps dec8_def splice_at_def
      reset_line_requests [OF assms] bspReset_LT_RSTB_read_def)

section \<open>Properties\<close>


text \<open>
  C39: The reset attribute of the disc interface is the inverted reset line: writing a value and reading
  it back through the two nested entity requests returns one for any non-zero value and zero otherwise,
  and the write touches only the bits of that line in the reset register.
\<close>

theorem di_reset_reads_back:
  assumes "reset_line D A s a"
  shows "\<exists>s'. bspDI_Reset_write D A i at (Buf (v # bs)) s = Inr (BSP_RVAL_OK, s') \<and>
     bspDI_Reset_read D A i' at' (Buf (c # cs)) s' = Inr ((BSP_RVAL_OK, Buf ((if v \<noteq> 0 then 1 else 0) # cs)), s') \<and>
     regs s' (LT_RSTB A) AND NOT (a_attribute_specific a) = regs s (LT_RSTB A) AND NOT (a_attribute_specific a) \<and>
     (\<forall>r. r = LT_RSTB A \<or> regs s' r = regs s r)"
proof -
  let ?m = "a_attribute_specific a" and ?old = "regs s (LT_RSTB A)"
  have m: "?m \<noteq> 0" using assms by (simp add: reset_line_def)
  have set: "(?old OR ?m) AND ?m \<noteq> 0" using m by (simp add: bit.conj_disj_distrib2 or_eq_0_iff)
  have clr: "(?old AND NOT ?m) AND ?m = 0" by (simp add: and.assoc)
  have keep: "(?old OR ?m) AND NOT ?m = ?old AND NOT ?m" by (simp add: bit.conj_disj_distrib2)
  show ?thesis
    using assms set clr keep
    by (auto simp: reset_write_run [OF assms] reset_read_run reset_line_regs and.assoc)
qed

text \<open>A registry with a reset entity for a concrete run.\<close>

definition reset_attribute :: "unit bsp_attribute" where
  "reset_attribute =
     \<lparr>a_pName = Some (lit ''RSTB_DIRSTB''), a_options = 0, a_permissions = BSP_PERMISSIONS_ALL, a_data = 0,
      a_dataSize = 1, a_readMethod = Some (), a_queryMethod = None, a_writeMethod = Some (), a_initMethod = None,
      a_shutdownMethod = None, a_attribute_specific = 0x400\<rparr>"

definition reset_end :: "unit bsp_attribute" where
  "reset_end =
     \<lparr>a_pName = None, a_options = 0, a_permissions = 0, a_data = 0, a_dataSize = 0, a_readMethod = None,
      a_queryMethod = None, a_writeMethod = None, a_initMethod = None, a_shutdownMethod = None,
      a_attribute_specific = 0\<rparr>"

definition reset_entity :: "unit bsp_entity" where
  "reset_entity =
     \<lparr>e_pName = lit ''Reset'', e_version = 1, e_instanceCount = 1, e_options = 0,
      e_pAttributes = [[reset_attribute, reset_end]]\<rparr>"

definition reset_bench :: "(unit, unit) ent_state" where
  "reset_bench =
     \<lparr>regs = (\<lambda>_. 0xFFFF), env = (), s_crc32Value = 0, log_mutex = 0, log_fds = [], active_log_fds = 0,
      log_syslog_handle = 0, bspEntityCount = 1, bspEntityList = [Some reset_entity]\<rparr>"

definition dev_bench :: "'s dev_ext" where
  "dev_bench =
     \<lparr>LT_RSTB = 0x0d8005e0, LT_GPIO_DIR = 0x0d8000c4, LT_IOSTRCTRL2 = 0x0d8005c8, LT_IOSTRCTRL2_MASK = 7,
      LT_IOSTRCTRL2_SDIOB = (\<lambda>v. v), LT_IOSTRCTRL2_SDIOC = push_bit 3, LT_IOSTRCTRL2_SDIOD = push_bit 6,
      HW_SICLKDIV = 0x0d8005d0, HW_IPC_ARMCTRL = 0x0d80000c, HW_IPC_ARMCTRL_X2 = 8, HW_IPC_ARMCTRL_Y2 = 4,
      BSP_CLIENT_INTERNAL = BSP_PERMISSIONS_INTERNAL, BSPGetClockInfo = returnC (0, hi_clock bspHwInfo),
      asic_revision_layout = (\<lambda>a c. enc32 a @ enc32 c), bspPPC_Clock = (\<lambda>_ _. returnC 0),
      bspPPC_EXIRegBoot = (\<lambda>_ _. returnC 0), bspPPCExecStopLatte = returnC 0,
      log_debug_printf = (\<lambda>_. returnC 0), stack_junk = 0xA5\<rparr>"

definition reset_dispatch :: "(unit, (unit, unit) ent_state) dispatch" where
  "reset_dispatch =
     \<lparr>call_read = (\<lambda>_. bspReset_LT_RSTB_read dev_bench), call_query = (\<lambda>m i a p. returnC (0, p)),
      call_write = (\<lambda>_. bspReset_LT_RSTB_write dev_bench), call_init = (\<lambda>m i a p n. returnC 0),
      call_shutdown = (\<lambda>m i a. returnC 0), load_mem = (\<lambda>a n. failC WildPointer)\<rparr>"

lemma reset_bench_line: "reset_line reset_dispatch dev_bench reset_bench reset_attribute"
proof -
  have reg: "registered reset_bench = [reset_entity]" by (simp add: registered_def reset_bench_def)
  have "permitted BSP_PERMISSIONS_INTERNAL cmd reset_attribute" for cmd
    by (simp add: permitted_iff check_permission_def)
  moreover have "lookup_entity (lit ''Reset'') [reset_entity] = Some reset_entity"
    by (simp add: lookup_entity_def reset_entity_def)
  moreover have "lookup_attribute (lit ''RSTB_DIRSTB'') [reset_attribute, reset_end] = Some reset_attribute"
    by (simp add: lookup_attribute_def named_attributes_def has_name_def reset_attribute_def)
  ultimately have reached: "reaches (registered reset_bench) (lit ''Reset'') 0 (lit ''RSTB_DIRSTB'')
      BSP_PERMISSIONS_INTERNAL cmd reset_attribute" for cmd
    by (simp add: reaches_def reg attribute_table_def) (simp add: reset_entity_def)
  have "registry_wf reset_bench"
    unfolding registry_wf_def reg
    by (simp add: reset_bench_def reset_entity_def reset_attribute_def reset_end_def entity_wf_def table_wf_def)
  then have "answerable reset_bench (lit ''Reset'') 0 (lit ''RSTB_DIRSTB'')"
    by (rule reaches_answerable [OF _ _ _ _ reached [of 0]]) (simp_all add: lit_def readable_def)
  with reached show ?thesis
    by (simp add: reset_line_def dev_bench_def)
       (simp add: reset_attribute_def reset_dispatch_def dev_bench_def)
qed

theorem di_reset_reads_back_witness:
  "\<exists>s'. bspDI_Reset_write reset_dispatch dev_bench 0 reset_attribute (Buf [1]) reset_bench = Inr (BSP_RVAL_OK, s') \<and>
     bspDI_Reset_read reset_dispatch dev_bench 0 reset_attribute (Buf [7]) s' = Inr ((BSP_RVAL_OK, Buf [1]), s')"
  using di_reset_reads_back [OF reset_bench_line, of 0 reset_attribute 1 "[]" 0 reset_attribute 7 "[]"] by auto

end
