(* ===== verification/Entities_Sys.thy ===== *)
theory Entities_Sys
  imports Entities_Io
begin

text \<open>
  \<^verbatim>\<open>src/ios_bsp/entities/ee/bsp_ee.c\<close>, the entity in front of the EEPROM driver, and
  \<^verbatim>\<open>src/ios_bsp/entities/sys/bsp_sys.c\<close>, the entity that reports on the system.
\<close>

section \<open>EE\<close>

definition bspEE_access_read ::
  "('m, ('e, 'm, 'z) eeprom_state_scheme) dispatch \<Rightarrow> (('e, 'm, 'z) eeprom_state_scheme) ios \<Rightarrow>
   u32 \<Rightarrow> 'm bsp_attribute \<Rightarrow> cptr \<Rightarrow> (('e, 'm, 'z) eeprom_state_scheme, u32 \<times> cptr) prog" where
  "bspEE_access_read D os instance pAttribute pReadData =
     bindC (eepromDrvReadWord D os 0 (ucast (instance AND 0xff))) (\<lambda>(err, data).
     if err \<noteq> IOS_ERROR_OK then returnC (BSP_RVAL_DEVICE_ERROR, pReadData)
     else case data of
            None \<Rightarrow> failC Uninitialised
          | Some w \<Rightarrow> give_bytes (enc16 w) pReadData BSP_RVAL_OK)"

definition bspEE_access_write ::
  "('m, ('e, 'm, 'z) eeprom_state_scheme) dispatch \<Rightarrow> (('e, 'm, 'z) eeprom_state_scheme) ios \<Rightarrow>
   u32 \<Rightarrow> 'm bsp_attribute \<Rightarrow> cptr \<Rightarrow> (('e, 'm, 'z) eeprom_state_scheme, u32) prog" where
  "bspEE_access_write D os instance pAttribute pWrittenData =
     bindC (liftC (load_ptr 0 2 pWrittenData)) (\<lambda>bs.
     bindC (eepromDrvWriteWord D os 0 (ucast (instance AND 0xff)) (dec16 bs)) (\<lambda>err.
     if err \<noteq> IOS_ERROR_OK then returnC BSP_RVAL_DEVICE_ERROR else returnC BSP_RVAL_OK))"

definition bspEE_control_write ::
  "('m, ('e, 'm, 'z) eeprom_state_scheme) dispatch \<Rightarrow> (('e, 'm, 'z) eeprom_state_scheme) ios \<Rightarrow>
   u32 \<Rightarrow> 'm bsp_attribute \<Rightarrow> cptr \<Rightarrow> (('e, 'm, 'z) eeprom_state_scheme, u32) prog" where
  "bspEE_control_write D os instance pAttribute pWrittenData =
     bindC (liftC (load_ptr 0 4 pWrittenData)) (\<lambda>bs.
     let cmd_in = dec32 bs
     in if cmd_in \<noteq> 1 \<and> cmd_in \<noteq> 2 then returnC BSP_RVAL_INVALID_PARAMETER
        else
        bindC (eepromDrvSetWriteControl D os 0 (if cmd_in = 1 then EEPROM_WRITE_ENABLE else EEPROM_WRITE_DISABLE)) (\<lambda>err.
        if err \<noteq> IOS_ERROR_OK then returnC BSP_RVAL_DEVICE_ERROR else returnC BSP_RVAL_OK))"

definition bspEE_control_init ::
  "('m, ('e, 'm, 'z) eeprom_state_scheme) dispatch \<Rightarrow> (('e, 'm, 'z) eeprom_state_scheme) ios \<Rightarrow>
   u32 \<Rightarrow> 'm bsp_attribute \<Rightarrow> cptr \<Rightarrow> u32 \<Rightarrow> (('e, 'm, 'z) eeprom_state_scheme, u32) prog" where
  "bspEE_control_init D os instance pAttribute pInitData sz =
     bindC (eepromDrvInit D 0) (\<lambda>err.
     if err \<noteq> IOS_ERROR_OK then returnC BSP_RVAL_DEVICE_ERROR
     else
     bindC (eepromDrvOpen D 0) (\<lambda>err.
     if err \<noteq> IOS_ERROR_OK then returnC BSP_RVAL_DEVICE_ERROR
     else
     bindC (eepromDrvSetWriteControl D os 0 EEPROM_WRITE_DISABLE) (\<lambda>err.
     if err \<noteq> IOS_ERROR_OK then returnC BSP_RVAL_DEVICE_ERROR else returnC BSP_RVAL_OK)))"

definition bspEE_control_shutdown ::
  "('m, ('e, 'm, 'z) eeprom_state_scheme) dispatch \<Rightarrow> u32 \<Rightarrow> 'm bsp_attribute \<Rightarrow>
   (('e, 'm, 'z) eeprom_state_scheme, u32) prog" where
  "bspEE_control_shutdown D instance pAttribute =
     bindC (eepromDrvShutdown D 0) (\<lambda>err.
     if err \<noteq> IOS_ERROR_OK then returnC BSP_RVAL_DEVICE_ERROR else returnC BSP_RVAL_OK)"

definition bspEE_bc_read ::
  "('m, ('e, 'm, 'z) bc_state_scheme) dispatch \<Rightarrow> (('e, 'm, 'z) bc_state_scheme) ios \<Rightarrow>
   u32 \<Rightarrow> 'm bsp_attribute \<Rightarrow> cptr \<Rightarrow> (('e, 'm, 'z) bc_state_scheme, u32 \<times> cptr) prog" where
  "bspEE_bc_read D os instance attribute pReadData =
     bindC (bcGet D os pReadData) (\<lambda>(err, p).
     if err \<noteq> IOS_ERROR_OK then returnC (BSP_RVAL_CFG_CORRUPTED, p) else returnC (BSP_RVAL_OK, p))"

section \<open>Sys\<close>

text \<open>
  The struct initialiser sets the field it does not name to zero. There is no \<^verbatim>\<open>return\<close> at the end, and
  \<^verbatim>\<open>bspMethodRead\<close> uses the value.
\<close>

definition bspSys_ASICRevision ::
  "('m, ('e, 'm, 'z) hw_state_scheme) dispatch \<Rightarrow> (('e, 'm, 'z) hw_state_scheme) ios \<Rightarrow>
   ('m, ('e, 'm, 'z) hw_state_scheme) bsp_ext \<Rightarrow> (('e, 'm, 'z) hw_state_scheme) dev_ext \<Rightarrow>
   u32 \<Rightarrow> 'm bsp_attribute \<Rightarrow> cptr \<Rightarrow> (('e, 'm, 'z) hw_state_scheme, u32 \<times> cptr) prog" where
  "bspSys_ASICRevision D os X A instance pAttribute pReadData =
     bindC (rd_reg HW_CHIPREVID) (\<lambda>acr.
     bindC (bspMethodGetHardwareVersion D os X VLocal) (\<lambda>(ret, hwver).
     if ret \<noteq> BSP_RVAL_OK then returnC (ret, pReadData)
     else
     bindC (if BSP_IS_LATTE hwver then rd_reg LT_CHIPREVID else returnC 0) (\<lambda>ccr.
     bindC (liftC (store_ptr 0 (asic_revision_layout A acr ccr) pReadData)) (\<lambda>p.
     failC Uninitialised))))"

definition bspSys_BoardRevision ::
  "u32 \<Rightarrow> 'm bsp_attribute \<Rightarrow> cptr \<Rightarrow> (('e, 'm, 'z) hw_state_scheme, u32 \<times> cptr) prog" where
  "bspSys_BoardRevision instance pAttribute pReadData =
     bindC (getsC (\<lambda>s. bc_boardRevision (bspBoardConfig s))) (\<lambda>rev.
     give_bytes (enc16 rev) pReadData BSP_RVAL_OK)"

text \<open>\<^verbatim>\<open>bspGetSystemClockInfo\<close> clears \<^verbatim>\<open>*clock\<close> first, so a bad pointer faults before anything else.\<close>

definition clock_bytes :: "bsp_system_clock_info \<Rightarrow> bytes" where
  "clock_bytes c = enc32 (systemClockFrequency c) @ enc32 (timerFrequency c)"

definition bspSys_ClockInfo ::
  "('m, ('e, 'm, 'z) hw_state_scheme) dispatch \<Rightarrow> (('e, 'm, 'z) hw_state_scheme) ios \<Rightarrow>
   ('m, ('e, 'm, 'z) hw_state_scheme) bsp_ext \<Rightarrow> u32 \<Rightarrow> 'm bsp_attribute \<Rightarrow> cptr \<Rightarrow>
   (('e, 'm, 'z) hw_state_scheme, u32 \<times> cptr) prog" where
  "bspSys_ClockInfo D os X instance pAttribute pReadData =
     bindC (liftC (store_ptr 0 (clock_bytes \<lparr>systemClockFrequency = 0, timerFrequency = 0\<rparr>) pReadData)) (\<lambda>p.
     bindC (bspGetSystemClockInfo D os X) (\<lambda>(ret, clock).
     give_bytes (clock_bytes clock) p ret))"

text \<open>The test reads \<^verbatim>\<open>cpuUse\<close>, a name without a declaration; it is taken for \<^verbatim>\<open>cpuUtil\<close>.\<close>

definition bspSys_cpuUtilRead ::
  "('m, ('e, 'm, 'z) hw_state_scheme) bsp_ext \<Rightarrow> u32 \<Rightarrow> 'm bsp_attribute \<Rightarrow> cptr \<Rightarrow>
   (('e, 'm, 'z) hw_state_scheme, u32 \<times> cptr) prog" where
  "bspSys_cpuUtilRead X instance pAttribute pReadData =
     bindC (IOS_IOPCPUUtilisation X) (\<lambda>cpuUtil.
     if neg32 cpuUtil then returnC (BSP_RVAL_OS_ERROR, pReadData)
     else give_bytes (enc32 cpuUtil) pReadData BSP_RVAL_OK)"

definition bspSys_DevicePresence ::
  "u32 \<Rightarrow> 'm bsp_attribute \<Rightarrow> cptr \<Rightarrow> (('e, 'm, 'z) hw_state_scheme, u32 \<times> cptr) prog" where
  "bspSys_DevicePresence instance pAttribute pReadData =
     bindC (getsC bspBoardConfig) (\<lambda>c.
     give_bytes (enc32 (if bc_version c > 4 then bc_devicePresence c else 0x07f17317)) pReadData BSP_RVAL_OK)"

definition bspSys_iop2x_write ::
  "('m, ('e, 'm, 'z) hw_state_scheme) dispatch \<Rightarrow> (('e, 'm, 'z) hw_state_scheme) ios \<Rightarrow>
   ('m, ('e, 'm, 'z) hw_state_scheme) bsp_ext \<Rightarrow> u32 \<Rightarrow> 'm bsp_attribute \<Rightarrow> cptr \<Rightarrow>
   (('e, 'm, 'z) hw_state_scheme, u32) prog" where
  "bspSys_iop2x_write D os X instance pAttribute pWrittenData =
     bindC (bspMethodGetHardwareVersion D os X VLocal) (\<lambda>(ret, hwver).
     if ret \<noteq> BSP_RVAL_OK then returnC ret
     else if \<not> BSP_IS_LATTE hwver then returnC BSP_RVAL_OK
     else if BSP_LATTE_REV hwver < BSP_LATTE_REV_A3X then returnC BSP_RVAL_OK
     else
     bindC (if pWrittenData \<noteq> Null
            then bindC (take_byte pWrittenData) (\<lambda>newIop.
                 returnC (if newIop = 1 then (ret, False) else if newIop = 2 then (ret, True)
                          else (BSP_RVAL_INVALID_PARAMETER, False)))
            else bindC (getsC (\<lambda>s. bc_iopClockMultiplier (bspBoardConfig s))) (\<lambda>mult.
                 returnC (if mult = 1 then (ret, False) else if mult = 2 then (ret, True)
                          else (BSP_RVAL_BOARD_CONFIG_INVALID, False)))) (\<lambda>(ret, iop2x).
     bindC (BSPGetPowerMode X) (\<lambda>(e, power).
     if ret OR e \<noteq> BSP_RVAL_OK then returnC (ret OR e)
     else
     bindC (IOS_SetIOP2xState X (if power = 2 then False else iop2x)) (\<lambda>ret.
     if ret \<noteq> IOS_ERROR_OK then returnC BSP_RVAL_OS_ERROR else returnC BSP_RVAL_OK))))"

definition bspSys_iop2x_read ::
  "u32 \<Rightarrow> 'm bsp_attribute \<Rightarrow> cptr \<Rightarrow> (('e, 'z) machine_scheme, u32 \<times> cptr) prog" where
  "bspSys_iop2x_read instance pAttribute pReadData =
     bindC (rd_reg LT_IOP2X) (\<lambda>r.
     give_bytes [if r AND LT_IOP2X_ENABLE \<noteq> 0 then 2 else 1] pReadData BSP_RVAL_OK)"

section \<open>A session with the EEPROM entity\<close>

lemma idle_lines_idle:
  "ee_idle d \<Longrightarrow> ee_idle (idle_lines ee_drive d) \<and> ee_mem (idle_lines ee_drive d) = ee_mem d"
  by (simp add: ee_idle_def idle_lines_def)

lemma ee_open_run:
  assumes att: "eeprom_attached D os ready view" and s: "ready s" "eepromContexts s = c # cs" "ee_idle (view (env s))"
  obtains s' where "bspEE_control_init D os i a p n s = Inr (BSP_RVAL_OK, s')" "ee_settled ready view s'"
    "ee_mem (view (env s')) = ee_mem (view (env s))" "\<not> ee_wen (view (env s'))"
proof -
  note bus = eeprom_attached.axioms [OF att]
  obtain e where e: "eepromDrvInit D 0 s =
      Inr (IOS_ERROR_OK, s\<lparr>env := e, eepromContexts := \<lparr>ee_status = EEPROM_STATUS_INITIALISED\<rparr> # cs\<rparr>)"
    "view e = idle_lines ee_drive (view (env s))" using init_run [OF bus s(1,2)] by blast
  let ?s1 = "s\<lparr>env := e, eepromContexts := \<lparr>ee_status = EEPROM_STATUS_INITIALISED\<rparr> # cs\<rparr>"
  have "ready ?s1" by (intro eeprom_bus.ready_ctx [OF bus] eeprom_bus.ready_env [OF bus s(1)])
  then obtain e' where e': "eepromDrvOpen D 0 ?s1 =
      Inr (IOS_ERROR_OK, ?s1\<lparr>env := e', eepromContexts := \<lparr>ee_status = EEPROM_STATUS_OPEN\<rparr> # cs\<rparr>)"
    "view e' = idle_lines ee_drive (view e)" using open_run [OF bus, of ?s1] by auto
  let ?s2 = "?s1\<lparr>env := e', eepromContexts := \<lparr>ee_status = EEPROM_STATUS_OPEN\<rparr> # cs\<rparr>"
  have mem: "ee_idle (view e')" "ee_mem (view e') = ee_mem (view (env s))"
    using s(3) idle_lines_idle e(2) e'(2) by metis+
  have "ready ?s2" by (intro eeprom_bus.ready_ctx [OF bus] eeprom_bus.ready_env [OF bus] \<open>ready ?s1\<close>)
  then have "ee_settled ready view ?s2" using mem(1) by (simp add: ee_settled_def opened_def)
  from eeprom_attached.settled_ops(3) [OF att this, of EEPROM_WRITE_DISABLE] obtain e''
    where "eepromDrvSetWriteControl D os 0 EEPROM_WRITE_DISABLE ?s2 = Inr (IOS_ERROR_OK, ?s2\<lparr>env := e''\<rparr>)"
      "ee_settled ready view (?s2\<lparr>env := e''\<rparr>)" "ee_mem (view e'') = ee_mem (view (env s))" "\<not> ee_wen (view e'')"
    using mem(2) by auto
  then show thesis
    by (intro that [of "?s2\<lparr>env := e''\<rparr>"]) (simp_all add: bspEE_control_init_def bindC_def returnC_def e(1) e'(1))
qed

lemma ee_access_runs:
  assumes att: "eeprom_attached D os ready view" and s: "ee_settled ready view s"
  shows "\<exists>s'. bspEE_access_write D os i a (Buf (enc16 w)) s = Inr (BSP_RVAL_OK, s') \<and> ee_settled ready view s' \<and>
      ee_wen (view (env s')) = ee_wen (view (env s)) \<and>
      ee_mem (view (env s')) = (if ee_wen (view (env s)) then (ee_mem (view (env s)))(ucast (i AND 0xff) := w)
                                else ee_mem (view (env s)))"
    and "\<exists>s'. bspEE_access_read D os i a (Buf [x, y]) s =
      Inr ((BSP_RVAL_OK, Buf (enc16 (ee_mem (view (env s)) (ucast (i AND 0xff))))), s')"
    and "\<exists>s'. bspEE_control_write D os i a (Buf (enc32 1)) s = Inr (BSP_RVAL_OK, s') \<and> ee_settled ready view s' \<and>
      ee_mem (view (env s')) = ee_mem (view (env s)) \<and> ee_wen (view (env s'))"
proof -
  note ops = eeprom_attached.settled_ops [OF att s]
  let ?a = "ucast (i AND 0xff) :: u8"
  show "\<exists>s'. bspEE_access_write D os i a (Buf (enc16 w)) s = Inr (BSP_RVAL_OK, s') \<and> ee_settled ready view s' \<and>
      ee_wen (view (env s')) = ee_wen (view (env s)) \<and>
      ee_mem (view (env s')) = (if ee_wen (view (env s)) then (ee_mem (view (env s)))(?a := w) else ee_mem (view (env s)))"
    using ops(2) [of ?a w]
    by (auto simp: bspEE_access_write_def bindC_def liftC_def returnC_def codec16.enc_length codec16.dec_enc)
  show "\<exists>s'. bspEE_access_read D os i a (Buf [x, y]) s = Inr ((BSP_RVAL_OK, Buf (enc16 (ee_mem (view (env s)) ?a))), s')"
    using ops(1) [of ?a]
    by (auto simp: bspEE_access_read_def give_bytes_def bindC_def liftC_def returnC_def codec16.enc_length splice_at_def)
  show "\<exists>s'. bspEE_control_write D os i a (Buf (enc32 1)) s = Inr (BSP_RVAL_OK, s') \<and> ee_settled ready view s' \<and>
      ee_mem (view (env s')) = ee_mem (view (env s)) \<and> ee_wen (view (env s'))"
    using ops(3) [of EEPROM_WRITE_ENABLE]
    by (auto simp: bspEE_control_write_def bindC_def liftC_def returnC_def codec32.enc_length codec32.dec_enc)
qed

section \<open>Properties\<close>

text \<open>
  C13: A session with the EEPROM entity, on a board with the serial EEPROM at its GPIO lines: the init
  function of the control attribute opens the chip write-protected, so that a first write is reported as
  successful but changes nothing; after the control command 1 a write takes effect; and a read of any
  instance then returns the word written, when its low byte is the written address, and the word the
  chip held before the session otherwise.
\<close>

theorem ee_entity_session:
  assumes "eeprom_attached D os ready view" "ready s" "eepromContexts s = c # cs" "ee_idle (view (env s))"
  shows "\<exists>s1 s2 s3 s4 s5. bspEE_control_init D os 0 a p n s = Inr (BSP_RVAL_OK, s1) \<and>
     bspEE_access_write D os i a (Buf (enc16 w)) s1 = Inr (BSP_RVAL_OK, s2) \<and>
     bspEE_control_write D os 0 a (Buf (enc32 1)) s2 = Inr (BSP_RVAL_OK, s3) \<and>
     bspEE_access_write D os i' a (Buf (enc16 w')) s3 = Inr (BSP_RVAL_OK, s4) \<and>
     bspEE_access_read D os j a (Buf [x, y]) s4 =
       Inr ((BSP_RVAL_OK, Buf (enc16 (if (ucast (j AND 0xff) :: u8) = ucast (i' AND 0xff) then w'
                                      else ee_mem (view (env s)) (ucast (j AND 0xff))))), s5)"
proof -
  note runs = ee_access_runs [OF assms(1)]
  obtain s1 where 1: "bspEE_control_init D os 0 a p n s = Inr (BSP_RVAL_OK, s1)" "ee_settled ready view s1"
    "ee_mem (view (env s1)) = ee_mem (view (env s))" "\<not> ee_wen (view (env s1))" by (rule ee_open_run [OF assms])
  obtain s2 where 2: "bspEE_access_write D os i a (Buf (enc16 w)) s1 = Inr (BSP_RVAL_OK, s2)" "ee_settled ready view s2"
    "ee_mem (view (env s2)) = ee_mem (view (env s))" using runs(1) [OF 1(2), of i a w] 1(3,4) by auto
  obtain s3 where 3: "bspEE_control_write D os 0 a (Buf (enc32 1)) s2 = Inr (BSP_RVAL_OK, s3)" "ee_settled ready view s3"
    "ee_mem (view (env s3)) = ee_mem (view (env s))" "ee_wen (view (env s3))"
    using runs(3) [OF 2(2), of 0 a] 2(3) by auto
  obtain s4 where 4: "bspEE_access_write D os i' a (Buf (enc16 w')) s3 = Inr (BSP_RVAL_OK, s4)" "ee_settled ready view s4"
    "ee_mem (view (env s4)) = (ee_mem (view (env s)))(ucast (i' AND 0xff) := w')"
    using runs(1) [OF 3(2), of i' a w'] 3(3,4) by auto
  obtain s5 where "bspEE_access_read D os j a (Buf [x, y]) s4 =
      Inr ((BSP_RVAL_OK, Buf (enc16 (ee_mem (view (env s4)) (ucast (j AND 0xff))))), s5)"
    using runs(2) [OF 4(2), of j a x y] by auto
  with 1(1) 2(1) 3(1) 4 show ?thesis by auto
qed

theorem ee_entity_session_witness:
  "\<exists>s1 s2 s3 s4 s5. bspEE_control_init bench_dispatch bench_os 0 (bench_attribute [] None) Null 0 bench0 = Inr (BSP_RVAL_OK, s1) \<and>
     bspEE_access_write bench_dispatch bench_os 5 (bench_attribute [] None) (Buf (enc16 0x1234)) s1 = Inr (BSP_RVAL_OK, s2) \<and>
     bspEE_control_write bench_dispatch bench_os 0 (bench_attribute [] None) (Buf (enc32 1)) s2 = Inr (BSP_RVAL_OK, s3) \<and>
     bspEE_access_write bench_dispatch bench_os 0x107 (bench_attribute [] None) (Buf (enc16 0xBEEF)) s3 = Inr (BSP_RVAL_OK, s4) \<and>
     bspEE_access_read bench_dispatch bench_os 5 (bench_attribute [] None) (Buf [0, 0]) s4 =
       Inr ((BSP_RVAL_OK, Buf (enc16 15)), s5)"
proof -
  have "holds [bench_gpio] bench0" "ee_idle (bench_dev (env bench0))"
    using bench0_settled by (auto simp: ee_settled_def)
  from ee_entity_session [OF bench.eeprom_attached_axioms this(1) _ this(2), of "\<lparr>ee_status = EEPROM_STATUS_OPEN\<rparr>" "[]"
      "bench_attribute [] None" Null 0 5 "0x1234" "0x107" "0xBEEF" 5 0 0]
  show ?thesis by (simp add: bench0_def)
qed

end
