(* ===== verification/Entity_Tables.thy ===== *)
theory Entity_Tables
  imports Entities_Sys
begin

text \<open>
  The static tables of \<^verbatim>\<open>bsp_di.c\<close>, \<^verbatim>\<open>bsp_si.c\<close> and \<^verbatim>\<open>bsp_ee.c\<close> and the functions that register them. The
  method pointers of a table are names of the type \<open>bsp_method\<close>: one for each function of the entity
  sources, and \<open>Other\<close> for the functions of entities whose source is not in the repository (the GPIO
  table among them).

  Fields a designated initialiser does not name are zero. No table ends with an entry without a name,
  on which the lookup relies.
\<close>

section \<open>Method names\<close>

datatype 'x bsp_method =
    M_bspDI_IOStrength_init | M_bspDI_IOPower_read | M_bspDI_IOPower_write | M_bspDI_IOPower_init
  | M_bspDI_Reset_read | M_bspDI_Reset_write
  | M_bspSI_IOStrength_init | M_bspSI_IOPower_read | M_bspSI_IOPower_write | M_bspSI_IOPower_init
  | M_bspSI_Subsystem_init
  | M_bspReset_LT_RSTB_read | M_bspReset_LT_RSTB_write
  | M_bspSDIO_IOStrength_init
  | M_bspEE_access_read | M_bspEE_access_write | M_bspEE_control_write | M_bspEE_control_init
  | M_bspEE_control_shutdown | M_bspEE_bc_read
  | M_bspSys_ASICRevision | M_bspSys_BoardRevision | M_bspSys_ClockInfo | M_bspSys_cpuUtilRead
  | M_bspSys_DevicePresence | M_bspSys_iop2x_write | M_bspSys_iop2x_read
  | M_bspPPC_Exec | M_bspPPC_Clock | M_bspPPC_EXIRegBoot | M_bspPPC_ReadPVR | M_bspPPC_WritePVR
  | M_bspPPC_Read60XeDataStreaming | M_bspPPC_Write60XeDataStreaming
  | M_bspCCRH_Reset_write | M_bspCCRH_Reset_init
  | Other 'x

definition blank_attribute :: "string \<Rightarrow> 'm bsp_attribute" where
  "blank_attribute nm =
     \<lparr>a_pName = Some (lit nm), a_options = 0, a_permissions = 0, a_data = 0, a_dataSize = 0,
      a_readMethod = None, a_queryMethod = None, a_writeMethod = None, a_initMethod = None,
      a_shutdownMethod = None, a_attribute_specific = 0\<rparr>"

section \<open>DI\<close>

definition bspDI_attributes :: "'x bsp_method bsp_attribute list" where
  "bspDI_attributes =
     [(blank_attribute ''IOStrength'')
        \<lparr>a_options := BSP_AO_INIT_GLOBAL, a_permissions := BSP_PERMISSIONS_IOS,
         a_initMethod := Some M_bspDI_IOStrength_init\<rparr>,
      (blank_attribute ''BaseAddress'')
        \<lparr>a_options := BSP_AO_QUERY_DATA_DIRECT, a_permissions := BSP_PERMISSIONS_IOS,
         a_data := 0x0d006000, a_dataSize := 4\<rparr>,
      (blank_attribute ''IOPower'')
        \<lparr>a_options := BSP_AO_QUERY_DATA_DIRECT, a_permissions := BSP_PERMISSIONS_IOS,
         a_data := 1, a_dataSize := 1, a_readMethod := Some M_bspDI_IOPower_read,
         a_writeMethod := Some M_bspDI_IOPower_write, a_initMethod := Some M_bspDI_IOPower_init\<rparr>,
      (blank_attribute ''Reset'')
        \<lparr>a_permissions := BSP_PERMISSIONS_IOS, a_dataSize := 1,
         a_readMethod := Some M_bspDI_Reset_read, a_writeMethod := Some M_bspDI_Reset_write\<rparr>]"

definition bspDI_entity :: "'x bsp_method bsp_entity" where
  "bspDI_entity =
     \<lparr>e_pName = lit ''DI'', e_version = 1, e_instanceCount = 1, e_options = BSP_EO_NONE,
      e_pAttributes = [bspDI_attributes]\<rparr>"

definition bspDIInstall :: "('x bsp_method, 's) bsp_ext \<Rightarrow> ('s, u32) prog" where
  "bspDIInstall X = bspRegisterEntity X bspDI_entity"

section \<open>SI\<close>

definition bspSI_attributes :: "'x bsp_method bsp_attribute list" where
  "bspSI_attributes =
     [(blank_attribute ''IOStrength'')
        \<lparr>a_options := BSP_AO_INIT_GLOBAL, a_permissions := BSP_PERMISSIONS_IOS,
         a_initMethod := Some M_bspSI_IOStrength_init\<rparr>,
      (blank_attribute ''BaseAddress'')
        \<lparr>a_options := BSP_AO_QUERY_DATA_DIRECT, a_permissions := BSP_PERMISSIONS_IOS,
         a_data := 0x0d006c00, a_dataSize := 4\<rparr>,
      (blank_attribute ''IOPower'')
        \<lparr>a_options := BSP_AO_QUERY_DATA_DIRECT OR BSP_AO_INIT_GLOBAL, a_permissions := BSP_PERMISSIONS_IOS,
         a_data := 1, a_dataSize := 1, a_readMethod := Some M_bspSI_IOPower_read,
         a_writeMethod := Some M_bspSI_IOPower_write, a_initMethod := Some M_bspSI_IOPower_init\<rparr>,
      (blank_attribute ''Subsystem'')
        \<lparr>a_options := BSP_AO_INIT_GLOBAL, a_permissions := BSP_PERMISSIONS_IOS,
         a_initMethod := Some M_bspSI_Subsystem_init\<rparr>]"

definition bspSI_entity :: "'x bsp_method bsp_entity" where
  "bspSI_entity =
     \<lparr>e_pName = lit ''SI'', e_version = 1, e_instanceCount = 1, e_options = BSP_EO_NONE,
      e_pAttributes = [bspSI_attributes]\<rparr>"

definition bspSIInstall :: "('x bsp_method, 's) bsp_ext \<Rightarrow> ('s, u32) prog" where
  "bspSIInstall X = bspRegisterEntity X bspSI_entity"

section \<open>EE\<close>

definition bspEE_attributes :: "'x bsp_method bsp_attribute list" where
  "bspEE_attributes =
     [(blank_attribute ''access'')
        \<lparr>a_permissions := BSP_PERMISSIONS_IOS_SUPV, a_dataSize := 2,
         a_readMethod := Some M_bspEE_access_read, a_writeMethod := Some M_bspEE_access_write\<rparr>,
      (blank_attribute ''control'')
        \<lparr>a_options := BSP_AO_INIT_GLOBAL, a_permissions := BSP_PERMISSIONS_IOS_SUPV, a_dataSize := 4,
         a_writeMethod := Some M_bspEE_control_write, a_initMethod := Some M_bspEE_control_init,
         a_shutdownMethod := Some M_bspEE_control_shutdown\<rparr>,
      (blank_attribute ''bc'')
        \<lparr>a_permissions := BSP_PERMISSIONS_IOS_SUPV, a_dataSize := 0x28,
         a_readMethod := Some M_bspEE_bc_read\<rparr>]"

definition bspEE_entity :: "'x bsp_method bsp_entity" where
  "bspEE_entity =
     \<lparr>e_pName = lit ''EE'', e_version = 1, e_instanceCount = 0x100, e_options = BSP_EO_FLAT_INSTANCES,
      e_pAttributes = [bspEE_attributes]\<rparr>"

end
