(* ===== verification/Ppc.thy ===== *)
theory Ppc
  imports Entity_Tables
begin

text \<open>
  \<^verbatim>\<open>src/ios_bsp/entities/ppc/bsp_ppc.c\<close>, the entity of the PowerPC cores: its static variables, its tables,
  the installation, and the methods that hold the cores in reset and let them go.

  The file does not compile as it stands; it is read as follows. \<^verbatim>\<open>summary\<close> and \<^verbatim>\<open>coreproperties[i]\<close> where
  an address is needed are their addresses, and the undeclared \<^verbatim>\<open>pE\<close> is \<^verbatim>\<open>pPPCEntity\<close>. A
  \<^verbatim>\<open>BSP_PPC_PVR\<close> compared with or converted from a word is the word with \<^verbatim>\<open>version\<close> in its upper half. The
  static variables sit at the addresses the comments of the file give, and \<open>sizeof\<close> of
  \<^verbatim>\<open>BSP_PPC_CORE_PROPERTIES\<close> is 0x18, five words and a byte padded to the alignment of a word (the comment
  in \<^verbatim>\<open>bsp.h\<close> says 0x15).

  While the program sleeps the PowerPC runs: \<^verbatim>\<open>BSPSleep\<close> is a parameter that may change the registers.
\<close>

section \<open>State\<close>

record bsp_ppc_summary =
  numberOfCores :: u32
  activeCoreBitmap :: u32
  clock60x :: bsp_system_clock_info

record bsp_ppc_core_properties =
  l2Size :: u32
  l2LineSize :: u32
  l2SectorSize :: u32
  l2FetchSize :: u32
  l2SetAssociativity :: u32
  coreActive :: u8

text \<open>The functions the two pointers can hold; a null pointer is \<^term>\<open>None\<close>.\<close>

datatype exec_stop = F_bspPPCExecStop | F_bspPPCExecStopLatte
datatype exec_start = F_bspPPCExecStart | F_bspPPCExecStartLatte

record ('e, 'm) ppc_state = "('e, 'm) hw_state" +
  ppc_summary :: bsp_ppc_summary
  coreproperties :: "bsp_ppc_core_properties list"
  pPPCExecStop :: "exec_stop option"
  pPPCExecStart :: "exec_start option"

definition zero_summary :: bsp_ppc_summary where
  "zero_summary =
     \<lparr>numberOfCores = 0, activeCoreBitmap = 0, clock60x = \<lparr>systemClockFrequency = 0, timerFrequency = 0\<rparr>\<rparr>"

definition zero_core :: bsp_ppc_core_properties where
  "zero_core =
     \<lparr>l2Size = 0, l2LineSize = 0, l2SectorSize = 0, l2FetchSize = 0, l2SetAssociativity = 0, coreActive = 0\<rparr>"

abbreviation (input) summary_address :: u32 where
  "summary_address \<equiv> 0xe6047840"

abbreviation (input) coreproperties_address :: u32 where
  "coreproperties_address \<equiv> 0xe6047850"

text \<open>The bytes a query of the two structures copies.\<close>

definition summary_bytes :: "bsp_ppc_summary \<Rightarrow> bytes" where
  "summary_bytes c = enc32 (numberOfCores c) @ enc32 (activeCoreBitmap c) @ clock_bytes (clock60x c)"

definition core_bytes :: "bsp_ppc_core_properties \<Rightarrow> bytes" where
  "core_bytes c = enc32 (l2Size c) @ enc32 (l2LineSize c) @ enc32 (l2SectorSize c) @ enc32 (l2FetchSize c) @
     enc32 (l2SetAssociativity c) @ [coreActive c, 0, 0, 0]"

section \<open>Tables\<close>

definition summary_attribute :: "'m bsp_attribute" where
  "summary_attribute = (blank_attribute ''Summary'')
     \<lparr>a_options := BSP_AO_QUERY_DATA_INDIRECT, a_permissions := BSP_PERMISSIONS_ALL,
      a_data := summary_address, a_dataSize := 0x10\<rparr>"

definition core_attribute :: "nat \<Rightarrow> 'm bsp_attribute" where
  "core_attribute core = (blank_attribute ''CoreProperties'')
     \<lparr>a_options := BSP_AO_QUERY_DATA_INDIRECT, a_permissions := BSP_PERMISSIONS_ALL,
      a_data := coreproperties_address + of_nat core * 0x18, a_dataSize := 0x18\<rparr>"

definition ppcCore0Attributes :: "'x bsp_method bsp_attribute list" where
  "ppcCore0Attributes =
     [(blank_attribute ''Exe'')
        \<lparr>a_permissions := BSP_PERMISSIONS_IOS_SUPV, a_dataSize := 1, a_writeMethod := Some M_bspPPC_Exec\<rparr>,
      (blank_attribute ''Clock'')
        \<lparr>a_permissions := BSP_PERMISSIONS_IOS_SUPV, a_dataSize := 1, a_writeMethod := Some M_bspPPC_Clock\<rparr>,
      (blank_attribute ''EXIRegBoot'')
        \<lparr>a_permissions := BSP_PERMISSIONS_IOS_SUPV, a_dataSize := 0x48, a_writeMethod := Some M_bspPPC_EXIRegBoot\<rparr>,
      summary_attribute,
      core_attribute 0,
      (blank_attribute ''PVR'')
        \<lparr>a_permissions := BSP_PERMISSIONS_ALL, a_dataSize := 4,
         a_readMethod := Some M_bspPPC_ReadPVR, a_writeMethod := Some M_bspPPC_WritePVR\<rparr>,
      (blank_attribute ''60XeDataStreaming'')
        \<lparr>a_permissions := BSP_PERMISSIONS_ALL, a_dataSize := 1,
         a_readMethod := Some M_bspPPC_Read60XeDataStreaming,
         a_writeMethod := Some M_bspPPC_Write60XeDataStreaming\<rparr>]"

definition ppcCore1Attributes :: "'m bsp_attribute list" where
  "ppcCore1Attributes = [summary_attribute, core_attribute 1]"

definition ppcCore2Attributes :: "'m bsp_attribute list" where
  "ppcCore2Attributes = [summary_attribute, core_attribute 2]"

definition wood_ppc_entity :: "'x bsp_method bsp_entity" where
  "wood_ppc_entity =
     \<lparr>e_pName = lit ''PPC'', e_version = 1, e_instanceCount = 1, e_options = BSP_EO_NONE,
      e_pAttributes = [ppcCore0Attributes]\<rparr>"

definition latte_ppc_entity :: "'x bsp_method bsp_entity" where
  "latte_ppc_entity =
     \<lparr>e_pName = lit ''PPC'', e_version = 1, e_instanceCount = 3, e_options = BSP_EO_NONE,
      e_pAttributes = [ppcCore0Attributes, ppcCore1Attributes, ppcCore2Attributes]\<rparr>"

section \<open>Installation\<close>

text \<open>The argument is what the structure holds before the call; the loop ORs into its bitmap.\<close>

definition bspPPCFillOutSummary ::
  "('m, ('e, 'm, 'z) hw_state_scheme) dispatch \<Rightarrow> (('e, 'm, 'z) hw_state_scheme) ios \<Rightarrow>
   ('m, ('e, 'm, 'z) hw_state_scheme) bsp_ext \<Rightarrow> bsp_ppc_summary \<Rightarrow>
   (('e, 'm, 'z) hw_state_scheme, u32 \<times> bsp_ppc_summary) prog" where
  "bspPPCFillOutSummary D os X sm =
     bindC (bspMethodGetHardwareVersion D os X VLocal) (\<lambda>(ret, hwver).
     if ret \<noteq> BSP_RVAL_OK then returnC (ret, sm)
     else
     bindC (bspGetSystemClockInfo D os X) (\<lambda>(ret, clock).
     let sm = sm\<lparr>clock60x := clock\<rparr>;
         activate = (\<lambda>n. (BSP_RVAL_OK, sm\<lparr>numberOfCores := of_nat n,
           activeCoreBitmap := foldl (\<lambda>b i. b OR push_bit i 1) (activeCoreBitmap sm) [0..<n]\<rparr>))
     in returnC (
        if ret \<noteq> BSP_RVAL_OK then (ret, sm)
        else if BSP_IS_LATTE hwver then activate 3
        else if \<not> BSP_IS_BOLLYWOOD hwver \<and> \<not> BSP_IS_HOLLYWOOD hwver \<and> \<not> BSP_IS_HOLLYWOOD_ES1 hwver
        then (BSP_RVAL_UNKNOWN_HARDWARE_VERSION, sm)
        else if hwver = BSP_HARDWARE_VERSION_HOLLYWOOD_CORTADO_ESPRESSO then activate 3
        else activate 1)))"

text \<open>The local summary starts uninitialised; only its number of cores, which is assigned, is read.\<close>

definition junk_summary :: "'s dev_ext \<Rightarrow> bsp_ppc_summary" where
  "junk_summary A = zero_summary\<lparr>numberOfCores := ucast (stack_junk A), activeCoreBitmap := ucast (stack_junk A)\<rparr>"

definition core_geometry :: "u32 \<Rightarrow> u32 \<Rightarrow> bsp_ppc_core_properties \<Rightarrow> bsp_ppc_core_properties" where
  "core_geometry l2 assoc core =
     core\<lparr>l2Size := l2, l2LineSize := 0x40, l2SectorSize := 0x20, l2FetchSize := 0x20, l2SetAssociativity := assoc\<rparr>"

definition bspPPCFillOutCoreProperties ::
  "('m, ('e, 'm, 'z) hw_state_scheme) dispatch \<Rightarrow> (('e, 'm, 'z) hw_state_scheme) ios \<Rightarrow>
   ('m, ('e, 'm, 'z) hw_state_scheme) bsp_ext \<Rightarrow> (('e, 'm, 'z) hw_state_scheme) dev_ext \<Rightarrow>
   u32 \<Rightarrow> bsp_ppc_core_properties \<Rightarrow> (('e, 'm, 'z) hw_state_scheme, u32 \<times> bsp_ppc_core_properties) prog" where
  "bspPPCFillOutCoreProperties D os X A ndx core =
     bindC (bspMethodGetHardwareVersion D os X VLocal) (\<lambda>(ret, hwver).
     if ret \<noteq> BSP_RVAL_OK then returnC (ret, core)
     else
     bindC (bspPPCFillOutSummary D os X (junk_summary A)) (\<lambda>(ret, ppc).
     returnC (
       if ret \<noteq> BSP_RVAL_OK then (ret, core)
       else if ndx < numberOfCores ppc
       then let core = zero_core\<lparr>coreActive := 1\<rparr>
            in if BSP_IS_LATTE hwver \<or> hwver = BSP_HARDWARE_VERSION_HOLLYWOOD_CORTADO_ESPRESSO
               then (BSP_RVAL_OK, core_geometry (if ndx = 1 then 0x800 else 0x200) 4 core)
               else if \<not> BSP_IS_BOLLYWOOD hwver \<and> \<not> BSP_IS_HOLLYWOOD hwver \<and> \<not> BSP_IS_HOLLYWOOD_ES1 hwver
               then (BSP_RVAL_UNKNOWN_HARDWARE_VERSION, core)
               else (BSP_RVAL_OK, core_geometry 0x100 2 core)
       else (BSP_RVAL_OK, zero_core))))"

text \<open>One element of the global array, and the loop over the three.\<close>

definition fill_core ::
  "('m, ('e, 'm, 'z) ppc_state_scheme) dispatch \<Rightarrow> (('e, 'm, 'z) ppc_state_scheme) ios \<Rightarrow>
   ('m, ('e, 'm, 'z) ppc_state_scheme) bsp_ext \<Rightarrow> (('e, 'm, 'z) ppc_state_scheme) dev_ext \<Rightarrow> nat \<Rightarrow>
   (('e, 'm, 'z) ppc_state_scheme, u32) prog" where
  "fill_core D os X A core =
     bindC (getsC coreproperties) (\<lambda>cs.
     bindC (liftC (read_at cs core)) (\<lambda>c.
     bindC (bspPPCFillOutCoreProperties D os X A (of_nat core) c) (\<lambda>(ret, c').
     seqC (modifyC (\<lambda>s. s\<lparr>coreproperties := (coreproperties s)[core := c']\<rparr>)) (returnC ret))))"

fun fill_cores ::
  "('m, ('e, 'm, 'z) ppc_state_scheme) dispatch \<Rightarrow> (('e, 'm, 'z) ppc_state_scheme) ios \<Rightarrow>
   ('m, ('e, 'm, 'z) ppc_state_scheme) bsp_ext \<Rightarrow> (('e, 'm, 'z) ppc_state_scheme) dev_ext \<Rightarrow> nat list \<Rightarrow> u32 \<Rightarrow>
   (('e, 'm, 'z) ppc_state_scheme, u32) prog" where
  "fill_cores D os X A [] ret = returnC ret"
| "fill_cores D os X A (core # cores) ret =
     bindC (fill_core D os X A core) (\<lambda>r. fill_cores D os X A cores (ret OR r))"

abbreviation (input) BSP_EE_PVR_HLYWD :: u16 where
  "BSP_EE_PVR_HLYWD \<equiv> 0x0042"

abbreviation (input) BSP_EE_PVR_LATTE :: u16 where
  "BSP_EE_PVR_LATTE \<equiv> 0x0010"

text \<open>The end of the function: the pointers, and the registration.\<close>

definition ppc_register ::
  "('m, ('e, 'm, 'z) ppc_state_scheme) bsp_ext \<Rightarrow> u32 \<Rightarrow> 'm bsp_entity \<Rightarrow> (('e, 'm, 'z) ppc_state_scheme, u32) prog" where
  "ppc_register X hwver pPPCEntity =
     seqC (if BSP_IS_BOLLYWOOD hwver \<or> BSP_IS_HOLLYWOOD hwver \<or> BSP_IS_HOLLYWOOD_ES1 hwver
           then modifyC (\<lambda>s. s\<lparr>pPPCExecStop := Some F_bspPPCExecStop, pPPCExecStart := Some F_bspPPCExecStart\<rparr>)
           else if BSP_IS_LATTE hwver
           then modifyC (\<lambda>s. s\<lparr>pPPCExecStop := Some F_bspPPCExecStopLatte, pPPCExecStart := Some F_bspPPCExecStartLatte\<rparr>)
           else returnC ())
     (bspRegisterEntity X pPPCEntity)"

text \<open>The part of \<^verbatim>\<open>bspPPCInstall\<close> after the summary, where \<^verbatim>\<open>ret\<close> is \<^verbatim>\<open>BSP_RVAL_OK\<close>.\<close>

definition ppc_install_cores ::
  "('x bsp_method, ('e, 'x bsp_method, 'z) ppc_state_scheme) dispatch \<Rightarrow> (('e, 'x bsp_method, 'z) ppc_state_scheme) ios \<Rightarrow>
   ('x bsp_method, ('e, 'x bsp_method, 'z) ppc_state_scheme) bsp_ext \<Rightarrow> (('e, 'x bsp_method, 'z) ppc_state_scheme) dev_ext \<Rightarrow>
   u32 \<Rightarrow> (('e, 'x bsp_method, 'z) ppc_state_scheme, u32) prog" where
  "ppc_install_cores D os X A hwver =
     (if hwver = BSP_HARDWARE_VERSION_HOLLYWOOD_CORTADO_ESPRESSO \<or> BSP_IS_LATTE hwver
      then seqC (modifyC (\<lambda>s. s\<lparr>eePVRAddr := if hwver = BSP_HARDWARE_VERSION_HOLLYWOOD_CORTADO_ESPRESSO
                                             then BSP_EE_PVR_HLYWD else BSP_EE_PVR_LATTE\<rparr>))
           (bindC (fill_cores D os X A [0, 1, 2] BSP_RVAL_OK) (\<lambda>ret.
            if ret = 0 then returnC ret
            else ppc_register X hwver latte_ppc_entity))
      else if \<not> BSP_IS_BOLLYWOOD hwver \<and> \<not> BSP_IS_HOLLYWOOD hwver \<and> \<not> BSP_IS_HOLLYWOOD_ES1 hwver
      then returnC BSP_RVAL_UNKNOWN_HARDWARE_VERSION
      else bindC (fill_core D os X A 0) (\<lambda>ret.
           if ret = 0 then returnC ret
           else seqC (modifyC (\<lambda>s. s\<lparr>eePVRAddr := BSP_EE_PVR_HLYWD\<rparr>))
                (ppc_register X hwver wood_ppc_entity)))"

definition bspPPCInstall ::
  "('x bsp_method, ('e, 'x bsp_method, 'z) ppc_state_scheme) dispatch \<Rightarrow> (('e, 'x bsp_method, 'z) ppc_state_scheme) ios \<Rightarrow>
   ('x bsp_method, ('e, 'x bsp_method, 'z) ppc_state_scheme) bsp_ext \<Rightarrow> (('e, 'x bsp_method, 'z) ppc_state_scheme) dev_ext \<Rightarrow>
   (('e, 'x bsp_method, 'z) ppc_state_scheme, u32) prog" where
  "bspPPCInstall D os X A =
     seqC (modifyC (\<lambda>s. s\<lparr>ppc_summary := zero_summary, coreproperties := replicate 3 zero_core\<rparr>))
     (bindC (bspMethodGetHardwareVersion D os X VLocal) (\<lambda>(ret, hwver).
      if ret \<noteq> BSP_RVAL_OK then returnC ret
      else
      bindC (getsC ppc_summary) (\<lambda>sm.
      bindC (bspPPCFillOutSummary D os X sm) (\<lambda>(ret, sm').
      seqC (modifyC (\<lambda>s. s\<lparr>ppc_summary := sm'\<rparr>))
      (if ret \<noteq> BSP_RVAL_OK then returnC ret else ppc_install_cores D os X A hwver)))))"

section \<open>Processor version\<close>

definition pvr_bytes :: "bsp_ppc_pvr \<Rightarrow> bytes" where
  "pvr_bytes v = enc16 (pvr_version v) @ enc16 (pvr_revision v)"

definition pvr_of :: "bytes \<Rightarrow> bsp_ppc_pvr" where
  "pvr_of bs = \<lparr>pvr_version = dec16 (take 2 bs), pvr_revision = dec16 (drop 2 bs)\<rparr>"

text \<open>The structure is in the caller's buffer: what was there goes in and what is there comes out.\<close>

definition bspPPC_ReadPVR ::
  "('m, ('e, 'm, 'z) hw_state_scheme) bsp_ext \<Rightarrow> u32 \<Rightarrow> 'm bsp_attribute \<Rightarrow> cptr \<Rightarrow>
   (('e, 'm, 'z) hw_state_scheme, u32 \<times> cptr) prog" where
  "bspPPC_ReadPVR X instance pAttribute pReadData =
     bindC (liftC (load_ptr 0 4 pReadData)) (\<lambda>bs.
     bindC (bspPPCGetPVR X (pvr_of bs)) (\<lambda>(ret, pvr).
     give_bytes (pvr_bytes pvr) pReadData ret))"

definition bspPPC_WritePVR ::
  "('m, ('e, 'm, 'z) hw_state_scheme) bsp_ext \<Rightarrow> u32 \<Rightarrow> 'm bsp_attribute \<Rightarrow> cptr \<Rightarrow>
   (('e, 'm, 'z) hw_state_scheme, u32) prog" where
  "bspPPC_WritePVR X instance pAttribute pWrittenData =
     bindC (liftC (load_ptr 0 4 pWrittenData)) (\<lambda>bs. bspPPCSetPVR X (pvr_of bs))"

section \<open>Reset\<close>

definition bspPPCEnableEXI :: "(('e, 'z) machine_scheme, u32) prog" where
  "bspPPCEnableEXI =
     bindC (rd_reg HW_AIP_PROT) (\<lambda>r.
     seqC (wr_reg HW_AIP_PROT (r OR HW_AIP_PROT_ENAHBIOPI)) (rd_reg HW_AIP_PROT))"

definition bspPPCExecStartLatte :: "('m, ('e, 'z) machine_scheme) bsp_ext \<Rightarrow> (('e, 'z) machine_scheme, u32) prog" where
  "bspPPCExecStartLatte X =
     bindC (rd_reg HW_RSTB) (\<lambda>r.
     seqC (wr_reg HW_RSTB (r AND NOT (HW_RSTB_CPU OR HW_RSTB_PI)))
     (seqC (BSPSleep X 0xf) (returnC BSP_RVAL_OK)))"

definition bspPPCExecStart :: "('m, ('e, 'z) machine_scheme) bsp_ext \<Rightarrow> (('e, 'z) machine_scheme, u32) prog" where
  "bspPPCExecStart X =
     bindC (rd_reg HW_RSTB) (\<lambda>rstb.
     seqC (wr_reg HW_RSTB (rstb AND NOT (HW_RSTB_CPU OR HW_SRSTB_CPU)))
     (seqC (BSPSleep X 0xf)
     (bindC (rd_reg HW_RSTB) (\<lambda>srstb.
      seqC (wr_reg HW_RSTB (srstb AND NOT HW_SRSTB_CPU OR rstb AND HW_SRSTB_CPU)) (returnC BSP_RVAL_OK)))))"

text \<open>The acknowledgement, and the loop that waits for the PowerPC, with the turns that are left.\<close>

definition pvr_word :: "bsp_ppc_pvr \<Rightarrow> u32" where
  "pvr_word v = dec32 (pvr_bytes v)"

definition ppc_acknowledge ::
  "('m, ('e, 'm, 'z) hw_state_scheme) bsp_ext \<Rightarrow> (('e, 'm, 'z) hw_state_scheme) dev_ext \<Rightarrow> u32 \<Rightarrow>
   (('e, 'm, 'z) hw_state_scheme, u32) prog" where
  "ppc_acknowledge X A armctrl =
     seqC (wr_reg (HW_IPC_ARMCTRL A) (armctrl OR HW_IPC_ARMCTRL_X2 A))
     (seqC (wr_reg (HW_IPC_ARMCTRL A) (armctrl OR (HW_IPC_ARMCTRL_X2 A OR HW_IPC_ARMCTRL_Y2 A)))
     (seqC bspPPCEnableEXI
     (bindC (bspPPCGetPVR X (pvr_of (replicate 4 (stack_junk A)))) (\<lambda>(_, pvr).
      bindC (rd_reg (HW_EXI_BOOT + 4 * 15)) (\<lambda>boot.
      if boot \<noteq> pvr_word pvr
      then bindC (rd_reg (HW_EXI_BOOT + 4 * 15)) (\<lambda>boot.
           bindC (bspPPCSetPVR X (pvr_of (enc32 boot))) (\<lambda>_. returnC BSP_RVAL_OK))
      else returnC BSP_RVAL_OK)))))"

fun ppc_wait ::
  "('m, ('e, 'm, 'z) hw_state_scheme) bsp_ext \<Rightarrow> (('e, 'm, 'z) hw_state_scheme) dev_ext \<Rightarrow> nat \<Rightarrow>
   (('e, 'm, 'z) hw_state_scheme, u32) prog" where
  "ppc_wait X A 0 = seqC bspPPCEnableEXI (returnC BSP_RVAL_DEVICE_ERROR)"
| "ppc_wait X A (Suc n) =
     bindC (rd_reg (HW_IPC_ARMCTRL A)) (\<lambda>armctrl.
     if armctrl AND HW_IPC_ARMCTRL_X2 A \<noteq> 0 then ppc_acknowledge X A armctrl
     else seqC (BSPSleep X 10000) (ppc_wait X A n))"

definition bspPPCExecStop ::
  "('m, ('e, 'm, 'z) hw_state_scheme) bsp_ext \<Rightarrow> (('e, 'm, 'z) hw_state_scheme) dev_ext \<Rightarrow>
   (('e, 'm, 'z) hw_state_scheme, u32) prog" where
  "bspPPCExecStop X A =
     bindC (rd_reg HW_AIP_PROT) (\<lambda>r.
     seqC (wr_reg HW_AIP_PROT (r AND NOT HW_AIP_PROT_ENAHBIOPI))
     (bindC (rd_reg HW_RSTB) (\<lambda>r.
      let rstb = r AND NOT (HW_RSTB_CPU OR HW_SRSTB_CPU)
      in seqC (wr_reg HW_RSTB rstb)
         (seqC (BSPSleep X 0xf)
         (seqC (wr_reg HW_RSTB (rstb OR HW_RSTB_CPU))
         (seqC (BSPSleep X 0x96)
         (seqC (wr_reg HW_RSTB (rstb OR HW_RSTB_CPU OR HW_SRSTB_CPU))
         (ppc_wait X A 100))))))))"

definition bspPPC_Exec ::
  "('m, ('e, 'm, 'z) ppc_state_scheme) dispatch \<Rightarrow> (('e, 'm, 'z) ppc_state_scheme) ios \<Rightarrow>
   ('m, ('e, 'm, 'z) ppc_state_scheme) bsp_ext \<Rightarrow> (('e, 'm, 'z) ppc_state_scheme) dev_ext \<Rightarrow>
   u32 \<Rightarrow> 'm bsp_attribute \<Rightarrow> cptr \<Rightarrow> (('e, 'm, 'z) ppc_state_scheme, u32) prog" where
  "bspPPC_Exec D os X A instance pAttribute pWrittenData =
     bindC (bspMethodGetHardwareVersion D os X VLocal) (\<lambda>_.
     bindC (take_byte pWrittenData) (\<lambda>cmd.
     if cmd = 1
     then bindC (getsC pPPCExecStop) (\<lambda>f.
          case f of
            None \<Rightarrow> returnC BSP_RVAL_UNSUPPORTED_METHOD
          | Some F_bspPPCExecStop \<Rightarrow> bspPPCExecStop X A
          | Some F_bspPPCExecStopLatte \<Rightarrow> bspPPCExecStopLatte A)
     else if cmd = 2
     then bindC (getsC pPPCExecStart) (\<lambda>f.
          case f of
            None \<Rightarrow> returnC BSP_RVAL_UNSUPPORTED_METHOD
          | Some F_bspPPCExecStart \<Rightarrow> bspPPCExecStart X
          | Some F_bspPPCExecStartLatte \<Rightarrow> bspPPCExecStartLatte X)
     else returnC BSP_RVAL_INVALID_PARAMETER))"

section \<open>Data streaming\<close>

definition bspPPC_Read60XeDataStreaming ::
  "('m, ('e, 'm, 'z) hw_state_scheme) dispatch \<Rightarrow> (('e, 'm, 'z) hw_state_scheme) ios \<Rightarrow>
   ('m, ('e, 'm, 'z) hw_state_scheme) bsp_ext \<Rightarrow> u32 \<Rightarrow> 'm bsp_attribute \<Rightarrow> cptr \<Rightarrow>
   (('e, 'm, 'z) hw_state_scheme, u32 \<times> cptr) prog" where
  "bspPPC_Read60XeDataStreaming D os X instance pAttribute pReadData =
     bindC (bspMethodGetHardwareVersion D os X VLocal) (\<lambda>(ret, hwver).
     if ret \<noteq> BSP_RVAL_OK then returnC (ret, pReadData)
     else if \<not> BSP_IS_LATTE hwver then returnC (BSP_RVAL_UNSUPPORTED_METHOD, pReadData)
     else
     bindC (rd_reg LT_60XE_CFG) (\<lambda>reg.
     give_bytes [if reg AND LT_60XE_CFG_STREAMING = 0 then 1 else 0] pReadData BSP_RVAL_OK))"

definition bspPPC_Write60XeDataStreaming ::
  "('m, ('e, 'm, 'z) hw_state_scheme) dispatch \<Rightarrow> (('e, 'm, 'z) hw_state_scheme) ios \<Rightarrow>
   ('m, ('e, 'm, 'z) hw_state_scheme) bsp_ext \<Rightarrow> u32 \<Rightarrow> 'm bsp_attribute \<Rightarrow> cptr \<Rightarrow>
   (('e, 'm, 'z) hw_state_scheme, u32) prog" where
  "bspPPC_Write60XeDataStreaming D os X instance pAttribute pWrittenData =
     bindC (bspMethodGetHardwareVersion D os X VLocal) (\<lambda>(ret, hwver).
     if ret \<noteq> BSP_RVAL_OK then returnC ret
     else if \<not> BSP_IS_LATTE hwver then returnC BSP_RVAL_UNSUPPORTED_METHOD
     else
     bindC (rd_reg LT_60XE_CFG) (\<lambda>reg.
     seqC (wr_reg LT_60XE_CFG (reg OR LT_60XE_CFG_LATCH))
     (seqC (BSPSleep X 10)
     (bindC (take_byte pWrittenData) (\<lambda>cmd.
      let streaming = (if cmd = 1 then 0 else LT_60XE_CFG_STREAMING)
      in seqC (wr_reg LT_60XE_CFG (reg OR streaming OR LT_60XE_CFG_LATCH))
         (seqC (wr_reg LT_60XE_CFG ((reg OR streaming) AND NOT LT_60XE_CFG_LATCH)) (returnC BSP_RVAL_OK)))))))"

section \<open>The installation on a known chip\<close>

definition wood_family :: "u32 \<Rightarrow> bool" where
  "wood_family v \<longleftrightarrow> BSP_IS_BOLLYWOOD v \<or> BSP_IS_HOLLYWOOD v \<or> BSP_IS_HOLLYWOOD_ES1 v"

definition three_cores :: "u32 \<Rightarrow> bool" where
  "three_cores v \<longleftrightarrow> BSP_IS_LATTE v \<or> v = BSP_HARDWARE_VERSION_HOLLYWOOD_CORTADO_ESPRESSO"

text \<open>What the two fillers compute, by the number of cores.\<close>

definition full_summary :: "u32 \<Rightarrow> bsp_system_clock_info \<Rightarrow> bsp_ppc_summary" where
  "full_summary v clock =
     (if three_cores v then \<lparr>numberOfCores = 3, activeCoreBitmap = 7, clock60x = clock\<rparr>
      else \<lparr>numberOfCores = 1, activeCoreBitmap = 1, clock60x = clock\<rparr>)"

definition full_core :: "u32 \<Rightarrow> nat \<Rightarrow> bsp_ppc_core_properties" where
  "full_core v core =
     (if three_cores v then core_geometry (if core = 1 then 0x800 else 0x200) 4 (zero_core\<lparr>coreActive := 1\<rparr>)
      else if core = 0 then core_geometry 0x100 2 (zero_core\<lparr>coreActive := 1\<rparr>) else zero_core)"

lemma clock_info_cached:
  assumes "bspHardwareVersion s \<noteq> 0"
  obtains clock where "bspGetSystemClockInfo D os X s = Inr ((BSP_RVAL_OK, clock), s)"
proof -
  have "\<exists>clock. bspGetSystemClockInfo D os X s = Inr ((BSP_RVAL_OK, clock), s)"
    using assms by (simp add: bspGetSystemClockInfo_def Let_def hwver_cached prog_simps split: if_split)
  with that show thesis by blast
qed

lemma summary_cached:
  assumes v: "bspHardwareVersion s \<noteq> 0" "BSP_IS_LATTE (bspHardwareVersion s) \<or> wood_family (bspHardwareVersion s)"
    and clock: "bspGetSystemClockInfo D os X s = Inr ((BSP_RVAL_OK, clock), s)"
  shows "\<exists>sm'. bspPPCFillOutSummary D os X sm s = Inr ((BSP_RVAL_OK, sm'), s) \<and>
     numberOfCores sm' = (if three_cores (bspHardwareVersion s) then 3 else 1) \<and>
     (sm = zero_summary \<longrightarrow> sm' = full_summary (bspHardwareVersion s) clock)"
proof -
  have "of_nat 3 = (3 :: u32)" "[0..<3] = [0, 1, 2 :: nat]" by (simp_all add: upt_rec)
  with assms show ?thesis
    by (auto simp: bspPPCFillOutSummary_def Let_def bindC_def returnC_def hwver_cached [OF v(1)] full_summary_def
        three_cores_def wood_family_def zero_summary_def)
qed

lemma core_cached:
  assumes v: "bspHardwareVersion s \<noteq> 0" "BSP_IS_LATTE (bspHardwareVersion s) \<or> wood_family (bspHardwareVersion s)"
    and core: "core < 3"
  shows "bspPPCFillOutCoreProperties D os X A (of_nat core) c s =
     Inr ((BSP_RVAL_OK, full_core (bspHardwareVersion s) core), s)"
proof -
  obtain clock where "bspGetSystemClockInfo D os X s = Inr ((BSP_RVAL_OK, clock), s)"
    by (rule clock_info_cached [OF v(1)])
  from summary_cached [OF v this, of "junk_summary A"] obtain sm'
    where sm': "bspPPCFillOutSummary D os X (junk_summary A) s = Inr ((BSP_RVAL_OK, sm'), s)"
      "numberOfCores sm' = (if three_cores (bspHardwareVersion s) then 3 else 1)" by blast
  from core consider "core = 0" | "core = 1" | "core = 2" by linarith
  then show ?thesis
    using v(2) by cases (auto simp: bspPPCFillOutCoreProperties_def Let_def bindC_def returnC_def hwver_cached [OF v(1)]
      sm' full_core_def three_cores_def wood_family_def)
qed

lemma fill_core_cached:
  assumes v: "bspHardwareVersion s \<noteq> 0" "BSP_IS_LATTE (bspHardwareVersion s) \<or> wood_family (bspHardwareVersion s)"
    and core: "core < 3" "length (coreproperties s) = 3"
  shows "fill_core D os X A core s =
     Inr (BSP_RVAL_OK, s\<lparr>coreproperties := (coreproperties s)[core := full_core (bspHardwareVersion s) core]\<rparr>)"
  using core core_cached [OF v core(1), of D os X A "coreproperties s ! core"]
  by (simp add: fill_core_def bindC_def seqC_def getsC_def liftC_def modifyC_def returnC_def)

lemma fill_cores_cached:
  assumes "bspHardwareVersion s \<noteq> 0" "BSP_IS_LATTE (bspHardwareVersion s) \<or> wood_family (bspHardwareVersion s)"
    and "length (coreproperties s) = 3"
  shows "fill_cores D os X A [0, 1, 2] 0 s =
     Inr (BSP_RVAL_OK, s\<lparr>coreproperties := map (full_core (bspHardwareVersion s)) [0, 1, 2]\<rparr>)"
proof -
  obtain a b c where "coreproperties s = [a, b, c]"
    using assms(3) by (auto simp: length_Suc_conv eval_nat_numeral)
  with assms show ?thesis
    by (simp add: bindC_def returnC_def fill_core_cached numeral_2_eq_2)
qed

lemma ppc_cores_run:
  assumes v: "bspHardwareVersion s = v" "v \<noteq> 0" "BSP_IS_LATTE v \<or> wood_family v" and "length (coreproperties s) = 3"
  shows "ppc_install_cores D os X A v s = Inr (BSP_RVAL_OK, s\<lparr>
     coreproperties := (if three_cores v then map (full_core v) [0, 1, 2] else (coreproperties s)[0 := full_core v 0]),
     eePVRAddr := (if BSP_IS_LATTE v then BSP_EE_PVR_LATTE
                   else if three_cores v then BSP_EE_PVR_HLYWD else eePVRAddr s)\<rparr>)"
proof (cases "three_cores v")
  case True
  have "\<not> BSP_IS_LATTE BSP_HARDWARE_VERSION_HOLLYWOOD_CORTADO_ESPRESSO" by (simp add: BSP_IS_LATTE_def)
  with True assms show ?thesis
    by (auto simp: ppc_install_cores_def seqC_def modifyC_def bindC_def returnC_def fill_cores_cached three_cores_def
        simp del: fill_cores.simps One_nat_def)
next
  case False
  with assms fill_core_cached [of s 0 D os X A] show ?thesis
    by (auto simp: ppc_install_cores_def bindC_def returnC_def three_cores_def wood_family_def)
qed

text \<open>The state after the installation: what is filled in, and nothing else.\<close>

definition ppc_installed :: "u32 \<Rightarrow> bsp_system_clock_info \<Rightarrow> ('e, 'm, 'z) ppc_state_scheme \<Rightarrow> ('e, 'm, 'z) ppc_state_scheme" where
  "ppc_installed v clock s =
     s\<lparr>ppc_summary := full_summary v clock,
       coreproperties := (if three_cores v then map (full_core v) [0, 1, 2] else [full_core v 0, zero_core, zero_core]),
       eePVRAddr := (if BSP_IS_LATTE v then BSP_EE_PVR_LATTE
                     else if three_cores v then BSP_EE_PVR_HLYWD else eePVRAddr s)\<rparr>"

section \<open>Waiting for the PowerPC\<close>

text \<open>
  Sleeping as a function of the state: what the PowerPC and the rest of the board do in that time.
  \<open>reset_pulse\<close> is the state when the polling starts, \<open>ppc_polled k\<close> the state at the poll \<open>k\<close>.
\<close>

definition sleeps :: "('m, 's) bsp_ext \<Rightarrow> (u32 \<Rightarrow> 's \<Rightarrow> 's) \<Rightarrow> bool" where
  "sleeps X slp \<longleftrightarrow> (\<forall>n s. BSPSleep X n s = Inr ((), slp n s))"

definition set_reg :: "u32 \<Rightarrow> u32 \<Rightarrow> ('e, 'z) machine_scheme \<Rightarrow> ('e, 'z) machine_scheme" where
  "set_reg a v s = s\<lparr>regs := (regs s)(a := v)\<rparr>"

definition reset_pulse :: "(u32 \<Rightarrow> ('e, 'z) machine_scheme \<Rightarrow> ('e, 'z) machine_scheme) \<Rightarrow>
    ('e, 'z) machine_scheme \<Rightarrow> ('e, 'z) machine_scheme" where
  "reset_pulse slp s =
     (let held = regs s HW_RSTB AND NOT (HW_RSTB_CPU OR HW_SRSTB_CPU);
          s = set_reg HW_AIP_PROT (regs s HW_AIP_PROT AND NOT HW_AIP_PROT_ENAHBIOPI) s;
          s = slp 0xf (set_reg HW_RSTB held s);
          s = slp 0x96 (set_reg HW_RSTB (held OR HW_RSTB_CPU) s)
      in set_reg HW_RSTB (held OR HW_RSTB_CPU OR HW_SRSTB_CPU) s)"

definition ppc_polled :: "(u32 \<Rightarrow> ('e, 'z) machine_scheme \<Rightarrow> ('e, 'z) machine_scheme) \<Rightarrow>
    ('e, 'z) machine_scheme \<Rightarrow> nat \<Rightarrow> ('e, 'z) machine_scheme" where
  "ppc_polled slp s k = (slp 10000 ^^ k) (reset_pulse slp s)"

definition ppc_flag :: "'s dev_ext \<Rightarrow> ('e, 'z) machine_scheme \<Rightarrow> bool" where
  "ppc_flag A s \<longleftrightarrow> regs s (HW_IPC_ARMCTRL A) AND HW_IPC_ARMCTRL_X2 A \<noteq> 0"

definition exi_enabled :: "('e, 'z) machine_scheme \<Rightarrow> ('e, 'z) machine_scheme" where
  "exi_enabled s = set_reg HW_AIP_PROT (regs s HW_AIP_PROT OR HW_AIP_PROT_ENAHBIOPI) s"

lemma enable_exi_run: "bspPPCEnableEXI s = Inr (regs (exi_enabled s) HW_AIP_PROT, exi_enabled s)"
  by (simp add: bspPPCEnableEXI_def exi_enabled_def set_reg_def prog_simps)

lemma ppc_wait_timeout:
  assumes "sleeps X slp" "\<And>k. k < n \<Longrightarrow> \<not> ppc_flag A ((slp 10000 ^^ k) s)"
  shows "ppc_wait X A n s = Inr (BSP_RVAL_DEVICE_ERROR, exi_enabled ((slp 10000 ^^ n) s))"
  using assms(2)
proof (induction n arbitrary: s)
  case 0
  show ?case by (simp add: seqC_def bindC_def enable_exi_run returnC_def)
next
  case (Suc n)
  have "\<not> ppc_flag A ((slp 10000 ^^ k) (slp 10000 s))" if "k < n" for k
    using Suc.prems [of "Suc k"] that by (simp add: funpow_swap1)
  from Suc.IH [OF this] Suc.prems [of 0] assms(1) show ?case
    by (simp add: prog_simps ppc_flag_def sleeps_def funpow_swap1)
qed

lemma ppc_wait_flag:
  assumes "sleeps X slp" "k < n" "ppc_flag A ((slp 10000 ^^ k) s)" "\<And>j. j < k \<Longrightarrow> \<not> ppc_flag A ((slp 10000 ^^ j) s)"
  shows "ppc_wait X A n s =
     ppc_acknowledge X A (regs ((slp 10000 ^^ k) s) (HW_IPC_ARMCTRL A)) ((slp 10000 ^^ k) s)"
  using assms(2-4)
proof (induction n arbitrary: s k)
  case (Suc n)
  show ?case
  proof (cases k)
    case 0
    with Suc.prems(2) show ?thesis by (simp add: prog_simps ppc_flag_def)
  next
    case (Suc k')
    have "\<not> ppc_flag A ((slp 10000 ^^ j) (slp 10000 s))" if "j < k'" for j
      using Suc.prems(3) [of "Suc j"] that Suc by (simp add: funpow_swap1)
    with Suc.IH [of k' "slp 10000 s"] Suc.prems Suc assms(1) Suc.prems(3) [of 0] show ?thesis
      by (simp add: prog_simps ppc_flag_def sleeps_def funpow_swap1)
  qed
qed simp

lemma exec_stop_run:
  assumes "sleeps X slp"
  shows "bspPPCExecStop X A s = ppc_wait X A 100 (reset_pulse slp s)"
  using assms by (simp add: bspPPCExecStop_def Let_def prog_simps reset_pulse_def set_reg_def sleeps_def del: ppc_wait.simps)

text \<open>The acknowledgement, with a SEEPROM whose words are a function of the state.\<close>

definition pvr_stored :: "('m, ('e, 'm, 'z) hw_state_scheme) bsp_ext \<Rightarrow> (('e, 'm, 'z) hw_state_scheme \<Rightarrow> u32 \<Rightarrow> u16) \<Rightarrow> bool" where
  "pvr_stored X word \<longleftrightarrow> (\<forall>a w s. bspEepromRead X a 1 w s = Inr ((IOS_ERROR_OK, word s a), s))"

definition ppc_acked :: "'s dev_ext \<Rightarrow> ('e, 'z) machine_scheme \<Rightarrow> ('e, 'z) machine_scheme" where
  "ppc_acked A s = exi_enabled (set_reg (HW_IPC_ARMCTRL A)
     (regs s (HW_IPC_ARMCTRL A) OR (HW_IPC_ARMCTRL_X2 A OR HW_IPC_ARMCTRL_Y2 A)) s)"

definition stored_pvr :: "(('e, 'm, 'z) hw_state_scheme \<Rightarrow> u32 \<Rightarrow> u16) \<Rightarrow> ('e, 'm, 'z) hw_state_scheme \<Rightarrow> bsp_ppc_pvr" where
  "stored_pvr word s = \<lparr>pvr_version = word s (scast (eePVRAddr s)), pvr_revision = word s (scast (eePVRAddr s) + 1)\<rparr>"

lemma acknowledge_run:
  assumes "pvr_stored X word"
  shows "ppc_acknowledge X A (regs s (HW_IPC_ARMCTRL A)) s =
    (if regs (ppc_acked A s) (HW_EXI_BOOT + 4 * 15) = pvr_word (stored_pvr word (ppc_acked A s))
     then Inr (BSP_RVAL_OK, ppc_acked A s)
     else case bspPPCSetPVR X (pvr_of (enc32 (regs (ppc_acked A s) (HW_EXI_BOOT + 4 * 15)))) (ppc_acked A s) of
            Inl e \<Rightarrow> Inl e
          | Inr (_, s') \<Rightarrow> Inr (BSP_RVAL_OK, s'))"
proof -
  have get: "bspPPCGetPVR X v u = Inr ((BSP_RVAL_OK, stored_pvr word u), u)" for v u
    using assms by (simp add: bspPPCGetPVR_def pvr_stored_def prog_simps stored_pvr_def pvr_of_def)
  have "set_reg a w' (set_reg a w s) = set_reg a w' s" for a w w' by (simp add: set_reg_def)
  then show ?thesis
    by (simp add: ppc_acknowledge_def ppc_acked_def seqC_def bindC_def enable_exi_run get rd_reg_run
        wr_reg_run set_reg_def [symmetric] returnC_def split: sum.split)
qed

lemma pulse_releases: "regs (reset_pulse slp s) HW_RSTB = regs s HW_RSTB OR HW_RSTB_CPU OR HW_SRSTB_CPU"
proof -
  have "r AND NOT (HW_RSTB_CPU OR HW_SRSTB_CPU) OR HW_RSTB_CPU OR HW_SRSTB_CPU = r OR HW_RSTB_CPU OR HW_SRSTB_CPU" for r :: u32
    by (rule bit_word_eqI) (auto simp: bit_simps)
  then show ?thesis by (simp add: reset_pulse_def Let_def set_reg_def)
qed

text \<open>
  The whole function as a search: the first of the hundred polls that sees the flag decides.
\<close>

definition ppc_stop_spec ::
  "('m, ('e, 'm, 'z) hw_state_scheme) bsp_ext \<Rightarrow> (('e, 'm, 'z) hw_state_scheme) dev_ext \<Rightarrow>
   (('e, 'm, 'z) hw_state_scheme \<Rightarrow> u32 \<Rightarrow> u16) \<Rightarrow>
   (u32 \<Rightarrow> ('e, 'm, 'z) hw_state_scheme \<Rightarrow> ('e, 'm, 'z) hw_state_scheme) \<Rightarrow> (('e, 'm, 'z) hw_state_scheme, u32) prog" where
  "ppc_stop_spec X A word slp s =
     (case find (\<lambda>k. ppc_flag A (ppc_polled slp s k)) [0..<100] of
        None \<Rightarrow> Inr (BSP_RVAL_DEVICE_ERROR, exi_enabled (ppc_polled slp s 100))
      | Some k \<Rightarrow>
          let u = ppc_acked A (ppc_polled slp s k); boot = regs u (HW_EXI_BOOT + 4 * 15)
          in if boot = pvr_word (stored_pvr word u) then Inr (BSP_RVAL_OK, u)
             else case bspPPCSetPVR X (pvr_of (enc32 boot)) u of
                    Inl e \<Rightarrow> Inl e
                  | Inr (_, s') \<Rightarrow> Inr (BSP_RVAL_OK, s'))"

lemma find_upt_Some: "find P [0..<n] = Some k \<Longrightarrow> k < n \<and> P k \<and> (\<forall>j<k. \<not> P j)"
  by (auto simp: find_Some_iff)

lemma find_upt_None: "find P [0..<n] = None \<Longrightarrow> k < n \<Longrightarrow> \<not> P k"
  by (auto simp: find_None_iff)

section \<open>Properties\<close>

text \<open>
  C16: \<^verbatim>\<open>bspPPCInstall\<close> on a known chip fills in the summary and the properties of the cores (three
  with 0x200, 0x800 and 0x200 as second-level cache size, or one with 0x100) and answers OK; but it returns
  before it has stored the function pointers and without a call of \<^verbatim>\<open>bspRegisterEntity\<close>, so that the
  entity stays unknown and both commands of the \<^verbatim>\<open>Exe\<close> attribute answer that the method is unsupported.
\<close>

theorem ppc_install_never_registers:
  assumes v: "bspHardwareVersion s = v" "v \<noteq> 0" "BSP_IS_LATTE v \<or> wood_family v"
    and null: "pPPCExecStop s = None" "pPPCExecStart s = None"
  shows "\<exists>clock. bspPPCInstall D os X A s = Inr (BSP_RVAL_OK, ppc_installed v clock s) \<and>
     bspPPC_Exec D os X A i a (Buf [1]) (ppc_installed v clock s) =
       Inr (BSP_RVAL_UNSUPPORTED_METHOD, ppc_installed v clock s) \<and>
     bspPPC_Exec D os X A i a (Buf [2]) (ppc_installed v clock s) =
       Inr (BSP_RVAL_UNSUPPORTED_METHOD, ppc_installed v clock s)"
proof -
  define s0 where "s0 = s\<lparr>ppc_summary := zero_summary, coreproperties := replicate 3 zero_core\<rparr>"
  have s0: "bspHardwareVersion s0 = v" "ppc_summary s0 = zero_summary" "coreproperties s0 = replicate 3 zero_core"
    using v by (simp_all add: s0_def)
  obtain clock where clock: "bspGetSystemClockInfo D os X s0 = Inr ((BSP_RVAL_OK, clock), s0)"
    using clock_info_cached [of s0 D os X] v(2) s0(1) by auto
  have sm: "bspPPCFillOutSummary D os X zero_summary s0 = Inr ((BSP_RVAL_OK, full_summary v clock), s0)"
    using summary_cached [of s0, OF _ _ clock, of zero_summary] v s0 by auto
  define s1 where "s1 = s0\<lparr>ppc_summary := full_summary v clock\<rparr>"
  have s1: "bspHardwareVersion s1 = v" "length (coreproperties s1) = 3" using s0 by (simp_all add: s1_def)
  have start: "bspPPCInstall D os X A s = ppc_install_cores D os X A v s1"
    using v s0 by (simp add: bspPPCInstall_def seqC_def modifyC_def bindC_def getsC_def returnC_def s0_def [symmetric]
        hwver_cached sm s1_def [symmetric] ppc_install_cores_def)
  have "bspPPCInstall D os X A s = Inr (BSP_RVAL_OK, ppc_installed v clock s)"
    unfolding start ppc_cores_run [OF s1(1) v(2,3) s1(2)]
    using s0(3) by (simp add: s1_def s0_def ppc_installed_def numeral_3_eq_3)
  moreover have "bspHardwareVersion (ppc_installed v clock s) \<noteq> 0" "pPPCExecStop (ppc_installed v clock s) = None"
    "pPPCExecStart (ppc_installed v clock s) = None" using v null by (simp_all add: ppc_installed_def)
  then have "bspPPC_Exec D os X A i a (Buf [c]) (ppc_installed v clock s) =
      Inr (BSP_RVAL_UNSUPPORTED_METHOD, ppc_installed v clock s)" if "c = 1 \<or> c = 2" for c
    using that by (auto simp: bspPPC_Exec_def bindC_def getsC_def returnC_def hwver_cached take_byte_def liftC_def dec8_def)
  ultimately show ?thesis by blast
qed

definition ppc_ext :: "(u32 \<Rightarrow> 's \<Rightarrow> 's) \<Rightarrow> ('m, 's) bsp_ext" where
  "ppc_ext slp =
     \<lparr>BSPCheckCortado = returnC (0, 0), bspEepromRead = (\<lambda>a n w. returnC (0, 0x7001)),
      bspPPCSetPVR = (\<lambda>_. returnC 0), bspRegisterEntity = (\<lambda>_. returnC 0), BSPGetPowerMode = returnC (0, 0),
      BSPSleep = (\<lambda>n s. Inr ((), slp n s)), BSP_SleepTimer = (\<lambda>_. returnC ()), IOS_IOPCPUUtilisation = returnC 0,
      IOS_SetIOP2xState = (\<lambda>_. returnC 0),
      gpio_latte_entity = \<lparr>e_pName = lit ''GPIO'', e_version = 1, e_instanceCount = 0, e_options = 0, e_pAttributes = []\<rparr>\<rparr>"

definition ppc_bench :: "u32 \<Rightarrow> (unit, 'm) ppc_state" where
  "ppc_bench v =
     \<lparr>regs = (\<lambda>_. 0), env = (), s_crc32Value = 0, log_mutex = 0, log_fds = [], active_log_fds = 0,
      log_syslog_handle = 0, bspEntityCount = 0, bspEntityList = [],
      eepromContexts = [\<lparr>ee_status = 0\<rparr>], bc_log_handle = 0, bc_initialised = False, bspHardwareVersion = v,
      bspBoardConfig = hw_config, hw_pvr = \<lparr>pvr_version = 0, pvr_revision = 0\<rparr>, eePVRAddr = 0x42, main_log_fd = 0,
      ppc_summary = zero_summary, coreproperties = [], pPPCExecStop = None, pPPCExecStart = None\<rparr>"

definition quiet_dispatch :: "('m, 's) dispatch" where
  "quiet_dispatch =
     \<lparr>call_read = (\<lambda>m i a p. returnC (0, p)), call_query = (\<lambda>m i a p. returnC (0, p)),
      call_write = (\<lambda>m i a p. returnC 0), call_init = (\<lambda>m i a p n. returnC 0),
      call_shutdown = (\<lambda>m i a. returnC 0), load_mem = (\<lambda>a n. failC WildPointer)\<rparr>"

theorem ppc_install_never_registers_witness:
  "\<exists>clock. bspPPCInstall quiet_dispatch quiet_ios (ppc_ext (\<lambda>_ s. s)) dev_bench
       (ppc_bench 0x24100028 :: (unit, unit bsp_method) ppc_state) =
     Inr (BSP_RVAL_OK, ppc_installed 0x24100028 clock (ppc_bench 0x24100028))"
proof -
  have "BSP_IS_LATTE 0x24100028" by (simp add: BSP_IS_LATTE_def)
  then show ?thesis
    using ppc_install_never_registers [of "ppc_bench 0x24100028 :: (unit, unit bsp_method) ppc_state" "0x24100028"
        quiet_dispatch quiet_ios "ppc_ext (\<lambda>_ s. s)" dev_bench 0 "blank_attribute []"]
    by (auto simp: ppc_bench_def)
qed

text \<open>
  C14: The handshake of \<^verbatim>\<open>bspPPCExecStop\<close>, for any behaviour of the board during the sleeps. After the reset
  pulse both reset lines of the processor are released. If the PowerPC raises the flag before one of the
  hundred polls, the first poll that sees it acknowledges it, gives the EXI interface back, compares the
  version in the SEEPROM with the one the PowerPC left in the EXI boot area, stores the latter if they
  differ, and answers OK; if it never does, the function gives EXI back after the hundredth sleep and
  answers a device error.
\<close>

theorem ppc_stop_handshake:
  assumes slp: "sleeps X slp" and stored: "pvr_stored X word"
  shows "bspPPCExecStop X A s = ppc_stop_spec X A word slp s \<and>
     regs (reset_pulse slp s) HW_RSTB = regs s HW_RSTB OR HW_RSTB_CPU OR HW_SRSTB_CPU"
proof (cases "find (\<lambda>k. ppc_flag A (ppc_polled slp s k)) [0..<100]")
  case None
  have "ppc_wait X A 100 (reset_pulse slp s) = Inr (BSP_RVAL_DEVICE_ERROR, exi_enabled (ppc_polled slp s 100))"
    unfolding ppc_polled_def by (rule ppc_wait_timeout [OF slp]) (use find_upt_None [OF None] in \<open>simp add: ppc_polled_def\<close>)
  with None show ?thesis by (simp add: ppc_stop_spec_def exec_stop_run [OF slp] pulse_releases)
next
  case (Some k)
  then have "ppc_wait X A 100 (reset_pulse slp s) =
      ppc_acknowledge X A (regs (ppc_polled slp s k) (HW_IPC_ARMCTRL A)) (ppc_polled slp s k)"
    unfolding ppc_polled_def
    by (intro ppc_wait_flag [OF slp]) (use find_upt_Some [OF Some] in \<open>auto simp: ppc_polled_def\<close>)
  with Some show ?thesis
    by (simp add: ppc_stop_spec_def exec_stop_run [OF slp] acknowledge_run [OF stored] pulse_releases Let_def)
qed

theorem ppc_stop_handshake_witness:
  "bspPPCExecStop (ppc_ext (\<lambda>n s. if n = 10000 then set_reg 0x0d80000c 8 s else s)) dev_bench (ppc_bench 1) =
     ppc_stop_spec (ppc_ext (\<lambda>n s. if n = 10000 then set_reg 0x0d80000c 8 s else s)) dev_bench (\<lambda>_ _. 0x7001)
       (\<lambda>n s. if n = 10000 then set_reg 0x0d80000c 8 s else s) (ppc_bench 1 :: (unit, unit) ppc_state)"
proof -
  let ?slp = "\<lambda>n s. if n = 10000 then set_reg 0x0d80000c 8 s else s :: (unit, unit) ppc_state"
  have "sleeps (ppc_ext ?slp) ?slp" "pvr_stored (ppc_ext ?slp :: (unit, (unit, unit) ppc_state) bsp_ext) (\<lambda>_ _. 0x7001)"
    by (simp_all add: sleeps_def pvr_stored_def ppc_ext_def returnC_def)
  from ppc_stop_handshake [OF this, of dev_bench "ppc_bench 1"] show ?thesis by simp
qed

text \<open>
  C38: The streaming switch on a Latte chip. Writing anything but 1 turns streaming off, and a read then
  says so; writing 1 leaves the bit as it was (the code ORs in a zero), so that a read after it returns
  what a read before it would have returned: a streaming that was switched off stays off.
\<close>

theorem streaming_cannot_be_reenabled:
  assumes "bspHardwareVersion s = v" "v \<noteq> 0" "BSP_IS_LATTE v" "sleeps X slp" "\<And>n t. bspHardwareVersion (slp n t) = bspHardwareVersion t"
    and wr: "bspPPC_Write60XeDataStreaming D os X i a (Buf [cmd]) s = Inr (ret, s')"
  shows "ret = BSP_RVAL_OK \<and>
     bspPPC_Read60XeDataStreaming D os X i' a' (Buf [c]) s' =
       (if cmd = 1 then Inr ((BSP_RVAL_OK, Buf [if bit (regs s LT_60XE_CFG) 3 then 0 else 1]), s')
        else Inr ((BSP_RVAL_OK, Buf [0]), s')) \<and>
     bspPPC_Read60XeDataStreaming D os X i' a' (Buf [c]) s =
       Inr ((BSP_RVAL_OK, Buf [if bit (regs s LT_60XE_CFG) 3 then 0 else 1]), s)"
proof -
  have rd: "bspPPC_Read60XeDataStreaming D os X i' a' (Buf [c]) t =
      Inr ((BSP_RVAL_OK, Buf [if bit (regs t LT_60XE_CFG) 3 then 0 else 1]), t)" if "bspHardwareVersion t = v" for t
  proof -
    have "w AND LT_60XE_CFG_STREAMING = 0 \<longleftrightarrow> \<not> bit w 3" for w :: u32
      using and_exp_eq_0_iff_not_bit [of w 3] by (simp add: REG_BIT_def)
    then show ?thesis
      using that assms(2,3) by (simp add: bspPPC_Read60XeDataStreaming_def bindC_def hwver_cached give_bytes_def liftC_def
          returnC_def rd_reg_run splice_at_def)
  qed
  have "ret = BSP_RVAL_OK" "bspHardwareVersion s' = v"
    "regs s' LT_60XE_CFG = (regs s LT_60XE_CFG OR (if cmd = 1 then 0 else LT_60XE_CFG_STREAMING)) AND NOT LT_60XE_CFG_LATCH"
    using wr assms(1-5) by (auto simp: bspPPC_Write60XeDataStreaming_def Let_def hwver_cached prog_simps sleeps_def
        take_byte_def dec8_def)
  then show ?thesis
    using rd [of s'] rd [of s] assms(1) by (auto simp: REG_BIT_def bit_simps)
qed

theorem streaming_cannot_be_reenabled_witness:
  "\<exists>s'. bspPPC_Write60XeDataStreaming quiet_dispatch quiet_ios (ppc_ext (\<lambda>_ t. t)) 0 (blank_attribute []) (Buf [1])
       ((ppc_bench 0x24100028 :: (unit, unit) ppc_state)\<lparr>regs := \<lambda>_. 8\<rparr>) = Inr (BSP_RVAL_OK, s') \<and>
     bspPPC_Read60XeDataStreaming quiet_dispatch quiet_ios (ppc_ext (\<lambda>_ t. t)) 0 (blank_attribute []) (Buf [5]) s' =
       Inr ((BSP_RVAL_OK, Buf [0]), s')"
proof -
  let ?s = "(ppc_bench 0x24100028 :: (unit, unit) ppc_state)\<lparr>regs := \<lambda>_. 8\<rparr>"
  let ?X = "ppc_ext (\<lambda>_ t. t) :: (unit, (unit, unit) ppc_state) bsp_ext"
  have v: "bspHardwareVersion ?s = 0x24100028" "BSP_IS_LATTE 0x24100028" "sleeps ?X (\<lambda>_ t. t)"
    by (simp_all add: ppc_bench_def BSP_IS_LATTE_def sleeps_def ppc_ext_def)
  then obtain ret s' where run: "bspPPC_Write60XeDataStreaming quiet_dispatch quiet_ios ?X 0 (blank_attribute []) (Buf [1]) ?s = Inr (ret, s')"
    by (auto simp: bspPPC_Write60XeDataStreaming_def Let_def hwver_cached prog_simps sleeps_def take_byte_def)
  from streaming_cannot_be_reenabled [OF v(1) _ v(2,3) _ run, of 0 "blank_attribute []" 5] run show ?thesis
    by (auto simp: bit_numeral_rec)
qed

end
