(* ===== verification/Ccrh.thy ===== *)
theory Ccrh
  imports Ppc
begin

text \<open>
  \<^verbatim>\<open>src/ios_bsp/entities/ccrh/bsp_ccrh.c\<close>, the entity that resets the DRH, the chip behind the wireless
  controller: its table, its registration, and the reset sequence over the attributes of the GPIO and SMC
  entities.

  The undeclared \<^verbatim>\<open>variant\<close> is the variant of the version just read. The integers passed where a pointer
  is expected are pointers made from integers: null for 0 and a wild address otherwise. The condition
  \<^verbatim>\<open>gpio_dir & 0x20 == 0\<close> is read as C reads it, with the comparison inside.
\<close>

section \<open>State and table\<close>

record ('e, 'm) ccrh_state = "('e, 'm) ppc_state" +
  ccrhSummary :: bool

abbreviation (input) ccrhSummary_address :: u32 where
  "ccrhSummary_address \<equiv> 0xe6047980"

definition int_ptr :: "u32 \<Rightarrow> cptr" where
  "int_ptr w = (if w = 0 then Null else Addr w)"

definition bspCCRH_attributes :: "'x bsp_method bsp_attribute list" where
  "bspCCRH_attributes =
     [(blank_attribute ''Reset'')
        \<lparr>a_options := BSP_AO_INIT_GLOBAL, a_permissions := BSP_PERMISSIONS_ALL, a_data := 4, a_dataSize := 4,
         a_writeMethod := Some M_bspCCRH_Reset_write, a_initMethod := Some M_bspCCRH_Reset_init\<rparr>,
      (blank_attribute ''Summary'')
        \<lparr>a_options := BSP_AO_QUERY_DATA_INDIRECT, a_permissions := BSP_PERMISSIONS_ALL,
         a_data := ccrhSummary_address, a_dataSize := 1\<rparr>]"

definition bspCCRH_entity :: "'x bsp_method bsp_entity" where
  "bspCCRH_entity =
     \<lparr>e_pName = lit ''CCRH'', e_version = 1, e_instanceCount = 1, e_options = BSP_EO_NONE,
      e_pAttributes = [bspCCRH_attributes]\<rparr>"

text \<open>When the version cannot be read the function returns without a value.\<close>

definition bspRegisterCCRH ::
  "('x bsp_method, ('e, 'x bsp_method, 'z) ccrh_state_scheme) dispatch \<Rightarrow>
   (('e, 'x bsp_method, 'z) ccrh_state_scheme) ios \<Rightarrow>
   ('x bsp_method, ('e, 'x bsp_method, 'z) ccrh_state_scheme) bsp_ext \<Rightarrow>
   (('e, 'x bsp_method, 'z) ccrh_state_scheme, u32) prog" where
  "bspRegisterCCRH D os X =
     bindC (bspMethodGetHardwareVersion D os X VLocal) (\<lambda>(ret, hwver).
     if ret \<noteq> BSP_RVAL_OK then failC Uninitialised
     else if \<not> BSP_IS_LATTE hwver then returnC BSP_RVAL_OK
     else
     bindC (getsC (\<lambda>s. bc_boardRevision (bspBoardConfig s))) (\<lambda>rev.
     seqC (modifyC (\<lambda>s. s\<lparr>ccrhSummary :=
             (if BSP_IS_CAT hwver \<or> BSP_IS_ID hwver then \<not> rev < 2
              else if BSP_IS_EV hwver then \<not> rev < 4
              else if BSP_GET_VARIANT hwver > 0x29 \<and> \<not> BSP_IS_EV_Y hwver then False
              else True)\<rparr>))
     (bspRegisterEntity X bspCCRH_entity)))"

section \<open>Reset\<close>

text \<open>The first part, up to the command that holds the chip in reset; \<open>cmd\<close> is one of 1 to 4.\<close>

definition ccrh_hold ::
  "('m, ('e, 'm, 'z) hw_state_scheme) dispatch \<Rightarrow> (('e, 'm, 'z) hw_state_scheme) ios \<Rightarrow>
   ('m, ('e, 'm, 'z) hw_state_scheme) bsp_ext \<Rightarrow> (('e, 'm, 'z) hw_state_scheme) dev_ext \<Rightarrow> u32 \<Rightarrow>
   (('e, 'm, 'z) hw_state_scheme, u32) prog" where
  "ccrh_hold D os X A ccrio3 =
     bindC (bspMethodGetHardwareVersion D os X VLocal) (\<lambda>(ret, hwver).
     bindC (if ret = BSP_RVAL_OK
            then let variant = BSP_GET_VARIANT hwver;
                     put = bspWriteInternal D (lit ''GPIO'') 0 (lit ''CCRIO3'') 4 (int_ptr ccrio3)
                 in if variant = BSP_VARIANT_EV_Y then put
                    else if variant = BSP_VARIANT_CAT \<or> variant = BSP_VARIANT_ID \<or>
                            variant = BSP_VARIANT_CAFE \<or> variant = BSP_VARIANT_IH
                    then bindC (getsC (\<lambda>s. bc_boardRevision (bspBoardConfig s))) (\<lambda>rev.
                         if rev > 3 then put else returnC ret)
                    else returnC ret
            else returnC ret) (\<lambda>ret.
     seqC (BSP_SleepTimer X 100)
     (bindC (bspInitInternal D (lit ''GPIO'') 0 (lit ''CCRHReset'') 0 Null) (\<lambda>r1.
      bindC (rd_reg (LT_GPIO_DIR A)) (\<lambda>gpio_dir.
      bindC (if gpio_dir AND (if (0x20 :: u32) = 0 then 1 else 0) \<noteq> 0
             then bspInitInternal D (lit ''GPIO'') 0 (lit ''CCRIO12'') 0 Null
             else returnC 0) (\<lambda>r2.
      bindC (bspWriteInternal D (lit ''GPIO'') 0 (lit ''CCRHReset'') 4 (Buf (enc32 0))) (\<lambda>r3.
      returnC (ret OR r1 OR r2 OR r3))))))))"

text \<open>The boards on which the reset line is initialised once more at the end.\<close>

definition reset_board :: "u32 \<Rightarrow> bc_config \<Rightarrow> bool" where
  "reset_board variant c \<longleftrightarrow>
     variant = BSP_VARIANT_EV_Y \<or>
     (variant = BSP_VARIANT_CAT \<and> bc_boardRevision c \<ge> 3 \<and> bc_movPassiveReset c = 1) \<or>
     (variant = BSP_VARIANT_ID \<and> bc_boardRevision c \<ge> 3 \<and> bc_movPassiveReset c = 1) \<or>
     (variant = BSP_VARIANT_CAFE \<and> bc_boardRevision c \<ge> 4) \<or>
     (variant = BSP_VARIANT_IH \<and> bc_boardRevision c \<ge> 4)"

definition reset_init_data :: bytes where
  "reset_init_data = concat (map enc16 [0x2100, 0x0000, 0x0100, 0x0000, 0x0000])"

definition ccrh_release ::
  "('m, ('e, 'm, 'z) hw_state_scheme) dispatch \<Rightarrow> (('e, 'm, 'z) hw_state_scheme) ios \<Rightarrow>
   ('m, ('e, 'm, 'z) hw_state_scheme) bsp_ext \<Rightarrow> (('e, 'm, 'z) hw_state_scheme) dev_ext \<Rightarrow> u32 \<Rightarrow>
   (('e, 'm, 'z) hw_state_scheme, u32) prog" where
  "ccrh_release D os X A ccrio12 =
     (let finish = (\<lambda>ret. bindC (log_debug_printf A (lit ''resetting DRH\<newline>'')) (\<lambda>_. returnC ret))
      in bindC (bspWriteInternal D (lit ''SMC'') 0 (lit ''DWIFIRSTPulse'') 4 (Buf (enc32 2))) (\<lambda>_.
         bindC (bspWriteInternal D (lit ''GPIO'') 0 (lit ''CCRIO12'') 4 (Buf (enc32 ccrio12))) (\<lambda>_.
         seqC (BSP_SleepTimer X 0x1f5b58)
         (bindC (bspWriteInternal D (lit ''GPIO'') 0 (lit ''CCRHReset'') 4 (Buf (enc32 1))) (\<lambda>_.
          bindC (bspMethodGetHardwareVersion D os X VLocal) (\<lambda>(ret, hwver).
          if ret \<noteq> BSP_RVAL_OK then finish ret
          else
          bindC (getsC bspBoardConfig) (\<lambda>c.
          if reset_board (BSP_GET_VARIANT hwver) c
          then bindC (bspInitInternal D (lit ''GPIO'') 0 (lit ''CCRHReset'') 10 (Buf reset_init_data)) finish
          else finish BSP_RVAL_OK)))))))"

definition bspCCRH_Reset_write ::
  "('m, ('e, 'm, 'z) hw_state_scheme) dispatch \<Rightarrow> (('e, 'm, 'z) hw_state_scheme) ios \<Rightarrow>
   ('m, ('e, 'm, 'z) hw_state_scheme) bsp_ext \<Rightarrow> (('e, 'm, 'z) hw_state_scheme) dev_ext \<Rightarrow>
   u32 \<Rightarrow> 'm bsp_attribute \<Rightarrow> cptr \<Rightarrow> (('e, 'm, 'z) hw_state_scheme, u32) prog" where
  "bspCCRH_Reset_write D os X A instance pAttribute pWrittenData =
     bindC (liftC (load_ptr 0 4 pWrittenData)) (\<lambda>bs.
     let cmd = dec32 bs
     in if cmd = 1 \<or> cmd = 2 \<or> cmd = 3 \<or> cmd = 4
        then bindC (ccrh_hold D os X A (if cmd = 3 then 1 else 0)) (\<lambda>ret.
             if cmd = 1
             then bindC (log_debug_printf A (lit ''holding DRH in reset\<newline>'')) (\<lambda>_. returnC ret)
             else ccrh_release D os X A (if cmd = 2 then 1 else 0))
        else returnC BSP_RVAL_INVALID_PARAMETER)"

text \<open>The word \<^verbatim>\<open>data\<close> itself is passed as the pointer.\<close>

definition bspCCRH_Reset_init ::
  "('m, ('e, 'm, 'z) hw_state_scheme) dispatch \<Rightarrow> (('e, 'm, 'z) hw_state_scheme) ios \<Rightarrow>
   ('m, ('e, 'm, 'z) hw_state_scheme) bsp_ext \<Rightarrow> (('e, 'm, 'z) hw_state_scheme) dev_ext \<Rightarrow>
   u32 \<Rightarrow> 'm bsp_attribute \<Rightarrow> cptr \<Rightarrow> u32 \<Rightarrow> (('e, 'm, 'z) hw_state_scheme, u32) prog" where
  "bspCCRH_Reset_init D os X A instance pAttribute pInitData sz =
     bindC (bspMethodGetHardwareVersion D os X VLocal) (\<lambda>(ret, hwver).
     if ret \<noteq> BSP_RVAL_OK then returnC ret
     else bspCCRH_Reset_write D os X A instance pAttribute (int_ptr (a_data pAttribute)))"

section \<open>The sequence of line changes\<close>

text \<open>What a reset does to the board, and the board as a machine that takes such events.\<close>

datatype drh_event = Put bytes bytes u32 | Init u32 cptr | Pause u32 | Print bytes

definition drh_lines :: "(bytes \<times> bytes) set" where
  "drh_lines = {(lit ''GPIO'', lit ''CCRHReset''), (lit ''GPIO'', lit ''CCRIO12''), (lit ''SMC'', lit ''DWIFIRSTPulse'')}"

definition drh_board ::
  "('m, ('e, 'm, 'z) hw_state_scheme) dispatch \<Rightarrow> ('m, ('e, 'm, 'z) hw_state_scheme) bsp_ext \<Rightarrow>
   (('e, 'm, 'z) hw_state_scheme) dev_ext \<Rightarrow> (('e, 'm, 'z) hw_state_scheme \<Rightarrow> bool) \<Rightarrow>
   (drh_event \<Rightarrow> ('e, 'm, 'z) hw_state_scheme \<Rightarrow> ('e, 'm, 'z) hw_state_scheme) \<Rightarrow> bool" where
  "drh_board D X A ready ev \<longleftrightarrow> (\<forall>s. ready s \<longrightarrow>
     (\<forall>(ent, at) \<in> drh_lines. \<forall>w.
        bspWriteInternal D ent 0 at 4 (Buf (enc32 w)) s = Inr (BSP_RVAL_OK, ev (Put ent at w) s)) \<and>
     (\<forall>n p. bspInitInternal D (lit ''GPIO'') 0 (lit ''CCRHReset'') n p s = Inr (BSP_RVAL_OK, ev (Init n p) s)) \<and>
     (\<forall>n. BSP_SleepTimer X n s = Inr ((), ev (Pause n) s)) \<and>
     (\<forall>m. log_debug_printf A m s = Inr (0, ev (Print m) s)) \<and>
     (\<forall>e. ready (ev e s) \<and> bspHardwareVersion (ev e s) = bspHardwareVersion s \<and>
          bspBoardConfig (ev e s) = bspBoardConfig s))"

definition drh_events :: "u32 \<Rightarrow> u32 \<Rightarrow> bc_config \<Rightarrow> drh_event list" where
  "drh_events cmd v c =
     [Pause 100, Init 0 Null, Put (lit ''GPIO'') (lit ''CCRHReset'') 0] @
     (if cmd = 1 then [Print (lit ''holding DRH in reset\<newline>'')]
      else [Put (lit ''SMC'') (lit ''DWIFIRSTPulse'') 2,
            Put (lit ''GPIO'') (lit ''CCRIO12'') (if cmd = 2 then 1 else 0), Pause 0x1f5b58,
            Put (lit ''GPIO'') (lit ''CCRHReset'') 1] @
           (if reset_board (BSP_GET_VARIANT v) c then [Init 10 (Buf reset_init_data)] else []) @
           [Print (lit ''resetting DRH\<newline>'')])"

text \<open>The boards on which the code also writes \<^verbatim>\<open>CCRIO3\<close>, through the integer.\<close>

definition writes_ccrio3 :: "u32 \<Rightarrow> bc_config \<Rightarrow> bool" where
  "writes_ccrio3 v c \<longleftrightarrow> BSP_GET_VARIANT v = BSP_VARIANT_EV_Y \<or>
     BSP_GET_VARIANT v \<in> {BSP_VARIANT_CAT, BSP_VARIANT_ID, BSP_VARIANT_CAFE, BSP_VARIANT_IH} \<and> bc_boardRevision c > 3"

lemma drh_boardD:
  assumes "drh_board D X A ready ev" "ready s"
  shows "bspWriteInternal D (lit ''GPIO'') 0 (lit ''CCRHReset'') 4 (Buf (enc32 w)) s =
      Inr (BSP_RVAL_OK, ev (Put (lit ''GPIO'') (lit ''CCRHReset'') w) s)"
    and "bspWriteInternal D (lit ''GPIO'') 0 (lit ''CCRIO12'') 4 (Buf (enc32 w)) s =
      Inr (BSP_RVAL_OK, ev (Put (lit ''GPIO'') (lit ''CCRIO12'') w) s)"
    and "bspWriteInternal D (lit ''SMC'') 0 (lit ''DWIFIRSTPulse'') 4 (Buf (enc32 w)) s =
      Inr (BSP_RVAL_OK, ev (Put (lit ''SMC'') (lit ''DWIFIRSTPulse'') w) s)"
    and "bspInitInternal D (lit ''GPIO'') 0 (lit ''CCRHReset'') n p s = Inr (BSP_RVAL_OK, ev (Init n p) s)"
    and "BSP_SleepTimer X n s = Inr ((), ev (Pause n) s)"
    and "log_debug_printf A m s = Inr (0, ev (Print m) s)"
    and "ready (ev e s)" "bspHardwareVersion (ev e s) = bspHardwareVersion s" "bspBoardConfig (ev e s) = bspBoardConfig s"
  using assms unfolding drh_board_def drh_lines_def by auto

lemma hold_run:
  assumes b: "drh_board D X A ready ev" and s: "ready s" "bspHardwareVersion s \<noteq> 0"
    and w: "\<not> writes_ccrio3 (bspHardwareVersion s) (bspBoardConfig s)"
  shows "ccrh_hold D os X A x s =
     Inr (BSP_RVAL_OK, fold ev [Pause 100, Init 0 Null, Put (lit ''GPIO'') (lit ''CCRHReset'') 0] s)"
  using w s(1) by (auto simp: ccrh_hold_def Let_def seqC_def bindC_def getsC_def returnC_def rd_reg_run hwver_cached [OF s(2)]
      drh_boardD [OF b] writes_ccrio3_def)

lemma release_run:
  assumes b: "drh_board D X A ready ev" and s: "ready s" "bspHardwareVersion s \<noteq> 0"
  shows "ccrh_release D os X A x s =
     Inr (BSP_RVAL_OK, fold ev
       ([Put (lit ''SMC'') (lit ''DWIFIRSTPulse'') 2, Put (lit ''GPIO'') (lit ''CCRIO12'') x, Pause 0x1f5b58,
         Put (lit ''GPIO'') (lit ''CCRHReset'') 1] @
        (if reset_board (BSP_GET_VARIANT (bspHardwareVersion s)) (bspBoardConfig s)
         then [Init 10 (Buf reset_init_data)] else []) @ [Print (lit ''resetting DRH\<newline>'')]) s)"
  using s by (simp add: ccrh_release_def Let_def seqC_def bindC_def getsC_def returnC_def hwver_cached drh_boardD [OF b])

section \<open>A board for concrete runs\<close>

text \<open>The methods of its lines write what they are asked to do into a log, the world outside.\<close>

definition line_attribute :: "string \<Rightarrow> string \<Rightarrow> (bytes \<times> bytes) bsp_attribute" where
  "line_attribute ent nm = (blank_attribute nm)
     \<lparr>a_dataSize := 4, a_writeMethod := Some (lit ent, lit nm), a_initMethod := Some (lit ent, lit nm)\<rparr>"

definition drh_entity :: "string \<Rightarrow> string list \<Rightarrow> (bytes \<times> bytes) bsp_entity" where
  "drh_entity ent nms =
     \<lparr>e_pName = lit ent, e_version = 1, e_instanceCount = 1, e_options = 0,
      e_pAttributes = [map (line_attribute ent) nms @ [(blank_attribute [])\<lparr>a_pName := None\<rparr>]]\<rparr>"

definition drh_entities :: "(bytes \<times> bytes) bsp_entity list" where
  "drh_entities = [drh_entity ''GPIO'' [''CCRHReset'', ''CCRIO12'', ''CCRIO3''], drh_entity ''SMC'' [''DWIFIRSTPulse'']]"

type_synonym drh_state = "(drh_event list, bytes \<times> bytes) hw_state"

definition drh_log :: "drh_event \<Rightarrow> drh_state \<Rightarrow> drh_state" where
  "drh_log e s = s\<lparr>env := env s @ [e]\<rparr>"

definition drh_dispatch :: "(bytes \<times> bytes, drh_state) dispatch" where
  "drh_dispatch = quiet_dispatch
     \<lparr>call_write := (\<lambda>(ent, at) i a p. bindC (liftC (load_ptr 0 4 p)) (\<lambda>bs s. Inr (0, drh_log (Put ent at (dec32 bs)) s))),
      call_init := (\<lambda>_ i a p n s. Inr (0, drh_log (Init n p) s))\<rparr>"

definition drh_ext :: "(bytes \<times> bytes, drh_state) bsp_ext" where
  "drh_ext = (ppc_ext (\<lambda>_ s. s))\<lparr>BSP_SleepTimer := (\<lambda>n s. Inr ((), drh_log (Pause n) s))\<rparr>"

definition drh_dev :: "drh_state dev_ext" where
  "drh_dev = dev_bench\<lparr>log_debug_printf := (\<lambda>m s. Inr (0, drh_log (Print m) s))\<rparr>"

definition drh_bench :: "u32 \<Rightarrow> u16 \<Rightarrow> drh_state" where
  "drh_bench v r =
     \<lparr>regs = (\<lambda>_. 0), env = [], s_crc32Value = 0, log_mutex = 0, log_fds = [], active_log_fds = 0,
      log_syslog_handle = 0, bspEntityCount = 2, bspEntityList = map Some drh_entities, eepromContexts = [],
      bc_log_handle = 0, bc_initialised = False, bspHardwareVersion = v,
      bspBoardConfig = hw_config\<lparr>bc_boardRevision := r\<rparr>,
      hw_pvr = \<lparr>pvr_version = 0, pvr_revision = 0\<rparr>, eePVRAddr = 0x42, main_log_fd = -1\<rparr>"

lemma drh_bench_holds: "holds drh_entities (drh_bench v r)"
proof -
  have reg: "registered (drh_bench v r) = drh_entities"
    by (simp add: registered_def drh_bench_def drh_entities_def)
  have "sorted_wrt (<) (map (\<lambda>e. strkey 32 (e_pName e)) drh_entities)"
    by (simp add: drh_entities_def drh_entity_def) code_simp
  moreover have "list_all entity_wf drh_entities"
    by (simp add: drh_entities_def drh_entity_def entity_wf_def table_wf_def line_attribute_def blank_attribute_def)
  ultimately show ?thesis
    unfolding holds_def registry_wf_def reg by (simp add: drh_bench_def drh_entities_def)
qed

lemma drh_lookup:
  "lookup_entity (lit ''GPIO'') drh_entities = Some (drh_entity ''GPIO'' [''CCRHReset'', ''CCRIO12'', ''CCRIO3''])"
  "lookup_entity (lit ''SMC'') drh_entities = Some (drh_entity ''SMC'' [''DWIFIRSTPulse''])"
  by (simp_all add: lookup_entity_def drh_entities_def drh_entity_def)

lemma drh_reached:
  assumes "holds drh_entities s"
    and "(ent, nm) \<in> {(''GPIO'', ''CCRHReset''), (''GPIO'', ''CCRIO12''), (''GPIO'', ''CCRIO3''), (''SMC'', ''DWIFIRSTPulse'')}"
  shows "answerable s (lit ent) 0 (lit nm)"
    "reaches (registered s) (lit ent) 0 (lit nm) BSP_PERMISSIONS_INTERNAL cmd (line_attribute ent nm)"
proof -
  have p: "permitted BSP_PERMISSIONS_INTERNAL cmd a" for a :: "(bytes \<times> bytes) bsp_attribute"
    by (simp add: permitted_iff check_permission_def)
  show "reaches (registered s) (lit ent) 0 (lit nm) BSP_PERMISSIONS_INTERNAL cmd (line_attribute ent nm)"
    using assms by (auto simp: reaches_def holds_def drh_lookup p)
      (auto simp: drh_entity_def attribute_table_def lookup_attribute_def named_attributes_def has_name_def
        line_attribute_def blank_attribute_def)
  moreover have "cstring (lit nm) \<noteq> []" using assms(2) by (auto simp: lit_def)
  ultimately show "answerable s (lit ent) 0 (lit nm)"
    using assms(1) by (intro reaches_answerable) (simp_all add: holds_def)
qed

lemmas drh_line_defs = bspWriteInternal_def bspInitInternal_def line_attribute_def drh_dispatch_def

lemma drh_bench_board: "drh_board drh_dispatch drh_ext drh_dev (holds drh_entities) drh_log"
proof -
  have "bspWriteInternal drh_dispatch (lit ent) 0 (lit nm) 4 (Buf (enc32 w)) s = Inr (0, drh_log (Put (lit ent) (lit nm) w) s)"
    if "holds drh_entities s" "(ent, nm) \<in> {(''GPIO'', ''CCRHReset''), (''GPIO'', ''CCRIO12''), (''SMC'', ''DWIFIRSTPulse'')}" for s ent nm w
  proof -
    have "(ent, nm) \<in> {(''GPIO'', ''CCRHReset''), (''GPIO'', ''CCRIO12''), (''GPIO'', ''CCRIO3''), (''SMC'', ''DWIFIRSTPulse'')}"
      using that(2) by auto
    from reached_write [OF drh_reached [OF that(1) this]] show ?thesis
      by (simp add: drh_line_defs bindC_def liftC_def codec32.enc_length codec32.dec_enc)
  qed
  moreover have "bspInitInternal drh_dispatch (lit ''GPIO'') 0 (lit ''CCRHReset'') n p s = Inr (0, drh_log (Init n p) s)"
    if "holds drh_entities s" for s n p
    using reached_init [OF drh_reached [OF that], of "''GPIO''" "''CCRHReset''"] by (simp add: drh_line_defs)
  moreover have "holds drh_entities (drh_log e s) = holds drh_entities s" for e s
    by (simp add: holds_def registry_wf_def registered_def drh_log_def)
  moreover have "bspHardwareVersion (drh_log e s) = bspHardwareVersion s" "bspBoardConfig (drh_log e s) = bspBoardConfig s" for e s
    by (simp_all add: drh_log_def)
  ultimately show ?thesis by (auto simp: drh_board_def drh_lines_def drh_ext_def drh_dev_def)
qed

section \<open>Properties\<close>

text \<open>
  C15: The DRH reset, as the exact sequence of what it does to the board, for the boards on which it does
  not write \<^verbatim>\<open>CCRIO3\<close>: the line is initialised and pulled low; command 1 leaves it there, the commands 2,
  3 and 4 pulse the wireless reset, set \<^verbatim>\<open>CCRIO12\<close> (to 1 for command 2), wait, let the line go, and
  initialise it once more on the boards that need it. \<^verbatim>\<open>CCRIO12\<close> is never initialised, and any other
  command is refused before anything happens.
\<close>

theorem ccrh_reset_sequence:
  assumes b: "drh_board D X A ready ev" and s: "ready s" "bspHardwareVersion s \<noteq> 0"
    and w: "\<not> writes_ccrio3 (bspHardwareVersion s) (bspBoardConfig s)"
  shows "bspCCRH_Reset_write D os X A i a (Buf (enc32 cmd)) s =
     (if cmd \<in> {1, 2, 3, 4}
      then Inr (BSP_RVAL_OK, fold ev (drh_events cmd (bspHardwareVersion s) (bspBoardConfig s)) s)
      else Inr (BSP_RVAL_INVALID_PARAMETER, s))"
proof -
  let ?s = "fold ev [Pause 100, Init 0 Null, Put (lit ''GPIO'') (lit ''CCRHReset'') 0] s"
  have keep: "bspHardwareVersion ?s = bspHardwareVersion s" "bspBoardConfig ?s = bspBoardConfig s" and r: "ready ?s"
    using s(1) by (simp_all add: drh_boardD [OF b])
  with s(2) have "bspHardwareVersion ?s \<noteq> 0" by simp
  note rel = release_run [OF b r this, unfolded keep, simplified]
  show ?thesis
    using drh_boardD(6) [OF b r]
    by (auto simp: bspCCRH_Reset_write_def Let_def bindC_def liftC_def codec32.enc_length codec32.dec_enc returnC_def
        hold_run [OF assms] rel drh_events_def)
qed

theorem ccrh_reset_sequence_witness:
  "bspCCRH_Reset_write drh_dispatch quiet_ios drh_ext drh_dev 0 (line_attribute [] []) (Buf (enc32 4)) (drh_bench 0x24100028 3) =
     Inr (BSP_RVAL_OK, (drh_bench 0x24100028 3)\<lparr>env :=
       [Pause 100, Init 0 Null, Put (lit ''GPIO'') (lit ''CCRHReset'') 0, Put (lit ''SMC'') (lit ''DWIFIRSTPulse'') 2,
        Put (lit ''GPIO'') (lit ''CCRIO12'') 0, Pause 0x1f5b58, Put (lit ''GPIO'') (lit ''CCRHReset'') 1,
        Print (lit ''resetting DRH\<newline>'')]\<rparr>)"
proof -
  have "bspHardwareVersion (drh_bench 0x24100028 3) \<noteq> 0"
    "\<not> writes_ccrio3 (bspHardwareVersion (drh_bench 0x24100028 3)) (bspBoardConfig (drh_bench 0x24100028 3))"
    by (simp_all add: drh_bench_def writes_ccrio3_def BSP_GET_VARIANT_def)
  from ccrh_reset_sequence [OF drh_bench_board drh_bench_holds this, of quiet_ios 0 "line_attribute [] []" 4]
  show ?thesis by (simp add: drh_events_def drh_log_def drh_bench_def reset_board_def BSP_GET_VARIANT_def)
qed

text \<open>
  C36: The two places where an integer is passed as a pointer. On the boards on which the reset writes
  \<^verbatim>\<open>CCRIO3\<close>, every command faults as soon as that line's method loads its four bytes, before the chip
  is touched; and the init function of the attribute faults on every known board, because it passes the
  word \<^verbatim>\<open>data\<close> itself.
\<close>

theorem ccrh_integer_pointers_fault:
  assumes v: "bspHardwareVersion s \<noteq> 0"
    and ccrio3: "\<And>p. bspWriteInternal D (lit ''GPIO'') 0 (lit ''CCRIO3'') 4 p s = bindC (liftC (load_ptr 0 4 p)) k s"
  shows "bspCCRH_Reset_init D os X A i a p n s = Inl (if a_data a = 0 then NullDeref else WildPointer) \<and>
     (writes_ccrio3 (bspHardwareVersion s) (bspBoardConfig s) \<and> cmd \<in> {1, 2, 3, 4} \<longrightarrow>
       bspCCRH_Reset_write D os X A i a (Buf (enc32 cmd)) s = Inl (if cmd = 3 then WildPointer else NullDeref))"
proof
  show "bspCCRH_Reset_init D os X A i a p n s = Inl (if a_data a = 0 then NullDeref else WildPointer)"
    by (simp add: bspCCRH_Reset_init_def bspCCRH_Reset_write_def bindC_def liftC_def int_ptr_def hwver_cached [OF v])
  show "writes_ccrio3 (bspHardwareVersion s) (bspBoardConfig s) \<and> cmd \<in> {1, 2, 3, 4} \<longrightarrow>
      bspCCRH_Reset_write D os X A i a (Buf (enc32 cmd)) s = Inl (if cmd = 3 then WildPointer else NullDeref)"
    by (auto simp: bspCCRH_Reset_write_def ccrh_hold_def Let_def bindC_def liftC_def getsC_def int_ptr_def
        hwver_cached [OF v] ccrio3 codec32.enc_length codec32.dec_enc writes_ccrio3_def)
qed

theorem ccrh_integer_pointers_fault_witness:
  "bspCCRH_Reset_init drh_dispatch quiet_ios drh_ext drh_dev 0 (line_attribute [] []) Null 0 (drh_bench 0x24100028 5) = Inl NullDeref \<and>
   bspCCRH_Reset_write drh_dispatch quiet_ios drh_ext drh_dev 0 (line_attribute [] []) (Buf (enc32 3)) (drh_bench 0x24100028 5) =
     Inl WildPointer"
proof -
  have v: "bspHardwareVersion (drh_bench 0x24100028 5) \<noteq> 0"
    "writes_ccrio3 (bspHardwareVersion (drh_bench 0x24100028 5)) (bspBoardConfig (drh_bench 0x24100028 5))"
    by (simp_all add: drh_bench_def writes_ccrio3_def BSP_GET_VARIANT_def)
  have "bspWriteInternal drh_dispatch (lit ''GPIO'') 0 (lit ''CCRIO3'') 4 p (drh_bench 0x24100028 5) =
      bindC (liftC (load_ptr 0 4 p)) (\<lambda>bs s. Inr (0, drh_log (Put (lit ''GPIO'') (lit ''CCRIO3'') (dec32 bs)) s))
        (drh_bench 0x24100028 5)" for p
    using reached_write [OF drh_reached [OF drh_bench_holds], of "''GPIO''" "''CCRIO3''"] by (simp add: drh_line_defs)
  from ccrh_integer_pointers_fault [OF v(1) this, of quiet_ios drh_ext drh_dev 0 "line_attribute [] []" Null 0 3] v(2)
  show ?thesis by (simp add: line_attribute_def blank_attribute_def)
qed

end
