(* ===== verification/Server.thy ===== *)
theory Server
  imports Frame Ccrh
begin

text \<open>
  \<^verbatim>\<open>src/ios_bsp/bsp_main.c\<close>: the process behind \<^verbatim>\<open>/dev/bsp\<close>. \<open>bsp_main\<close> is the C \<^verbatim>\<open>main\<close>, from the
  greeting over the start-up checks to the message loop; \<open>handle_message\<close> is one turn of the loop's
  body up to the label \<^verbatim>\<open>reply\<close>.

  The C variable \<^verbatim>\<open>result\<close> lives across the turns of the loop and some paths do not assign it: it is
  an option here, \<^term>\<open>None\<close> until the first assignment. The cases of the request switch have no
  \<^verbatim>\<open>break\<close>, so a request runs its own case and all later ones.

  The buffers of the clients are objects of a store \<open>client_mem\<close>, one at each address a client may
  pass; the process' own variables are not among them.
\<close>

section \<open>State and messages\<close>

record fd_t =
  fd_active :: bool
  fd_permissions :: u32

record ('e, 'm) main_state = "('e, 'm) ccrh_state" +
  devbsp_msgqueue_id :: u32
  bsp_fdtable :: "fd_t list"
  client_mem :: "u32 \<Rightarrow> bytes option"

record ios_message =
  m_command :: u32
  m_clientReply :: u32
  m_clientFD :: u32
  m_flags :: u32
  m_clientCPU :: u32
  m_clientPID :: u32
  m_clientTID :: u64
  m_serverHandle :: u32
  m_arg0 :: u32
  m_arg1 :: u32
  m_arg2 :: u32
  m_arg3 :: u32
  m_arg4 :: u32
  m_prevCommand :: u32
  m_prevClientFD :: u32
  m_ppcVirt0 :: u32
  m_ppcVirt1 :: u32

text \<open>The kernel calls only the resource manager makes.\<close>

record 's rm_ios =
  IOS_GetProcessName :: "u32 \<Rightarrow> bytes \<Rightarrow> ('s, u32 \<times> bytes) prog"
  IOS_CreateCrossProcessHeap :: "u32 \<Rightarrow> ('s, u32) prog"
  IOS_RegisterResourceManager :: "bytes \<Rightarrow> u32 \<Rightarrow> ('s, u32) prog"
  IOS_DeviceAssosciate :: "bytes \<Rightarrow> u32 \<Rightarrow> ('s, u32) prog"
  IOS_SetBSPReady :: "('s, unit) prog"
  IOS_ReceiveMessage :: "u32 \<Rightarrow> ('s, u32 \<times> ios_message) prog"
  IOS_ResourceReply :: "ios_message \<Rightarrow> u32 \<Rightarrow> ('s, u32) prog"

section \<open>Client memory\<close>

definition client_ptr :: "u32 \<Rightarrow> (('e, 'm, 'z) main_state_scheme, cptr) prog" where
  "client_ptr a =
     getsC (\<lambda>s. if a = 0 then Null else case client_mem s a of None \<Rightarrow> Addr a | Some b \<Rightarrow> Buf b)"

definition put_client :: "u32 \<Rightarrow> cptr \<Rightarrow> (('e, 'm, 'z) main_state_scheme, unit) prog" where
  "put_client a p =
     (case p of
        Buf b \<Rightarrow> modifyC (\<lambda>s. s\<lparr>client_mem := (client_mem s)(a \<mapsto> b)\<rparr>)
      | _ \<Rightarrow> returnC ())"

text \<open>\<^verbatim>\<open>__builtin_bswap32\<close> of a word of the argument block, and a name array in it.\<close>

definition arg_word :: "nat \<Rightarrow> u32 \<Rightarrow> (('e, 'm, 'z) main_state_scheme, u32) prog" where
  "arg_word off inPtr =
     bindC (client_ptr inPtr) (\<lambda>p.
     bindC (liftC (load_ptr off 4 p)) (\<lambda>bs.
     returnC (bswap32 (dec32 bs))))"

definition arg_bytes :: "nat \<Rightarrow> u32 \<Rightarrow> (('e, 'm, 'z) main_state_scheme, bytes) prog" where
  "arg_bytes off inPtr =
     bindC (client_ptr inPtr) (\<lambda>p.
     liftC (case p of
              Null \<Rightarrow> Inl NullDeref
            | Addr _ \<Rightarrow> Inl WildPointer
            | Buf b \<Rightarrow> Inr (drop off b)))"

section \<open>Requests\<close>

text \<open>
  The fields of \<^verbatim>\<open>BSP_IOCTL_METHOD\<close>: \<^verbatim>\<open>entityName\<close> at 0, \<^verbatim>\<open>instance\<close> at 0x20, \<^verbatim>\<open>attributeName\<close> at
  0x24, \<^verbatim>\<open>size\<close> at 0x44 and \<^verbatim>\<open>inData\<close> at 0x48.
\<close>

definition with_target ::
  "u32 \<Rightarrow> (bytes \<Rightarrow> u32 \<Rightarrow> bytes \<Rightarrow> (('e, 'm, 'z) main_state_scheme, 'a) prog) \<Rightarrow>
   (('e, 'm, 'z) main_state_scheme, 'a) prog" where
  "with_target inPtr k =
     bindC (arg_bytes 0 inPtr) (\<lambda>entityName.
     bindC (arg_word 0x20 inPtr) (\<lambda>instance.
     bindC (arg_bytes 0x24 inPtr) (\<lambda>attributeName.
     k (take 32 entityName) instance (take 32 attributeName))))"

definition fd_perms :: "u32 \<Rightarrow> (('e, 'm, 'z) main_state_scheme, u32) prog" where
  "fd_perms fd =
     bindC (getsC bsp_fdtable) (\<lambda>t.
     bindC (liftC (read_at t (unat fd))) (\<lambda>e. returnC (fd_permissions e)))"

definition get_entity_version_case :: "u32 \<Rightarrow> u32 \<Rightarrow> (('e, 'm, 'z) main_state_scheme, u32) prog" where
  "get_entity_version_case inPtr outPtr =
     bindC (arg_word 0x44 inPtr) (\<lambda>sz.
     if sz \<noteq> 4 then returnC BSP_RVAL_SPECIFIED_SIZE_INVALID
     else
     bindC (arg_bytes 0 inPtr) (\<lambda>entityName.
     bindC (client_ptr outPtr) (\<lambda>out.
     bindC (bspGetEntityVersion entityName out) (\<lambda>(ret, out').
     seqC (put_client outPtr out') (returnC ret)))))"

text \<open>Store a word through the client's pointer.\<close>

definition store_client :: "u32 \<Rightarrow> u32 \<Rightarrow> (('e, 'm, 'z) main_state_scheme, unit) prog" where
  "store_client outPtr v =
     bindC (client_ptr outPtr) (\<lambda>out.
     bindC (liftC (store_ptr 0 (enc32 v) out)) (\<lambda>out'.
     put_client outPtr out'))"

text \<open>
  \<^verbatim>\<open>bspMethodGetHardwareVersion(outPtr)\<close> assigns through its pointer first thing, so a bad pointer
  faults before anything else; the value it leaves there is stored at the end.
\<close>

definition get_hardware_version_case ::
  "('m, ('e, 'm, 'z) main_state_scheme) dispatch \<Rightarrow> (('e, 'm, 'z) main_state_scheme) ios \<Rightarrow>
   ('m, ('e, 'm, 'z) main_state_scheme) bsp_ext \<Rightarrow> u32 \<Rightarrow> u32 \<Rightarrow> (('e, 'm, 'z) main_state_scheme, u32) prog" where
  "get_hardware_version_case D os X inPtr outPtr =
     bindC (arg_word 0x44 inPtr) (\<lambda>sz.
     if sz \<noteq> 4 then returnC BSP_RVAL_SPECIFIED_SIZE_INVALID
     else
     bindC (getsC bspHardwareVersion) (\<lambda>g.
     seqC (store_client outPtr g)
     (bindC (bspMethodGetHardwareVersion D os X VLocal) (\<lambda>(ret, v).
      seqC (store_client outPtr v) (returnC ret)))))"

definition get_console_mask_case :: "u32 \<Rightarrow> u32 \<Rightarrow> (('e, 'm, 'z) main_state_scheme, u32) prog" where
  "get_console_mask_case inPtr outPtr =
     bindC (arg_word 0x44 inPtr) (\<lambda>sz.
     if sz \<noteq> 4 then returnC BSP_RVAL_SPECIFIED_SIZE_INVALID
     else bindC bspGetConsoleMask (\<lambda>(ret, v). seqC (store_client outPtr v) (returnC ret)))"

definition get_console_type_case :: "u32 \<Rightarrow> u32 \<Rightarrow> (('e, 'm, 'z) main_state_scheme, u32) prog" where
  "get_console_type_case inPtr outPtr =
     bindC (arg_word 0x44 inPtr) (\<lambda>sz.
     if sz \<noteq> 4 then returnC BSP_RVAL_SPECIFIED_SIZE_INVALID
     else bindC bspGetConsoleType (\<lambda>(ret, v). seqC (store_client outPtr v) (returnC ret)))"

definition method_query_case ::
  "('m, ('e, 'm, 'z) main_state_scheme) dispatch \<Rightarrow> u32 \<Rightarrow> u32 \<Rightarrow> u32 \<Rightarrow> (('e, 'm, 'z) main_state_scheme, u32) prog" where
  "method_query_case D fd inPtr outPtr =
     with_target inPtr (\<lambda>entityName instance attributeName.
     bindC (arg_word 0x44 inPtr) (\<lambda>sz.
     bindC (client_ptr outPtr) (\<lambda>out.
     bindC (fd_perms fd) (\<lambda>perms.
     bindC (bspMethodQuery D entityName instance attributeName sz out perms) (\<lambda>(ret, out').
     seqC (put_client outPtr out') (returnC ret))))))"

definition method_read_case ::
  "('m, ('e, 'm, 'z) main_state_scheme) dispatch \<Rightarrow> u32 \<Rightarrow> u32 \<Rightarrow> u32 \<Rightarrow> (('e, 'm, 'z) main_state_scheme, u32) prog" where
  "method_read_case D fd inPtr outPtr =
     with_target inPtr (\<lambda>entityName instance attributeName.
     bindC (arg_word 0x44 inPtr) (\<lambda>sz.
     bindC (client_ptr outPtr) (\<lambda>out.
     bindC (fd_perms fd) (\<lambda>perms.
     bindC (bspMethodRead D entityName instance attributeName sz out perms) (\<lambda>(ret, out').
     seqC (put_client outPtr out') (returnC ret))))))"

definition method_write_case ::
  "('m, ('e, 'm, 'z) main_state_scheme) dispatch \<Rightarrow> u32 \<Rightarrow> u32 \<Rightarrow> (('e, 'm, 'z) main_state_scheme, u32) prog" where
  "method_write_case D fd inPtr =
     with_target inPtr (\<lambda>entityName instance attributeName.
     bindC (arg_word 0x44 inPtr) (\<lambda>sz.
     bindC (arg_bytes 0x48 inPtr) (\<lambda>inData.
     bindC (fd_perms fd) (\<lambda>perms.
     bspMethodWrite D entityName instance attributeName sz (Buf inData) perms))))"

definition method_init_case ::
  "('m, ('e, 'm, 'z) main_state_scheme) dispatch \<Rightarrow> u32 \<Rightarrow> u32 \<Rightarrow> (('e, 'm, 'z) main_state_scheme, u32) prog" where
  "method_init_case D fd inPtr =
     with_target inPtr (\<lambda>entityName instance attributeName.
     bindC (arg_word 0x44 inPtr) (\<lambda>sz.
     bindC (arg_bytes 0x48 inPtr) (\<lambda>inData.
     bindC (fd_perms fd) (\<lambda>perms.
     bspMethodInit D entityName instance attributeName sz (Buf inData) perms))))"

definition method_shutdown_case ::
  "('m, ('e, 'm, 'z) main_state_scheme) dispatch \<Rightarrow> u32 \<Rightarrow> u32 \<Rightarrow> (('e, 'm, 'z) main_state_scheme, u32) prog" where
  "method_shutdown_case D fd inPtr =
     with_target inPtr (\<lambda>entityName instance attributeName.
     bindC (fd_perms fd) (\<lambda>perms.
     bspMethodShutdown D entityName instance attributeName perms))"

text \<open>The cases of the switch in their order, numbered from 1.\<close>

definition ioctl_cases ::
  "('m, ('e, 'm, 'z) main_state_scheme) dispatch \<Rightarrow> (('e, 'm, 'z) main_state_scheme) ios \<Rightarrow>
   ('m, ('e, 'm, 'z) main_state_scheme) bsp_ext \<Rightarrow> u32 \<Rightarrow> u32 \<Rightarrow> u32 \<Rightarrow>
   (('e, 'm, 'z) main_state_scheme, u32) prog list" where
  "ioctl_cases D os X fd inPtr outPtr =
     [get_entity_version_case inPtr outPtr, get_hardware_version_case D os X inPtr outPtr,
      get_console_mask_case inPtr outPtr, method_query_case D fd inPtr outPtr,
      method_read_case D fd inPtr outPtr, method_write_case D fd inPtr, method_init_case D fd inPtr,
      method_shutdown_case D fd inPtr, get_console_type_case inPtr outPtr]"

primrec fall_through :: "('s, u32) prog list \<Rightarrow> ('s, unit) prog" where
  "fall_through [] = returnC ()"
| "fall_through (c # cs) = seqC c (fall_through cs)"

definition bsp_ioctl ::
  "('m, ('e, 'm, 'z) main_state_scheme) dispatch \<Rightarrow> (('e, 'm, 'z) main_state_scheme) ios \<Rightarrow>
   ('m, ('e, 'm, 'z) main_state_scheme) bsp_ext \<Rightarrow> u32 \<Rightarrow> u32 \<Rightarrow> u32 \<Rightarrow> u32 \<Rightarrow>
   (('e, 'm, 'z) main_state_scheme, u32) prog" where
  "bsp_ioctl D os X fd cmd inPtr outPtr =
     seqC (if BSP_IOCTL_GET_ENTITY_VERSION \<le> cmd \<and> cmd \<le> BSP_IOCTL_GET_CONSOLE_TYPE
           then fall_through (drop (unat cmd - 1) (ioctl_cases D os X fd inPtr outPtr))
           else returnC ())
     (returnC IOS_ERROR_INVALID)"

section \<open>Messages\<close>

text \<open>\<^verbatim>\<open>fd > 0x1F || !bsp_fdtable[fd].active\<close>, negated; \<^verbatim>\<open>fd\<close> is signed.\<close>

definition fd_usable :: "u32 \<Rightarrow> (('e, 'm, 'z) main_state_scheme, bool) prog" where
  "fd_usable fd =
     (if sint fd > 0x1F then returnC False
      else if neg32 fd then failC OutOfBounds
      else bindC (getsC bsp_fdtable) (\<lambda>t.
           bindC (liftC (read_at t (unat fd))) (\<lambda>e. returnC (fd_active e))))"

definition fd_zero :: fd_t where
  "fd_zero = \<lparr>fd_active = False, fd_permissions = 0\<rparr>"

text \<open>The search of \<^verbatim>\<open>IOS_OPEN\<close>, over the entries from \<^verbatim>\<open>fd\<close> on.\<close>

primrec open_loop :: "u32 \<Rightarrow> fd_t list \<Rightarrow> fd_t list" where
  "open_loop perms [] = []"
| "open_loop perms (e # es) =
     (if \<not> fd_active e then e\<lparr>fd_active := True, fd_permissions := perms\<rparr> # es
      else e # open_loop perms es)"

definition handle_message ::
  "('m, ('e, 'm, 'z) main_state_scheme) dispatch \<Rightarrow> (('e, 'm, 'z) main_state_scheme) ios \<Rightarrow>
   ('m, ('e, 'm, 'z) main_state_scheme) bsp_ext \<Rightarrow> ios_message \<Rightarrow> u32 option \<Rightarrow>
   (('e, 'm, 'z) main_state_scheme, u32 option) prog" where
  "handle_message D os X msg result =
     (let cmd = bswap32 (m_command msg); fd = bswap32 (m_clientFD msg)
      in if cmd = IOS_CLOSE
         then bindC (fd_usable fd) (\<lambda>usable.
              if \<not> usable then returnC (Some IOS_ERROR_NOEXISTS)
              else seqC (modifyC (\<lambda>s. s\<lparr>bsp_fdtable := (bsp_fdtable s)[unat fd := fd_zero]\<rparr>)) (returnC result))
         else if cmd = IOS_IOCTL
         then bindC (fd_usable fd) (\<lambda>usable.
              if \<not> usable then returnC (Some IOS_ERROR_NOEXISTS)
              else bindC (bsp_ioctl D os X fd (bswap32 (m_arg0 msg)) (bswap32 (m_arg1 msg)) (bswap32 (m_arg3 msg)))
                     (\<lambda>ret. returnC (Some ret)))
         else if cmd = IOS_OPEN
         then seqC (modifyC (\<lambda>s. s\<lparr>bsp_fdtable := open_loop (bswap32 (m_arg4 msg)) (bsp_fdtable s)\<rparr>)) (returnC result)
         else returnC (Some IOS_ERROR_INVALID))"

text \<open>The label \<^verbatim>\<open>reply\<close>.\<close>

definition serve_message ::
  "('m, ('e, 'm, 'z) main_state_scheme) dispatch \<Rightarrow> (('e, 'm, 'z) main_state_scheme) ios \<Rightarrow>
   (('e, 'm, 'z) main_state_scheme) rm_ios \<Rightarrow> ('m, ('e, 'm, 'z) main_state_scheme) bsp_ext \<Rightarrow>
   ios_message \<Rightarrow> u32 option \<Rightarrow> (('e, 'm, 'z) main_state_scheme, u32) prog" where
  "serve_message D os R X msg result =
     bindC (handle_message D os X msg result) (\<lambda>result'.
     case result' of
       None \<Rightarrow> failC Uninitialised
     | Some r \<Rightarrow> seqC (IOS_ResourceReply R msg r) (returnC r))"

partial_function (option) message_loop ::
  "('m, ('e, 'm, 'z) main_state_scheme) dispatch \<Rightarrow> (('e, 'm, 'z) main_state_scheme) ios \<Rightarrow>
   (('e, 'm, 'z) main_state_scheme) rm_ios \<Rightarrow> ('m, ('e, 'm, 'z) main_state_scheme) bsp_ext \<Rightarrow>
   u32 option \<Rightarrow> ('e, 'm, 'z) main_state_scheme \<Rightarrow> (fault + unit \<times> ('e, 'm, 'z) main_state_scheme) option" where
  "message_loop D os R X result s =
     (case IOS_ReceiveMessage R (devbsp_msgqueue_id s) s of
        Inl e \<Rightarrow> Some (Inl e)
      | Inr ((ret, msg), s1) \<Rightarrow>
          if ret \<noteq> 0 then Some (Inr ((), s1))
          else case serve_message D os R X msg result s1 of
                 Inl e \<Rightarrow> Some (Inl e)
               | Inr (r, s2) \<Rightarrow> message_loop D os R X (Some r) s2)"

section \<open>Start-up\<close>

definition hello ::
  "(('e, 'm, 'z) main_state_scheme) ios \<Rightarrow> (('e, 'm, 'z) main_state_scheme) rm_ios \<Rightarrow>
   (('e, 'm, 'z) main_state_scheme, unit) prog" where
  "hello os R =
     bindC (IOS_GetCurrentProcessId os) (\<lambda>process.
     bindC (IOS_GetProcessName R process (lit ''error'')) (\<lambda>(_, name).
     seqC (returnC (printf (lit ''%s: Built %s, Image Utilization %d%%.\<newline>'')
                      (name, lit ''07/28/15 19:23:58'', 0x25 :: u32)))
     (returnC ())))"

text \<open>The label \<^verbatim>\<open>report_err\<close>.\<close>

definition report_err ::
  "(('e, 'm, 'z) main_state_scheme) ios \<Rightarrow> u32 \<Rightarrow> u32 \<Rightarrow> (('e, 'm, 'z) main_state_scheme, unit) prog" where
  "report_err os ioserr bsperr =
     bindC (getsC main_log_fd) (\<lambda>h.
     log_fatal os h (lit ''main'') (lit ''bsp_main.c'') 0x97
       (lit ''main() is exiting, ioserr %d, bsp err 0x%x\<newline>'') (ioserr, bsperr))"

definition bsp_main ::
  "('m, ('e, 'm, 'z) main_state_scheme) dispatch \<Rightarrow> (('e, 'm, 'z) main_state_scheme) ios \<Rightarrow>
   (('e, 'm, 'z) main_state_scheme) rm_ios \<Rightarrow> ('m, ('e, 'm, 'z) main_state_scheme) bsp_ext \<Rightarrow>
   (('e, 'm, 'z) main_state_scheme, unit) prog" where
  "bsp_main D os R X =
     seqC (hello os R)
     (bindC (IOS_CreateCrossProcessHeap R 0x10000) (\<lambda>ret.
      if neg32 ret
      then seqC (returnC (printf (lit ''BSP: IOS_CreateCrossProcessHeap ERROR, rval = %d\<newline>'') ret)) (returnC ())
      else
      seqC (modifyC (\<lambda>s. s\<lparr>bsp_fdtable := replicate 32 fd_zero\<rparr>))
      (bindC (IOS_CreateMessageQueue os 0x40) (\<lambda>q.
       seqC (modifyC (\<lambda>s. s\<lparr>devbsp_msgqueue_id := q\<rparr>))
       (if neg32 q then report_err os q 0
        else
        bindC (IOS_RegisterResourceManager R (lit ''/dev/bsp'') q) (\<lambda>ret.
        if ret \<noteq> IOS_ERROR_OK then report_err os ret 0
        else
        bindC (IOS_DeviceAssosciate R (lit ''/dev/bsp'') 1) (\<lambda>ret.
        if ret \<noteq> IOS_ERROR_OK then report_err os ret 0
        else
        bindC (bspInstall D os X) (\<lambda>ret.
        if ret \<noteq> 0 then report_err os 0 ret
        else
        seqC (IOS_SetBSPReady R)
        (seqC (\<lambda>s. case message_loop D os R X None s of
                      None \<Rightarrow> Inl NoReturn
                    | Some r \<Rightarrow> r)
         (report_err os 0 0)))))))))) "

section \<open>The descriptor table\<close>

definition fd_claim :: "u32 \<Rightarrow> fd_t \<Rightarrow> fd_t" where
  "fd_claim perms e = e\<lparr>fd_active := True, fd_permissions := perms\<rparr>"

interpretation fd_table: slot_table fd_active "free_slot fd_active" fd_claim "\<lambda>_. fd_zero"
  by unfold_locales (auto simp: free_slot_None fd_claim_def fd_zero_def dest: free_slot_Some)

lemma open_loop_slot:
  "open_loop perms t =
     (case free_slot fd_active t of None \<Rightarrow> t | Some i \<Rightarrow> t[i := fd_claim perms (t ! i)])"
  by (induction t) (auto simp: fd_claim_def split: option.splits)

lemma length_open_loop [simp]: "length (open_loop perms t) = length t"
  by (simp add: open_loop_slot split: option.splits)

text \<open>What a client can know of the table: the credentials behind each open descriptor.\<close>

definition fd_abs :: "fd_t list \<Rightarrow> nat \<rightharpoonup> u32" where
  "fd_abs t i = (if i < length t \<and> fd_active (t ! i) then Some (fd_permissions (t ! i)) else None)"

text \<open>The abstract table: opening binds the lowest free number below 32, closing unbinds.\<close>

definition spec_open :: "u32 \<Rightarrow> (nat \<rightharpoonup> u32) \<Rightarrow> nat \<rightharpoonup> u32" where
  "spec_open perms m =
     (case find (\<lambda>i. m i = None) [0..<32] of None \<Rightarrow> m | Some i \<Rightarrow> m(i \<mapsto> perms))"

definition spec_message :: "ios_message \<Rightarrow> (nat \<rightharpoonup> u32) \<Rightarrow> nat \<rightharpoonup> u32" where
  "spec_message msg m =
     (if bswap32 (m_command msg) = IOS_CLOSE then m(unat (bswap32 (m_clientFD msg)) := None)
      else if bswap32 (m_command msg) = IOS_OPEN then spec_open (bswap32 (m_arg4 msg)) m
      else m)"

lemma free_slot_find:
  "length t = n \<Longrightarrow> free_slot fd_active t = find (\<lambda>i. fd_abs t i = None) [0..<n]"
proof (cases "free_slot fd_active t")
  case None
  assume n: "length t = n"
  with None have "\<forall>i<n. fd_active (t ! i)" using fd_table.pick_None [of t] by (simp add: all_set_conv_all_nth)
  then show ?thesis using None n by (auto simp: find_None_iff2 fd_abs_def)
next
  case (Some i)
  assume n: "length t = n"
  have i: "i < n" "\<not> fd_active (t ! i)" "\<forall>j<i. fd_active (t ! j)"
    using fd_table.pick_Some [OF Some] n by auto
  then have "find (\<lambda>i. fd_abs t i = None) [0..<n] = Some i"
    using n by (auto simp: find_Some_iff fd_abs_def intro!: exI [of _ i])
  then show ?thesis using Some by simp
qed

lemma fd_abs_update:
  "i < length t \<Longrightarrow> fd_abs (t[i := e]) = (fd_abs t)(i := if fd_active e then Some (fd_permissions e) else None)"
  by (auto simp: fd_abs_def fun_eq_iff nth_list_update)

lemma open_refines: "length t = 32 \<Longrightarrow> fd_abs (open_loop perms t) = spec_open perms (fd_abs t)"
  using free_slot_find [of t 32] fd_table.pick_Some [of t]
  by (auto simp: open_loop_slot spec_open_def fd_abs_update fd_claim_def split: option.splits)

lemma unat_of_nonneg: "\<not> neg32 fd \<Longrightarrow> int (unat fd) = sint fd" for fd :: u32
  using uint_sint [of fd] sint_lt [of fd] by (simp add: neg32_def take_bit_int_eq_self)

lemma fd_usable_run:
  assumes "length (bsp_fdtable s) = 32" "fd_usable fd s = Inr (u, s')"
  shows "s' = s \<and> (u \<longleftrightarrow> fd_abs (bsp_fdtable s) (unat fd) \<noteq> None) \<and> (u \<longrightarrow> unat fd < 32)"
proof -
  have "sint fd > 31 \<Longrightarrow> unat fd \<ge> 32"
    using unat_of_nonneg [of fd] by (auto simp: neg32_def simp del: int_nat_eq of_nat_unat)
  then show ?thesis
    using assms by (auto simp: fd_usable_def prog_simps fd_abs_def read_at_def split: if_splits sum.splits)
qed

section \<open>Frames of the request handlers\<close>

lemma frame_fdtable:
  assumes "dispatch_keeps bsp_fdtable D" "ios_keeps bsp_fdtable os" "ext_keeps bsp_fdtable X"
  shows "frame (bsp_fdtable :: ('e, 'm, 'z) main_state_scheme \<Rightarrow> _) D os X"
  using assms by unfold_locales auto

lemma keeps_client:
  assumes "\<And>s v. f (s\<lparr>client_mem := v\<rparr>) = f s"
  shows "keeps f (client_ptr a)" "keeps f (put_client a p)"
  using assms by (auto simp: client_ptr_def put_client_def intro!: keeps_intros split: cptr.splits)

lemma keeps_args:
  assumes "\<And>s v. f (s\<lparr>client_mem := v\<rparr>) = f s"
  shows "keeps f (arg_word off a)" "keeps f (arg_bytes off a)" "keeps f (store_client a v)" "keeps f (fd_perms fd)"
  by (auto simp: arg_word_def arg_bytes_def store_client_def fd_perms_def intro!: keeps_intros keeps_client [OF assms])

lemma keeps_with_target:
  assumes "\<And>s v. f (s\<lparr>client_mem := v\<rparr>) = f s" "\<And>e i a. keeps f (k e i a)"
  shows "keeps f (with_target inPtr k)"
  using assms(2) by (auto simp: with_target_def intro!: keeps_intros keeps_args [OF assms(1)])

lemma keeps_fall_through: "list_all (keeps f) cs \<Longrightarrow> keeps f (fall_through cs)"
  by (induction cs) (auto intro!: keeps_intros)

lemmas case_defs = get_entity_version_case_def get_hardware_version_case_def get_console_mask_case_def
  method_query_case_def method_read_case_def method_write_case_def method_init_case_def
  method_shutdown_case_def get_console_type_case_def

lemma ioctl_keeps:
  fixes f :: "('e, 'm, 'z) main_state_scheme \<Rightarrow> 'b"
  assumes fr: "frame f D os X" and mem: "\<And>s v. f (s\<lparr>client_mem := v\<rparr>) = f s"
  shows "keeps f (bsp_ioctl D os X fd cmd inPtr outPtr)"
proof -
  note [keeps_intros] = frame.requests [OF fr] frame.request_init [OF fr] frame.hardware_version [OF fr]
    frame.console [OF fr] keeps_client [OF mem] keeps_args [OF mem] keeps_with_target [OF mem]
  have "list_all (keeps f) (ioctl_cases D os X fd inPtr outPtr)"
    unfolding ioctl_cases_def by (simp add: case_defs) (intro conjI; intro keeps_intros)
  then have "list_all (keeps f) (drop n (ioctl_cases D os X fd inPtr outPtr))" for n
    by (auto simp: list_all_iff dest: in_set_dropD)
  then show ?thesis
    unfolding bsp_ioctl_def by (intro keeps_intros keeps_fall_through)
qed

text \<open>A part of the state apart from the entries of the descriptor table and client memory.\<close>

lemma serve_keeps:
  fixes f :: "('e, 'm, 'z) main_state_scheme \<Rightarrow> 'b"
  assumes fr: "frame f D os X" and reply: "\<And>msg r. keeps f (IOS_ResourceReply R msg r)"
    and mem: "\<And>s v. f (s\<lparr>client_mem := v\<rparr>) = f s"
    and table: "\<And>s v. length v = length (bsp_fdtable s) \<Longrightarrow> f (s\<lparr>bsp_fdtable := v\<rparr>) = f s"
  shows "keeps f (serve_message D os R X msg r)"
proof -
  have "keeps f (fd_usable fd)" for fd by (auto simp: fd_usable_def intro!: keeps_intros)
  then have "keeps f (handle_message D os X msg r)"
    by (auto simp: handle_message_def Let_def table intro!: keeps_intros ioctl_keeps [OF fr mem])
  then show ?thesis by (auto simp: serve_message_def reply intro!: keeps_intros)
qed

lemma fdtable_mem: "bsp_fdtable (s\<lparr>client_mem := v\<rparr>) = bsp_fdtable s"
  by simp

lemma handle_refines:
  assumes fr: "frame (bsp_fdtable :: ('e, 'm, 'z) main_state_scheme \<Rightarrow> _) D os X"
    and len: "length (bsp_fdtable s) = 32" and run: "handle_message D os X msg r s = Inr (r', s')"
  shows "length (bsp_fdtable s') = 32 \<and> fd_abs (bsp_fdtable s') = spec_message msg (fd_abs (bsp_fdtable s))"
proof -
  note ioctl = keepsD [OF ioctl_keeps [OF fr fdtable_mem]]
  let ?fd = "bswap32 (m_clientFD msg)"
  consider (cl) "bswap32 (m_command msg) = IOS_CLOSE" | (io) "bswap32 (m_command msg) = IOS_IOCTL"
    | (op) "bswap32 (m_command msg) = IOS_OPEN"
    | (other) "bswap32 (m_command msg) \<notin> {IOS_CLOSE, IOS_IOCTL, IOS_OPEN}" by blast
  then show ?thesis
  proof cases
    case cl
    with run obtain u s1 where u: "fd_usable ?fd s = Inr (u, s1)"
      by (auto simp: handle_message_def Let_def elim!: bindC_InrE)
    from fd_usable_run [OF len u] cl run u len show ?thesis
      by (cases u) (auto simp: handle_message_def Let_def spec_message_def prog_simps fd_abs_update fd_zero_def)
  next
    case io
    with run obtain u s1 where u: "fd_usable ?fd s = Inr (u, s1)"
      by (auto simp: handle_message_def Let_def elim!: bindC_InrE)
    from fd_usable_run [OF len u] io run u len show ?thesis
      by (cases u) (auto simp: handle_message_def Let_def spec_message_def bindC_def returnC_def
          dest: ioctl split: sum.splits)
  next
    case op
    then show ?thesis
      using run len open_refines [OF len]
      by (auto simp: handle_message_def spec_message_def Let_def seqC_def modifyC_def returnC_def bindC_def)
  next
    case other
    then show ?thesis using run len by (auto simp: handle_message_def spec_message_def returnC_def)
  qed
qed

section \<open>The message loop as a transition system\<close>

text \<open>
  A run of the loop: the messages with the replies they got, from a value of \<^verbatim>\<open>result\<close> and a state
  to another.
\<close>

inductive served for D os R X where
  served_nil: "served D os R X (r, s) [] (r, s)"
| served_cons: "IOS_ReceiveMessage R (devbsp_msgqueue_id s) s = Inr ((0, msg), s1) \<Longrightarrow>
    serve_message D os R X msg r s1 = Inr (v, s2) \<Longrightarrow>
    served D os R X (Some v, s2) tr c \<Longrightarrow>
    served D os R X (r, s) ((msg, v) # tr) c"

inductive_cases served_nilE: "served D os R X c [] c'"
inductive_cases served_consE: "served D os R X c (x # tr) c'"

lemma served_invariant:
  assumes "served D os R X (r, s) tr (r', s')" "I s"
    and "\<And>s ret msg s1. IOS_ReceiveMessage R (devbsp_msgqueue_id s) s = Inr ((ret, msg), s1) \<Longrightarrow> I s \<Longrightarrow> I s1"
    and "\<And>r s msg v s1. serve_message D os R X msg r s = Inr (v, s1) \<Longrightarrow> I s \<Longrightarrow> I s1"
  shows "I s'"
  using assms(1,2)
proof (induction "(r, s)" tr "(r', s')" arbitrary: r s rule: served.induct)
  case (served_cons s msg s1 r v s2 tr)
  then show ?case using assms(3,4) by blast
qed

definition rm_keeps :: "('s \<Rightarrow> 'b) \<Rightarrow> 's rm_ios \<Rightarrow> bool" where
  "rm_keeps f R \<longleftrightarrow> (\<forall>q. keeps f (IOS_ReceiveMessage R q)) \<and> (\<forall>msg r. keeps f (IOS_ResourceReply R msg r))"

lemma serve_refines:
  assumes fr: "frame (bsp_fdtable :: ('e, 'm, 'z) main_state_scheme \<Rightarrow> _) D os X"
    and R: "rm_keeps bsp_fdtable R"
    and len: "length (bsp_fdtable s) = 32" and run: "serve_message D os R X msg r s = Inr (v, s')"
  shows "length (bsp_fdtable s') = 32 \<and> fd_abs (bsp_fdtable s') = spec_message msg (fd_abs (bsp_fdtable s))"
proof -
  obtain r' s1 where h: "handle_message D os X msg r s = Inr (r', s1)"
      and k: "(case r' of None \<Rightarrow> failC Uninitialised | Some r \<Rightarrow> seqC (IOS_ResourceReply R msg r) (returnC r)) s1 =
        Inr (v, s')"
    using run by (auto simp: serve_message_def elim!: bindC_InrE)
  have "keeps bsp_fdtable (case r' of None \<Rightarrow> failC Uninitialised
      | Some r \<Rightarrow> seqC (IOS_ResourceReply R msg r) (returnC r))"
    using R by (auto simp: rm_keeps_def intro!: keeps_intros)
  from keepsD [OF this k] handle_refines [OF fr len h] show ?thesis by simp
qed

lemma served_refines:
  assumes fr: "frame (bsp_fdtable :: ('e, 'm, 'z) main_state_scheme \<Rightarrow> _) D os X"
    and R: "rm_keeps bsp_fdtable R"
    and "served D os R X (r, s) tr (r', s')" "length (bsp_fdtable s) = 32"
  shows "length (bsp_fdtable s') = 32 \<and>
     fd_abs (bsp_fdtable s') = fold spec_message (map fst tr) (fd_abs (bsp_fdtable s))"
  using assms(3,4)
proof (induction "(r, s)" tr "(r', s')" arbitrary: r s rule: served.induct)
  case (served_cons s msg s1 r v s2 tr)
  have "bsp_fdtable s1 = bsp_fdtable s"
    using R served_cons.hyps(1) by (auto simp: rm_keeps_def dest: keepsD)
  with serve_refines [OF fr R _ served_cons.hyps(2)] served_cons show ?case by simp
qed simp

text \<open>The loop returns exactly when some run ends in a state where the kernel gives no message.\<close>

lemma served_loop:
  assumes "served D os R X (r, s) tr (r', s')"
  shows "message_loop D os R X r s = message_loop D os R X r' s'"
  using assms
proof (induction "(r, s)" tr "(r', s')" arbitrary: r s rule: served.induct)
  case (served_cons s msg s1 r v s2 tr)
  then show ?case by (subst message_loop.simps) simp
qed simp

lemma message_loop_served:
  assumes "message_loop D os R X r s = Some (Inr ((), s'))"
  shows "\<exists>tr r' s1 ret msg. served D os R X (r, s) tr (r', s1) \<and>
     IOS_ReceiveMessage R (devbsp_msgqueue_id s1) s1 = Inr ((ret, msg), s') \<and> ret \<noteq> 0"
proof -
  have "\<forall>s'. x = Inr ((), s') \<longrightarrow> (\<exists>tr r' s1 ret msg. served D os R X (r, s) tr (r', s1) \<and>
     IOS_ReceiveMessage R (devbsp_msgqueue_id s1) s1 = Inr ((ret, msg), s') \<and> ret \<noteq> 0)"
    if "message_loop D os R X r s = Some x" for x
  proof (rule message_loop.raw_induct [OF _ that], goal_cases)
    case (1 g D os R X r s x)
    show ?case
    proof (intro allI impI)
      fix s' assume x: "x = Inr ((), s')"
      with 1(2) consider
          (stop) ret msg where "IOS_ReceiveMessage R (devbsp_msgqueue_id s) s = Inr ((ret, msg), s')" "ret \<noteq> 0"
        | (go) msg s1 v s2 where "IOS_ReceiveMessage R (devbsp_msgqueue_id s) s = Inr ((0, msg), s1)"
            "serve_message D os R X msg r s1 = Inr (v, s2)" "g D os R X (Some v) s2 = Some (Inr ((), s'))"
        by (auto split: sum.splits if_splits)
      then show "\<exists>tr r' s1 ret msg. served D os R X (r, s) tr (r', s1) \<and>
          IOS_ReceiveMessage R (devbsp_msgqueue_id s1) s1 = Inr ((ret, msg), s') \<and> ret \<noteq> 0"
      proof cases
        case stop
        then show ?thesis by (blast intro: served_nil)
      next
        case go
        then obtain tr r' s3 ret msg' where "served D os R X (Some v, s2) tr (r', s3)"
            "IOS_ReceiveMessage R (devbsp_msgqueue_id s3) s3 = Inr ((ret, msg'), s')" "ret \<noteq> 0"
          using 1(1) [OF go(3)] by blast
        then show ?thesis using served_cons [OF go(1,2)] by blast
      qed
    qed
  qed
  with assms show ?thesis by blast
qed

end
