(* ===== verification/Server_Requests.thy ===== *)
theory Server_Requests
  imports Server
begin

text \<open>
  What the server promises its clients: the descriptor table follows its abstract specification over
  whole runs, requests on closed descriptors and refused requests change nothing, every answered
  request is answered as invalid, and how \<^verbatim>\<open>main\<close> ends.
\<close>

section \<open>Argument blocks\<close>

text \<open>A block of client memory that holds a complete \<^verbatim>\<open>BSP_IOCTL_METHOD\<close> header.\<close>

definition arg_block :: "('e, 'm, 'z) main_state_scheme \<Rightarrow> u32 \<Rightarrow> bytes \<Rightarrow> bool" where
  "arg_block s inPtr b \<longleftrightarrow> inPtr \<noteq> 0 \<and> client_mem s inPtr = Some b \<and> 0x48 \<le> length b"

definition blk_entity :: "bytes \<Rightarrow> bytes" where
  "blk_entity b = take 32 b"

definition blk_instance :: "bytes \<Rightarrow> u32" where
  "blk_instance b = bswap32 (dec32 (take 4 (drop 0x20 b)))"

definition blk_attribute :: "bytes \<Rightarrow> bytes" where
  "blk_attribute b = take 32 (drop 0x24 b)"

definition blk_size :: "bytes \<Rightarrow> u32" where
  "blk_size b = bswap32 (dec32 (take 4 (drop 0x44 b)))"

lemma client_ptr_run:
  "client_ptr a s = Inr (if a = 0 then Null else case client_mem s a of None \<Rightarrow> Addr a | Some b \<Rightarrow> Buf b, s)"
  by (simp add: client_ptr_def getsC_def)

lemma arg_word_run:
  "arg_block s inPtr b \<Longrightarrow> off + 4 \<le> 0x48 \<Longrightarrow>
   arg_word off inPtr s = Inr (bswap32 (dec32 (take 4 (drop off b))), s)"
  by (simp add: arg_word_def arg_block_def client_ptr_run prog_simps)

lemma arg_bytes_run: "arg_block s inPtr b \<Longrightarrow> arg_bytes off inPtr s = Inr (drop off b, s)"
  by (simp add: arg_bytes_def arg_block_def client_ptr_run prog_simps)

lemma with_target_run:
  "arg_block s inPtr b \<Longrightarrow>
   with_target inPtr k s = k (blk_entity b) (blk_instance b) (blk_attribute b) s"
  by (simp add: with_target_def bindC_def arg_word_run arg_bytes_run blk_entity_def blk_instance_def
      blk_attribute_def)

lemma size_run: "arg_block s inPtr b \<Longrightarrow> arg_word 0x44 inPtr s = Inr (blk_size b, s)"
  by (simp add: arg_word_run blk_size_def)

lemmas block_runs = with_target_run size_run arg_bytes_run

lemma fd_perms_run:
  "fd_abs (bsp_fdtable s) (unat fd) = Some c \<Longrightarrow> fd_perms fd s = Inr (c, s)"
  by (auto simp: fd_perms_def prog_simps fd_abs_def split: if_splits)

lemma put_client_same:
  "put_client a (if a = 0 then Null else case client_mem s a of None \<Rightarrow> Addr a | Some b \<Rightarrow> Buf b) s = Inr ((), s)"
  by (auto simp: put_client_def prog_simps fun_upd_idem split: option.splits)

section \<open>Refused requests\<close>

text \<open>The credentials reach the named attribute with none of the five commands.\<close>

definition unreachable :: "('e, 'm, 'z) ent_state_scheme \<Rightarrow> bytes \<Rightarrow> u32 \<Rightarrow> bool" where
  "unreachable s b cred \<longleftrightarrow> answerable s (blk_entity b) (blk_instance b) (blk_attribute b) \<and>
     (\<forall>cmd a. method_command cmd \<longrightarrow>
        \<not> reaches (registered s) (blk_entity b) (blk_instance b) (blk_attribute b) cred cmd a)"

lemma unreachable_request:
  assumes "unreachable s b cred" "method_command cmd"
  shows "\<exists>ret. request D cmd (blk_entity b) (blk_instance b) (blk_attribute b) sz p cred s = Inr ((ret, p), s)"
proof -
  have "answerable s (blk_entity b) (blk_instance b) (blk_attribute b)"
    and "\<And>a. \<not> reaches (registered s) (blk_entity b) (blk_instance b) (blk_attribute b) cred cmd a"
    using assms by (auto simp: unreachable_def)
  from request_refused [OF this(1) assms(2) this(2)] show ?thesis by blast
qed

lemma unreachable_methods:
  assumes "unreachable s b cred"
  shows "\<exists>r. bspMethodQuery D (blk_entity b) (blk_instance b) (blk_attribute b) sz p cred s = Inr ((r, p), s)"
    "\<exists>r. bspMethodRead D (blk_entity b) (blk_instance b) (blk_attribute b) sz p cred s = Inr ((r, p), s)"
    "\<exists>r. bspMethodWrite D (blk_entity b) (blk_instance b) (blk_attribute b) sz p cred s = Inr (r, s)"
    "\<exists>r. bspMethodInit D (blk_entity b) (blk_instance b) (blk_attribute b) sz p cred s = Inr (r, s)"
    "\<exists>r. bspMethodShutdown D (blk_entity b) (blk_instance b) (blk_attribute b) cred s = Inr (r, s)"
  using unreachable_request [OF assms, of BSP_IOCTL_METHOD_QUERY D sz p]
    unreachable_request [OF assms, of BSP_IOCTL_METHOD_READ D sz p]
    unreachable_request [OF assms, of BSP_IOCTL_METHOD_WRITE D sz p]
    unreachable_request [OF assms, of BSP_IOCTL_METHOD_INIT D sz p]
    unreachable_request [OF assms, of BSP_IOCTL_METHOD_SHUTDOWN D sz p]
  by (auto simp: method_command_def request_def bindC_def returnC_def split: sum.splits)

definition idle :: "('s, 'a) prog \<Rightarrow> 's \<Rightarrow> bool" where
  "idle m s \<longleftrightarrow> (\<exists>a. m s = Inr (a, s))"

lemma seqC_idle: "idle m s \<Longrightarrow> seqC m n s = n s"
  by (auto simp: idle_def seqC_def bindC_def)

lemma seqC_assoc: "seqC (seqC a b) c = seqC a (seqC b c)"
  by (simp add: seqC_def bindC_assoc)

lemma seqC_returnC: "seqC (returnC a) n = n"
  by (simp add: seqC_def)

lemma seqC_step:
  "m s = m' s \<Longrightarrow> (\<And>a s1. m' s = Inr (a, s1) \<Longrightarrow> n s1 = n' s1) \<Longrightarrow> seqC m n s = seqC m' n' s"
  by (auto simp: seqC_def bindC_def split: sum.splits)

lemma seqC_kept:
  assumes "f s = v" "m s = m' s" "keeps f m'" "\<And>s1. f s1 = v \<Longrightarrow> n s1 = n' s1"
  shows "seqC m n s = seqC m' n' s"
  using assms by (intro seqC_step) (auto dest: keepsD)

lemma refused_cases:
  assumes "arg_block s inPtr b" "fd_abs (bsp_fdtable s) (unat fd) = Some cred" "unreachable s b cred"
  shows "idle (method_query_case D fd inPtr outPtr) s" "idle (method_read_case D fd inPtr outPtr) s"
    "idle (method_write_case D fd inPtr) s" "idle (method_init_case D fd inPtr) s"
    "idle (method_shutdown_case D fd inPtr) s"
proof -
  note run = idle_def case_defs block_runs [OF assms(1)] fd_perms_run [OF assms(2)] bindC_def seqC_def
    returnC_def client_ptr_run
  let ?out = "if outPtr = 0 then Null else case client_mem s outPtr of None \<Rightarrow> Addr outPtr | Some b \<Rightarrow> Buf b"
  let ?in = "Buf (drop 0x48 b)"
  note refused = unreachable_methods [OF assms(3)]
  show "idle (method_query_case D fd inPtr outPtr) s"
    by (rule exE [OF refused(1) [of D "blk_size b" ?out]]) (simp only: run sum.case prod.case put_client_same, blast)
  show "idle (method_read_case D fd inPtr outPtr) s"
    by (rule exE [OF refused(2) [of D "blk_size b" ?out]]) (simp only: run sum.case prod.case put_client_same, blast)
  show "idle (method_write_case D fd inPtr) s"
    by (rule exE [OF refused(3) [of D "blk_size b" ?in]]) (simp add: run)
  show "idle (method_init_case D fd inPtr) s"
    by (rule exE [OF refused(4) [of D "blk_size b" ?in]]) (simp add: run)
  show "idle (method_shutdown_case D fd inPtr) s"
    by (rule exE [OF refused(5) [of D]]) (simp add: run)
qed

text \<open>The last case of the switch, which every request ends in.\<close>

definition console_answer :: "('e, 'm, 'z) main_state_scheme \<Rightarrow> u32 \<Rightarrow> bytes \<Rightarrow> ('e, 'm, 'z) main_state_scheme" where
  "console_answer s outPtr ob =
     s\<lparr>client_mem := (client_mem s)(outPtr \<mapsto>
        (case bspGetConsoleType s of Inr ((_, v), _) \<Rightarrow> enc32 v | Inl _ \<Rightarrow> []) @ drop 4 ob)\<rparr>"

lemma console_type_case_run:
  assumes "arg_block s inPtr b" "outPtr \<noteq> 0" "client_mem s outPtr = Some ob" "4 \<le> length ob"
  shows "\<exists>r. get_console_type_case inPtr outPtr s =
     Inr (r, if blk_size b = 4 then console_answer s outPtr ob else s)"
  using assms
  by (auto simp: get_console_type_case_def size_run [OF assms(1)] bindC_def seqC_def returnC_def
      bspGetConsoleType_def getsC_def store_client_def client_ptr_run liftC_def splice_at_def
      codec32.enc_length put_client_def modifyC_def console_answer_def)

lemma method_number:
  "method_command cmd \<Longrightarrow> BSP_IOCTL_GET_ENTITY_VERSION \<le> cmd \<and> cmd \<le> BSP_IOCTL_GET_CONSOLE_TYPE \<and>
     unat cmd - 1 \<in> {3, 4, 5, 6, 7}"
  by (auto simp: method_command_def)

lemma refused_ioctl:
  assumes blk: "arg_block s inPtr b" and fd: "fd_abs (bsp_fdtable s) (unat fd) = Some cred"
    and un: "unreachable s b cred" and cmd: "method_command cmd"
    and out: "outPtr \<noteq> 0" "client_mem s outPtr = Some ob" "4 \<le> length ob"
  shows "bsp_ioctl D os X fd cmd inPtr outPtr s =
     Inr (IOS_ERROR_INVALID, if blk_size b = 4 then console_answer s outPtr ob else s)"
proof -
  note idle = seqC_idle [OF refused_cases(1) [OF blk fd un]] seqC_idle [OF refused_cases(2) [OF blk fd un]]
    seqC_idle [OF refused_cases(3) [OF blk fd un]] seqC_idle [OF refused_cases(4) [OF blk fd un]]
    seqC_idle [OF refused_cases(5) [OF blk fd un]]
  obtain r where r: "get_console_type_case inPtr outPtr s =
      Inr (r, if blk_size b = 4 then console_answer s outPtr ob else s)"
    using console_type_case_run [OF blk out] by blast
  have "fall_through (drop n (ioctl_cases D os X fd inPtr outPtr)) s =
      Inr ((), if blk_size b = 4 then console_answer s outPtr ob else s)" if "n \<in> {3, 4, 5, 6, 7}" for n
    using that by (auto simp: ioctl_cases_def idle) (simp_all add: seqC_def bindC_def r returnC_def)
  with method_number [OF cmd] have "fall_through (drop (unat cmd - 1) (ioctl_cases D os X fd inPtr outPtr)) s =
      Inr ((), if blk_size b = 4 then console_answer s outPtr ob else s)" by blast
  then show ?thesis
    using method_number [OF cmd] by (simp add: bsp_ioctl_def seqC_def bindC_def returnC_def)
qed

section \<open>Granted requests\<close>

text \<open>What the later cases of the switch read again.\<close>

definition request_view ::
  "('e, 'm, 'z) main_state_scheme \<Rightarrow> (u32 \<Rightarrow> bytes option) \<times> fd_t list \<times> int \<times> 'm bsp_entity option list" where
  "request_view s = (client_mem s, bsp_fdtable s, bspEntityCount s, bspEntityList s)"

lemma same_view:
  assumes "request_view s' = request_view s"
  shows "arg_block s' inPtr b \<longleftrightarrow> arg_block s inPtr b" "bsp_fdtable s' = bsp_fdtable s"
    "registered s' = registered s" "answerable s' nm i anm \<longleftrightarrow> answerable s nm i anm"
  using assms
  by (auto simp: request_view_def arg_block_def registered_def answerable_def registry_wf_def)

text \<open>An argument block on a descriptor that reaches attribute \<open>a\<close> with a command.\<close>

definition grants :: "('e, 'm, 'z) main_state_scheme \<Rightarrow> u32 \<Rightarrow> u32 \<Rightarrow> bytes \<Rightarrow> u32 \<Rightarrow> 'm bsp_attribute \<Rightarrow> bool" where
  "grants s fd inPtr b cmd a \<longleftrightarrow> arg_block s inPtr b \<and> answerable s (blk_entity b) (blk_instance b) (blk_attribute b) \<and>
     (\<exists>cred. fd_abs (bsp_fdtable s) (unat fd) = Some cred \<and>
        reaches (registered s) (blk_entity b) (blk_instance b) (blk_attribute b) cred cmd a)"

lemma same_view_grants:
  "request_view s' = request_view s \<Longrightarrow> grants s' fd inPtr b cmd a \<longleftrightarrow> grants s fd inPtr b cmd a"
  by (simp add: grants_def same_view [of s' s])

lemma granted_cases:
  "grants s fd inPtr b BSP_IOCTL_METHOD_WRITE a \<Longrightarrow> a_writeMethod a = Some m \<Longrightarrow> blk_size b = a_dataSize a \<Longrightarrow>
     method_write_case D fd inPtr s = call_write D m (blk_instance b) a (Buf (drop 0x48 b)) s"
  "grants s fd inPtr b BSP_IOCTL_METHOD_INIT a \<Longrightarrow> a_initMethod a = Some m \<Longrightarrow>
     method_init_case D fd inPtr s = call_init D m (blk_instance b) a (Buf (drop 0x48 b)) (blk_size b) s"
  "grants s fd inPtr b BSP_IOCTL_METHOD_SHUTDOWN a \<Longrightarrow> a_shutdownMethod a = Some m \<Longrightarrow>
     method_shutdown_case D fd inPtr s = call_shutdown D m (blk_instance b) a s"
  by (auto simp: grants_def case_defs bindC_def block_runs fd_perms_run reached_write reached_init reached_shutdown)

lemma odd_size_console:
  "arg_block s inPtr b \<Longrightarrow> blk_size b \<noteq> 4 \<Longrightarrow> idle (get_console_type_case inPtr outPtr) s"
  by (simp add: idle_def get_console_type_case_def bindC_def size_run returnC_def)

section \<open>The end of main\<close>

lemma no_return_bindC:
  "(\<And>a s. \<forall>r. f a s \<noteq> Inr r) \<Longrightarrow> \<forall>r. bindC m f s \<noteq> Inr r"
  by (auto simp: bindC_def split: sum.splits)

lemma log_panic_no_return: "\<forall>r. log_panic os fmt ap s \<noteq> Inr r"
  by (simp add: log_panic_def Let_def seqC_def bindC_def failC_def split: prod.splits sum.splits)

lemma report_err_no_return: "\<forall>r. report_err os ioserr bsperr s \<noteq> Inr r"
  unfolding report_err_def log_fatal_def Let_def seqC_def split_beta
  by (intro no_return_bindC log_panic_no_return)

lemma report_err_end: "report_err os ioserr bsperr s = Inr r \<longleftrightarrow> False"
  using report_err_no_return [of os ioserr bsperr s] by blast

lemma bsp_main_returned:
  assumes "bsp_main D os R X s = Inr ((), s')"
  shows "\<exists>s1 ret. hello os R s = Inr ((), s1) \<and> IOS_CreateCrossProcessHeap R 0x10000 s1 = Inr (ret, s') \<and> neg32 ret"
proof -
  obtain s1 ret s2 where 1: "hello os R s = Inr ((), s1)" "IOS_CreateCrossProcessHeap R 0x10000 s1 = Inr (ret, s2)"
    using assms unfolding bsp_main_def seqC_def by (auto elim!: bindC_InrE)
  then show ?thesis
    using assms
    by (cases "neg32 ret")
      (auto simp: bsp_main_def seqC_def returnC_def report_err_end elim!: bindC_InrE split: if_splits)
qed

section \<open>A server for concrete runs\<close>

text \<open>The kernel holds a queue of messages in the outside world and takes the replies.\<close>

definition rm_bench :: "((ios_message list, 'm, 'z) main_state_scheme) rm_ios" where
  "rm_bench =
     \<lparr>IOS_GetProcessName = (\<lambda>p n. returnC (0, n)), IOS_CreateCrossProcessHeap = (\<lambda>_. returnC (-1)),
      IOS_RegisterResourceManager = (\<lambda>_ _. returnC 0), IOS_DeviceAssosciate = (\<lambda>_ _. returnC 0),
      IOS_SetBSPReady = returnC (),
      IOS_ReceiveMessage = (\<lambda>q s. case env s of
          [] \<Rightarrow> Inr ((1, \<lparr>m_command = 0, m_clientReply = 0, m_clientFD = 0, m_flags = 0, m_clientCPU = 0,
            m_clientPID = 0, m_clientTID = 0, m_serverHandle = 0, m_arg0 = 0, m_arg1 = 0, m_arg2 = 0, m_arg3 = 0,
            m_arg4 = 0, m_prevCommand = 0, m_prevClientFD = 0, m_ppcVirt0 = 0, m_ppcVirt1 = 0\<rparr>), s)
        | m # ms \<Rightarrow> Inr ((0, m), s\<lparr>env := ms\<rparr>)),
      IOS_ResourceReply = (\<lambda>_ _. returnC 0)\<rparr>"

definition msg_bench :: "u32 \<Rightarrow> u32 \<Rightarrow> u32 \<Rightarrow> u32 \<Rightarrow> u32 \<Rightarrow> u32 \<Rightarrow> ios_message" where
  "msg_bench cmd fd a0 a1 a3 a4 =
     \<lparr>m_command = bswap32 cmd, m_clientReply = 0, m_clientFD = bswap32 fd, m_flags = 0, m_clientCPU = 0,
      m_clientPID = 0, m_clientTID = 0, m_serverHandle = 0, m_arg0 = bswap32 a0, m_arg1 = bswap32 a1, m_arg2 = 0,
      m_arg3 = bswap32 a3, m_arg4 = bswap32 a4, m_prevCommand = 0, m_prevClientFD = 0, m_ppcVirt0 = 0,
      m_ppcVirt1 = 0\<rparr>"

lemma msg_bench_fields [simp]:
  "bswap32 (m_command (msg_bench c fd a0 a1 a3 a4)) = c" "bswap32 (m_clientFD (msg_bench c fd a0 a1 a3 a4)) = fd"
  "bswap32 (m_arg0 (msg_bench c fd a0 a1 a3 a4)) = a0" "bswap32 (m_arg1 (msg_bench c fd a0 a1 a3 a4)) = a1"
  "bswap32 (m_arg3 (msg_bench c fd a0 a1 a3 a4)) = a3" "bswap32 (m_arg4 (msg_bench c fd a0 a1 a3 a4)) = a4"
  by (simp_all add: msg_bench_def bswap32_involutive)

text \<open>The registry of the entity theory's example, one open descriptor, and two client buffers.\<close>

definition block_bench :: bytes where
  "block_bench = lit ''A'' @ replicate 34 0 @ lit ''x'' @ replicate 30 0 @ [2, 0, 0, 0] @ [7, 7]"

definition srv_bench :: "fd_t list \<Rightarrow> ios_message list \<Rightarrow> (ios_message list, nat) main_state" where
  "srv_bench t ms =
     \<lparr>regs = (\<lambda>_. 0), env = ms, s_crc32Value = 0, log_mutex = 0, log_fds = [], active_log_fds = 0,
      log_syslog_handle = 0, bspEntityCount = 2, bspEntityList = bspEntityList sample_registry,
      eepromContexts = [\<lparr>ee_status = 0\<rparr>], bc_log_handle = 0, bc_initialised = False, bspHardwareVersion = 0x24100028,
      bspBoardConfig = hw_config, hw_pvr = \<lparr>pvr_version = 0, pvr_revision = 0\<rparr>, eePVRAddr = 0x42, main_log_fd = 0,
      ppc_summary = zero_summary, coreproperties = [], pPPCExecStop = None, pPPCExecStart = None, ccrhSummary = False,
      devbsp_msgqueue_id = 5, bsp_fdtable = t,
      client_mem = [0x1000 \<mapsto> block_bench, 0x2000 \<mapsto> [1, 2, 3, 4, 5]]\<rparr>"

definition srv_dispatch :: "(nat, 's) dispatch" where
  "srv_dispatch =
     \<lparr>call_read = (\<lambda>m i a p. returnC (0, p)), call_query = (\<lambda>m i a p. returnC (0, p)),
      call_write = (\<lambda>m i a p. returnC 0), call_init = (\<lambda>m i a p n. returnC 0),
      call_shutdown = (\<lambda>m i a. returnC 0), load_mem = (\<lambda>a n. failC WildPointer)\<rparr>"

definition srv_ext :: "(nat, 's) bsp_ext" where
  "srv_ext =
     \<lparr>BSPCheckCortado = returnC (0, 0), bspEepromRead = (\<lambda>a n w. returnC (0, w)),
      bspPPCSetPVR = (\<lambda>_. returnC 0), bspRegisterEntity = (\<lambda>_. returnC 0), BSPGetPowerMode = returnC (0, 0),
      BSPSleep = (\<lambda>_. returnC ()), BSP_SleepTimer = (\<lambda>_. returnC ()), IOS_IOPCPUUtilisation = returnC 0,
      IOS_SetIOP2xState = (\<lambda>_. returnC 0),
      gpio_latte_entity = sample_entity ''GPIO'' []\<rparr>"

lemma bench_keeps:
  "dispatch_keeps bsp_fdtable srv_dispatch" "ios_keeps bsp_fdtable quiet_ios" "ext_keeps bsp_fdtable srv_ext"
  "rm_keeps bsp_fdtable rm_bench"
  by (auto simp: dispatch_keeps_def ios_keeps_def ext_keeps_def rm_keeps_def srv_dispatch_def quiet_ios_def
      srv_ext_def rm_bench_def keeps_def returnC_def failC_def split: list.splits)

definition all_free :: "fd_t list" where
  "all_free = replicate 32 fd_zero"

section \<open>Properties\<close>

text \<open>
  C6: The descriptor table over whole runs of the message loop: whatever messages the clients send in
  whatever order, the open descriptors with their credentials are those of the abstract table in which
  an open binds the lowest free number below 32 (or nothing when all are in use), a close frees its
  number, and no other message changes anything. The methods, the kernel and the functions outside the
  repository are assumed not to write the table.
\<close>

theorem descriptor_table_refines:
  fixes D :: "('m, ('e, 'm, 'z) main_state_scheme) dispatch"
  assumes "dispatch_keeps bsp_fdtable D" "ios_keeps bsp_fdtable os" "ext_keeps bsp_fdtable X"
    and "rm_keeps bsp_fdtable R" "length (bsp_fdtable s) = 32"
    and "served D os R X (r, s) tr (r', s')"
  shows "fd_abs (bsp_fdtable s') = fold spec_message (map fst tr) (fd_abs (bsp_fdtable s))"
  using served_refines [OF frame_fdtable [OF assms(1-3)] assms(4,6,5)] by blast

lemma bench_receive:
  "IOS_ReceiveMessage rm_bench q (srv_bench t (m # ms)) = Inr ((0, m), srv_bench t ms)"
  by (simp add: rm_bench_def srv_bench_def)

lemma bench_reply: "IOS_ResourceReply rm_bench m r = returnC 0"
  by (simp add: rm_bench_def)

lemma bench_open:
  "serve_message srv_dispatch quiet_ios rm_bench srv_ext (msg_bench IOS_OPEN fd a0 a1 a3 a4) (Some r) (srv_bench t ms) =
     Inr (r, srv_bench (open_loop a4 t) ms)"
  by (simp add: serve_message_def handle_message_def Let_def prog_simps bench_reply srv_bench_def)

lemma bench_other:
  "c \<notin> {IOS_OPEN, IOS_CLOSE, IOS_IOCTL} \<Longrightarrow>
   serve_message srv_dispatch quiet_ios rm_bench srv_ext (msg_bench c fd a0 a1 a3 a4) r (srv_bench t ms) =
     Inr (IOS_ERROR_INVALID, srv_bench t ms)"
  by (simp add: serve_message_def handle_message_def Let_def prog_simps bench_reply)

theorem descriptor_table_refines_witness:
  "\<exists>s'. served srv_dispatch quiet_ios rm_bench srv_ext
      (None, srv_bench all_free [msg_bench 99 0 0 0 0 0, msg_bench IOS_OPEN 0 0 0 0 0x10, msg_bench IOS_OPEN 0 0 0 0 0x20])
      [(msg_bench 99 0 0 0 0 0, IOS_ERROR_INVALID), (msg_bench IOS_OPEN 0 0 0 0 0x10, IOS_ERROR_INVALID),
       (msg_bench IOS_OPEN 0 0 0 0 0x20, IOS_ERROR_INVALID)] (Some IOS_ERROR_INVALID, s') \<and>
    fd_abs (bsp_fdtable s') 0 = Some 0x10 \<and> fd_abs (bsp_fdtable s') 1 = Some 0x20 \<and>
    fd_abs (bsp_fdtable s') 2 = None"
  (is "\<exists>s'. served _ _ _ _ (None, ?s) ?tr (_, s') \<and> _ s'")
proof -
  have run: "served srv_dispatch quiet_ios rm_bench srv_ext (None, ?s) ?tr
      (Some IOS_ERROR_INVALID, srv_bench (open_loop 0x20 (open_loop 0x10 all_free)) [])"
    by (rule served_cons [OF bench_receive bench_other], simp)
      (rule served_cons [OF bench_receive bench_open] served_nil)+
  have none: "fd_abs (bsp_fdtable ?s) = (\<lambda>_. None)"
    by (auto simp: srv_bench_def all_free_def fd_abs_def fd_zero_def)
  have "length (bsp_fdtable ?s) = 32" by (simp add: srv_bench_def all_free_def)
  from descriptor_table_refines [OF bench_keeps this run] run show ?thesis
    by (auto simp: none spec_message_def spec_open_def upt_rec)
qed



text \<open>
  C7: A method request on an open descriptor whose credentials reach the named attribute with none of
  the five commands is harmless: the whole chain of cases it falls through leaves every variable of the
  process as it was, and of the client's memory at most the first four bytes of the output buffer are
  written, with the console type.
\<close>

theorem refused_ioctl_is_harmless:
  assumes "length (bsp_fdtable s) = 32"
    and "bswap32 (m_command msg) = IOS_IOCTL" "method_command (bswap32 (m_arg0 msg))"
    and "fd_usable (bswap32 (m_clientFD msg)) s = Inr (True, s)"
    and "fd_abs (bsp_fdtable s) (unat (bswap32 (m_clientFD msg))) = Some cred"
    and "arg_block s (bswap32 (m_arg1 msg)) b" "unreachable s b cred"
    and "bswap32 (m_arg3 msg) \<noteq> 0" "client_mem s (bswap32 (m_arg3 msg)) = Some ob" "4 \<le> length ob"
  shows "\<exists>ob'. handle_message D os X msg r s =
       Inr (Some IOS_ERROR_INVALID, s\<lparr>client_mem := (client_mem s)(bswap32 (m_arg3 msg) \<mapsto> ob')\<rparr>) \<and>
     drop 4 ob' = drop 4 ob \<and> length ob' = length ob"
proof -
  let ?out = "bswap32 (m_arg3 msg)"
  have io: "bsp_ioctl D os X (bswap32 (m_clientFD msg)) (bswap32 (m_arg0 msg)) (bswap32 (m_arg1 msg)) ?out s =
     Inr (IOS_ERROR_INVALID, if blk_size b = 4 then console_answer s ?out ob else s)"
    by (rule refused_ioctl [OF assms(6,5,7,3,8-10)])
  define ob' where "ob' = (if blk_size b = 4
    then (case bspGetConsoleType s of Inr ((_, v), _) \<Rightarrow> enc32 v | Inl _ \<Rightarrow> []) @ drop 4 ob else ob)"
  have "s\<lparr>client_mem := (client_mem s)(?out \<mapsto> ob)\<rparr> = s"
    using assms(9) by (simp add: fun_upd_idem)
  then have "(if blk_size b = 4 then console_answer s ?out ob else s) =
      s\<lparr>client_mem := (client_mem s)(?out \<mapsto> ob')\<rparr>"
    by (simp add: ob'_def console_answer_def)
  moreover have "drop 4 ob' = drop 4 ob \<and> length ob' = length ob"
    using assms(10) by (auto simp: ob'_def bspGetConsoleType_def prog_simps codec32.enc_length)
  ultimately show ?thesis
    using assms(2,4) io by (auto simp: handle_message_def Let_def bindC_def returnC_def)
qed

lemma bench_registered: "registered (srv_bench t ms) = registered sample_registry"
  by (simp add: registered_def srv_bench_def sample_registry_def)

lemma bench_answerable: "answerable (srv_bench t ms) nm i anm \<longleftrightarrow> answerable sample_registry nm i anm"
  unfolding answerable_def registry_wf_def bench_registered
  by (simp add: srv_bench_def sample_registry_def)

lemma bench_block:
  "blk_entity block_bench = lit ''A'' @ replicate 30 0" "blk_instance block_bench = 0"
  "blk_attribute block_bench = lit ''x'' @ replicate 30 0" "blk_size block_bench = 2"
  by code_simp+

lemma padded_names:
  "readable 32 (lit ''A'' @ replicate 30 0)" "readable 32 (lit ''x'' @ replicate 30 0)" "cstring (lit ''x'' @ replicate 30 0) \<noteq> []"
  by code_simp+

lemma bench_unreachable: "unreachable (srv_bench t ms) block_bench BSP_PERMISSIONS_IOS_USER_WRITE"
proof -
  have ent: "lookup_entity (lit ''A'' @ replicate 30 0) (registered sample_registry) =
     Some (sample_entity ''A'' [sample_attribute ''x'' BSP_PERMISSIONS_IOS_USER_READ, end_attribute])"
    unfolding sample_registered by (simp add: lookup_entity_def sample_entity_def) code_simp
  have att: "lookup_attribute (lit ''x'' @ replicate 30 0) [sample_attribute ''x'' 1, end_attribute] =
      Some (sample_attribute ''x'' 1)"
    by (simp add: lookup_attribute_def named_attributes_def has_name_def sample_defs) code_simp
  have "answerable sample_registry (lit ''A'' @ replicate 30 0) 0 (lit ''x'' @ replicate 30 0)"
    using search_ends_Some [OF att] lookup_entity_decidable [OF ent] padded_names
    by (simp add: answerable_def sample_registry_wf decidable_attribute_def ent sample_table)
  moreover have "\<not> permitted BSP_PERMISSIONS_IOS_USER_WRITE cmd (sample_attribute ''x'' BSP_PERMISSIONS_IOS_USER_READ)"
    if "method_command cmd" for cmd
    using that by (auto simp: method_command_def permitted_iff check_permission_def command_mask_def sample_attribute_def)
  ultimately show ?thesis
    using ent att by (auto simp: unreachable_def bench_answerable bench_block bench_registered reaches_def sample_table)
qed

definition one_open :: "fd_t list" where
  "one_open = \<lparr>fd_active = True, fd_permissions = BSP_PERMISSIONS_IOS_USER_WRITE\<rparr> # replicate 31 fd_zero"

theorem refused_ioctl_is_harmless_witness:
  "\<exists>ob'. handle_message srv_dispatch quiet_ios srv_ext (msg_bench IOS_IOCTL 0 BSP_IOCTL_METHOD_READ 0x1000 0x2000 0) None
       (srv_bench one_open []) =
       Inr (Some IOS_ERROR_INVALID, srv_bench one_open []\<lparr>client_mem := (client_mem (srv_bench one_open []))(0x2000 \<mapsto> ob')\<rparr>) \<and>
     drop 4 ob' = [5]"
  using refused_ioctl_is_harmless [of "srv_bench one_open []" "msg_bench IOS_IOCTL 0 BSP_IOCTL_METHOD_READ 0x1000 0x2000 0"
      BSP_PERMISSIONS_IOS_USER_WRITE block_bench "[1, 2, 3, 4, 5]" srv_dispatch quiet_ios srv_ext None] bench_unreachable
  by (auto simp: srv_bench_def one_open_def method_command_def fd_usable_def neg32_def prog_simps fd_abs_def
      arg_block_def block_bench_def lit_def)



text \<open>
  An open message never gets an answer of its own: the reply repeats the reply of the message
  before it, and when it is the first message the server uses a variable that was never assigned. The
  same holds for the close of an open descriptor.
\<close>

theorem open_and_close_repeat_the_last_reply:
  assumes "bswap32 (m_command msg) = IOS_OPEN \<or>
     bswap32 (m_command msg) = IOS_CLOSE \<and> fd_usable (bswap32 (m_clientFD msg)) s = Inr (True, s)"
  shows "\<exists>t. serve_message D os R X msg r s =
     (case r of None \<Rightarrow> Inl Uninitialised
      | Some v \<Rightarrow> seqC (IOS_ResourceReply R msg v) (returnC v) (s\<lparr>bsp_fdtable := t\<rparr>))"
  using assms
  by (cases r) (auto simp: serve_message_def handle_message_def Let_def prog_simps)

theorem open_and_close_repeat_the_last_reply_witness:
  "serve_message srv_dispatch quiet_ios rm_bench srv_ext (msg_bench IOS_OPEN 0 0 0 0 0x10) None (srv_bench all_free []) =
     Inl Uninitialised"
  using open_and_close_repeat_the_last_reply [of "msg_bench IOS_OPEN 0 0 0 0 0x10" "srv_bench all_free []"
      srv_dispatch quiet_ios rm_bench srv_ext None] by simp

text \<open>
  A close or ioctl message with a negative descriptor is not refused: it passes the comparison
  with 0x1F and reads before the beginning of the table.
\<close>

theorem negative_descriptor_faults:
  assumes "bswap32 (m_command msg) \<in> {IOS_CLOSE, IOS_IOCTL}" "neg32 (bswap32 (m_clientFD msg))"
  shows "handle_message D os X msg r s = Inl OutOfBounds"
  using assms by (auto simp: handle_message_def Let_def fd_usable_def prog_simps neg32_def)

theorem negative_descriptor_faults_witness:
  "handle_message srv_dispatch quiet_ios srv_ext (msg_bench IOS_CLOSE 0xFFFFFFFF 0 0 0 0) None (srv_bench all_free []) =
     Inl OutOfBounds"
  by (rule negative_descriptor_faults) (simp_all add: neg32_def)


text \<open>
  C34: \<^verbatim>\<open>main\<close> returns only when the cross process heap cannot be created: every other error of the
  start-up, and the end of the message loop, goes to the fatal log, which never comes back.
\<close>

theorem main_returns_only_without_heap:
  assumes "bsp_main D os R X s = Inr ((), s')"
  shows "\<exists>s1 ret. hello os R s = Inr ((), s1) \<and> IOS_CreateCrossProcessHeap R 0x10000 s1 = Inr (ret, s') \<and> neg32 ret"
  using assms by (rule bsp_main_returned)

theorem main_returns_only_without_heap_witness:
  "\<exists>s1 ret. hello quiet_ios rm_bench (srv_bench all_free []) = Inr ((), s1) \<and>
     IOS_CreateCrossProcessHeap rm_bench 0x10000 s1 = Inr (ret, srv_bench all_free []) \<and> neg32 ret"
  by (rule main_returns_only_without_heap [of srv_dispatch quiet_ios rm_bench srv_ext])
     (simp add: bsp_main_def hello_def prog_simps quiet_ios_def rm_bench_def neg32_def)

text \<open>
  C35: A granted write does more than write: after the attribute's write function the same request also
  runs its init function, with the same data, and its shutdown function, when the credentials grant
  these too, and is then answered as invalid.
\<close>

theorem granted_write_also_shuts_down:
  fixes D :: "('m, ('e, 'm, 'z) main_state_scheme) dispatch"
  assumes grants: "grants s fd inPtr b BSP_IOCTL_METHOD_WRITE a" "grants s fd inPtr b BSP_IOCTL_METHOD_INIT a"
      "grants s fd inPtr b BSP_IOCTL_METHOD_SHUTDOWN a"
    and methods: "a_writeMethod a = Some wm" "a_initMethod a = Some im" "a_shutdownMethod a = Some sm"
    and sz: "blk_size b = a_dataSize a" "a_dataSize a \<noteq> 4"
    and keep: "\<And>i p. keeps request_view (call_write D wm i a p)" "\<And>i p n. keeps request_view (call_init D im i a p n)"
      "\<And>i. keeps request_view (call_shutdown D sm i a)"
  shows "bsp_ioctl D os X fd BSP_IOCTL_METHOD_WRITE inPtr outPtr s =
     seqC (call_write D wm (blk_instance b) a (Buf (drop 0x48 b)))
     (seqC (call_init D im (blk_instance b) a (Buf (drop 0x48 b)) (blk_size b))
     (seqC (call_shutdown D sm (blk_instance b) a)
     (returnC IOS_ERROR_INVALID))) s"
proof -
  have blk: "arg_block s inPtr b" using grants(1) by (simp add: grants_def)
  have init: "method_init_case D fd inPtr s1 = call_init D im (blk_instance b) a (Buf (drop 0x48 b)) (blk_size b) s1"
    if "request_view s1 = request_view s" for s1
    using grants(2) methods(2) by (intro granted_cases(2)) (simp_all add: same_view_grants [OF that])
  have shut: "method_shutdown_case D fd inPtr s1 = call_shutdown D sm (blk_instance b) a s1"
    if "request_view s1 = request_view s" for s1
    using grants(3) methods(3) by (intro granted_cases(3)) (simp_all add: same_view_grants [OF that])
  have console: "seqC (get_console_type_case inPtr outPtr) n s1 = n s1" if "request_view s1 = request_view s"
    for s1 and n :: "(('e, 'm, 'z) main_state_scheme, u32) prog"
    using blk sz by (intro seqC_idle odd_size_console [of s1 inPtr b]) (simp_all add: same_view(1) [OF that])
  note step = seqC_kept [where f = request_view and v = "request_view s"]
  have "seqC (method_write_case D fd inPtr) (seqC (method_init_case D fd inPtr) (seqC (method_shutdown_case D fd inPtr)
       (seqC (get_console_type_case inPtr outPtr) (returnC IOS_ERROR_INVALID)))) s =
     seqC (call_write D wm (blk_instance b) a (Buf (drop 0x48 b)))
     (seqC (call_init D im (blk_instance b) a (Buf (drop 0x48 b)) (blk_size b))
     (seqC (call_shutdown D sm (blk_instance b) a) (returnC IOS_ERROR_INVALID))) s"
    by (rule step, rule refl, rule granted_cases(1) [OF grants(1) methods(1) sz(1)], rule keep(1))
       (rule step, assumption, erule init, rule keep(2), rule step, assumption, erule shut, rule keep(3), erule console)
  then show ?thesis
    by (simp add: bsp_ioctl_def ioctl_cases_def seqC_assoc seqC_returnC)
qed

definition full_attribute :: "nat bsp_attribute" where
  "full_attribute = (sample_attribute ''x'' BSP_PERMISSIONS_ALL)\<lparr>a_initMethod := Some 4\<rparr>"

definition full_bench :: "(ios_message list, nat) main_state" where
  "full_bench = (srv_bench (\<lparr>fd_active = True, fd_permissions = BSP_PERMISSIONS_ALL\<rparr> # replicate 31 fd_zero) [])
     \<lparr>bspEntityCount := 1, bspEntityList := [Some (sample_entity ''A'' [full_attribute, end_attribute])]\<rparr>"

lemma full_registered: "registered full_bench = [sample_entity ''A'' [full_attribute, end_attribute]]"
  by (simp add: registered_def full_bench_def)

lemma full_lookup:
  "lookup_entity (lit ''A'' @ replicate 30 0) [sample_entity ''A'' [full_attribute, end_attribute]] =
     Some (sample_entity ''A'' [full_attribute, end_attribute])"
  "lookup_attribute (lit ''x'' @ replicate 30 0) [full_attribute, end_attribute] = Some full_attribute"
  by (simp add: lookup_entity_def sample_entity_def, code_simp)
     (simp add: lookup_attribute_def named_attributes_def has_name_def full_attribute_def sample_defs, code_simp)

lemma full_grants:
  assumes "cmd \<in> {BSP_IOCTL_METHOD_WRITE, BSP_IOCTL_METHOD_INIT, BSP_IOCTL_METHOD_SHUTDOWN}"
  shows "grants full_bench 0 0x1000 block_bench cmd full_attribute"
proof -
  have "permitted BSP_PERMISSIONS_ALL cmd full_attribute"
    using assms by (auto simp: permitted_iff check_permission_def command_mask_def full_attribute_def sample_attribute_def)
  then have reached: "reaches (registered full_bench) (lit ''A'' @ replicate 30 0) 0 (lit ''x'' @ replicate 30 0)
      BSP_PERMISSIONS_ALL cmd full_attribute"
    by (simp add: reaches_def full_registered full_lookup sample_table)
  have "registry_wf full_bench"
    unfolding registry_wf_def full_registered
    by (simp add: full_bench_def full_attribute_def sample_defs entity_wf_def table_wf_def)
  from reaches_answerable [OF this padded_names reached]
  have "answerable full_bench (lit ''A'' @ replicate 30 0) 0 (lit ''x'' @ replicate 30 0)" .
  moreover have "fd_abs (bsp_fdtable full_bench) 0 = Some BSP_PERMISSIONS_ALL"
    by (simp add: full_bench_def srv_bench_def fd_abs_def)
  moreover have "arg_block full_bench 0x1000 block_bench"
    by (simp add: arg_block_def full_bench_def srv_bench_def block_bench_def lit_def)
  ultimately show ?thesis using reached by (simp add: grants_def bench_block)
qed

theorem granted_write_also_shuts_down_witness:
  "bsp_ioctl srv_dispatch quiet_ios srv_ext 0 BSP_IOCTL_METHOD_WRITE 0x1000 0x2000 full_bench =
     seqC (call_write srv_dispatch 2 0 full_attribute (Buf [7, 7]))
     (seqC (call_init srv_dispatch 4 0 full_attribute (Buf [7, 7]) 2)
     (seqC (call_shutdown srv_dispatch 3 0 full_attribute)
     (returnC IOS_ERROR_INVALID))) full_bench"
  using granted_write_also_shuts_down [OF full_grants full_grants full_grants, of 2 4 3 srv_dispatch quiet_ios srv_ext
      "0x2000"] bench_block
  by (simp add: full_attribute_def sample_attribute_def srv_dispatch_def keeps_atoms block_bench_def lit_def)

end
