(* ===== verification/Board.thy ===== *)
theory Board
  imports Server_Requests
begin

text \<open>
  The entities behind the registry. \<open>bsp_dispatch\<close> resolves the method names of the tables to the functions
  of the entity sources; a method that itself makes a request (the DI reset, the EEPROM, the DRH reset, and
  everything that may have to read the board configuration) makes it through the same registry. The index is
  the depth to which such calls may nest, a fuel: at depth 0 a call is taken not to return. The methods of
  the entities that are not in the repository are the parameter \<open>other_methods\<close>.
\<close>

section \<open>The dispatcher\<close>

record ('x, 's) other_methods =
  other_read :: "'x \<Rightarrow> u32 \<Rightarrow> 'x bsp_method bsp_attribute \<Rightarrow> cptr \<Rightarrow> ('s, u32 \<times> cptr) prog"
  other_query :: "'x \<Rightarrow> u32 \<Rightarrow> 'x bsp_method bsp_attribute \<Rightarrow> cptr \<Rightarrow> ('s, u32 \<times> cptr) prog"
  other_write :: "'x \<Rightarrow> u32 \<Rightarrow> 'x bsp_method bsp_attribute \<Rightarrow> cptr \<Rightarrow> ('s, u32) prog"
  other_init :: "'x \<Rightarrow> u32 \<Rightarrow> 'x bsp_method bsp_attribute \<Rightarrow> cptr \<Rightarrow> u32 \<Rightarrow> ('s, u32) prog"
  other_shutdown :: "'x \<Rightarrow> u32 \<Rightarrow> 'x bsp_method bsp_attribute \<Rightarrow> ('s, u32) prog"
  other_load :: "u32 \<Rightarrow> nat \<Rightarrow> ('s, bytes) prog"

text \<open>A name in the wrong slot of a table would be a call through a pointer of another type.\<close>

definition board_read where
  "board_read G D os X A m i a p =
     (case m of
        M_bspDI_IOPower_read \<Rightarrow> bspDI_IOPower_read i a p
      | M_bspDI_Reset_read \<Rightarrow> bspDI_Reset_read D A i a p
      | M_bspSI_IOPower_read \<Rightarrow> bspSI_IOPower_read i a p
      | M_bspReset_LT_RSTB_read \<Rightarrow> bspReset_LT_RSTB_read A i a p
      | M_bspEE_access_read \<Rightarrow> bspEE_access_read D os i a p
      | M_bspEE_bc_read \<Rightarrow> bspEE_bc_read D os i a p
      | M_bspSys_ASICRevision \<Rightarrow> bspSys_ASICRevision D os X A i a p
      | M_bspSys_BoardRevision \<Rightarrow> bspSys_BoardRevision i a p
      | M_bspSys_ClockInfo \<Rightarrow> bspSys_ClockInfo D os X i a p
      | M_bspSys_cpuUtilRead \<Rightarrow> bspSys_cpuUtilRead X i a p
      | M_bspSys_DevicePresence \<Rightarrow> bspSys_DevicePresence i a p
      | M_bspSys_iop2x_read \<Rightarrow> bspSys_iop2x_read i a p
      | M_bspPPC_ReadPVR \<Rightarrow> bspPPC_ReadPVR X i a p
      | M_bspPPC_Read60XeDataStreaming \<Rightarrow> bspPPC_Read60XeDataStreaming D os X i a p
      | Other x \<Rightarrow> other_read G x i a p
      | _ \<Rightarrow> failC WildPointer)"

definition board_write where
  "board_write G D os X A m i a p =
     (case m of
        M_bspDI_IOPower_write \<Rightarrow> bspDI_IOPower_write i a p
      | M_bspDI_Reset_write \<Rightarrow> bspDI_Reset_write D A i a p
      | M_bspSI_IOPower_write \<Rightarrow> bspSI_IOPower_write i a p
      | M_bspReset_LT_RSTB_write \<Rightarrow> bspReset_LT_RSTB_write A i a p
      | M_bspEE_access_write \<Rightarrow> bspEE_access_write D os i a p
      | M_bspEE_control_write \<Rightarrow> bspEE_control_write D os i a p
      | M_bspSys_iop2x_write \<Rightarrow> bspSys_iop2x_write D os X i a p
      | M_bspPPC_Exec \<Rightarrow> bspPPC_Exec D os X A i a p
      | M_bspPPC_Clock \<Rightarrow> bspPPC_Clock A i p
      | M_bspPPC_EXIRegBoot \<Rightarrow> bspPPC_EXIRegBoot A i p
      | M_bspPPC_WritePVR \<Rightarrow> bspPPC_WritePVR X i a p
      | M_bspPPC_Write60XeDataStreaming \<Rightarrow> bspPPC_Write60XeDataStreaming D os X i a p
      | M_bspCCRH_Reset_write \<Rightarrow> bspCCRH_Reset_write D os X A i a p
      | Other x \<Rightarrow> other_write G x i a p
      | _ \<Rightarrow> failC WildPointer)"

definition board_init where
  "board_init G D os X A m i a p n =
     (case m of
        M_bspDI_IOStrength_init \<Rightarrow> bspDI_IOStrength_init D os X i a p n
      | M_bspDI_IOPower_init \<Rightarrow> bspDI_IOPower_init i a p n
      | M_bspSI_IOStrength_init \<Rightarrow> bspSI_IOStrength_init D os X i a p n
      | M_bspSI_IOPower_init \<Rightarrow> bspSI_IOPower_init i a p n
      | M_bspSI_Subsystem_init \<Rightarrow> bspSI_Subsystem_init A i a p n
      | M_bspSDIO_IOStrength_init \<Rightarrow> bspSDIO_IOStrength_init D os X A i a p n
      | M_bspEE_control_init \<Rightarrow> bspEE_control_init D os i a p n
      | M_bspCCRH_Reset_init \<Rightarrow> bspCCRH_Reset_init D os X A i a p n
      | Other x \<Rightarrow> other_init G x i a p n
      | _ \<Rightarrow> failC WildPointer)"

text \<open>The static variables the tables point to.\<close>

definition board_load ::
  "('x, ('e, 'x bsp_method, 'z) ccrh_state_scheme) other_methods \<Rightarrow> u32 \<Rightarrow> nat \<Rightarrow>
   (('e, 'x bsp_method, 'z) ccrh_state_scheme, bytes) prog" where
  "board_load G a n =
     (let give = (\<lambda>bs. if n \<le> length bs then returnC (take n bs) else failC OutOfBounds);
          core = (\<lambda>k. bindC (getsC coreproperties) (\<lambda>cs. bindC (liftC (read_at cs k)) (\<lambda>c. give (core_bytes c))))
      in if a = summary_address then bindC (getsC ppc_summary) (\<lambda>c. give (summary_bytes c))
         else if a = coreproperties_address then core 0
         else if a = coreproperties_address + 0x18 then core 1
         else if a = coreproperties_address + 0x30 then core 2
         else if a = ccrhSummary_address then bindC (getsC ccrhSummary) (\<lambda>b. give [of_bool b])
         else other_load G a n)"

primrec bsp_dispatch ::
  "('x, ('e, 'x bsp_method, 'z) ccrh_state_scheme) other_methods \<Rightarrow> (('e, 'x bsp_method, 'z) ccrh_state_scheme) ios \<Rightarrow>
   ('x bsp_method, ('e, 'x bsp_method, 'z) ccrh_state_scheme) bsp_ext \<Rightarrow>
   (('e, 'x bsp_method, 'z) ccrh_state_scheme) dev_ext \<Rightarrow> nat \<Rightarrow>
   ('x bsp_method, ('e, 'x bsp_method, 'z) ccrh_state_scheme) dispatch" where
  "bsp_dispatch G os X A 0 =
     \<lparr>call_read = (\<lambda>m i a p. failC NoReturn), call_query = (\<lambda>m i a p. failC NoReturn),
      call_write = (\<lambda>m i a p. failC NoReturn), call_init = (\<lambda>m i a p n. failC NoReturn),
      call_shutdown = (\<lambda>m i a. failC NoReturn), load_mem = (\<lambda>a n. failC NoReturn)\<rparr>"
| "bsp_dispatch G os X A (Suc d) =
     \<lparr>call_read = board_read G (bsp_dispatch G os X A d) os X A,
      call_query = (\<lambda>m i a p. case m of Other x \<Rightarrow> other_query G x i a p | _ \<Rightarrow> failC WildPointer),
      call_write = board_write G (bsp_dispatch G os X A d) os X A,
      call_init = board_init G (bsp_dispatch G os X A d) os X A,
      call_shutdown = (\<lambda>m i a. case m of
          M_bspEE_control_shutdown \<Rightarrow> bspEE_control_shutdown (bsp_dispatch G os X A d) i a
        | Other x \<Rightarrow> other_shutdown G x i a
        | _ \<Rightarrow> failC WildPointer),
      load_mem = board_load G\<rparr>"

section \<open>What the methods leave alone\<close>

definition other_keeps :: "('s \<Rightarrow> 'b) \<Rightarrow> ('x, 's) other_methods \<Rightarrow> bool" where
  "other_keeps f G \<longleftrightarrow>
     (\<forall>x i a p. keeps f (other_read G x i a p)) \<and> (\<forall>x i a p. keeps f (other_query G x i a p)) \<and>
     (\<forall>x i a p. keeps f (other_write G x i a p)) \<and> (\<forall>x i a p n. keeps f (other_init G x i a p n)) \<and>
     (\<forall>x i a. keeps f (other_shutdown G x i a)) \<and> (\<forall>a n. keeps f (other_load G a n))"

definition dev_keeps :: "('s \<Rightarrow> 'b) \<Rightarrow> ('m, 's) bsp_ext \<Rightarrow> 's dev_ext \<Rightarrow> bool" where
  "dev_keeps f X A \<longleftrightarrow>
     (\<forall>v. keeps f (bspPPCSetPVR X v)) \<and> keeps f (BSPGetPowerMode X) \<and> (\<forall>n. keeps f (BSPSleep X n)) \<and>
     (\<forall>n. keeps f (BSP_SleepTimer X n)) \<and> keeps f (IOS_IOPCPUUtilisation X) \<and> (\<forall>b. keeps f (IOS_SetIOP2xState X b)) \<and>
     keeps f (BSPGetClockInfo A) \<and> (\<forall>i p. keeps f (bspPPC_Clock A i p)) \<and> (\<forall>i p. keeps f (bspPPC_EXIRegBoot A i p)) \<and>
     keeps f (bspPPCExecStopLatte A) \<and> (\<forall>m. keeps f (log_debug_printf A m))"

text \<open>The rest of the EEPROM driver, next to what the frame theory has.\<close>

context frame
begin

lemma wait_for_ready: "keeps f (eepromDrvWaitForReady D os)"
proof -
  have "keeps f (ready_loop D os k)" for k
    by (induction k) (auto intro!: keeps_intros read_bit)
  then show ?thesis by (auto simp: eepromDrvWaitForReady_def intro!: keeps_intros lines finish)
qed

lemma eeprom_writing:
  "keeps f (eepromDrvWriteWord D os n a w)" "keeps f (eepromDrvSetWriteControl D os n c)" "keeps f (eepromDrvShutdown D n)"
  by (auto simp: eepromDrvWriteWord_def eepromDrvSetWriteControl_def eepromDrvShutdown_def
      intro!: keeps_intros status send_bits finish wait_for_ready lines)

end

locale board_frame =
  fixes f :: "('e, 'x bsp_method, 'z) ccrh_state_scheme \<Rightarrow> 'b"
    and G :: "('x, ('e, 'x bsp_method, 'z) ccrh_state_scheme) other_methods"
    and os :: "(('e, 'x bsp_method, 'z) ccrh_state_scheme) ios"
    and X :: "('x bsp_method, ('e, 'x bsp_method, 'z) ccrh_state_scheme) bsp_ext"
    and A :: "(('e, 'x bsp_method, 'z) ccrh_state_scheme) dev_ext"
  assumes others: "other_keeps f G" and kernel: "ios_keeps f os" and external: "ext_keeps f X" and devices: "dev_keeps f X A"
    and reg_field: "\<And>s v. f (s\<lparr>regs := v\<rparr>) = f s"
    and log_fields: "\<And>s v. f (s\<lparr>log_mutex := v\<rparr>) = f s" "\<And>s v. length v = length (log_fds s) \<Longrightarrow> f (s\<lparr>log_fds := v\<rparr>) = f s"
      "\<And>s v. f (s\<lparr>active_log_fds := v\<rparr>) = f s"
    and crc_field: "\<And>s v. f (s\<lparr>s_crc32Value := v\<rparr>) = f s"
    and eeprom_field: "\<And>s v. length v = length (eepromContexts s) \<Longrightarrow> f (s\<lparr>eepromContexts := v\<rparr>) = f s"
    and bc_fields: "\<And>s v. f (s\<lparr>bc_log_handle := v\<rparr>) = f s" "\<And>s v. f (s\<lparr>bc_initialised := v\<rparr>) = f s"
    and hw_fields: "\<And>s v. f (s\<lparr>bspHardwareVersion := v\<rparr>) = f s" "\<And>s v. f (s\<lparr>bspBoardConfig := v\<rparr>) = f s"
      "\<And>s v. f (s\<lparr>hw_pvr := v\<rparr>) = f s"
begin

lemma over: "dispatch_keeps f D \<Longrightarrow> frame f D os X"
  by unfold_locales (auto simp: kernel external log_fields crc_field eeprom_field bc_fields hw_fields)

lemma other_calls:
  "keeps f (other_read G x i a p)" "keeps f (other_query G x i a p)" "keeps f (other_write G x i a p)"
  "keeps f (other_init G x i a p n)" "keeps f (other_shutdown G x i a)" "keeps f (other_load G w k)"
  using others by (auto simp: other_keeps_def)

lemma device_calls:
  "keeps f (bspPPCSetPVR X v)" "keeps f (BSPGetPowerMode X)" "keeps f (BSPSleep X n)" "keeps f (BSP_SleepTimer X n)"
  "keeps f (IOS_IOPCPUUtilisation X)" "keeps f (IOS_SetIOP2xState X b)" "keeps f (BSPGetClockInfo A)"
  "keeps f (bspPPC_Clock A i p)" "keeps f (bspPPC_EXIRegBoot A i p)" "keeps f (bspPPCExecStopLatte A)"
  "keeps f (log_debug_printf A m)" "keeps f (bspEepromRead X w n' w')"
  using devices external by (auto simp: dev_keeps_def ext_keeps_def)

lemma registers: "keeps f (wr_reg a v)"
  by (simp add: wr_reg_def keeps_modifyC reg_field)

lemma data: "keeps f (give_bytes bs p r)" "keeps f (take_byte p)"
  by (auto simp: give_bytes_def take_byte_def intro!: keeps_intros)

lemmas leaf = other_calls device_calls registers data

lemma io_methods:
  "keeps f (bspDI_IOPower_read i a p)" "keeps f (bspDI_IOPower_write i a p)" "keeps f (bspDI_IOPower_init i a p n)"
  "keeps f (bspSI_IOPower_read i a p)" "keeps f (bspSI_IOPower_write i a p)" "keeps f (bspSI_IOPower_init i a p n)"
  "keeps f (bspSI_Subsystem_init A i a p n)" "keeps f (bspReset_LT_RSTB_read A i a p)" "keeps f (bspReset_LT_RSTB_write A i a p)"
  by (auto simp: bspDI_IOPower_read_def bspDI_IOPower_write_def bspDI_IOPower_init_def bspSI_IOPower_read_def
      bspSI_IOPower_write_def bspSI_IOPower_init_def bspSI_Subsystem_init_def bspReset_LT_RSTB_read_def
      bspReset_LT_RSTB_write_def Let_def intro!: keeps_intros leaf)

lemma version_methods:
  assumes D: "dispatch_keeps f D"
  shows "keeps f (bspDI_IOStrength_init D os X i a p n)" "keeps f (bspSI_IOStrength_init D os X i a p n)"
    "keeps f (bspSDIO_IOStrength_init D os X A i a p n)"
    "keeps f (bspSys_ASICRevision D os X A i a p)" "keeps f (bspSys_ClockInfo D os X i a p)"
    "keeps f (bspSys_iop2x_write D os X i a p)"
  by (auto simp: bspDI_IOStrength_init_def bspSI_IOStrength_init_def bspSDIO_IOStrength_init_def bspSys_ASICRevision_def
      bspSys_ClockInfo_def bspSys_iop2x_write_def bspGetSystemClockInfo_def Let_def
      intro!: keeps_intros leaf frame.hardware_version [OF over [OF D]])

lemma request_methods:
  assumes D: "dispatch_keeps f D"
  shows "keeps f (bspDI_Reset_read D A i a p)" "keeps f (bspDI_Reset_write D A i a p)"
  by (auto simp: bspDI_Reset_read_def bspDI_Reset_write_def intro!: keeps_intros leaf frame.requests [OF over [OF D]])

lemma sys_methods:
  "keeps f (bspSys_BoardRevision i a p)" "keeps f (bspSys_cpuUtilRead X i a p)" "keeps f (bspSys_DevicePresence i a p)"
  "keeps f (bspSys_iop2x_read i a p)"
  by (auto simp: bspSys_BoardRevision_def bspSys_cpuUtilRead_def bspSys_DevicePresence_def bspSys_iop2x_read_def
      intro!: keeps_intros leaf)

lemma ee_methods:
  assumes D: "dispatch_keeps f D"
  shows "keeps f (bspEE_access_read D os i a p)" "keeps f (bspEE_access_write D os i a p)"
    "keeps f (bspEE_control_write D os i a p)" "keeps f (bspEE_control_init D os i a p n)"
    "keeps f (bspEE_control_shutdown D i a)" "keeps f (bspEE_bc_read D os i a p)"
  by (auto simp: bspEE_access_read_def bspEE_access_write_def bspEE_control_write_def bspEE_control_init_def
      bspEE_control_shutdown_def bspEE_bc_read_def Let_def
      intro!: keeps_intros leaf frame.read_word [OF over [OF D]] frame.eeprom_writing [OF over [OF D]]
        frame.bring_up [OF over [OF D]] frame.board_config [OF over [OF D]])

lemma pvr: "keeps f (bspPPCGetPVR X v)"
  by (auto simp: bspPPCGetPVR_def intro!: keeps_intros leaf)

lemma ppc_reset: "keeps f (bspPPCExecStop X A)" "keeps f (bspPPCExecStart X)" "keeps f (bspPPCExecStartLatte X)"
proof -
  have exi: "keeps f bspPPCEnableEXI" by (auto simp: bspPPCEnableEXI_def intro!: keeps_intros leaf)
  have "keeps f (ppc_acknowledge X A w)" for w
    by (auto simp: ppc_acknowledge_def intro!: keeps_intros leaf exi pvr)
  then have "keeps f (ppc_wait X A n)" for n
    by (induction n) (auto intro!: keeps_intros leaf exi)
  then show "keeps f (bspPPCExecStop X A)" "keeps f (bspPPCExecStart X)" "keeps f (bspPPCExecStartLatte X)"
    by (auto simp: bspPPCExecStop_def bspPPCExecStart_def bspPPCExecStartLatte_def Let_def
        simp del: ppc_wait.simps intro!: keeps_intros leaf)
qed

lemma ppc_methods:
  assumes D: "dispatch_keeps f D"
  shows "keeps f (bspPPC_Exec D os X A i a p)" "keeps f (bspPPC_ReadPVR X i a p)" "keeps f (bspPPC_WritePVR X i a p)"
    "keeps f (bspPPC_Read60XeDataStreaming D os X i a p)" "keeps f (bspPPC_Write60XeDataStreaming D os X i a p)"
  by (auto simp: bspPPC_Exec_def bspPPC_ReadPVR_def bspPPC_WritePVR_def bspPPC_Read60XeDataStreaming_def
      bspPPC_Write60XeDataStreaming_def Let_def split: exec_stop.split exec_start.split
      intro!: keeps_intros leaf pvr ppc_reset frame.hardware_version [OF over [OF D]])

lemma ccrh_methods:
  assumes D: "dispatch_keeps f D"
  shows "keeps f (bspCCRH_Reset_write D os X A i a p)" "keeps f (bspCCRH_Reset_init D os X A i a p n)"
proof -
  have "keeps f (ccrh_hold D os X A w)" "keeps f (ccrh_release D os X A w)" for w
    by (auto simp: ccrh_hold_def ccrh_release_def Let_def
        intro!: keeps_intros leaf frame.internal [OF over [OF D]] frame.hardware_version [OF over [OF D]])
  then show wr: "keeps f (bspCCRH_Reset_write D os X A i a p)" for i a p
    by (auto simp: bspCCRH_Reset_write_def Let_def intro!: keeps_intros leaf)
  show "keeps f (bspCCRH_Reset_init D os X A i a p n)"
    by (auto simp: bspCCRH_Reset_init_def intro!: keeps_intros wr frame.hardware_version [OF over [OF D]])
qed

lemmas plain_methods = io_methods sys_methods

lemmas nested_methods = version_methods request_methods ee_methods ppc_methods ccrh_methods

text \<open>So the whole dispatcher does, at every depth.\<close>

lemma dispatcher: "dispatch_keeps f (bsp_dispatch G os X A d)"
proof (induction d)
  case 0
  show ?case by (simp add: dispatch_keeps_def keeps_atoms)
next
  case (Suc d)
  let ?D = "bsp_dispatch G os X A d"
  have "keeps f (board_read G ?D os X A m i a p)" for m i a p
    by (cases m) (simp_all add: board_read_def nested_methods [OF Suc.IH] plain_methods leaf keeps_atoms)
  moreover have "keeps f (board_write G ?D os X A m i a p)" for m i a p
    by (cases m) (simp_all add: board_write_def nested_methods [OF Suc.IH] plain_methods leaf keeps_atoms)
  moreover have "keeps f (board_init G ?D os X A m i a p n)" for m i a p n
    by (cases m) (simp_all add: board_init_def nested_methods [OF Suc.IH] plain_methods leaf keeps_atoms)
  moreover have "keeps f (board_load G w n)" for w n
    by (auto simp: board_load_def Let_def intro!: keeps_intros leaf)
  moreover have "keeps f (case m of M_bspEE_control_shutdown \<Rightarrow> bspEE_control_shutdown ?D i a
      | Other x \<Rightarrow> other_shutdown G x i a | _ \<Rightarrow> failC WildPointer)" for m i a
    by (cases m) (simp_all add: ee_methods [OF Suc.IH] leaf keeps_atoms)
  moreover have "keeps f (case m of Other x \<Rightarrow> other_query G x i a p | _ \<Rightarrow> failC WildPointer)" for m i a p
    by (cases m) (simp_all add: leaf keeps_atoms)
  ultimately show ?case by (simp add: dispatch_keeps_def)
qed

lemma framed: "frame f (bsp_dispatch G os X A d) os X"
  by (rule over [OF dispatcher])

end

section \<open>A board for concrete runs\<close>

text \<open>
  A GPIO entity with one line whose method loads and drops its argument, the DI entity of the sources,
  and a reset line.
\<close>

definition board_other :: "(unit, ('e, unit bsp_method, 'z) ccrh_state_scheme) other_methods" where
  "board_other =
     \<lparr>other_read = (\<lambda>x i a p. returnC (0, p)), other_query = (\<lambda>x i a p. returnC (0, p)),
      other_write = (\<lambda>x i a p. bindC (liftC (load_ptr 0 4 p)) (\<lambda>_. returnC 0)),
      other_init = (\<lambda>x i a p n. returnC 0), other_shutdown = (\<lambda>x i a. returnC 0),
      other_load = (\<lambda>a n. failC WildPointer)\<rparr>"

definition nameless :: "'m bsp_attribute" where
  "nameless = (blank_attribute [])\<lparr>a_pName := None\<rparr>"

definition board_entities :: "unit bsp_method bsp_entity list" where
  "board_entities =
     [bspDI_entity,
      \<lparr>e_pName = lit ''GPIO'', e_version = 1, e_instanceCount = 1, e_options = 0,
       e_pAttributes = [[(blank_attribute ''CCRHReset'')\<lparr>a_dataSize := 4, a_writeMethod := Some (Other ())\<rparr>, nameless]]\<rparr>,
      \<lparr>e_pName = lit ''Reset'', e_version = 1, e_instanceCount = 1, e_options = 0,
       e_pAttributes = [[(blank_attribute ''RSTB_DIRSTB'')\<lparr>a_dataSize := 1, a_readMethod := Some M_bspReset_LT_RSTB_read,
         a_writeMethod := Some M_bspReset_LT_RSTB_write, a_attribute_specific := 0x400\<rparr>, nameless]]\<rparr>]"

definition board_bench :: "fd_t list \<Rightarrow> ios_message list \<Rightarrow> (ios_message list, unit bsp_method) main_state" where
  "board_bench t ms =
     \<lparr>regs = (\<lambda>_. 0), env = ms, s_crc32Value = 0, log_mutex = 0, log_fds = replicate 32 log_fd_zero, active_log_fds = 0,
      log_syslog_handle = 0, bspEntityCount = 3, bspEntityList = map Some board_entities @ replicate 29 None,
      eepromContexts = [\<lparr>ee_status = 0\<rparr>], bc_log_handle = 0, bc_initialised = False, bspHardwareVersion = 0x24100028,
      bspBoardConfig = hw_config, hw_pvr = \<lparr>pvr_version = 0, pvr_revision = 0\<rparr>, eePVRAddr = 0x42, main_log_fd = 0,
      ppc_summary = zero_summary, coreproperties = replicate 3 zero_core, pPPCExecStop = None, pPPCExecStart = None,
      ccrhSummary = False, devbsp_msgqueue_id = 5, bsp_fdtable = t, client_mem = Map.empty\<rparr>"

lemma bench_parameters_keep:
  "other_keeps f board_other" "ios_keeps f quiet_ios" "ext_keeps f (ppc_ext (\<lambda>_ s. s))" "dev_keeps f (ppc_ext (\<lambda>_ s. s)) dev_bench"
  by (auto simp: other_keeps_def board_other_def ios_keeps_def quiet_ios_def ext_keeps_def ppc_ext_def dev_keeps_def dev_bench_def
      keeps_def prog_simps split: sum.splits)

definition registry :: "('e, 'm, 'z) ent_state_scheme \<Rightarrow> int \<times> 'm bsp_entity option list" where
  "registry s = (bspEntityCount s, bspEntityList s)"

interpretation board_registry: board_frame registry board_other quiet_ios "ppc_ext (\<lambda>_ s. s)" dev_bench
  by unfold_locales (auto simp: bench_parameters_keep registry_def)

interpretation board_table: board_frame
    "bsp_fdtable :: ('e, unit bsp_method, 'z) main_state_scheme \<Rightarrow> _" board_other quiet_ios "ppc_ext (\<lambda>_ s. s)" dev_bench
  by unfold_locales (auto simp: bench_parameters_keep)

text \<open>The dispatcher of any depth then is a provider of the contract of the lower layers.\<close>

interpretation board_lower: frame registry "bsp_dispatch board_other quiet_ios (ppc_ext (\<lambda>_ s. s)) dev_bench d" quiet_ios
    "ppc_ext (\<lambda>_ s. s)" for d
  by (rule board_registry.framed)

text \<open>The same for any parameters that leave the registry alone.\<close>

lemma registry_frame:
  assumes "other_keeps registry G" "ios_keeps registry os" "ext_keeps registry X" "dev_keeps registry X A"
  shows "frame registry (bsp_dispatch G os X A d) os X"
proof -
  have "board_frame registry G os X A"
    by unfold_locales (use assms in \<open>auto simp: registry_def\<close>)
  then show ?thesis by (rule board_frame.framed)
qed

text \<open>What the board leaves alone, apart from the entries of tables and client memory, no run of the loop changes.\<close>

lemma served_keeps:
  fixes f :: "('e, 'x bsp_method, 'z) main_state_scheme \<Rightarrow> 'b"
  assumes "frame f D os X" "rm_keeps f R" "\<And>s v. f (s\<lparr>client_mem := v\<rparr>) = f s"
    and "\<And>s v. length v = length (bsp_fdtable s) \<Longrightarrow> f (s\<lparr>bsp_fdtable := v\<rparr>) = f s"
    and "served D os R X (r, s) tr (r', s')"
  shows "f s' = f s"
proof -
  have reply: "keeps f (IOS_ResourceReply R msg v)" and receive: "keeps f (IOS_ReceiveMessage R q)" for msg v q
    using assms(2) by (simp_all add: rm_keeps_def)
  note serve = serve_keeps [OF assms(1) reply assms(3,4)]
  show ?thesis
  proof (rule served_invariant [OF assms(5), where I = "\<lambda>t. f t = f s"], goal_cases)
    case (2 t ret msg t1)
    then show ?case using keepsD [OF receive 2(1)] by simp
  next
    case (3 v t msg w t1)
    then show ?case using keepsD [OF serve 3(1)] by simp
  qed simp
qed

lemma served_registry:
  fixes s :: "('e, 'x bsp_method, 'z) main_state_scheme"
  assumes "frame registry D os X" "rm_keeps registry R" "served D os R X (r, s) tr (r', s')"
  shows "registry s' = registry s"
  by (rule served_keeps [OF assms(1,2) _ _ assms(3)]) (simp_all add: registry_def)

section \<open>The sizes of the arrays\<close>

text \<open>
  An array of the C source has a fixed number of elements, a list of the model does not. The state is typed
  when every static array has the size of its declaration, and the count of entities fits its array.
\<close>

definition shape :: "('e, 'm, 'z) main_state_scheme \<Rightarrow> int \<times> nat list" where
  "shape s = (bspEntityCount s,
     [length (bspEntityList s), length (log_fds s), length (eepromContexts s), length (coreproperties s), length (bsp_fdtable s)])"

definition state_typed :: "('e, 'm, 'z) main_state_scheme \<Rightarrow> bool" where
  "state_typed s \<longleftrightarrow> 0 \<le> bspEntityCount s \<and> bspEntityCount s \<le> 32 \<and> length (bspEntityList s) = 32 \<and>
     length (log_fds s) = 32 \<and> length (eepromContexts s) = NUM_EEPROMS \<and> length (coreproperties s) = 3 \<and> length (bsp_fdtable s) = 32"

lemma state_typed_shape: "shape s' = shape s \<Longrightarrow> state_typed s' \<longleftrightarrow> state_typed s"
  by (simp add: shape_def state_typed_def)

interpretation board_shape: board_frame
    "shape :: ('e, unit bsp_method, 'z) main_state_scheme \<Rightarrow> _" board_other quiet_ios "ppc_ext (\<lambda>_ s. s)" dev_bench
  by unfold_locales (auto simp: bench_parameters_keep shape_def)

lemma shape_frame:
  fixes X :: "('x bsp_method, ('e, 'x bsp_method, 'z) main_state_scheme) bsp_ext"
  assumes "other_keeps shape G" "ios_keeps shape os" "ext_keeps shape X" "dev_keeps shape X A"
  shows "frame shape (bsp_dispatch G os X A d) os X"
proof -
  have "board_frame shape G os X A"
    by unfold_locales (use assms in \<open>auto simp: shape_def\<close>)
  then show ?thesis by (rule board_frame.framed)
qed

text \<open>In a typed state the comparison with \<^verbatim>\<open>0x1F\<close> covers the table but for the sign.\<close>

lemma typed_descriptor_check:
  assumes "state_typed s"
  shows "fd_usable fd s = (if neg32 fd then Inl OutOfBounds else Inr (fd_abs (bsp_fdtable s) (unat fd) \<noteq> None, s))"
proof -
  have range: "sint fd > 31 \<longleftrightarrow> unat fd \<ge> 32" if "\<not> neg32 fd"
    using that unat_of_nonneg [of fd] by (auto simp: neg32_def simp del: int_nat_eq of_nat_unat)
  show ?thesis
    using assms range by (auto simp: fd_usable_def prog_simps fd_abs_def read_at_def state_typed_def neg32_def)
qed

lemmas entity_table_defs = bspDI_entity_def bspDI_attributes_def bspSI_entity_def bspSI_attributes_def bspEE_entity_def
  bspEE_attributes_def bspCCRH_entity_def bspCCRH_attributes_def wood_ppc_entity_def latte_ppc_entity_def
  ppcCore0Attributes_def ppcCore1Attributes_def ppcCore2Attributes_def summary_attribute_def core_attribute_def
  blank_attribute_def

section \<open>Properties\<close>

text \<open>
  C10: With the entity methods of the repository behind the registry, no sequence of messages changes what
  is registered: the entities, their attributes and the permissions of these are the same after any run of
  the message loop. Only the functions outside the repository are assumed to leave the registry alone.
\<close>

theorem registry_is_fixed_while_serving:
  fixes s :: "('e, 'x bsp_method, 'z) main_state_scheme"
  assumes "other_keeps registry G" "ios_keeps registry os" "ext_keeps registry X" "dev_keeps registry X A"
    and "rm_keeps registry R" "served (bsp_dispatch G os X A d) os R X (r, s) tr (r', s')"
  shows "registered s' = registered s"
  using served_registry [OF registry_frame [OF assms(1-4)] assms(5,6)] by (simp add: registry_def registered_def)

lemma board_receive:
  "IOS_ReceiveMessage rm_bench q (board_bench t (m # ms)) = Inr ((0, m), board_bench t ms)"
  by (simp add: rm_bench_def board_bench_def)

lemma board_open:
  "serve_message D quiet_ios rm_bench X (msg_bench IOS_OPEN fd a0 a1 a3 a4) (Some r) (board_bench t ms) =
     Inr (r, board_bench (open_loop a4 t) ms)"
  by (simp add: serve_message_def handle_message_def Let_def prog_simps rm_bench_def board_bench_def)

lemma board_run:
  "served (bsp_dispatch board_other quiet_ios (ppc_ext (\<lambda>_ s. s)) dev_bench 2) quiet_ios rm_bench (ppc_ext (\<lambda>_ s. s))
     (Some 0, board_bench all_free [msg_bench IOS_OPEN 0 0 0 0 0x10]) [(msg_bench IOS_OPEN 0 0 0 0 0x10, 0)]
     (Some 0, board_bench (open_loop 0x10 all_free) [])"
  by (rule served_cons [OF board_receive board_open served_nil])

theorem registry_is_fixed_while_serving_witness:
  "\<exists>s'. served (bsp_dispatch board_other quiet_ios (ppc_ext (\<lambda>_ s. s)) dev_bench 2) quiet_ios rm_bench (ppc_ext (\<lambda>_ s. s))
      (Some 0, board_bench all_free [msg_bench IOS_OPEN 0 0 0 0 0x10]) [(msg_bench IOS_OPEN 0 0 0 0 0x10, 0)] (Some 0, s') \<and>
    registered s' = registered (board_bench all_free [msg_bench IOS_OPEN 0 0 0 0 0x10])"
proof -
  have "rm_keeps registry (rm_bench :: ((ios_message list, unit bsp_method) main_state) rm_ios)"
    by (auto simp: rm_keeps_def rm_bench_def keeps_def returnC_def registry_def split: list.splits)
  from registry_is_fixed_while_serving [OF bench_parameters_keep this board_run] board_run show ?thesis by blast
qed

text \<open>
  C11: The state stays typed. Whatever messages arrive and whatever methods they run, every static array keeps the
  size it is declared with and the count of entities stays within its array, as long as the functions outside
  the repository keep them. Hence after any run the check of a descriptor is sound: it faults exactly on negative
  numbers, and accepts exactly the numbers that are open.
\<close>

theorem state_stays_typed:
  fixes s :: "('e, 'x bsp_method, 'z) main_state_scheme"
  assumes "other_keeps shape G" "ios_keeps shape os" "ext_keeps shape X" "dev_keeps shape X A" "rm_keeps shape R"
    and "served (bsp_dispatch G os X A d) os R X (r, s) tr (r', s')" "state_typed s"
  shows "state_typed s' \<and>
    fd_usable fd s' = (if neg32 fd then Inl OutOfBounds else Inr (fd_abs (bsp_fdtable s') (unat fd) \<noteq> None, s'))"
proof -
  have "shape s' = shape s"
    by (rule served_keeps [OF shape_frame [OF assms(1-4)] assms(5) _ _ assms(6)]) (simp_all add: shape_def)
  with assms(7) have "state_typed s'" using state_typed_shape by blast
  with typed_descriptor_check show ?thesis by blast
qed

theorem state_stays_typed_witness:
  "\<exists>s'. served (bsp_dispatch board_other quiet_ios (ppc_ext (\<lambda>_ s. s)) dev_bench 2) quiet_ios rm_bench (ppc_ext (\<lambda>_ s. s))
      (Some 0, board_bench all_free [msg_bench IOS_OPEN 0 0 0 0 0x10]) [(msg_bench IOS_OPEN 0 0 0 0 0x10, 0)] (Some 0, s') \<and>
    state_typed s' \<and> fd_usable 0 s' = Inr (True, s') \<and> fd_usable 1 s' = Inr (False, s') \<and> fd_usable (-1) s' = Inl OutOfBounds"
proof -
  let ?t = "open_loop 0x10 all_free"
  have start: "state_typed (board_bench all_free ms)" for ms
    by (simp add: state_typed_def board_bench_def board_entities_def all_free_def)
  have calls: "rm_keeps shape (rm_bench :: ((ios_message list, unit bsp_method) main_state) rm_ios)"
    by (auto simp: rm_keeps_def rm_bench_def keeps_def returnC_def shape_def split: list.splits)
  have entries: "fd_abs ?t 0 = Some 0x10" "fd_abs ?t 1 = None" by code_simp+
  have table: "bsp_fdtable (board_bench ?t []) = ?t" by (simp add: board_bench_def)
  note typed = state_stays_typed [OF bench_parameters_keep calls board_run start, unfolded table]
  have checks: "fd_usable 0 (board_bench ?t []) = Inr (True, board_bench ?t [])"
    "fd_usable 1 (board_bench ?t []) = Inr (False, board_bench ?t [])" "fd_usable (-1) (board_bench ?t []) = Inl OutOfBounds"
    using typed [of 0] typed [of 1] typed [of "-1"] entries by (simp_all add: neg32_def)
  show ?thesis
    by (intro exI [of _ "board_bench ?t []"] conjI board_run checks typed [THEN conjunct1])
qed

text \<open>
  C37: A request for an attribute that the DI, SI, EE, CCRH or PPC entity does not have reads past the end of
  the entity's table, whatever the command and the credentials: the tables have no entry without a name,
  which is what ends the search.
\<close>

theorem unterminated_tables_fault:
  assumes entity: "bspFindEntity nm s = Inr ((BSP_RVAL_OK, Some e), s)"
    and "e \<in> {bspDI_entity, bspSI_entity, bspEE_entity, bspCCRH_entity, wood_ppc_entity, latte_ppc_entity}"
    and "inst < e_instanceCount e" "readable 32 anm" "cstring anm \<noteq> []" "method_command cmd"
    and "\<forall>a \<in> set (concat (e_pAttributes e)). \<not> has_name anm a"
  shows "request D cmd nm inst anm sz p cred s = Inl OutOfBounds"
proof -
  have tables: "list_all (\<lambda>tbl. list_all (\<lambda>a. case a_pName a of None \<Rightarrow> False | Some n \<Rightarrow> readable 32 n) tbl) (e_pAttributes e)"
    using assms(2) by (auto simp: entity_table_defs)
  moreover have "0 < length (e_pAttributes e)" "e_options e AND BSP_EO_FLAT_INSTANCES = 0 \<longrightarrow> unat inst < length (e_pAttributes e)"
    using assms(2,3) by (auto simp: entity_table_defs word_less_nat_alt)
  ultimately obtain tbl where tbl: "attribute_array e inst = Inr tbl" "tbl \<in> set (e_pAttributes e)"
    by (cases "e_options e AND BSP_EO_FLAT_INSTANCES = 0") (auto simp: attribute_array_def)
  have nonames: "list_all (\<lambda>a. case a_pName a of None \<Rightarrow> False | Some n \<Rightarrow> readable 32 n) tbl"
    using tables tbl(2) by (simp add: list_all_iff)
  have "lookup_attribute anm tbl = None"
    using assms(7) tbl(2) by (auto simp: lookup_attribute_def named_attributes_def find_None_iff dest: set_takeWhileD)
  moreover have "list_all (\<lambda>a. case a_pName a of None \<Rightarrow> True | Some n \<Rightarrow> readable 32 n) tbl"
    using nonames by (rule list.pred_mono_strong) (simp split: option.splits)
  moreover have "\<not> list_ex (\<lambda>a. a_pName a = None) tbl"
    using nonames by (fastforce simp: list_all_iff list_ex_iff)
  ultimately have "find_attribute_loop anm tbl = Inl OutOfBounds"
    by (simp add: find_attribute_loop_spec [OF assms(4)])
  then have "bspFindAttribute nm inst anm c k s = Inl OutOfBounds" for c k
    using entity tbl(1) readable_first [OF assms(4)] assms(3,5) by (simp add: bspFindAttribute_def prog_simps not_le)
  with assms(6) show ?thesis
    by (auto simp: request_def bspMethodRead_def bspMethodQuery_def bspMethodWrite_def bspMethodInit_def bspMethodShutdown_def
        bindC_def method_command_def)
qed

theorem unterminated_tables_fault_witness:
  "request quiet_dispatch BSP_IOCTL_METHOD_READ (lit ''DI'') 0 (lit ''Power'') 1 (Buf [0]) 0
     ((board_bench [] [])\<lparr>bspEntityCount := 1, bspEntityList := [Some bspDI_entity]\<rparr>) = Inl OutOfBounds"
proof (rule unterminated_tables_fault [where e = bspDI_entity])
  have "strncmp (lit ''DI'') (lit ''DI'') 32 = Inr 0" by code_simp
  then show "bspFindEntity (lit ''DI'') ((board_bench [] [])\<lparr>bspEntityCount := 1, bspEntityList := [Some bspDI_entity]\<rparr>) =
      Inr ((BSP_RVAL_OK, Some bspDI_entity), (board_bench [] [])\<lparr>bspEntityCount := 1, bspEntityList := [Some bspDI_entity]\<rparr>)"
    by (simp add: bspFindEntity_def prog_simps bspDI_entity_def)
  show "cstring (lit ''Power'') \<noteq> []" by (simp add: lit_def)
qed (simp_all add: method_command_def bspDI_entity_def bspDI_attributes_def blank_attribute_def has_name_def)

end
