(* ===== verification/Depth.thy ===== *)
theory Depth
  imports Board
begin

text \<open>
  How deep the calls of the attribute methods nest. A method of the repository makes requests to three
  entities only: GPIO, SMC and Reset. When the methods of these are those of the reset lines or ones from outside
  the repository, which the dispatcher runs without its index, depth 2 is enough: every request has the
  outcome it has at any greater depth.

  \<open>agree f c m n\<close> says that from a state whose part \<open>f\<close> is \<open>c\<close> the two programs do the same, and leave
  that part alone.
\<close>

section \<open>Rules\<close>

definition agree :: "('s \<Rightarrow> 'b) \<Rightarrow> 'b \<Rightarrow> ('s, 'a) prog \<Rightarrow> ('s, 'a) prog \<Rightarrow> bool" where
  "agree f c m n \<longleftrightarrow> (\<forall>s. f s = c \<longrightarrow> n s = m s \<and> (case m s of Inl _ \<Rightarrow> True | Inr (a, s') \<Rightarrow> f s' = c))"

named_theorems agree_intros \<open>introduction rules for agreement\<close>

lemma agreeD: "agree f c m n \<Longrightarrow> f s = c \<Longrightarrow> n s = m s"
  by (simp add: agree_def)

lemma agree_kept: "agree f c m n \<Longrightarrow> f s = c \<Longrightarrow> m s = Inr (a, s') \<Longrightarrow> f s' = c"
  by (auto simp: agree_def split: sum.splits)

lemma agree_keeps: "keeps f m \<Longrightarrow> agree f c m m"
  by (auto simp: agree_def keeps_def split: sum.splits)

lemma agree_sym: "agree f c m n \<Longrightarrow> agree f c n m"
  by (simp add: agree_def)

lemma agree_atoms [agree_intros]:
  "agree f c (returnC a) (returnC a)" "agree f c (failC e) (failC e)" "agree f c (getsC g) (getsC g)"
  "agree f c (liftC r) (liftC r)"
  by (intro agree_keeps keeps_intros)+

lemma agree_modifyC [agree_intros]: "(\<And>s. f (u s) = f s) \<Longrightarrow> agree f c (modifyC u) (modifyC u)"
  by (intro agree_keeps keeps_intros)

lemma agree_rd_reg [agree_intros]: "agree f c (rd_reg a) (rd_reg a)"
  by (intro agree_keeps keeps_intros)

lemma agree_bindC [agree_intros]:
  assumes "agree f c m n" "\<And>a. agree f c (g a) (h a)"
  shows "agree f c (bindC m g) (bindC n h)"
  unfolding agree_def
proof (intro allI impI)
  fix s assume "f s = c"
  with assms(1) have "n s = m s" "\<And>a s'. m s = Inr (a, s') \<Longrightarrow> f s' = c"
    by (auto dest: agreeD agree_kept)
  with assms(2) show "bindC n h s = bindC m g s \<and> (case bindC m g s of Inl _ \<Rightarrow> True | Inr (a, s') \<Rightarrow> f s' = c)"
    by (cases "m s") (auto simp: bindC_def agree_def)
qed

lemma agree_seqC [agree_intros]: "agree f c m n \<Longrightarrow> agree f c m' n' \<Longrightarrow> agree f c (seqC m m') (seqC n n')"
  by (simp add: seqC_def agree_bindC)

lemma agree_derefC [agree_intros]: "(\<And>a. p = Some a \<Longrightarrow> agree f c (g a) (h a)) \<Longrightarrow> agree f c (derefC p g) (derefC p h)"
  by (cases p) (auto simp: derefC_def intro: agree_atoms)

lemma agree_if [agree_intros]:
  "(b \<Longrightarrow> agree f c m n) \<Longrightarrow> (\<not> b \<Longrightarrow> agree f c m' n') \<Longrightarrow> agree f c (if b then m else m') (if b then n else n')"
  by simp

lemma agree_option [agree_intros]:
  "agree f c m n \<Longrightarrow> (\<And>a. p = Some a \<Longrightarrow> agree f c (g a) (h a)) \<Longrightarrow>
   agree f c (case p of None \<Rightarrow> m | Some a \<Rightarrow> g a) (case p of None \<Rightarrow> n | Some a \<Rightarrow> h a)"
  by (cases p) auto

lemma agree_prod [agree_intros]:
  "(\<And>a b. agree f c (g a b) (h a b)) \<Longrightarrow> agree f c (case p of (a, b) \<Rightarrow> g a b) (case p of (a, b) \<Rightarrow> h a b)"
  by (cases p) auto

lemma agree_Let [agree_intros]: "agree f c (g x) (h x) \<Longrightarrow> agree f c (let y = x in g y) (let y = x in h y)"
  by (simp add: Let_def)

section \<open>Requests that make no difference\<close>

text \<open>
  Two dispatchers that agree on the requests to the three entities; everything the entity methods are made
  of then agrees. The part of the state is the registry.
\<close>

definition base_names :: "bytes set" where
  "base_names = {lit ''GPIO'', lit ''SMC'', lit ''Reset''}"

locale depth_pair =
  fixes f :: "('e, 'x bsp_method, 'z) ccrh_state_scheme \<Rightarrow> 'b" and c :: 'b
    and D E :: "('x bsp_method, ('e, 'x bsp_method, 'z) ccrh_state_scheme) dispatch"
    and G :: "('x, ('e, 'x bsp_method, 'z) ccrh_state_scheme) other_methods"
    and os :: "(('e, 'x bsp_method, 'z) ccrh_state_scheme) ios"
    and X :: "('x bsp_method, ('e, 'x bsp_method, 'z) ccrh_state_scheme) bsp_ext"
    and A :: "(('e, 'x bsp_method, 'z) ccrh_state_scheme) dev_ext"
  assumes frame: "board_frame f G os X A" and kept: "dispatch_keeps f D"
    and rd: "\<And>nm i at n p k. nm \<in> base_names \<Longrightarrow> agree f c (bspMethodRead D nm i at n p k) (bspMethodRead E nm i at n p k)"
    and wr: "\<And>nm i at n p k. nm \<in> base_names \<Longrightarrow> agree f c (bspMethodWrite D nm i at n p k) (bspMethodWrite E nm i at n p k)"
    and ini: "\<And>nm i at n p k. nm \<in> base_names \<Longrightarrow> agree f c (bspMethodInit D nm i at n p k) (bspMethodInit E nm i at n p k)"
begin

lemmas fr = board_frame.over [OF frame kept]

lemmas fields = board_frame.log_fields [OF frame] board_frame.crc_field [OF frame] board_frame.eeprom_field [OF frame]
  board_frame.bc_fields [OF frame] board_frame.hw_fields [OF frame] board_frame.reg_field [OF frame]

text \<open>What does not mention the dispatcher agrees with itself.\<close>

lemmas apart =
  agree_keeps [OF board_frame.other_calls(1) [OF frame]] agree_keeps [OF board_frame.other_calls(2) [OF frame]]
  agree_keeps [OF board_frame.other_calls(3) [OF frame]] agree_keeps [OF board_frame.other_calls(4) [OF frame]]
  agree_keeps [OF board_frame.other_calls(5) [OF frame]] agree_keeps [OF board_frame.other_calls(6) [OF frame]]
  agree_keeps [OF board_frame.device_calls(1) [OF frame]] agree_keeps [OF board_frame.device_calls(2) [OF frame]]
  agree_keeps [OF board_frame.device_calls(3) [OF frame]] agree_keeps [OF board_frame.device_calls(4) [OF frame]]
  agree_keeps [OF board_frame.device_calls(5) [OF frame]] agree_keeps [OF board_frame.device_calls(6) [OF frame]]
  agree_keeps [OF board_frame.device_calls(8) [OF frame]] agree_keeps [OF board_frame.device_calls(9) [OF frame]]
  agree_keeps [OF board_frame.device_calls(10) [OF frame]] agree_keeps [OF board_frame.device_calls(11) [OF frame]]
  agree_keeps [OF board_frame.registers [OF frame]] agree_keeps [OF board_frame.data(1) [OF frame]]
  agree_keeps [OF board_frame.data(2) [OF frame]] agree_keeps [OF board_frame.pvr [OF frame]]
  agree_keeps [OF board_frame.ppc_reset(1) [OF frame]] agree_keeps [OF board_frame.ppc_reset(2) [OF frame]]
  agree_keeps [OF board_frame.ppc_reset(3) [OF frame]]
  agree_keeps [OF frame.delays [OF fr]] agree_keeps [OF frame.status(1) [OF fr]] agree_keeps [OF frame.status(2) [OF fr]]
  agree_keeps [OF frame.open_log [OF fr]] agree_keeps [OF frame.crc(1) [OF fr]] agree_keeps [OF frame.crc(2) [OF fr]]
  agree_keeps [OF frame.crc(3) [OF fr]] agree_keeps [OF frame.version_pointer(1) [OF fr]]
  agree_keeps [OF frame.version_pointer(2) [OF fr]] agree_keeps [OF frame.version_pointer(3) [OF fr]]
  agree_keeps [OF frame.chip_version(1) [OF fr]] agree_keeps [OF frame.chip_version(2) [OF fr]]

lemma base [simp]: "lit ''GPIO'' \<in> base_names" "lit ''SMC'' \<in> base_names" "lit ''Reset'' \<in> base_names"
  by (simp_all add: base_names_def)

lemma internal:
  assumes "nm \<in> base_names"
  shows "agree f c (bspReadInternal D nm i at n p) (bspReadInternal E nm i at n p)"
    "agree f c (bspWriteInternal D nm i at n p) (bspWriteInternal E nm i at n p)"
    "agree f c (bspInitInternal D nm i at n p) (bspInitInternal E nm i at n p)"
  by (simp_all add: bspReadInternal_def bspWriteInternal_def bspInitInternal_def rd wr ini assms)

lemma lines:
  "agree f c (eepromDrvSetSK D v) (eepromDrvSetSK E v)" "agree f c (eepromDrvSetCS D v) (eepromDrvSetCS E v)"
  "agree f c (eepromDrvSetDO D v) (eepromDrvSetDO E v)" "agree f c (eepromDrvReadBit D os) (eepromDrvReadBit E os)"
proof -
  show l: "agree f c (eepromDrvSetSK D v) (eepromDrvSetSK E v)" "agree f c (eepromDrvSetCS D v) (eepromDrvSetCS E v)"
    "agree f c (eepromDrvSetDO D v) (eepromDrvSetDO E v)" for v
    by (auto simp: eepromDrvSetSK_def eepromDrvSetCS_def eepromDrvSetDO_def intro!: agree_intros internal)
  show "agree f c (eepromDrvReadBit D os) (eepromDrvReadBit E os)"
    by (auto simp: eepromDrvReadBit_def intro!: agree_intros internal l apart)
qed

lemma driver_loops:
  "agree f c (finish_clocks D os k) (finish_clocks E os k)" "agree f c (send_bits_loop D os w k) (send_bits_loop E os w k)"
  "agree f c (ready_loop D os k) (ready_loop E os k)" "agree f c (read_word_loop D os k v) (read_word_loop E os k v)"
proof -
  show "agree f c (finish_clocks D os k) (finish_clocks E os k)"
    by (induction k) (auto intro!: agree_intros lines apart)
  show "agree f c (send_bits_loop D os w k) (send_bits_loop E os w k)"
    by (induction k) (auto intro!: agree_intros lines apart)
  show "agree f c (ready_loop D os k) (ready_loop E os k)"
    by (induction k) (auto intro!: agree_intros lines apart)
  show "agree f c (read_word_loop D os k v) (read_word_loop E os k v)"
    by (induction k arbitrary: v) (auto intro!: agree_intros lines apart)
qed

lemma commands:
  "agree f c (eepromDrvFinishCommand D os n) (eepromDrvFinishCommand E os n)"
  "agree f c (eepromDrvSendBits D os n w) (eepromDrvSendBits E os n w)"
  "agree f c (eepromDrvWaitForReady D os) (eepromDrvWaitForReady E os)"
proof -
  show fin: "agree f c (eepromDrvFinishCommand D os n) (eepromDrvFinishCommand E os n)" for n
    by (auto simp: eepromDrvFinishCommand_def intro!: agree_intros lines driver_loops)
  show "agree f c (eepromDrvSendBits D os n w) (eepromDrvSendBits E os n w)"
    by (auto simp: eepromDrvSendBits_def intro!: agree_intros lines driver_loops)
  show "agree f c (eepromDrvWaitForReady D os) (eepromDrvWaitForReady E os)"
    by (auto simp: eepromDrvWaitForReady_def intro!: agree_intros lines driver_loops fin)
qed

lemma driver:
  "agree f c (eepromDrvReadWord D os n a) (eepromDrvReadWord E os n a)"
  "agree f c (eepromDrvWriteWord D os n a w) (eepromDrvWriteWord E os n a w)"
  "agree f c (eepromDrvSetWriteControl D os n v) (eepromDrvSetWriteControl E os n v)"
  "agree f c (eepromDrvInit D n) (eepromDrvInit E n)" "agree f c (eepromDrvOpen D n) (eepromDrvOpen E n)"
  "agree f c (eepromDrvShutdown D n) (eepromDrvShutdown E n)"
  by (auto simp: eepromDrvReadWord_def eepromDrvWriteWord_def eepromDrvSetWriteControl_def eepromDrvInit_def
      eepromDrvOpen_def eepromDrvShutdown_def intro!: agree_intros lines driver_loops commands apart)

lemma config: "agree f c (bcInit D os) (bcInit E os)" "agree f c (bcGet D os p) (bcGet E os p)"
proof -
  have "agree f c (bc_read_loop D os i n ws) (bc_read_loop E os i n ws)" for i n ws
    by (induction n arbitrary: i ws) (auto intro!: agree_intros driver)
  then show "agree f c (bcInit D os) (bcInit E os)" "agree f c (bcGet D os p) (bcGet E os p)"
    by (auto simp: bcInit_def bcGet_def fields intro!: agree_intros driver apart)
qed

lemma version:
  "agree f c (bspMethodGetHardwareVersion D os X p) (bspMethodGetHardwareVersion E os X p)"
proof -
  have "agree f c (bspReadBoardConfig D os) (bspReadBoardConfig E os)"
    by (auto simp: bspReadBoardConfig_def Let_def fields intro!: agree_intros config)
  then show ?thesis
    by (auto simp: bspMethodGetHardwareVersion_def Let_def fields intro!: agree_intros apart)
qed

lemma clock: "agree f c (bspGetSystemClockInfo D os X) (bspGetSystemClockInfo E os X)"
  by (auto simp: bspGetSystemClockInfo_def Let_def intro!: agree_intros version)

lemma reading:
  "agree f c (bspDI_Reset_read D A i a p) (bspDI_Reset_read E A i a p)"
  "agree f c (bspEE_access_read D os i a p) (bspEE_access_read E os i a p)"
  "agree f c (bspEE_bc_read D os i a p) (bspEE_bc_read E os i a p)"
  "agree f c (bspSys_ASICRevision D os X A i a p) (bspSys_ASICRevision E os X A i a p)"
  "agree f c (bspSys_ClockInfo D os X i a p) (bspSys_ClockInfo E os X i a p)"
  "agree f c (bspPPC_Read60XeDataStreaming D os X i a p) (bspPPC_Read60XeDataStreaming E os X i a p)"
  by (auto simp: bspDI_Reset_read_def bspEE_access_read_def bspEE_bc_read_def bspSys_ASICRevision_def bspSys_ClockInfo_def
      bspPPC_Read60XeDataStreaming_def intro!: agree_intros rd driver config version clock apart)

lemma ccrh: "agree f c (bspCCRH_Reset_write D os X A i a p) (bspCCRH_Reset_write E os X A i a p)"
  "agree f c (bspCCRH_Reset_init D os X A i a p n) (bspCCRH_Reset_init E os X A i a p n)"
proof -
  have "agree f c (ccrh_hold D os X A w) (ccrh_hold E os X A w)" "agree f c (ccrh_release D os X A w) (ccrh_release E os X A w)" for w
    by (auto simp: ccrh_hold_def ccrh_release_def Let_def intro!: agree_intros internal version apart)
  then show reset: "agree f c (bspCCRH_Reset_write D os X A i a p) (bspCCRH_Reset_write E os X A i a p)" for p
    by (auto simp: bspCCRH_Reset_write_def Let_def intro!: agree_intros apart)
  show "agree f c (bspCCRH_Reset_init D os X A i a p n) (bspCCRH_Reset_init E os X A i a p n)"
    by (auto simp: bspCCRH_Reset_init_def intro!: agree_intros version reset)
qed

lemma writing:
  "agree f c (bspDI_Reset_write D A i a p) (bspDI_Reset_write E A i a p)"
  "agree f c (bspEE_access_write D os i a p) (bspEE_access_write E os i a p)"
  "agree f c (bspEE_control_write D os i a p) (bspEE_control_write E os i a p)"
  "agree f c (bspSys_iop2x_write D os X i a p) (bspSys_iop2x_write E os X i a p)"
  "agree f c (bspPPC_Exec D os X A i a p) (bspPPC_Exec E os X A i a p)"
  "agree f c (bspPPC_Write60XeDataStreaming D os X i a p) (bspPPC_Write60XeDataStreaming E os X i a p)"
proof -
  show "agree f c (bspPPC_Exec D os X A i a p) (bspPPC_Exec E os X A i a p)"
    by (auto simp: bspPPC_Exec_def split: exec_stop.split exec_start.split intro!: agree_intros version apart)
qed (auto simp: bspDI_Reset_write_def bspEE_access_write_def bspEE_control_write_def bspSys_iop2x_write_def
      bspPPC_Write60XeDataStreaming_def Let_def intro!: agree_intros wr driver version apart)

lemma initialising:
  "agree f c (bspDI_IOStrength_init D os X i a p n) (bspDI_IOStrength_init E os X i a p n)"
  "agree f c (bspSI_IOStrength_init D os X i a p n) (bspSI_IOStrength_init E os X i a p n)"
  "agree f c (bspSDIO_IOStrength_init D os X A i a p n) (bspSDIO_IOStrength_init E os X A i a p n)"
  "agree f c (bspEE_control_init D os i a p n) (bspEE_control_init E os i a p n)"
  "agree f c (bspEE_control_shutdown D i a) (bspEE_control_shutdown E i a)"
  by (auto simp: bspDI_IOStrength_init_def bspSI_IOStrength_init_def bspSDIO_IOStrength_init_def bspEE_control_init_def
      bspEE_control_shutdown_def Let_def intro!: agree_intros driver version apart)

lemmas unnested = board_frame.plain_methods [OF frame] board_frame.ppc_methods [OF frame kept] board_frame.leaf [OF frame] keeps_atoms

lemma methods:
  "agree f c (board_read G D os X A m i a p) (board_read G E os X A m i a p)"
  "agree f c (board_write G D os X A m i a p) (board_write G E os X A m i a p)"
  "agree f c (board_init G D os X A m i a p n) (board_init G E os X A m i a p n)"
proof -
  show "agree f c (board_read G D os X A m i a p) (board_read G E os X A m i a p)"
    by (cases m) (simp_all add: board_read_def reading agree_keeps unnested)
  show "agree f c (board_write G D os X A m i a p) (board_write G E os X A m i a p)"
    by (cases m) (simp_all add: board_write_def writing ccrh agree_keeps unnested)
  show "agree f c (board_init G D os X A m i a p n) (board_init G E os X A m i a p n)"
    by (cases m) (simp_all add: board_init_def initialising ccrh agree_keeps unnested)
qed

end

section \<open>From the methods to the requests\<close>

text \<open>The entities a name can find, and the attributes on which two dispatchers do the same.\<close>

definition found :: "bytes \<Rightarrow> 'm bsp_entity \<Rightarrow> int \<times> 'm bsp_entity option list \<Rightarrow> bool" where
  "found nm e c \<longleftrightarrow> Some e \<in> set (snd c) \<and> strncmp nm (e_pName e) 32 = Inr 0"

definition same_methods :: "('s \<Rightarrow> 'b) \<Rightarrow> 'b \<Rightarrow> ('m, 's) dispatch \<Rightarrow> ('m, 's) dispatch \<Rightarrow> 'm bsp_attribute \<Rightarrow> bool" where
  "same_methods f c D E a \<longleftrightarrow> (\<forall>m i p n.
     (a_readMethod a = Some m \<longrightarrow> agree f c (call_read D m i a p) (call_read E m i a p)) \<and>
     (a_queryMethod a = Some m \<longrightarrow> agree f c (call_query D m i a p) (call_query E m i a p)) \<and>
     (a_writeMethod a = Some m \<longrightarrow> agree f c (call_write D m i a p) (call_write E m i a p)) \<and>
     (a_initMethod a = Some m \<longrightarrow> agree f c (call_init D m i a p n) (call_init E m i a p n)) \<and>
     (a_shutdownMethod a = Some m \<longrightarrow> agree f c (call_shutdown D m i a) (call_shutdown E m i a)))"

lemma find_entity_loop_found:
  "find_entity_loop nm ents n = Inr (ret, Some e) \<Longrightarrow> Some e \<in> set ents \<and> strncmp nm (e_pName e) 32 = Inr 0"
  by (induction nm ents n rule: find_entity_loop.induct) (auto simp: bindF_Inr_iff split: if_splits)

lemma find_attribute_loop_found:
  "find_attribute_loop nm tbl = Inr (ret, Some a) \<Longrightarrow> a \<in> set tbl"
  by (induction nm tbl rule: find_attribute_loop.induct) (auto simp: bindF_Inr_iff split: option.splits if_splits)

lemma attribute_array_found: "attribute_array e i = Inr tbl \<Longrightarrow> tbl \<in> set (e_pAttributes e)"
  by (auto simp: attribute_array_def read_at_Inr_iff split: if_splits)

lemma bspFindAttribute_found:
  assumes "bspFindAttribute nm i at cred cmd s = Inr ((ret, pE, pA), s')"
  shows "s' = s" "pE = Some e \<Longrightarrow> found nm e (registry s)"
    "pE = Some e \<Longrightarrow> pA = Some a \<Longrightarrow> a \<in> set (concat (e_pAttributes e))" "pA = Some a \<Longrightarrow> \<exists>e. pE = Some e"
proof -
  obtain r pE' s1 where ent: "bspFindEntity nm s = Inr ((r, pE'), s1)"
    using assms by (auto simp: bspFindAttribute_def bindC_def split: sum.splits)
  then have e: "s1 = s" "pE' = Some e \<Longrightarrow> found nm e (registry s)" for e
    by (auto simp: bspFindEntity_def prog_simps found_def registry_def split: if_splits sum.splits
        dest: find_entity_loop_found)
  show "s' = s" "pE = Some e \<Longrightarrow> found nm e (registry s)" "pA = Some a \<Longrightarrow> \<exists>e. pE = Some e"
    "pE = Some e \<Longrightarrow> pA = Some a \<Longrightarrow> a \<in> set (concat (e_pAttributes e))"
    using assms ent e
    by (auto simp: bspFindAttribute_def prog_simps split: if_splits option.splits sum.splits
        dest!: find_attribute_loop_found attribute_array_found) blast
qed

lemma global_loop_half:
  assumes same: "\<And>a m. a \<in> set tbl \<Longrightarrow> a_initMethod a = Some m \<Longrightarrow> agree f c (call_init D m i a Null 0) (call_init E m i a Null 0)"
    and "f s = c" "init_global_loop D i tbl ret s = Some x"
  shows "init_global_loop E i tbl ret s = Some x"
proof -
  have "(\<forall>a \<in> set tbl. \<forall>m. a_initMethod a = Some m \<longrightarrow> agree f c (call_init D m i a Null 0) (call_init E m i a Null 0)) \<longrightarrow>
      f s = c \<longrightarrow> init_global_loop E i tbl ret s = Some x"
  proof (rule init_global_loop.raw_induct [OF _ assms(3)], goal_cases)
    case (1 g D i tbl ret s x)
    show ?case
    proof (intro impI)
      assume same: "\<forall>a \<in> set tbl. \<forall>m. a_initMethod a = Some m \<longrightarrow> agree f c (call_init D m i a Null 0) (call_init E m i a Null 0)"
        and s: "f s = c"
      show "init_global_loop E i tbl ret s = Some x"
      proof (cases tbl)
        case (Cons a as)
        note IH = 1(1) [rule_format]
        show ?thesis
        proof (cases "a_pName a = None \<or> a_initMethod a = None \<or> a_options a AND BSP_AO_INIT_GLOBAL = 0")
          case True
          with 1(2) Cons IH [of D i "a # as" ret s x] same s show ?thesis
            by (subst init_global_loop.simps) (auto split: if_splits)
        next
          case False
          then obtain m where m: "a_initMethod a = Some m" by (cases "a_initMethod a") auto
          with same Cons have ag: "agree f c (call_init D m i a Null 0) (call_init E m i a Null 0)" by simp
          from False m 1(2) Cons IH [of D i as] same agreeD [OF ag s] agree_kept [OF ag s] show ?thesis
            by (subst init_global_loop.simps) (auto split: sum.splits)
        qed
      qed (use 1(2) in \<open>simp add: init_global_loop.simps\<close>)
    qed
  qed
  with assms(1,2) show ?thesis by blast
qed

lemma global_loop_same:
  assumes "\<And>a m. a \<in> set tbl \<Longrightarrow> a_initMethod a = Some m \<Longrightarrow> agree f c (call_init D m i a Null 0) (call_init E m i a Null 0)"
    and "f s = c"
  shows "init_global_loop E i tbl ret s = init_global_loop D i tbl ret s"
proof (cases "init_global_loop D i tbl ret s")
  case None
  show ?thesis
  proof (cases "init_global_loop E i tbl ret s")
    case (Some x)
    then have "init_global_loop D i tbl ret s = Some x"
      by (rule global_loop_half [rotated 2, OF _ agree_sym]) (use assms in auto)
    with None show ?thesis by simp
  qed (simp add: None)
next
  case (Some x)
  then show ?thesis using global_loop_half [OF assms Some] by simp
qed

lemma agree_bind_result:
  assumes "agree f c m n" "\<And>a s s'. f s = c \<Longrightarrow> m s = Inr (a, s') \<Longrightarrow> agree f c (g a) (h a)"
  shows "agree f c (bindC m g) (bindC n h)"
  unfolding agree_def
proof (intro allI impI)
  fix s assume s: "f s = c"
  with assms(1) have n: "n s = m s" by (rule agreeD)
  show "bindC n h s = bindC m g s \<and> (case bindC m g s of Inl _ \<Rightarrow> True | Inr (a, s') \<Rightarrow> f s' = c)"
  proof (cases "m s")
    case (Inr x)
    moreover obtain a s' where "x = (a, s')" by (cases x)
    ultimately show ?thesis
      using n assms(2) [OF s, of a s'] agree_kept [OF assms(1) s, of a s'] by (simp add: bindC_def agree_def)
  qed (simp add: n bindC_def)
qed

lemma agree_liftC:
  "(\<And>a. r = Inr a \<Longrightarrow> agree f c (g a) (h a)) \<Longrightarrow> agree f c (bindC (liftC r) g) (bindC (liftC r) h)"
  by (rule agree_bind_result [OF agree_atoms(4)]) (auto simp: liftC_def split: sum.splits)

locale same_requests =
  fixes nm :: bytes and c :: "int \<times> 'm bsp_entity option list"
    and D E :: "('m, ('e, 'm, 'z) ent_state_scheme) dispatch"
  assumes same: "\<And>e a. found nm e c \<Longrightarrow> a \<in> set (concat (e_pAttributes e)) \<Longrightarrow> same_methods registry c D E a"
    and load: "\<And>w k. agree registry c (load_mem D w k) (load_mem E w k)"
    and kept: "dispatch_keeps registry D"
begin

lemma lookup: "agree registry c (bspFindAttribute nm i at k cmd) (bspFindAttribute nm i at k cmd)"
  by (rule agree_keeps [OF keepsI]) (metis bspFindAttribute_found(1) prod_cases3)

lemma after_lookup:
  assumes "\<And>ret e a. (\<And>a'. a = Some a' \<Longrightarrow> found nm e c \<and> a' \<in> set (concat (e_pAttributes e)) \<and> same_methods registry c D E a') \<Longrightarrow>
      (found nm e c) \<Longrightarrow> agree registry c (g (ret, Some e, a)) (h (ret, Some e, a))"
    and "\<And>ret. agree registry c (g (ret, None, None)) (h (ret, None, None))"
  shows "agree registry c (bindC (bspFindAttribute nm i at k cmd) g) (bindC (bspFindAttribute nm i at k cmd) h)"
proof (rule agree_bind_result [OF lookup], goal_cases)
  case (1 x s s')
  obtain ret pE pA where x: "x = (ret, pE, pA)" by (cases x)
  note f = bspFindAttribute_found [OF 1(2) [unfolded x]]
  show ?case
  proof (cases pE)
    case None
    with f(4) have "pA = None" by (cases pA) auto
    with None assms(2) x show ?thesis by simp
  next
    case (Some e)
    with f(2) 1(1) have e: "found nm e c" by simp
    with f(3) [OF Some] same have "pA = Some a' \<Longrightarrow> found nm e c \<and> a' \<in> set (concat (e_pAttributes e)) \<and>
        same_methods registry c D E a'" for a' by blast
    with assms(1) [of pA e ret] e Some x show ?thesis by blast
  qed
qed

lemma requests:
  "agree registry c (bspMethodRead D nm i at n p k) (bspMethodRead E nm i at n p k)"
  "agree registry c (bspMethodQuery D nm i at n p k) (bspMethodQuery E nm i at n p k)"
  "agree registry c (bspMethodWrite D nm i at n p k) (bspMethodWrite E nm i at n p k)"
  "agree registry c (bspMethodShutdown D nm i at k) (bspMethodShutdown E nm i at k)"
  unfolding bspMethodRead_def bspMethodQuery_def bspMethodWrite_def bspMethodShutdown_def
  by (rule after_lookup; auto simp: same_methods_def split: option.splits intro!: agree_intros load)+

lemma request_init: "agree registry c (bspMethodInit D nm i at n p k) (bspMethodInit E nm i at n p k)"
proof -
  have loop: "agree registry c
      (\<lambda>s. case init_global_loop D i tbl ret s of None \<Rightarrow> Inl NoReturn | Some r \<Rightarrow> r)
      (\<lambda>s. case init_global_loop E i tbl ret s of None \<Rightarrow> Inl NoReturn | Some r \<Rightarrow> r)"
    if tbl: "\<And>a. a \<in> set tbl \<Longrightarrow> same_methods registry c D E a" for tbl ret
  proof -
    have "agree registry c (call_init D m i a Null 0) (call_init E m i a Null 0)"
      if "a \<in> set tbl" "a_initMethod a = Some m" for a m
      using tbl [OF that(1)] that(2) by (simp add: same_methods_def)
    from global_loop_same [OF this] show ?thesis
      by (auto simp: agree_def split: option.splits sum.splits dest: init_global_loop_keeps [OF kept])
  qed
  have tables: "agree registry c
      (bindC (liftC (attribute_array e i)) (\<lambda>tbl s. case init_global_loop D i tbl ret s of None \<Rightarrow> Inl NoReturn | Some r \<Rightarrow> r))
      (bindC (liftC (attribute_array e i)) (\<lambda>tbl s. case init_global_loop E i tbl ret s of None \<Rightarrow> Inl NoReturn | Some r \<Rightarrow> r))"
    if "found nm e c" for e ret
    by (rule agree_liftC, rule loop) (use same [OF that] attribute_array_found in fastforce)
  show ?thesis
    unfolding bspMethodInit_def
  proof (rule after_lookup, goal_cases)
    case (1 ret e a)
    then have attr: "agree registry c (derefC a (\<lambda>a. case a_initMethod a of None \<Rightarrow> returnC BSP_RVAL_UNSUPPORTED_METHOD | Some m \<Rightarrow> call_init D m i a p n))
        (derefC a (\<lambda>a. case a_initMethod a of None \<Rightarrow> returnC BSP_RVAL_UNSUPPORTED_METHOD | Some m \<Rightarrow> call_init E m i a p n))"
      by (auto simp: same_methods_def intro!: agree_intros)
    show ?case
      unfolding prod.case derefC_def [of "Some e"] option.case
      by (rule agree_if agree_atoms tables [OF 1(2)] attr | rule agree_bindC)+
  next
    case (2 ret)
    show ?case by (auto simp: derefC_def intro!: agree_intros)
  qed
qed

end

section \<open>Two levels\<close>

text \<open>The methods the dispatcher runs without its index, and registries with such methods in the three entities.\<close>

definition index_free :: "'x bsp_method \<Rightarrow> bool" where
  "index_free m \<longleftrightarrow> (case m of
     Other x \<Rightarrow> True | M_bspReset_LT_RSTB_read \<Rightarrow> True | M_bspReset_LT_RSTB_write \<Rightarrow> True | _ \<Rightarrow> False)"

definition leaf_attribute :: "'x bsp_method bsp_attribute \<Rightarrow> bool" where
  "leaf_attribute a \<longleftrightarrow> list_all (pred_option index_free)
     [a_readMethod a, a_queryMethod a, a_writeMethod a, a_initMethod a, a_shutdownMethod a]"

definition shallow_registry :: "int \<times> 'x bsp_method bsp_entity option list \<Rightarrow> bool" where
  "shallow_registry c \<longleftrightarrow> list_all (\<lambda>p. case p of
      None \<Rightarrow> True
    | Some e \<Rightarrow> list_ex (\<lambda>nm. strncmp nm (e_pName e) 32 = Inr 0) [lit ''GPIO'', lit ''SMC'', lit ''Reset''] \<longrightarrow>
                list_all leaf_attribute (concat (e_pAttributes e))) (snd c)"

lemma registry_board:
  assumes "other_keeps registry G" "ios_keeps registry os" "ext_keeps registry X" "dev_keeps registry X A"
  shows "board_frame registry G os X A"
  by unfold_locales (use assms in \<open>auto simp: registry_def\<close>)

lemma index_free_calls:
  assumes "index_free m"
  shows "call_read (bsp_dispatch G os X A (Suc d)) m = call_read (bsp_dispatch G os X A (Suc e)) m"
    "call_query (bsp_dispatch G os X A (Suc d)) m = call_query (bsp_dispatch G os X A (Suc e)) m"
    "call_write (bsp_dispatch G os X A (Suc d)) m = call_write (bsp_dispatch G os X A (Suc e)) m"
    "call_init (bsp_dispatch G os X A (Suc d)) m = call_init (bsp_dispatch G os X A (Suc e)) m"
    "call_shutdown (bsp_dispatch G os X A (Suc d)) m = call_shutdown (bsp_dispatch G os X A (Suc e)) m"
  using assms by (cases m; simp add: index_free_def fun_eq_iff board_read_def board_write_def board_init_def)+

lemma base_requests:
  assumes fr: "board_frame registry G os X A" and c: "shallow_registry c" and nm: "nm \<in> base_names"
  shows "same_requests nm c (bsp_dispatch G os X A (Suc d)) (bsp_dispatch G os X A (Suc e))"
proof
  note kept = board_frame.dispatcher [OF fr]
  show "dispatch_keeps registry (bsp_dispatch G os X A (Suc d))" by (rule kept)
  show "agree registry c (load_mem (bsp_dispatch G os X A (Suc d)) w k) (load_mem (bsp_dispatch G os X A (Suc e)) w k)" for w k
    using agree_keeps [OF dispatch_keepsD(6) [OF kept [of "Suc d"]], of c w k] by simp
  show "same_methods registry c (bsp_dispatch G os X A (Suc d)) (bsp_dispatch G os X A (Suc e)) a"
    if "found nm en c" "a \<in> set (concat (e_pAttributes en))" for en a
  proof -
    have "leaf_attribute a"
      using c nm that by (fastforce simp: shallow_registry_def found_def base_names_def list_all_iff)
    then have "m \<in> {m. Some m \<in> {a_readMethod a, a_queryMethod a, a_writeMethod a, a_initMethod a, a_shutdownMethod a}} \<Longrightarrow>
        index_free m" for m
      by (auto simp: leaf_attribute_def dest: sym)
    then show ?thesis
      using agree_keeps [OF dispatch_keepsD(1) [OF kept]] agree_keeps [OF dispatch_keepsD(2) [OF kept]]
        agree_keeps [OF dispatch_keepsD(3) [OF kept]] agree_keeps [OF dispatch_keepsD(4) [OF kept]]
        agree_keeps [OF dispatch_keepsD(5) [OF kept]]
      by (simp add: same_methods_def index_free_calls [of _ G os X A e d] del: bsp_dispatch.simps)
  qed
qed

lemma nested_pair:
  assumes fr: "board_frame registry G os X A" and c: "shallow_registry c"
  shows "depth_pair registry c (bsp_dispatch G os X A (Suc d)) (bsp_dispatch G os X A (Suc e)) G os X A"
proof (rule depth_pair.intro)
  fix nm i at n p k assume nm: "nm \<in> base_names"
  note same = base_requests [OF fr c nm]
  show "agree registry c (bspMethodRead (bsp_dispatch G os X A (Suc d)) nm i at n p k) (bspMethodRead (bsp_dispatch G os X A (Suc e)) nm i at n p k)"
    "agree registry c (bspMethodWrite (bsp_dispatch G os X A (Suc d)) nm i at n p k) (bspMethodWrite (bsp_dispatch G os X A (Suc e)) nm i at n p k)"
    by (rule same_requests.requests [OF same])+
  show "agree registry c (bspMethodInit (bsp_dispatch G os X A (Suc d)) nm i at n p k) (bspMethodInit (bsp_dispatch G os X A (Suc e)) nm i at n p k)"
    by (rule same_requests.request_init [OF same])
qed (rule fr board_frame.dispatcher [OF fr])+

lemma deep_requests:
  assumes fr: "board_frame registry G os X A" and c: "shallow_registry c"
  shows "same_requests nm c (bsp_dispatch G os X A (Suc (Suc d))) (bsp_dispatch G os X A (Suc (Suc e)))"
proof
  note kept = board_frame.dispatcher [OF fr]
  note pair = nested_pair [OF fr c, of d e]
  show "dispatch_keeps registry (bsp_dispatch G os X A (Suc (Suc d)))" by (rule kept)
  show "agree registry c (load_mem (bsp_dispatch G os X A (Suc (Suc d))) w k) (load_mem (bsp_dispatch G os X A (Suc (Suc e))) w k)" for w k
    using agree_keeps [OF dispatch_keepsD(6) [OF kept [of "Suc (Suc d)"]], of c w k] by simp
  have query: "agree registry c (call_query (bsp_dispatch G os X A (Suc (Suc d))) m i a p) (call_query (bsp_dispatch G os X A (Suc (Suc e))) m i a p)" for m i a p
    using agree_keeps [OF dispatch_keepsD(2) [OF kept [of "Suc (Suc d)"]], of c m i a p] by simp
  have shut: "agree registry c (call_shutdown (bsp_dispatch G os X A (Suc (Suc d))) m i a) (call_shutdown (bsp_dispatch G os X A (Suc (Suc e))) m i a)" for m i a
    unfolding bsp_dispatch.simps(2) [of G os X A "Suc _"] dispatch.simps
    by (cases m) (simp_all add: depth_pair.initialising(5) [OF pair] agree_keeps board_frame.leaf [OF fr] keeps_atoms
        del: bsp_dispatch.simps)
  have calls: "agree registry c (call_read (bsp_dispatch G os X A (Suc (Suc d))) m i a p) (call_read (bsp_dispatch G os X A (Suc (Suc e))) m i a p)"
    "agree registry c (call_write (bsp_dispatch G os X A (Suc (Suc d))) m i a p) (call_write (bsp_dispatch G os X A (Suc (Suc e))) m i a p)"
    "agree registry c (call_init (bsp_dispatch G os X A (Suc (Suc d))) m i a p n) (call_init (bsp_dispatch G os X A (Suc (Suc e))) m i a p n)" for m i a p n
    unfolding bsp_dispatch.simps(2) [of G os X A "Suc _"] dispatch.simps by (rule depth_pair.methods [OF pair])+
  show "same_methods registry c (bsp_dispatch G os X A (Suc (Suc d))) (bsp_dispatch G os X A (Suc (Suc e))) a" for a
    unfolding same_methods_def by (intro allI conjI impI; rule query shut calls)
qed

text \<open>
  The bench board, with the DI and Reset entities, satisfies the contracts: dispatchers of any two depths from
  1 on make the same requests of the three base entities, those of any two depths from 2 on the same requests
  of every entity.
\<close>

lemma bench_is_shallow: "shallow_registry (registry (board_bench t ms))"
proof -
  have "strncmp nm (lit ''DI'') 32 \<noteq> Inr 0" if "nm \<in> {lit ''GPIO'', lit ''SMC'', lit ''Reset''}" for nm
    using that by auto (code_simp | simp)+
  moreover have "list_all (case_option True h) (replicate k None)" for h :: "unit bsp_method bsp_entity \<Rightarrow> bool" and k
    by (induction k) auto
  ultimately show ?thesis
    by (simp add: shallow_registry_def registry_def board_bench_def board_entities_def bspDI_entity_def leaf_attribute_def
        index_free_def nameless_def blank_attribute_def)
qed

interpretation board_pair: depth_pair registry "registry (board_bench t ms)"
    "bsp_dispatch board_other quiet_ios (ppc_ext (\<lambda>_ s. s)) dev_bench (Suc d)"
    "bsp_dispatch board_other quiet_ios (ppc_ext (\<lambda>_ s. s)) dev_bench (Suc e)"
    board_other quiet_ios "ppc_ext (\<lambda>_ s. s)" dev_bench for t ms d e
  by (rule nested_pair [OF board_registry.board_frame_axioms bench_is_shallow])

interpretation board_requests: same_requests nm "registry (board_bench t ms)"
    "bsp_dispatch board_other quiet_ios (ppc_ext (\<lambda>_ s. s)) dev_bench (Suc (Suc d))"
    "bsp_dispatch board_other quiet_ios (ppc_ext (\<lambda>_ s. s)) dev_bench (Suc (Suc e))" for nm t ms d e
  by (rule deep_requests [OF board_registry.board_frame_axioms bench_is_shallow])

section \<open>Properties\<close>

text \<open>
  C12: Two levels of nested calls are enough. When the methods of the GPIO, SMC and Reset entities are those of
  the reset lines or come from outside the repository, every request (read, query, write, init, shutdown, of
  any attribute, also the global init) has at any depth from 2 on the result, the final state and the faults
  that it has at depth 2: the depth is no bound on the behaviour of the program.
\<close>

theorem two_levels_suffice:
  fixes s :: "('e, 'x bsp_method, 'z) ccrh_state_scheme"
  assumes "other_keeps registry G" "ios_keeps registry os" "ext_keeps registry X" "dev_keeps registry X A"
    and "shallow_registry (registry s)" "2 \<le> d"
  shows "request (bsp_dispatch G os X A d) cmd nm inst anm sz p cred s =
     request (bsp_dispatch G os X A 2) cmd nm inst anm sz p cred s"
proof -
  obtain e where d: "d = Suc (Suc e)" using assms(6) by (metis Suc_1 Suc_le_D add_2_eq_Suc le_add_diff_inverse)
  have two: "(2 :: nat) = Suc (Suc 0)" by simp
  note same = deep_requests [OF registry_board [OF assms(1-4)] assms(5), of nm 0 e]
  have "agree registry (registry s) (request (bsp_dispatch G os X A (Suc (Suc 0))) cmd nm inst anm sz p cred)
      (request (bsp_dispatch G os X A (Suc (Suc e))) cmd nm inst anm sz p cred)"
    unfolding request_def by (intro agree_if agree_bindC agree_atoms same_requests.requests [OF same] same_requests.request_init [OF same])
  from agreeD [OF this refl] show ?thesis unfolding d two .
qed

text \<open>A write of the DI reset line: the method of the DI entity calls that of the reset line.\<close>

theorem two_levels_suffice_witness:
  "request (bsp_dispatch board_other quiet_ios (ppc_ext (\<lambda>_ s. s)) dev_bench 7) BSP_IOCTL_METHOD_WRITE
     (lit ''DI'') 0 (lit ''Reset'') 1 (Buf [0]) 0xF0 (board_bench [] []) =
   request (bsp_dispatch board_other quiet_ios (ppc_ext (\<lambda>_ s. s)) dev_bench 2) BSP_IOCTL_METHOD_WRITE
     (lit ''DI'') 0 (lit ''Reset'') 1 (Buf [0]) 0xF0 (board_bench [] [])"
  by (rule two_levels_suffice [OF bench_parameters_keep bench_is_shallow]) simp

end
