(* ===== verification/Client.thy ===== *)
theory Client
  imports Depth
begin

text \<open>
  The whole path of a request: from a message of the client over the descriptor table, the argument block
  and the lookup with its permission check to the method of the entity and the requests that this makes of
  other entities. The theory has what is needed of the cases of the server beside what a granted request
  does (a granted read, and a case whose attribute has no method for it) and puts the cases together for
  the attributes that have read and write methods only.
\<close>

section \<open>Cases of the switch\<close>

lemma granted_read_case:
  assumes "grants s fd inPtr b BSP_IOCTL_METHOD_READ a" "a_readMethod a = Some m" "blk_size b = a_dataSize a"
    and "outPtr \<noteq> 0" "client_mem s outPtr = Some ob"
    and "call_read D m (blk_instance b) a (Buf ob) s = Inr ((ret, Buf ob'), s1)"
  shows "method_read_case D fd inPtr outPtr s = Inr (ret, s1\<lparr>client_mem := (client_mem s1)(outPtr \<mapsto> ob')\<rparr>)"
  using assms
  by (auto simp: grants_def case_defs bindC_def seqC_def returnC_def block_runs fd_perms_run reached_read client_ptr_run
      put_client_def modifyC_def)

text \<open>An argument block that names an attribute without init and shutdown methods.\<close>

definition names_plain :: "('e, 'm, 'z) main_state_scheme \<Rightarrow> bytes \<Rightarrow> bool" where
  "names_plain s b \<longleftrightarrow> answerable s (blk_entity b) (blk_instance b) (blk_attribute b) \<and>
     (\<forall>cred cmd a. reaches (registered s) (blk_entity b) (blk_instance b) (blk_attribute b) cred cmd a \<longrightarrow>
        a_initMethod a = None \<and> a_shutdownMethod a = None)"

lemma plain_requests:
  assumes "names_plain s b"
  shows "\<exists>r. bspMethodInit D (blk_entity b) (blk_instance b) (blk_attribute b) sz p cred s = Inr (r, s)"
    "\<exists>r. bspMethodShutdown D (blk_entity b) (blk_instance b) (blk_attribute b) cred s = Inr (r, s)"
proof -
  have ans: "answerable s (blk_entity b) (blk_instance b) (blk_attribute b)"
    using assms by (simp add: names_plain_def)
  have run: "\<exists>r. request D cmd (blk_entity b) (blk_instance b) (blk_attribute b) sz p cred s = Inr ((r, p), s)"
    if "cmd \<in> {BSP_IOCTL_METHOD_INIT, BSP_IOCTL_METHOD_SHUTDOWN}" for cmd sz p
  proof (cases "\<exists>a. reaches (registered s) (blk_entity b) (blk_instance b) (blk_attribute b) cred cmd a")
    case True
    then obtain a where a: "reaches (registered s) (blk_entity b) (blk_instance b) (blk_attribute b) cred cmd a" by blast
    then have "a_initMethod a = None" "a_shutdownMethod a = None" using assms by (auto simp: names_plain_def)
    then show ?thesis
      using that a by (auto simp: request_def reached_init [OF ans] reached_shutdown [OF ans] bindC_def returnC_def)
  next
    case False
    have "method_command cmd" using that by (auto simp: method_command_def)
    then show ?thesis using request_refused [OF ans] False by blast
  qed
  show "\<exists>r. bspMethodInit D (blk_entity b) (blk_instance b) (blk_attribute b) sz p cred s = Inr (r, s)"
    using run [of BSP_IOCTL_METHOD_INIT sz p] by (auto simp: request_def bindC_def returnC_def split: sum.splits)
  show "\<exists>r. bspMethodShutdown D (blk_entity b) (blk_instance b) (blk_attribute b) cred s = Inr (r, s)"
    using run [of BSP_IOCTL_METHOD_SHUTDOWN 0 Null] by (auto simp: request_def bindC_def returnC_def split: sum.splits)
qed

text \<open>From the write case on such a request does what the write does.\<close>

lemma plain_tail:
  assumes "names_plain s b" "arg_block s inPtr b" "fd_abs (bsp_fdtable s) (unat fd) = Some cred" "blk_size b \<noteq> 4"
  shows "seqC (method_init_case D fd inPtr) (seqC (method_shutdown_case D fd inPtr)
     (seqC (get_console_type_case inPtr outPtr) n)) s = n s"
proof -
  have "idle (method_init_case D fd inPtr) s"
    using plain_requests(1) [OF assms(1), of D "blk_size b" "Buf (drop 0x48 b)" cred] assms(2,3)
    by (auto simp: idle_def case_defs bindC_def block_runs fd_perms_run)
  moreover have "idle (method_shutdown_case D fd inPtr) s"
    using plain_requests(2) [OF assms(1), of D cred] assms(2,3)
    by (auto simp: idle_def case_defs bindC_def block_runs fd_perms_run)
  ultimately show ?thesis
    using odd_size_console [OF assms(2,4)] by (simp add: seqC_idle)
qed

lemma plain_write:
  assumes "grants s fd inPtr b BSP_IOCTL_METHOD_WRITE a" "a_writeMethod a = Some m" "blk_size b = a_dataSize a"
    and "a_dataSize a \<noteq> 4" "names_plain s b"
    and "call_write D m (blk_instance b) a (Buf (drop 0x48 b)) s = Inr (ret, s')" "request_view s' = request_view s"
  shows "fall_through (drop 5 (ioctl_cases D os X fd inPtr outPtr)) s = Inr ((), s')"
proof -
  have "grants s' fd inPtr b BSP_IOCTL_METHOD_WRITE a" "names_plain s' b"
    using assms(1,5) by (simp_all add: same_view_grants [OF assms(7)] names_plain_def same_view [OF assms(7)])
  then obtain cred where "names_plain s' b" "arg_block s' inPtr b" "fd_abs (bsp_fdtable s') (unat fd) = Some cred"
    by (auto simp: grants_def)
  from plain_tail [OF this, of D outPtr "returnC ()"] granted_cases(1) [OF assms(1-3), of D] assms(3,4,6)
  show ?thesis
    by (simp add: ioctl_cases_def seqC_def [of "method_write_case _ _ _"] bindC_def [of "method_write_case _ _ _"])
       (simp add: returnC_def)
qed

section \<open>Requests for an attribute with read and write methods\<close>

text \<open>
  A message that asks for attribute \<open>a\<close> of entity \<open>e\<close> on an open descriptor with credentials to read and to
  write it, with a complete argument block \<open>b\<close> and a result buffer apart from it, now holding \<open>ob\<close>.
\<close>

definition asks ::
  "('e, 'm, 'z) main_state_scheme \<Rightarrow> ios_message \<Rightarrow> 'm bsp_entity \<Rightarrow> 'm bsp_attribute \<Rightarrow> bytes \<Rightarrow> bytes \<Rightarrow> bool" where
  "asks s msg e a b ob \<longleftrightarrow>
     bswap32 (m_command msg) = IOS_IOCTL \<and> fd_usable (bswap32 (m_clientFD msg)) s = Inr (True, s) \<and>
     (case fd_abs (bsp_fdtable s) (unat (bswap32 (m_clientFD msg))) of
        None \<Rightarrow> False
      | Some cred \<Rightarrow> permitted cred BSP_IOCTL_METHOD_READ a \<and> permitted cred BSP_IOCTL_METHOD_WRITE a) \<and>
     arg_block s (bswap32 (m_arg1 msg)) b \<and> blk_size b = a_dataSize a \<and>
     registry_wf s \<and> lookup_entity (blk_entity b) (registered s) = Some e \<and> blk_instance b < e_instanceCount e \<and>
     cstring (blk_attribute b) \<noteq> [] \<and> lookup_attribute (blk_attribute b) (attribute_table e (blk_instance b)) = Some a \<and>
     bswap32 (m_arg3 msg) \<notin> {0, bswap32 (m_arg1 msg)} \<and> client_mem s (bswap32 (m_arg3 msg)) = Some ob"

definition plain_attribute :: "'m bsp_attribute \<Rightarrow> bool" where
  "plain_attribute a \<longleftrightarrow> a_dataSize a \<noteq> 4 \<and> a_initMethod a = None \<and> a_shutdownMethod a = None"

lemma asks_reaches:
  "asks s msg e a b ob \<Longrightarrow> reaches (registered s) (blk_entity b) (blk_instance b) (blk_attribute b) cred cmd a' \<longleftrightarrow>
     a' = a \<and> permitted cred cmd a'"
  by (auto simp: asks_def reaches_def)

lemma asks_answerable:
  assumes "asks s msg e a b ob"
  shows "answerable s (blk_entity b) (blk_instance b) (blk_attribute b)"
proof (rule reaches_answerable)
  show "reaches (registered s) (blk_entity b) (blk_instance b) (blk_attribute b) BSP_PERMISSIONS_INTERNAL 0 a"
    by (simp add: asks_reaches [OF assms] permitted_internal)
qed (use assms in \<open>auto simp: asks_def arg_block_def blk_entity_def blk_attribute_def readable_def\<close>)

lemma asks_grants:
  assumes "asks s msg e a b ob" "cmd \<in> {BSP_IOCTL_METHOD_READ, BSP_IOCTL_METHOD_WRITE}"
  shows "grants s (bswap32 (m_clientFD msg)) (bswap32 (m_arg1 msg)) b cmd a"
  using assms(2) asks_answerable [OF assms(1)] asks_reaches [OF assms(1)] assms(1)
  by (auto simp: grants_def asks_def split: option.splits)

lemma asks_plain: "asks s msg e a b ob \<Longrightarrow> plain_attribute a \<Longrightarrow> names_plain s b"
  by (simp add: names_plain_def asks_answerable asks_reaches plain_attribute_def)

lemma asks_write:
  assumes "asks s msg e a b ob" "plain_attribute a" "a_writeMethod a = Some m" "bswap32 (m_arg0 msg) = BSP_IOCTL_METHOD_WRITE"
    and "call_write D m (blk_instance b) a (Buf (drop 0x48 b)) s = Inr (ret, s')" "request_view s' = request_view s"
  shows "handle_message D os X msg r s = Inr (Some IOS_ERROR_INVALID, s')"
proof -
  have "fall_through (drop 5 (ioctl_cases D os X (bswap32 (m_clientFD msg)) (bswap32 (m_arg1 msg)) (bswap32 (m_arg3 msg)))) s =
      Inr ((), s')"
    by (rule plain_write [OF asks_grants [OF assms(1)] assms(3) _ _ asks_plain [OF assms(1,2)] assms(5,6)])
       (use assms(1,2) in \<open>simp_all add: asks_def plain_attribute_def\<close>)
  with assms(1,4) show ?thesis
    by (simp add: asks_def handle_message_def bsp_ioctl_def Let_def bindC_def seqC_def returnC_def)
qed

text \<open>A read first runs the read method and hands over its data, and then is a write.\<close>

lemma asks_read:
  assumes "asks s msg e a b ob" "plain_attribute a" "a_readMethod a = Some m" "a_writeMethod a = Some m'"
    and "bswap32 (m_arg0 msg) = BSP_IOCTL_METHOD_READ"
    and rd: "call_read D m (blk_instance b) a (Buf ob) s = Inr ((ret, Buf ob'), s1)" "request_view s1 = request_view s"
    and s2: "s2 = s1\<lparr>client_mem := (client_mem s1)(bswap32 (m_arg3 msg) \<mapsto> ob')\<rparr>"
    and wr: "call_write D m' (blk_instance b) a (Buf (drop 0x48 b)) s2 = Inr (ret', s')" "request_view s' = request_view s2"
  shows "handle_message D os X msg r s = Inr (Some IOS_ERROR_INVALID, s')"
proof -
  let ?fd = "bswap32 (m_clientFD msg)" and ?in = "bswap32 (m_arg1 msg)" and ?out = "bswap32 (m_arg3 msg)"
  have got: "method_read_case D ?fd ?in ?out s = Inr (ret, s2)"
    unfolding s2 by (rule granted_read_case [OF asks_grants [OF assms(1)] assms(3) _ _ _ rd(1)])
      (use assms(1) in \<open>auto simp: asks_def\<close>)
  have view: "bsp_fdtable s2 = bsp_fdtable s" "registered s2 = registered s" "registry_wf s2 \<longleftrightarrow> registry_wf s"
      "client_mem s2 = (client_mem s)(?out \<mapsto> ob')"
    using rd(2) by (auto simp: s2 request_view_def registered_def registry_wf_def)
  have "fd_usable ?fd s2 = Inr (True, s2)"
    using assms(1) view(1) by (auto simp: asks_def fd_usable_def prog_simps split: if_splits sum.splits)
  then have asks2: "asks s2 msg e a b ob'"
    using assms(1) by (auto simp: asks_def view arg_block_def split: option.splits)
  have "fall_through (drop 5 (ioctl_cases D os X ?fd ?in ?out)) s2 = Inr ((), s')"
    by (rule plain_write [OF asks_grants [OF asks2] assms(4) _ _ asks_plain [OF asks2 assms(2)] wr])
       (use assms(1,2) in \<open>simp_all add: asks_def plain_attribute_def\<close>)
  with got have "fall_through (drop 4 (ioctl_cases D os X ?fd ?in ?out)) s = Inr ((), s')"
    by (simp add: ioctl_cases_def seqC_def bindC_def)
  with assms(1,5) show ?thesis
    by (simp add: asks_def handle_message_def bsp_ioctl_def Let_def bindC_def seqC_def returnC_def)
qed

section \<open>The reset attribute of the disc interface\<close>

abbreviation di_reset :: "'x bsp_method bsp_attribute" where
  "di_reset \<equiv> (blank_attribute ''Reset'')\<lparr>a_permissions := BSP_PERMISSIONS_IOS, a_dataSize := 1,
     a_readMethod := Some M_bspDI_Reset_read, a_writeMethod := Some M_bspDI_Reset_write\<rparr>"

lemma di_reset_plain: "plain_attribute di_reset"
  by (simp add: plain_attribute_def blank_attribute_def)

lemma client_mem_frame [simp]:
  "registered (s\<lparr>client_mem := m\<rparr>) = registered s" "registry_wf (s\<lparr>client_mem := m\<rparr>) \<longleftrightarrow> registry_wf s"
  "reset_line D A (s\<lparr>client_mem := m\<rparr>) a \<longleftrightarrow> reset_line D A s a"
  by (simp_all add: registered_def registry_wf_def reset_line_def answerable_def)

text \<open>The register after a write of the byte \<open>v\<close>.\<close>

definition line_written :: "'s dev_ext \<Rightarrow> 'm bsp_attribute \<Rightarrow> byte \<Rightarrow> (u32 \<Rightarrow> u32) \<Rightarrow> u32 \<Rightarrow> u32" where
  "line_written A a v r = r(LT_RSTB A :=
     if v = 0 then r (LT_RSTB A) OR a_attribute_specific a else r (LT_RSTB A) AND NOT (a_attribute_specific a))"

lemma di_reset_calls:
  assumes "reset_line (bsp_dispatch G os X A (Suc d)) A s a"
  shows "call_write (bsp_dispatch G os X A (Suc (Suc d))) M_bspDI_Reset_write i at (Buf (v # bs)) s =
      Inr (BSP_RVAL_OK, s\<lparr>regs := line_written A a v (regs s)\<rparr>)"
    and "call_read (bsp_dispatch G os X A (Suc (Suc d))) M_bspDI_Reset_read i at (Buf (c # cs)) s =
      Inr ((BSP_RVAL_OK, Buf ((if regs s (LT_RSTB A) AND a_attribute_specific a = 0 then 1 else 0) # cs)), s)"
  unfolding bsp_dispatch.simps(2) [of G os X A "Suc d"]
  by (simp_all add: board_write_def board_read_def reset_write_run [OF assms] reset_read_run [OF assms] line_written_def
      del: bsp_dispatch.simps)

section \<open>A client for concrete runs\<close>

text \<open>An open descriptor, an argument block that names the reset attribute and carries a one, and a result buffer.\<close>

definition di_block :: bytes where
  "di_block = lit ''DI'' @ replicate 33 0 @ lit ''Reset'' @ replicate 26 0 @ [1, 0, 0, 0] @ [1]"

definition di_bench :: "(ios_message list, unit bsp_method) main_state" where
  "di_bench = (board_bench (\<lparr>fd_active = True, fd_permissions = BSP_PERMISSIONS_IOS\<rparr> # replicate 31 fd_zero) [])
     \<lparr>regs := (\<lambda>_. 0xFFFF), client_mem := [0x1000 \<mapsto> di_block, 0x2000 \<mapsto> [9]]\<rparr>"

lemma di_block_fields:
  "blk_entity di_block = lit ''DI'' @ replicate 29 0" "blk_instance di_block = 0"
  "blk_attribute di_block = lit ''Reset'' @ replicate 26 0" "blk_size di_block = 1" "drop 0x48 di_block = [1]"
  by code_simp+

lemma di_registered: "registered di_bench = board_entities" "registry_wf di_bench"
proof -
  show reg: "registered di_bench = board_entities"
    by (simp add: registered_def di_bench_def board_bench_def board_entities_def)
  have "sorted_wrt (<) (map (\<lambda>e. strkey 32 (e_pName e)) board_entities)"
    by (simp add: board_entities_def bspDI_entity_def) code_simp
  then show "registry_wf di_bench"
    unfolding registry_wf_def reg
    by (simp add: di_bench_def board_bench_def board_entities_def entity_wf_def table_wf_def bspDI_entity_def
        bspDI_attributes_def blank_attribute_def nameless_def)
qed

lemma di_named:
  "lookup_entity (blk_entity di_block) (registered di_bench) = Some bspDI_entity" "cstring (blk_attribute di_block) \<noteq> []"
  "lookup_attribute (blk_attribute di_block) (attribute_table bspDI_entity 0) = Some (di_reset :: unit bsp_method bsp_attribute)"
proof -
  have names: "strkey 32 (lit ''Reset'' @ replicate 26 0) = strkey 32 (lit ''Reset'')"
    "strkey 32 (lit ''DI'' @ replicate 29 0) = strkey 32 (lit ''DI'')" by code_simp+
  then show "lookup_entity (blk_entity di_block) (registered di_bench) = Some bspDI_entity"
    unfolding di_registered di_block_fields by (simp add: lookup_entity_def board_entities_def) (simp add: bspDI_entity_def)
  show "cstring (blk_attribute di_block) \<noteq> []" by code_simp
  show "lookup_attribute (blk_attribute di_block) (attribute_table bspDI_entity 0) = Some (di_reset :: unit bsp_method bsp_attribute)"
    unfolding di_block_fields
    by (simp add: lookup_attribute_def named_attributes_def attribute_table_def bspDI_entity_def bspDI_attributes_def
        has_name_def blank_attribute_def names)
qed

abbreviation (input) rst_attribute :: "unit bsp_method bsp_attribute" where
  "rst_attribute \<equiv> (blank_attribute ''RSTB_DIRSTB'')\<lparr>a_dataSize := 1, a_readMethod := Some M_bspReset_LT_RSTB_read,
         a_writeMethod := Some M_bspReset_LT_RSTB_write, a_attribute_specific := 0x400\<rparr>"

lemma di_bench_line:
  "reset_line (bsp_dispatch board_other quiet_ios (ppc_ext (\<lambda>_ s. s)) dev_bench (Suc d)) dev_bench di_bench rst_attribute"
proof -
  have "strkey 32 (lit ''DI'') \<noteq> strkey 32 (lit ''Reset'')" "strkey 32 (lit ''GPIO'') \<noteq> strkey 32 (lit ''Reset'')" by simp_all
  then have reached: "reaches (registered di_bench) (lit ''Reset'') 0 (lit ''RSTB_DIRSTB'') BSP_PERMISSIONS_INTERNAL cmd rst_attribute" for cmd
    unfolding reaches_def di_registered
    by (simp add: lookup_entity_def board_entities_def bspDI_entity_def lookup_attribute_def named_attributes_def
        attribute_table_def has_name_def blank_attribute_def permitted_internal)
  have "answerable di_bench (lit ''Reset'') 0 (lit ''RSTB_DIRSTB'')"
    by (rule reaches_answerable [OF di_registered(2) _ _ _ reached [of 0]]) (simp_all add: lit_def readable_def)
  with reached show ?thesis
    by (simp add: reset_line_def board_read_def board_write_def dev_bench_def [THEN arg_cong [of _ _ BSP_CLIENT_INTERNAL]])
qed

lemma di_bench_fields:
  "regs di_bench = (\<lambda>_. 0xFFFF)" "client_mem di_bench = [0x1000 \<mapsto> di_block, 0x2000 \<mapsto> [9]]"
  "bsp_fdtable di_bench = \<lparr>fd_active = True, fd_permissions = BSP_PERMISSIONS_IOS\<rparr> # replicate 31 fd_zero"
  by (simp_all add: di_bench_def board_bench_def)

lemma di_bench_asks:
  assumes "cmd \<in> {BSP_IOCTL_METHOD_READ, BSP_IOCTL_METHOD_WRITE}"
  shows "asks di_bench (msg_bench IOS_IOCTL 0 cmd 0x1000 0x2000 0) bspDI_entity di_reset di_block [9]"
proof -
  have "permitted BSP_PERMISSIONS_IOS cmd (di_reset :: unit bsp_method bsp_attribute)"
    if "cmd \<in> {BSP_IOCTL_METHOD_READ, BSP_IOCTL_METHOD_WRITE}" for cmd
    using that by (auto simp: permitted_iff check_permission_def command_mask_def blank_attribute_def)
  moreover have "arg_block di_bench 0x1000 di_block" "fd_usable 0 di_bench = Inr (True, di_bench)"
    "fd_abs (bsp_fdtable di_bench) 0 = Some BSP_PERMISSIONS_IOS"
    by (simp_all add: arg_block_def di_bench_fields di_block_def lit_def fd_usable_def neg32_def prog_simps fd_abs_def)
  moreover have "client_mem di_bench 0x2000 = Some [9]" by (simp add: di_bench_fields)
  moreover have "(0 :: u32) < e_instanceCount bspDI_entity" by (simp add: bspDI_entity_def)
  ultimately show ?thesis
    using di_named di_registered(2) by (simp add: asks_def di_block_fields)
qed

end
