(* ===== verification/Client_Eeprom.thy ===== *)
theory Client_Eeprom
  imports Client
begin

text \<open>
  The longest path of the program: a client's message for a word of the EEPROM goes through the server, the
  lookup and the EE entity to the EEPROM driver, which makes some two hundred requests of the GPIO entity
  through the same registry and dispatcher, one for every change and sample of a line of the chip.
\<close>

section \<open>The access attribute\<close>

abbreviation ee_access :: "'x bsp_method bsp_attribute" where
  "ee_access \<equiv> (blank_attribute ''access'')\<lparr>a_permissions := BSP_PERMISSIONS_IOS_SUPV, a_dataSize := 2,
     a_readMethod := Some M_bspEE_access_read, a_writeMethod := Some M_bspEE_access_write\<rparr>"

lemma ee_access_plain: "plain_attribute ee_access"
  by (simp add: plain_attribute_def blank_attribute_def)

lemma low_byte: "(ucast (i AND 0xff) :: u8) = ucast (i :: u32)"
proof -
  have "(0xff :: u32) = mask 8" by (simp add: mask_eq_exp_minus_1)
  show ?thesis unfolding \<open>0xff = mask 8\<close> by (rule bit_word_eqI) (auto simp: bit_simps)
qed

lemma holds_client_mem [simp]: "holds es (s\<lparr>client_mem := m\<rparr>) \<longleftrightarrow> holds es s"
  by (simp add: holds_def)

lemma settled_client_mem [simp]: "ee_settled (holds es) view (s\<lparr>client_mem := m\<rparr>) \<longleftrightarrow> ee_settled (holds es) view s"
  by (simp add: ee_settled_def opened_def)

text \<open>The contract of the GPIO lines is all the driver needs of the rest of the system.\<close>

context gpio_lines
begin

lemma lines_bus: "eeprom_bus D os (holds es) view drive (\<lambda>d. level d \<noteq> 0)"
  by (rule eeprom_bus_axioms)

end

lemma gpio_lines_attach:
  assumes "gpio_lines D os es g oa om ia im view ee_drive ee_di clock stride"
  shows "eeprom_attached D os (holds es) view"
  by (rule eeprom_attached.intro) (rule gpio_lines.lines_bus [OF assms])

text \<open>The memory of the chip after a write command, which a protected chip ignores.\<close>

definition ee_written :: "ee_dev \<Rightarrow> u8 \<Rightarrow> u16 \<Rightarrow> u8 \<Rightarrow> u16" where
  "ee_written d a w = (if ee_wen d then (ee_mem d)(a := w) else ee_mem d)"

lemma ee_access_calls:
  assumes att: "eeprom_attached (bsp_dispatch G os X A (Suc d)) os (holds es) view" and s: "ee_settled (holds es) view s"
  shows "\<exists>e. call_write (bsp_dispatch G os X A (Suc (Suc d))) M_bspEE_access_write i at (Buf (enc16 w @ bs)) s =
        Inr (BSP_RVAL_OK, s\<lparr>env := e\<rparr>) \<and> ee_settled (holds es) view (s\<lparr>env := e\<rparr>) \<and>
      ee_mem (view e) = ee_written (view (env s)) (ucast i) w"
    and "\<exists>e. call_read (bsp_dispatch G os X A (Suc (Suc d))) M_bspEE_access_read i at (Buf (x # y # cs)) s =
        Inr ((BSP_RVAL_OK, Buf (enc16 (ee_mem (view (env s)) (ucast i)) @ cs)), s\<lparr>env := e\<rparr>) \<and>
      ee_settled (holds es) view (s\<lparr>env := e\<rparr>) \<and> ee_same (view (env s)) (view e)"
proof -
  note ops = eeprom_attached.settled_ops [OF att s]
  show "\<exists>e. call_write (bsp_dispatch G os X A (Suc (Suc d))) M_bspEE_access_write i at (Buf (enc16 w @ bs)) s =
        Inr (BSP_RVAL_OK, s\<lparr>env := e\<rparr>) \<and> ee_settled (holds es) view (s\<lparr>env := e\<rparr>) \<and>
      ee_mem (view e) = ee_written (view (env s)) (ucast i) w"
    unfolding bsp_dispatch.simps(2) [of G os X A "Suc d"]
    using ops(2) [of "ucast i" w]
    by (auto simp: board_write_def bspEE_access_write_def bindC_def liftC_def returnC_def codec16.enc_length codec16.dec_enc
        low_byte ee_written_def simp del: bsp_dispatch.simps)
  show "\<exists>e. call_read (bsp_dispatch G os X A (Suc (Suc d))) M_bspEE_access_read i at (Buf (x # y # cs)) s =
        Inr ((BSP_RVAL_OK, Buf (enc16 (ee_mem (view (env s)) (ucast i)) @ cs)), s\<lparr>env := e\<rparr>) \<and>
      ee_settled (holds es) view (s\<lparr>env := e\<rparr>) \<and> ee_same (view (env s)) (view e)"
    unfolding bsp_dispatch.simps(2) [of G os X A "Suc d"]
    using ops(1) [of "ucast i"]
    by (auto simp: board_read_def bspEE_access_read_def give_bytes_def bindC_def liftC_def returnC_def codec16.enc_length
        splice_at_def low_byte simp del: bsp_dispatch.simps)
qed

section \<open>Messages\<close>

lemma ee_write_message:
  fixes s :: "('e, 'x bsp_method, 'z) main_state_scheme"
  assumes att: "eeprom_attached (bsp_dispatch G os X A (Suc d)) os (holds es) view" "ee_settled (holds es) view s"
    and ask: "asks s msg bspEE_entity ee_access b ob" "drop 0x48 b = enc16 w @ bs"
    and cmd: "bswap32 (m_arg0 msg) = BSP_IOCTL_METHOD_WRITE"
  shows "\<exists>e. handle_message (bsp_dispatch G os X A (Suc (Suc d))) os X msg r s = Inr (Some IOS_ERROR_INVALID, s\<lparr>env := e\<rparr>) \<and>
     ee_settled (holds es) view (s\<lparr>env := e\<rparr>) \<and> ee_mem (view e) = ee_written (view (env s)) (ucast (blk_instance b)) w"
proof -
  obtain e where e: "call_write (bsp_dispatch G os X A (Suc (Suc d))) M_bspEE_access_write (blk_instance b) ee_access
        (Buf (enc16 w @ bs)) s = Inr (BSP_RVAL_OK, s\<lparr>env := e\<rparr>)"
      "ee_settled (holds es) view (s\<lparr>env := e\<rparr>)" "ee_mem (view e) = ee_written (view (env s)) (ucast (blk_instance b)) w"
    using ee_access_calls(1) [OF att] by blast
  have "handle_message (bsp_dispatch G os X A (Suc (Suc d))) os X msg r s = Inr (Some IOS_ERROR_INVALID, s\<lparr>env := e\<rparr>)"
    by (rule asks_write [OF ask(1) ee_access_plain _ cmd, unfolded ask(2), OF _ e(1)]) (simp_all add: request_view_def)
  with e show ?thesis by blast
qed

lemma ee_read_message:
  fixes s :: "('e, 'x bsp_method, 'z) main_state_scheme"
  assumes att: "eeprom_attached (bsp_dispatch G os X A (Suc d)) os (holds es) view" "ee_settled (holds es) view s"
    and ask: "asks s msg bspEE_entity ee_access b (x # y # cs)" "drop 0x48 b = enc16 w @ bs"
    and cmd: "bswap32 (m_arg0 msg) = BSP_IOCTL_METHOD_READ"
  shows "\<exists>e. handle_message (bsp_dispatch G os X A (Suc (Suc d))) os X msg r s =
       Inr (Some IOS_ERROR_INVALID, s\<lparr>env := e, client_mem := (client_mem s)(bswap32 (m_arg3 msg) \<mapsto>
         enc16 (ee_mem (view (env s)) (ucast (blk_instance b))) @ cs)\<rparr>) \<and>
     ee_settled (holds es) view (s\<lparr>env := e\<rparr>) \<and> ee_mem (view e) = ee_written (view (env s)) (ucast (blk_instance b)) w"
proof -
  let ?D = "bsp_dispatch G os X A (Suc (Suc d))" and ?i = "blk_instance b"
  obtain e1 where e1: "call_read ?D M_bspEE_access_read ?i ee_access (Buf (x # y # cs)) s =
      Inr ((BSP_RVAL_OK, Buf (enc16 (ee_mem (view (env s)) (ucast ?i)) @ cs)), s\<lparr>env := e1\<rparr>)"
    "ee_settled (holds es) view (s\<lparr>env := e1\<rparr>)" "ee_same (view (env s)) (view e1)"
    using ee_access_calls(2) [OF att] by blast
  define s2 where "s2 = s\<lparr>env := e1, client_mem := (client_mem s)(bswap32 (m_arg3 msg) \<mapsto>
      enc16 (ee_mem (view (env s)) (ucast ?i)) @ cs)\<rparr>"
  have "ee_settled (holds es) view s2" using e1(2) by (simp add: s2_def)
  from ee_access_calls(1) [OF att(1) this, of ?i ee_access w bs] obtain e2
    where e2: "call_write ?D M_bspEE_access_write ?i ee_access (Buf (enc16 w @ bs)) s2 = Inr (BSP_RVAL_OK, s2\<lparr>env := e2\<rparr>)"
      "ee_settled (holds es) view (s2\<lparr>env := e2\<rparr>)" "ee_mem (view e2) = ee_written (view (env s)) (ucast ?i) w"
    using e1(3) by (auto simp: s2_def ee_same_def ee_written_def)
  have "handle_message ?D os X msg r s = Inr (Some IOS_ERROR_INVALID, s2\<lparr>env := e2\<rparr>)"
    by (rule asks_read [OF ask(1) ee_access_plain _ _ cmd, unfolded ask(2), OF _ _ e1(1) _ _ e2(1)])
       (simp_all add: request_view_def s2_def)
  then show ?thesis
    using e2(2,3) by (intro exI [of _ e2]) (simp add: s2_def ee_settled_def opened_def holds_def)
qed

section \<open>A board with the chip\<close>

text \<open>
  The EE entity of the sources and a GPIO entity from outside the repository whose methods move the lines of
  the chip. The contract of the GPIO lines holds of the dispatcher of the program itself, at every depth from 1 on.
\<close>

definition ee_other :: "(line option, (bench, line option bsp_method, 'z) ccrh_state_scheme) other_methods" where
  "ee_other =
     \<lparr>other_read = (\<lambda>x i a p s.
        case store_ptr 0 (enc32 (ee_di (bench_dev (env s)))) p of
          Inl f \<Rightarrow> Inl f | Inr q \<Rightarrow> Inr ((BSP_RVAL_OK, q), s)),
      other_query = (\<lambda>x i a p. returnC (BSP_RVAL_QUERY_UNAVAILABLE, p)),
      other_write = (\<lambda>x i a p s.
        case load_ptr 0 4 p of
          Inl f \<Rightarrow> Inl f
        | Inr bs \<Rightarrow> Inr (BSP_RVAL_OK,
            s\<lparr>env := (env s)\<lparr>bench_dev := ee_drive (the x) (dec32 bs \<noteq> 0) (bench_dev (env s))\<rparr>\<rparr>)),
      other_init = (\<lambda>x i a p n. returnC BSP_RVAL_OK), other_shutdown = (\<lambda>x i a. returnC BSP_RVAL_OK),
      other_load = (\<lambda>a n. failC WildPointer)\<rparr>"

definition ee_line :: "bytes \<Rightarrow> line option \<Rightarrow> line option bsp_method bsp_attribute" where
  "ee_line nm m = (blank_attribute [])\<lparr>a_pName := Some nm, a_permissions := BSP_PERMISSIONS_INTERNAL, a_dataSize := 4,
     a_readMethod := (if m = None then Some (Other m) else None), a_writeMethod := (if m = None then None else Some (Other m))\<rparr>"

definition ee_gpio :: "line option bsp_method bsp_entity" where
  "ee_gpio =
     \<lparr>e_pName = lit ''GPIO'', e_version = 1, e_instanceCount = 1, e_options = BSP_EO_NONE,
      e_pAttributes = [[ee_line (lit ''EEPROM_DI'') None, ee_line (lit ''EEPROM_CS'') (Some CS),
        ee_line (lit ''EEPROM_SK'') (Some SK), ee_line (lit ''EEPROM_DO'') (Some DO)]]\<rparr>"

lemma ee_gpio_lookup:
  "lookup_attribute (line_name l) (attribute_table ee_gpio 0) = Some (ee_line (line_name l) (Some l))"
  "lookup_attribute (lit ''EEPROM_DI'') (attribute_table ee_gpio 0) = Some (ee_line (lit ''EEPROM_DI'') None)"
  by (cases l; simp add: lookup_attribute_def attribute_table_def ee_gpio_def named_attributes_def has_name_def
      ee_line_def blank_attribute_def)+

interpretation ee_board: gpio_lines
    "bsp_dispatch ee_other bench_os X A (Suc d) :: (line option bsp_method, (bench, line option bsp_method, 'z) ccrh_state_scheme) dispatch"
    bench_os "[bspEE_entity, ee_gpio]" ee_gpio
    "\<lambda>l. ee_line (line_name l) (Some l)" "\<lambda>l. Other (Some l)" "ee_line (lit ''EEPROM_DI'') None" "Other None"
    bench_dev ee_drive ee_di "\<lambda>s. bench_clock (env s)" 1 for X A d
proof
  show "lookup_entity (lit ''GPIO'') [bspEE_entity, ee_gpio] = Some ee_gpio"
    by (simp add: lookup_entity_def bspEE_entity_def ee_gpio_def)
  show "\<exists>e. call_write (bsp_dispatch ee_other bench_os X A (Suc d)) (Other (Some l)) 0 (ee_line (line_name l) (Some l))
      (Buf (enc32 (of_bool v))) s = Inr (BSP_RVAL_OK, s\<lparr>env := e\<rparr>) \<and>
      bench_dev e = ee_drive l v (bench_dev (env s))" for l v s X A d
    by (rule exI [of _ "(env s)\<lparr>bench_dev := ee_drive l v (bench_dev (env s))\<rparr>"])
       (simp add: board_write_def ee_other_def codec32.load_Buf_enc codec32.dec_enc del: load_ptr.simps)
  show "\<exists>e. call_read (bsp_dispatch ee_other bench_os X A (Suc d)) (Other None) 0 (ee_line (lit ''EEPROM_DI'') None) (Buf (replicate 4 0)) s =
      Inr ((BSP_RVAL_OK, Buf (enc32 (ee_di (bench_dev (env s))))), s\<lparr>env := e\<rparr>) \<and>
      bench_dev e = bench_dev (env s)" for s X A d
    by (rule exI [of _ "env s"]) (simp add: board_read_def ee_other_def splice_at_def codec32.enc_length)
  show "0 < e_instanceCount ee_gpio" by (simp add: ee_gpio_def)
  show "advancing (IOS_GetUpTime bench_os) (\<lambda>s. bench_clock (env s)) 1"
    by (simp add: bench_os_def advancing_def)
  show "\<exists>e. s' = s\<lparr>env := e\<rparr> \<and> bench_dev e = bench_dev (env s)"
    if "IOS_GetUpTime bench_os s = Inr (now, s')" for s now s'
    using that by (auto simp: bench_os_def)
qed (rule ee_gpio_lookup | simp add: ee_line_def)+

interpretation ee_board: eeprom_attached
    "bsp_dispatch ee_other bench_os X A (Suc d) :: (line option bsp_method, (bench, line option bsp_method, 'z) ccrh_state_scheme) dispatch"
    bench_os "holds [bspEE_entity, ee_gpio]" bench_dev for X A d
  by unfold_locales

text \<open>The chip is writable; the client names word 7 with \<open>0xBEEF\<close> as data.\<close>

definition ee_block :: bytes where
  "ee_block = lit ''EE'' @ replicate 29 0 @ [7, 0, 0, 0] @ lit ''access'' @ replicate 25 0 @ [2, 0, 0, 0] @ enc16 0xBEEF"

definition ee_bench :: "(bench, line option bsp_method) main_state" where
  "ee_bench =
     \<lparr>regs = (\<lambda>_. 0), env = env bench0, s_crc32Value = 0, log_mutex = 0, log_fds = [], active_log_fds = 0,
      log_syslog_handle = 0, bspEntityCount = 2, bspEntityList = [Some bspEE_entity, Some ee_gpio],
      eepromContexts = [\<lparr>ee_status = EEPROM_STATUS_OPEN\<rparr>], bc_log_handle = 0, bc_initialised = False,
      bspHardwareVersion = 0x24100028, bspBoardConfig = hw_config, hw_pvr = \<lparr>pvr_version = 0, pvr_revision = 0\<rparr>,
      eePVRAddr = 0x42, main_log_fd = 0, ppc_summary = zero_summary, coreproperties = replicate 3 zero_core,
      pPPCExecStop = None, pPPCExecStart = None, ccrhSummary = False, devbsp_msgqueue_id = 5,
      bsp_fdtable = \<lparr>fd_active = True, fd_permissions = BSP_PERMISSIONS_IOS\<rparr> # replicate 31 fd_zero,
      client_mem = [0x1000 \<mapsto> ee_block, 0x2000 \<mapsto> [1, 2, 3]]\<rparr>"

lemma ee_block_fields:
  "blk_entity ee_block = lit ''EE'' @ replicate 29 0" "blk_instance ee_block = 7"
  "blk_attribute ee_block = lit ''access'' @ replicate 25 0" "blk_size ee_block = 2" "drop 0x48 ee_block = enc16 0xBEEF @ []"
  by code_simp+

lemma ee_registered: "registered ee_bench = [bspEE_entity, ee_gpio]" "registry_wf ee_bench"
proof -
  show reg: "registered ee_bench = [bspEE_entity, ee_gpio]"
    by (simp add: registered_def ee_bench_def)
  have "sorted_wrt (<) (map (\<lambda>e. strkey 32 (e_pName e)) [bspEE_entity :: line option bsp_method bsp_entity, ee_gpio])"
    by (simp add: bspEE_entity_def ee_gpio_def) code_simp
  then show "registry_wf ee_bench"
    unfolding registry_wf_def reg
    by (simp add: ee_bench_def entity_wf_def table_wf_def bspEE_entity_def bspEE_attributes_def ee_gpio_def ee_line_def
        blank_attribute_def)
qed

lemma ee_bench_fields:
  "client_mem ee_bench = [0x1000 \<mapsto> ee_block, 0x2000 \<mapsto> [1, 2, 3]]" "env ee_bench = env bench0"
  "bsp_fdtable ee_bench = \<lparr>fd_active = True, fd_permissions = BSP_PERMISSIONS_IOS\<rparr> # replicate 31 fd_zero"
  by (simp_all add: ee_bench_def)

lemma ee_bench_settled: "ee_settled (holds (registered ee_bench)) bench_dev ee_bench"
  using bench0_settled by (simp add: ee_settled_def holds_def ee_registered(2) ee_bench_fields) (simp add: opened_def ee_bench_def)

lemma ee_bench_asks:
  assumes "cmd \<in> {BSP_IOCTL_METHOD_READ, BSP_IOCTL_METHOD_WRITE}"
  shows "asks ee_bench (msg_bench IOS_IOCTL 0 cmd 0x1000 0x2000 0) bspEE_entity ee_access ee_block [1, 2, 3]"
proof -
  have names: "strkey 32 (lit ''access'' @ replicate 25 0) = strkey 32 (lit ''access'')"
    "strkey 32 (lit ''EE'' @ replicate 29 0) = strkey 32 (lit ''EE'')" "cstring (lit ''access'' @ replicate 25 0) \<noteq> []"
    by code_simp+
  have "lookup_entity (lit ''EE'' @ replicate 29 0) [bspEE_entity, ee_gpio] = Some bspEE_entity"
    by (simp add: lookup_entity_def names bspEE_entity_def)
  moreover have "lookup_attribute (lit ''access'' @ replicate 25 0) (attribute_table bspEE_entity 7) =
      Some (ee_access :: line option bsp_method bsp_attribute)"
    by (simp add: lookup_attribute_def named_attributes_def attribute_table_def bspEE_entity_def bspEE_attributes_def
        has_name_def names blank_attribute_def)
  moreover have "permitted BSP_PERMISSIONS_IOS cmd (ee_access :: line option bsp_method bsp_attribute)"
    if "cmd \<in> {BSP_IOCTL_METHOD_READ, BSP_IOCTL_METHOD_WRITE}" for cmd
    using that by (auto simp: permitted_iff check_permission_def command_mask_def blank_attribute_def)
  moreover have "arg_block ee_bench 0x1000 ee_block" "fd_usable 0 ee_bench = Inr (True, ee_bench)"
    "fd_abs (bsp_fdtable ee_bench) 0 = Some BSP_PERMISSIONS_IOS"
    by (simp_all add: arg_block_def ee_bench_fields ee_block_def lit_def fd_usable_def neg32_def prog_simps fd_abs_def
        codec16.enc_length)
  moreover have "client_mem ee_bench 0x2000 = Some [1, 2, 3]" by (simp add: ee_bench_fields)
  moreover have "(7 :: u32) < e_instanceCount bspEE_entity" by (simp add: bspEE_entity_def)
  ultimately show ?thesis
    using names(3) ee_registered by (simp add: asks_def ee_block_fields)
qed

end
