(* ===== verification/Usb.thy ===== *)
theory Usb
  imports Libc_String
begin

text \<open>
  \<^verbatim>\<open>src/ios_usb/usb_main.c\<close>: the activation of the two root hubs. The file is an unfinished transcription;
  \<^verbatim>\<open>__startRootHubs\<close> is complete but for its \<^verbatim>\<open>return\<close>, so the model has no result either. The undeclared
  \<^verbatim>\<open>err\<close> of the first report is read as \<^verbatim>\<open>status\<close>, which the second report uses in its place. The second
  function of the file, \<^verbatim>\<open>sub_1012CE60\<close>, ends in the middle and is not modelled.

  The kernel call, the report function, the host controller server and its handle are not in the
  repository: they are fields of \<open>usb_ext\<close>, as is the name the compiler puts for \<^verbatim>\<open>__FILE__\<close>.
\<close>

record 'e usb_state = "'e machine" +
  usb_logHandle :: u32

datatype usb_arg = Num u32 | Str bytes

record 's usb_ext =
  IOS_GetUpTimeStruct :: "u32 \<times> u32 \<Rightarrow> ('s, u32 \<times> u32) prog"
  USBVReport :: "u32 \<Rightarrow> u32 \<Rightarrow> bytes \<Rightarrow> usb_arg list \<Rightarrow> ('s, unit) prog"
  UhsServerAddHc :: "u32 \<Rightarrow> u32 \<Rightarrow> u32 \<Rightarrow> ('s, u32) prog"
  dword_10145020 :: u32
  usb_file :: bytes

definition STATUS_MAKE :: "u32 \<Rightarrow> u32 \<Rightarrow> u32" where
  "STATUS_MAKE hi lo = push_bit 16 (hi AND 0xFFFF) OR (lo AND 0xFFFF)"

definition STATUS_LO :: "u32 \<Rightarrow> u32" where
  "STATUS_LO x = x AND 0xFFFF"

text \<open>The status of a failed call, and the report of one call; \<^verbatim>\<open>>>\<close> on a signed value keeps the sign.\<close>

definition usb_status :: "u32 \<Rightarrow> u32" where
  "usb_status ret =
     (if neg32 (STATUS_LO ret) then STATUS_MAKE (-1) (STATUS_LO ret) else STATUS_MAKE 0 (STATUS_LO ret))"

definition report_hub ::
  "(('e, 'z) usb_state_scheme) usb_ext \<Rightarrow> bytes \<Rightarrow> u32 \<Rightarrow> u32 \<Rightarrow> (('e, 'z) usb_state_scheme, unit) prog" where
  "report_hub U name line ret =
     bindC (getsC usb_logHandle) (\<lambda>h.
     if neg32 ret
     then USBVReport U h 2 (lit ''%s, file %s, function %s, line %d, status %d:%d\<newline>'')
            [Str name, Str (usb_file U), Str (lit ''__startRootHubs''), Num line,
             Num (signed_drop_bit 16 (NOT (usb_status ret)) AND 0x3FF), Num (usb_status ret)]
     else USBVReport U h 0 (lit ''%s OK.\<newline>'') [Str name])"

definition startRootHubs :: "(('e, 'z) usb_state_scheme) usb_ext \<Rightarrow> u32 \<Rightarrow> (('e, 'z) usb_state_scheme, unit) prog" where
  "startRootHubs U options =
     bindC (IOS_GetUpTimeStruct U (0, 0)) (\<lambda>(uptime0, uptime1).
     bindC (getsC usb_logHandle) (\<lambda>h.
     seqC (USBVReport U h 3 (lit ''Activating root hubs @ uptime %d.%03d s with options 0x%x.\<newline>'')
             [Num uptime1, Num (uptime0 div 1000), Num options])
     (bindC (UhsServerAddHc U (dword_10145020 U) 0 options) (\<lambda>ret.
      seqC (report_hub U (lit ''UhsServerAddHc 0'') 39 ret)
      (bindC (UhsServerAddHc U (dword_10145020 U) 1 options) (\<lambda>ret.
       report_hub U (lit ''UhsServerAddHc 1'') 68 ret))))))"

text \<open>
  The lower half of a word is never negative, so the upper half of an error is always dropped: every
  failure is reported with the class 0x3FF and the lower half of the error.
\<close>

lemma half_not_negative: "\<not> neg32 (w AND 0xFFFF)"
proof -
  have "\<not> bit (uint (w AND 0xFFFF)) 31" by (simp add: bit_uint_iff bit_simps)
  then show ?thesis by (simp add: neg32_def sint_uint signed_take_bit_eq_if_positive)
qed

lemma status_low: "usb_status ret = ret AND 0xFFFF"
  by (simp add: usb_status_def STATUS_MAKE_def STATUS_LO_def half_not_negative and.assoc)

text \<open>
  A root hub that does not start is reported with error class 0x3FF and the lower half of the error
  code, whatever the upper half of the code says; one that starts is reported as such.
\<close>

theorem root_hub_reports:
  "report_hub U name line ret s =
     (if neg32 ret
      then USBVReport U (usb_logHandle s) 2 (lit ''%s, file %s, function %s, line %d, status %d:%d\<newline>'')
             [Str name, Str (usb_file U), Str (lit ''__startRootHubs''), Num line, Num 0x3FF, Num (ret AND 0xFFFF)] s
      else USBVReport U (usb_logHandle s) 0 (lit ''%s OK.\<newline>'') [Str name] s)"
proof -
  have half: "(0xFFFF :: u32) = mask 16" by (simp add: mask_eq_exp_minus_1)
  have "signed_drop_bit 16 (NOT (ret AND 0xFFFF)) AND 0x3FF = 0x3FF"
    by (rule bit_word_eqI) (auto simp: half bit_simps)
  then show ?thesis by (simp add: report_hub_def status_low prog_simps)
qed

end
