(* ===== verification/Spec2Isabelle.thy ===== *)
theory Spec2Isabelle
  imports Client_Eeprom Usb
begin

text \<open>
  \<^bold>\<open>Verification of the IOSU board support process.\<close>

  \<^bold>\<open>The program.\<close> \<^verbatim>\<open>src/\<close> is a reconstruction in C of processes of the IOSU operating system. What it holds in
  substance is the board support process, BSP (\<^verbatim>\<open>src/ios_bsp\<close>), and the libraries it is built on
  (\<^verbatim>\<open>src/libraries\<close>). Clients open \<^verbatim>\<open>/dev/bsp\<close> and send ioctl messages; the message loop of
  \<^verbatim>\<open>bsp_main.c\<close> checks the descriptor and passes the request, with the credentials the descriptor was opened
  with, to the entity library \<^verbatim>\<open>entity.c\<close>. That finds the entity and the attribute by name, checks the permission
  and calls the attribute's method, a function of one of the entities under \<^verbatim>\<open>entities/\<close>. Methods act on
  registers, on the serial EEPROM (\<^verbatim>\<open>eeprom_drv\<close>, bit by bit over four GPIO attributes), on the board
  configuration stored there (\<^verbatim>\<open>bc\<close>, checked with \<^verbatim>\<open>crc32\<close>) and on the hardware version
  (\<^verbatim>\<open>bsp_hwrev.c\<close>), and may make requests of other entities through the same library.

  \<^bold>\<open>Theories, in the order of their imports, and what they model.\<close>
  \<^item> \<open>BSP_Prelude\<close>: words, byte order, pointers to objects (\<open>cptr\<close>), the faults, the program monad \<open>prog\<close>
    (state passing with faults as \<open>Inl\<close>), the locale \<open>codec\<close> of the byte encodings.
  \<^item> \<open>Libc_String\<close>: every function of \<^verbatim>\<open>libc/lib/string.c\<close> on byte arrays, reads past the end as faults; the
    locale \<open>name_compare\<close> of a bounded comparison that orders names.
  \<^item> \<open>Crc32\<close>: \<^verbatim>\<open>crc32.c\<close>, against the bitwise shift register; the locale \<open>running_check\<close>.
  \<^item> \<open>BSP_Types\<close>, \<open>IOS_Api\<close>: enumerators, macros and structures of the headers (\<^verbatim>\<open>bsp.h\<close>, \<^verbatim>\<open>bsp_hwrevs.h\<close>,
    \<^verbatim>\<open>bsp_entity_enum.h\<close>, \<^verbatim>\<open>latte.h\<close>, \<^verbatim>\<open>ios.h\<close>, \<^verbatim>\<open>ipc.h\<close>); the kernel calls as the record \<open>ios\<close>.
  \<^item> \<open>Slot_Table\<close>: the locale of a table of slots with a flag, used by the log and the descriptors.
  \<^item> \<open>Libc_Sprintf\<close>, \<open>Libc_Delay\<close>, \<open>BSP_Log\<close>: \<^verbatim>\<open>sprintf.c\<close>, \<^verbatim>\<open>delay.c\<close> with \<^verbatim>\<open>bsp_util.c\<close> and
    \<^verbatim>\<open>bsp.c\<close>, \<^verbatim>\<open>log.c\<close>.
  \<^item> \<open>Entity\<close>: \<^verbatim>\<open>entity.c\<close> with the specification of the lookup.
  \<^item> \<open>Eeprom\<close>, \<open>Eeprom_Bus\<close>, \<open>Eeprom_Device\<close>: \<^verbatim>\<open>eeprom_bits.c\<close> and \<^verbatim>\<open>eeprom.c\<close>, their contract with the GPIO
    lines (locales \<open>eeprom_bus\<close>, \<open>gpio_lines\<close>), and the driver on a model of the chip (\<open>word_reader\<close>,
    \<open>eeprom_attached\<close>).
  \<^item> \<open>Bc\<close>, \<open>HwRev\<close>: \<^verbatim>\<open>bc.c\<close> and \<^verbatim>\<open>bsp_hwrev.c\<close>.
  \<^item> \<open>Frame\<close>: what a routine leaves alone, as a predicate with rules and the locale \<open>frame\<close>.
  \<^item> \<open>Entities_Io\<close>, \<open>Entities_Sys\<close>, \<open>Entity_Tables\<close>, \<open>Ppc\<close>, \<open>Ccrh\<close>: the methods of the DI, SI, Reset, SDIO, GPIO, SYS,
    EE, PPC and CCRH entities, their attribute tables and installation.
  \<^item> \<open>Server\<close>, \<open>Server_Requests\<close>: \<^verbatim>\<open>bsp_main.c\<close>: start-up, message loop, ioctl switch, descriptor table.
  \<^item> \<open>Board\<close>: the dispatcher \<open>bsp_dispatch\<close> that ties the method names of the tables to the functions, so
    that entity requests made by methods go through the model itself.
    What the dispatcher leaves alone, among it the registry and the sizes of the arrays.
  \<^item> \<open>Depth\<close>: how deep such requests nest. \<open>Client\<close>, \<open>Client_Eeprom\<close>: the path of a client's message
    through the server, the lookup and a method, to a register and to the chip.
  \<^item> \<open>Usb\<close>: \<^verbatim>\<open>__startRootHubs\<close> of \<^verbatim>\<open>ios_usb/usb_main.c\<close>.

  The static variables of the C files are the fields of one state record, extended file by file from
  \<open>machine\<close> (registers and an opaque environment) to \<open>main_state\<close>; a function that only needs the variables
  of its own file and those below works on every extension.

  \<^bold>\<open>What is shown.\<close> The lookup refines its specification, requests without permission have no effect and
  granted ones run exactly the method; the descriptor table refines an abstract one over whole runs; no run
  of the message loop changes the registry or the sizes of the arrays; the EEPROM driver drives the waveform of the chip's commands, reads
  back what it writes and respects write protection; a board configuration is accepted exactly when its checksum
  fits; CRC-32 equals its definition and detects every change of one byte; version detection, delays
  (with the wrap of the counter), the log table, the reset handshake of the PowerPC and the reset sequence of the
  DRH behave as specified. Where the code goes wrong the theorem says how: the missing \<^verbatim>\<open>break\<close>s of
  the ioctl switch, the null entity and attribute, the loop that never advances, the tables without a last
  entry, the size that overruns, integers passed as pointers, the installation that never registers.

  \<^bold>\<open>Interfaces.\<close> The locales state what a client relies on and are interpreted on the model's definitions in the
  theory of the provider: \<open>codec\<close> on the integer encodings and the board configuration, \<open>slot_table\<close> on the
  log and descriptor tables, \<open>name_compare\<close> on \<open>strncmp\<close>, \<open>running_check\<close> on the CRC, \<open>io_power\<close> on the DI and SI
  switches, \<open>gpio_lines\<close> and through it \<open>eeprom_bus\<close>, \<open>eeprom_attached\<close> and \<open>word_reader\<close> on the registry with a chip
  behind it, once more on the program's own dispatcher, \<open>frame\<close>, \<open>board_frame\<close>, \<open>depth_pair\<close> and \<open>same_requests\<close> on the dispatcher.

  \<^bold>\<open>Loops and depth.\<close> Loops over arrays are structural. The waiting loops, the global initialisation and the message
  loop, which need not end, are \<^verbatim>\<open>partial_function (option)\<close>; that they return, or do not, is proved
  (\<open>udelay_returns_not_early\<close>, \<open>global_init_hangs\<close>, \<open>message_loop_ends_iff\<close>). The hundred polls of
  the reset handshake and the ready polls of the EEPROM are the bounds of the source. The one bound of the model
  is the depth of \<open>bsp_dispatch\<close>: \<open>two_levels_suffice\<close> shows that depth 2 gives every result a greater depth gives.

  \<^bold>\<open>Conventions.\<close> Pointers are 32 bits wide and the machine is big-endian. Registers are memory: a read returns what was
  last written, except where a parameter models the device. An access outside an object, through a null or
  unknown pointer, and the use of a value that is not initialised or not returned are faults. Local buffers start
  as zero, but for those whose old contents the code can give out. Client buffers are objects in \<open>client_mem\<close>
  that do not overlap. \<^verbatim>\<open>IOSError\<close> is compared as signed. Names the source uses without declaring them are read as the
  variable meant: \<^verbatim>\<open>pE\<close> as \<^verbatim>\<open>pPPCEntity\<close>, \<^verbatim>\<open>cpuUse\<close> as \<^verbatim>\<open>cpuUtil\<close>, \<^verbatim>\<open>variant\<close> as the variant of the
  version just read, \<^verbatim>\<open>err\<close> as \<^verbatim>\<open>status\<close>. The formatter of \<^verbatim>\<open>sprintf.c\<close> is empty in the source and so here.

  \<^bold>\<open>Parameters.\<close> What the repository names but does not define is an argument: the kernel calls (\<open>ios\<close>, \<open>rm_ios\<close>), functions and
  registers of the board (\<open>bsp_ext\<close>, \<open>dev_ext\<close>), methods of entities without source (\<open>other_methods\<close>), the USB
  host controller (\<open>usb_ext\<close>). Hypotheses on them are stated in the theorems, and each has a concrete instance in
  a witness.

  \<^bold>\<open>Not modelled.\<close> \<^verbatim>\<open>sub_1012CE60\<close> of \<^verbatim>\<open>usb_main.c\<close> (it breaks off, with undeclared names),
  \<^verbatim>\<open>ios_mcp.cpp\<close> (a note, not C), \<^verbatim>\<open>syscalls.s\<close> (traps into the kernel), and the other process directories, whose
  sources are empty. Interleaving is not an issue inside BSP: it has one thread and serves one message at a time.
\<close>

section \<open>Across the components\<close>

text \<open>
  C4: From the message to the register. A client with an open descriptor that may read and write the
  reset attribute of the disc interface sends a read or write request whose argument block names it, with the
  byte \<open>v\<close> as data. Either way the reset line, reached through the second request that the method of
  the DI entity makes, is driven to the negation of \<open>v\<close>, no other register and no variable of the process
  changes, and the answer is \<^verbatim>\<open>IOS_ERROR_INVALID\<close>. A read has before that stored the inverted line in the
  client's buffer: it reports the state and then changes it, because its case falls through to that of the write.
\<close>

theorem disc_reset_through_the_interface:
  fixes s :: "('e, 'x bsp_method, 'z) main_state_scheme"
  assumes line: "reset_line (bsp_dispatch G os X A (Suc d)) A s a"
    and ask: "asks s msg bspDI_entity di_reset b (c # cs)" "drop 0x48 b = v # bs"
    and cmd: "bswap32 (m_arg0 msg) \<in> {BSP_IOCTL_METHOD_READ, BSP_IOCTL_METHOD_WRITE}"
  shows "handle_message (bsp_dispatch G os X A (Suc (Suc d))) os X msg r s =
     Inr (Some IOS_ERROR_INVALID,
       s\<lparr>regs := line_written A a v (regs s),
         client_mem := (if bswap32 (m_arg0 msg) = BSP_IOCTL_METHOD_READ
            then (client_mem s)(bswap32 (m_arg3 msg) \<mapsto>
              (if regs s (LT_RSTB A) AND a_attribute_specific a = 0 then 1 else 0) # cs)
            else client_mem s)\<rparr>)"
proof (cases "bswap32 (m_arg0 msg) = BSP_IOCTL_METHOD_READ")
  case True
  define s2 where "s2 = s\<lparr>client_mem := (client_mem s)(bswap32 (m_arg3 msg) \<mapsto>
      (if regs s (LT_RSTB A) AND a_attribute_specific a = 0 then 1 else 0) # cs)\<rparr>"
  have "reset_line (bsp_dispatch G os X A (Suc d)) A s2 a" using line by (simp add: s2_def del: bsp_dispatch.simps)
  note calls = di_reset_calls(2) [OF line] di_reset_calls(1) [OF this]
  have "handle_message (bsp_dispatch G os X A (Suc (Suc d))) os X msg r s =
      Inr (Some IOS_ERROR_INVALID, s2\<lparr>regs := line_written A a v (regs s2)\<rparr>)"
    by (rule asks_read [OF ask(1) di_reset_plain _ _ True calls(1) refl s2_def, unfolded ask(2), OF _ _ calls(2)])
       (simp_all add: request_view_def)
  with True show ?thesis by (simp add: s2_def)
next
  case False
  have "handle_message (bsp_dispatch G os X A (Suc (Suc d))) os X msg r s =
      Inr (Some IOS_ERROR_INVALID, s\<lparr>regs := line_written A a v (regs s)\<rparr>)"
    by (rule asks_write [OF ask(1) di_reset_plain, unfolded ask(2), OF _ _ di_reset_calls(1) [OF line]])
       (use False cmd in \<open>simp_all add: request_view_def\<close>)
  with False show ?thesis by simp
qed

text \<open>A read of a line that is high reports no reset and puts the drive into reset.\<close>

theorem disc_reset_through_the_interface_witness:
  "handle_message (bsp_dispatch board_other quiet_ios (ppc_ext (\<lambda>_ s. s)) dev_bench (Suc (Suc 0))) quiet_ios (ppc_ext (\<lambda>_ s. s))
     (msg_bench IOS_IOCTL 0 BSP_IOCTL_METHOD_READ 0x1000 0x2000 0) None di_bench =
   Inr (Some IOS_ERROR_INVALID, di_bench\<lparr>regs := (\<lambda>_. 0xFFFF)(0x0d8005e0 := 0xFBFF),
     client_mem := [0x1000 \<mapsto> di_block, 0x2000 \<mapsto> [0]]\<rparr>)"
proof -
  have line: "line_written dev_bench rst_attribute 1 (\<lambda>_. 0xFFFF) = (\<lambda>_. 0xFFFF)(0x0d8005e0 := 0xFBFF)"
    "LT_RSTB dev_bench = 0x0d8005e0" "a_attribute_specific rst_attribute = 0x400"
    by (simp_all add: line_written_def dev_bench_def blank_attribute_def)
  show ?thesis
    using disc_reset_through_the_interface [OF di_bench_line [of 0] di_bench_asks di_block_fields(5), of BSP_IOCTL_METHOD_READ None]
    by (simp add: di_bench_fields line del: bsp_dispatch.simps)
qed

text \<open>
  C5: From the message to the chip. A client with an open descriptor that may read and write the access
  attribute of the EEPROM entity sends a read or write request that names it with the word \<open>w\<close>, the
  instance being the address. The request passes the server, the lookup and the EE entity to the EEPROM driver,
  which clocks the command into the chip by requests of the GPIO entity through the same registry. With the
  lines behaving as lines and the descriptor of the chip settled, both commands end: a chip that is writable then
  holds \<open>w\<close> at the address, a protected one what it held, no variable of the process changes, and the answer is
  \<^verbatim>\<open>IOS_ERROR_INVALID\<close>. A read has put the word that was there in the client's buffer, and then overwrites
  it in the chip, because its case falls through to that of the write.
\<close>

theorem eeprom_word_through_the_interface:
  fixes s :: "('e, 'x bsp_method, 'z) main_state_scheme"
  assumes lines: "gpio_lines (bsp_dispatch G os X A (Suc d)) os (registered s) gpio oa om ia im view ee_drive ee_di clock stride"
    and chip: "ee_settled (holds (registered s)) view s"
    and ask: "asks s msg bspEE_entity ee_access b (x # y # cs)" "drop 0x48 b = enc16 w @ bs"
    and cmd: "bswap32 (m_arg0 msg) \<in> {BSP_IOCTL_METHOD_READ, BSP_IOCTL_METHOD_WRITE}"
  shows "\<exists>e. handle_message (bsp_dispatch G os X A (Suc (Suc d))) os X msg r s =
     Inr (Some IOS_ERROR_INVALID,
       s\<lparr>env := e,
         client_mem := (if bswap32 (m_arg0 msg) = BSP_IOCTL_METHOD_READ
            then (client_mem s)(bswap32 (m_arg3 msg) \<mapsto> enc16 (ee_mem (view (env s)) (ucast (blk_instance b))) @ cs)
            else client_mem s)\<rparr>) \<and>
     ee_settled (holds (registered s)) view (s\<lparr>env := e\<rparr>) \<and>
     ee_mem (view e) = (if ee_wen (view (env s)) then (ee_mem (view (env s)))(ucast (blk_instance b) := w)
                        else ee_mem (view (env s)))"
proof (cases "bswap32 (m_arg0 msg) = BSP_IOCTL_METHOD_READ")
  case True
  from ee_read_message [OF gpio_lines_attach [OF lines] chip ask True] True show ?thesis
    by (simp add: ee_written_def del: bsp_dispatch.simps)
next
  case False
  with cmd have "bswap32 (m_arg0 msg) = BSP_IOCTL_METHOD_WRITE" by simp
  from ee_write_message [OF gpio_lines_attach [OF lines] chip ask this] False show ?thesis
    by (simp add: ee_written_def del: bsp_dispatch.simps)
qed

text \<open>A read of word 7, which holds 21, returns it and leaves \<open>0xBEEF\<close> in its place.\<close>

theorem eeprom_word_through_the_interface_witness:
  "\<exists>e. handle_message (bsp_dispatch ee_other bench_os (ppc_ext (\<lambda>_ s. s)) dev_bench (Suc (Suc 0))) bench_os (ppc_ext (\<lambda>_ s. s))
     (msg_bench IOS_IOCTL 0 BSP_IOCTL_METHOD_READ 0x1000 0x2000 0) None ee_bench =
     Inr (Some IOS_ERROR_INVALID, ee_bench\<lparr>env := e, client_mem := [0x1000 \<mapsto> ee_block, 0x2000 \<mapsto> [0, 21, 3]]\<rparr>) \<and>
     ee_mem (bench_dev e) 7 = 0xBEEF"
proof -
  have chip: "ee_mem (bench_dev (env bench0)) 7 = 21" "ee_wen (bench_dev (env bench0))" "enc16 21 = [0, 21]"
    by (simp_all add: bench0_def enc16_def)
  note lines = ee_board.gpio_lines_axioms [of "ppc_ext (\<lambda>_ s. s)" dev_bench 0, folded ee_registered(1)]
  show ?thesis
    using eeprom_word_through_the_interface [OF lines ee_bench_settled ee_bench_asks ee_block_fields(5),
        of BSP_IOCTL_METHOD_READ None]
    by (auto simp: ee_block_fields chip ee_bench_fields simp del: bsp_dispatch.simps)
qed

end
